(* ===== verification/Prelude.thy ===== *)
theory Prelude
  imports Main "HOL-Library.Word" "HOL-Library.State_Monad"
begin

text \<open>
  Shared vocabulary of the development: the widths of the C integer types, C truth values, the
  state monad in which the kernel code is written, its weakest-precondition calculus (the
  collection \<open>wp\<close>), and the generic lemmas on words and bits that several components use.
  \<open>unsigned long\<close> is 64 bits wide, as on the machine the tools run on.
\<close>

unbundle bit_operations_syntax

section \<open>Machine integers and C truth values\<close>

type_synonym u8 = "8 word"
type_synonym u16 = "16 word"
type_synonym u32 = "32 word"
type_synonym u64 = "64 word"

abbreviation BIT :: "nat \<Rightarrow> 'a::len word" where
  "BIT n \<equiv> push_bit n 1"

text \<open>A C expression used as a condition is true when it is not zero.\<close>

definition c_true :: "'a::len word \<Rightarrow> bool" where
  "c_true w \<longleftrightarrow> w \<noteq> 0"

definition c_bool :: "bool \<Rightarrow> int" where
  "c_bool b = (if b then 1 else 0)"

lemma c_true_simps [simp]: "\<not> c_true 0" "c_true w \<longleftrightarrow> w \<noteq> 0"
  by (simp_all add: c_true_def)

lemma c_bool_simps [simp]: "c_bool b = 0 \<longleftrightarrow> \<not> b" "c_bool b \<noteq> 0 \<longleftrightarrow> b" "c_bool b = 1 \<longleftrightarrow> b"
  by (simp_all add: c_bool_def)

section \<open>Bits of words\<close>

lemma and_not_bit_idem [simp]: "(w AND NOT m) AND NOT m = w AND NOT (m :: 'a::len word)"
  by (simp add: bit_eq_iff bit_simps)

lemma or_and_absorb: "m AND b = 0 \<Longrightarrow> (w OR b) AND m = w AND (m :: 'a::len word)"
  by (simp add: bit_eq_iff bit_simps) blast

lemma and_not_disjoint: "m AND b = 0 \<Longrightarrow> (w AND NOT b) AND m = w AND (m :: 'a::len word)"
  by (simp add: bit_eq_iff bit_simps) blast

lemma or_mask_idem [simp]: "(w OR m) OR m = w OR (m :: 'a::len word)"
  by (simp add: bit_eq_iff bit_simps)

lemma or_mask_and [simp]: "(w OR m) AND m = (m :: 'a::len word)"
  by (auto simp add: bit_eq_iff bit_simps)

lemma and_not_and [simp]: "(w AND NOT m) AND m = (0 :: 'a::len word)"
  by (auto simp add: bit_eq_iff bit_simps)

lemma and_0xFF [simp]: "w AND 0xFF = (w :: u8)"
proof -
  have "(0xFF :: u8) = - 1" by simp
  then show ?thesis by (simp only: and.right_neutral)
qed

lemma and_BIT_cases: "w AND BIT n = 0 \<or> w AND BIT n = (BIT n :: 'a::len word)"
proof (cases "bit w n")
  case True
  then have "w AND BIT n = BIT n"
    by (intro bit_word_eqI) (auto simp: bit_and_iff bit_exp_iff)
  then show ?thesis ..
next
  case False
  then have "w AND BIT n = 0"
    by (intro bit_word_eqI) (auto simp: bit_and_iff bit_exp_iff)
  then show ?thesis ..
qed

lemma exists_first: "\<not> P n \<Longrightarrow> \<exists>k\<le>n. (\<forall>i<k. P i) \<and> \<not> P (k :: nat)"
  using ex_least_nat_le [of "\<lambda>i. \<not> P i" n] by blast

lemma exists_first_le:
  assumes "\<not> (\<forall>i\<le>n. P i)"
  shows "\<exists>k\<le>n. (\<forall>i<k. P i) \<and> \<not> P (k :: nat)"
proof -
  obtain m where "m \<le> n" and "\<not> P m" using assms by blast
  then obtain k where "k \<le> m" "\<forall>i<k. P i" "\<not> P k" using exists_first [of P m] by blast
  then show ?thesis using \<open>m \<le> n\<close> order_trans by blast
qed

lemma unat_and_le: "unat (w AND m) \<le> unat (m :: 'a::len word)"
  using word_and_le1 [of w m] by (simp add: word_le_nat_alt)

lemma unat_u32_less: "unat (w :: u32) < 2 ^ 32"
  using unsigned_less [of w] by simp

lemma unat_word_lt: "unat (w :: u64) < 2 ^ 64"
  using unsigned_less [of w] by simp

lemma ucast_u32_u64 [simp]: "ucast (ucast (w :: u32) :: u64) = w"
  by (rule bit_word_eqI) (simp add: bit_ucast_iff)

lemma ucast_u32_less: "(ucast (w :: u32) :: u64) < 0x100000000"
proof -
  have "unat (ucast w :: u64) = unat w"
    using unat_u32_less [of w] by (simp add: unsigned_ucast_eq take_bit_nat_eq_self_iff)
  then show ?thesis
    using unat_u32_less [of w] by (simp add: word_less_nat_alt)
qed

lemma and_zero_take_bit: "w AND 0xF = 0 \<Longrightarrow> take_bit 4 w = (0 :: 'a::len word)"
  by (simp add: take_bit_eq_mask mask_eq_exp_minus_1)

lemma push_drop_bit: "take_bit n w = 0 \<Longrightarrow> push_bit n (drop_bit n w) = (w :: 'a::len word)"
proof (rule bit_word_eqI)
  fix k assume "take_bit n w = 0" and "k < LENGTH('a)"
  then have "k < n \<longrightarrow> \<not> bit w k"
    using bit_take_bit_iff [of n w k] by auto
  then show "bit (push_bit n (drop_bit n w)) k = bit w k"
    using \<open>k < LENGTH('a)\<close> by (auto simp: bit_push_bit_iff bit_drop_bit_eq)
qed

section \<open>The state monad\<close>

text \<open>
  C functions that read and write globals or talk to the hardware are programs of the library's
  state monad, so that their definitions keep the order of the statements of the source.
\<close>

abbreviation ret :: "'a \<Rightarrow> ('s, 'a) state" where
  "ret \<equiv> State_Monad.return"

definition gets :: "('s \<Rightarrow> 'a) \<Rightarrow> ('s, 'a) state" where
  "gets f = State (\<lambda>s. (f s, s))"

definition modify :: "('s \<Rightarrow> 's) \<Rightarrow> ('s, unit) state" where
  "modify f = State (\<lambda>s. ((), f s))"

definition whenM :: "bool \<Rightarrow> ('s, unit) state \<Rightarrow> ('s, unit) state" where
  "whenM b p = (if b then p else ret ())"

definition exec :: "('s, 'a) state \<Rightarrow> 's \<Rightarrow> 's" where
  "exec p s = snd (run_state p s)"

definition result :: "('s, 'a) state \<Rightarrow> 's \<Rightarrow> 'a" where
  "result p s = fst (run_state p s)"

lemma run_exec: "run_state p s = (v, s') \<Longrightarrow> exec p s = s'"
  by (simp add: exec_def)

lemma run_result: "run_state p s = (v, s') \<Longrightarrow> result p s = v"
  by (simp add: result_def)

lemma exec_bind: "exec (State_Monad.bind p f) s = exec (f (result p s)) (exec p s)"
  by (simp add: exec_def result_def split: prod.splits)

lemma result_bind: "result (State_Monad.bind p f) s = result (f (result p s)) (exec p s)"
  by (simp add: exec_def result_def split: prod.splits)

lemma exec_result_ret: "exec (State_Monad.return x) s = s" "result (State_Monad.return x) s = x"
  by (simp_all add: exec_def result_def)

lemma run_gets [simp]: "run_state (gets f) s = (f s, s)"
  by (simp add: gets_def)

lemma run_modify [simp]: "run_state (modify f) s = ((), f s)"
  by (simp add: modify_def)

lemma whenM_simps [simp]: "whenM True p = p" "whenM False p = ret ()"
  by (simp_all add: whenM_def)

lemma run_whenM: "run_state (whenM b p) s = (if b then run_state p s else ((), s))"
  by (simp add: whenM_def)

subsection \<open>Weakest preconditions\<close>

text \<open>
  \<open>wp p Q s\<close> says that the program, started in \<open>s\<close>, ends with a value and a state that
  satisfy \<open>Q\<close>. Programs are total functions, so partial and total correctness coincide. A proof
  rewrites with the structural rules of the collection and abstracts each hardware access to
  a fresh state, which keeps the terms small.
\<close>

definition wp :: "('s, 'a) state \<Rightarrow> ('a \<Rightarrow> 's \<Rightarrow> bool) \<Rightarrow> 's \<Rightarrow> bool" where
  "wp p Q s = (case run_state p s of (a, s') \<Rightarrow> Q a s')"

named_theorems wp

lemma wp_return [wp]: "wp (ret a) Q s = Q a s"
  by (simp add: wp_def)

lemma wp_bind [wp]: "wp (State_Monad.bind p f) Q s = wp p (\<lambda>a. wp (f a) Q) s"
  by (simp add: wp_def split: prod.splits)

lemma wp_gets [wp]: "wp (gets f) Q s = Q (f s) s"
  by (simp add: wp_def)

lemma wp_modify [wp]: "wp (modify f) Q s = Q () (f s)"
  by (simp add: wp_def)

lemma wp_if: "wp (if b then p else q) Q s = (if b then wp p Q s else wp q Q s)"
  by simp

lemma wp_whenM [wp]: "wp (whenM b p) Q s = (if b then wp p Q s else Q () s)"
  by (simp add: whenM_def wp_return)

lemma wp_exec: "wp p (\<lambda>_ s'. Q s') s \<Longrightarrow> Q (exec p s)"
  by (simp add: wp_def exec_def split: prod.splits)

lemma wp_result: "wp p (\<lambda>a _. Q a) s \<Longrightarrow> Q (result p s)"
  by (simp add: wp_def result_def split: prod.splits)

lemma wp_run: "wp p Q s \<longleftrightarrow> Q (result p s) (exec p s)"
  by (simp add: wp_def result_def exec_def split: prod.splits)

lemma wp_mono: "wp p Q s \<Longrightarrow> (\<And>a s'. Q a s' \<Longrightarrow> R a s') \<Longrightarrow> wp p R s"
  by (simp add: wp_def split: prod.splits)

lemma wp_conj: "wp p (\<lambda>a s'. Q a s' \<and> R a s') s \<longleftrightarrow> wp p Q s \<and> wp p R s"
  by (simp add: wp_def split: prod.splits)

end
