(* ===== verification/PhysMem.thy ===== *)
theory PhysMem
  imports Prelude
begin

text \<open>
  The memory dump that \<^verbatim>\<open>modify-mem-dump\<close> maps into its address space: the address at which
  \<open>mmap\<close> placed the file, the size of the file and its bytes. Eight-byte accesses are little endian
  and byte granular, so that misaligned and overlapping accesses are what they are on the machine.
  An access that is not inside the file is a fault (the process is killed), the value \<open>None\<close>.
  The locale \<open>word_store\<close> is the interface the page-table code relies on.
\<close>

section \<open>Little-endian words\<close>

definition le_word :: "(nat \<Rightarrow> u8) \<Rightarrow> u64" where
  "le_word f = foldr (\<lambda>i w. push_bit (8 * i) (ucast (f i)) OR w) [0..<8] 0"

definition le_byte :: "u64 \<Rightarrow> nat \<Rightarrow> u8" where
  "le_byte w i = ucast (drop_bit (8 * i) w)"

lemma bit_le_word_foldr:
  "bit (foldr (\<lambda>i w. push_bit (8 * i) (ucast (f i)) OR w) is (0 :: u64)) n \<longleftrightarrow>
     n < 64 \<and> (\<exists>i\<in>set is. 8 * i \<le> n \<and> n - 8 * i < 8 \<and> bit (f i :: u8) (n - 8 * i))"
proof (induction "is")
  case Nil
  then show ?case by simp
next
  case (Cons i js)
  have "bit (push_bit (8 * i) (ucast (f i) :: u64)) n \<longleftrightarrow>
      n < 64 \<and> 8 * i \<le> n \<and> n - 8 * i < 8 \<and> bit (f i) (n - 8 * i)"
    using bit_imp_le_length [of "f i" "n - 8 * i"] by (auto simp: bit_simps)
  with Cons show ?case by (auto simp: bit_or_iff)
qed

lemma bit_le_word: "bit (le_word f) n \<longleftrightarrow> n < 64 \<and> bit (f (n div 8)) (n mod 8)"
proof -
  have "8 * i \<le> n \<and> n - 8 * i < 8 \<longleftrightarrow> i = n div 8" for i
    by auto
  moreover have "n - 8 * (n div 8) = n mod 8"
    by (simp add: minus_mult_div_eq_mod)
  ultimately have "8 * i \<le> n \<and> n - 8 * i < 8 \<and> bit (f i) (n - 8 * i) \<longleftrightarrow>
      i = n div 8 \<and> bit (f (n div 8)) (n mod 8)" for i
    by metis
  moreover have "n < 64 \<longleftrightarrow> n div 8 \<in> set [0..<8]"
    by auto
  ultimately show ?thesis
    unfolding le_word_def bit_le_word_foldr by blast
qed

lemma le_word_bytes: "le_word (le_byte w) = w"
proof (rule bit_eqI)
  fix n assume "possible_bit TYPE(u64) n"
  then have "n < 64" by simp
  then show "bit (le_word (le_byte w)) n \<longleftrightarrow> bit w n"
    by (simp add: bit_le_word le_byte_def bit_simps)
qed

lemma le_byte_word: "i < 8 \<Longrightarrow> le_byte (le_word f) i = f i"
proof (rule bit_eqI)
  fix n assume i: "i < 8" and "possible_bit TYPE(u8) n"
  then have n: "n < 8" by simp
  have "(8 * i + n) div 8 = i" "(8 * i + n) mod 8 = n" "8 * i + n < 64"
    using n i by auto
  with n show "bit (le_byte (le_word f) i) n \<longleftrightarrow> bit (f i) n"
    by (simp add: bit_le_word le_byte_def bit_simps)
qed

lemma le_word_cong: "(\<And>i. i < 8 \<Longrightarrow> f i = g i) \<Longrightarrow> le_word f = le_word g"
  by (rule bit_eqI) (simp add: bit_le_word)

section \<open>The mapped dump\<close>

record phys =
  physmem :: u64
  st_size :: nat
  file_bytes :: "nat \<Rightarrow> u8"

definition file_off :: "phys \<Rightarrow> u64 \<Rightarrow> nat" where
  "file_off m p = unat (p - physmem m)"

definition load64 :: "phys \<Rightarrow> u64 \<Rightarrow> u64 option" where
  "load64 m p = (let off = file_off m p in
     if off + 8 \<le> st_size m then Some (le_word (\<lambda>i. file_bytes m (off + i))) else None)"

definition store64 :: "phys \<Rightarrow> u64 \<Rightarrow> u64 \<Rightarrow> phys option" where
  "store64 m p v = (let off = file_off m p in
     if off + 8 \<le> st_size m
     then Some (m\<lparr>file_bytes := (\<lambda>k. if off \<le> k \<and> k < off + 8 then le_byte v (k - off)
                                        else file_bytes m k)\<rparr>)
     else None)"

text \<open>Two accesses are apart when they have no byte in common.\<close>

definition apart :: "phys \<Rightarrow> u64 \<Rightarrow> u64 \<Rightarrow> bool" where
  "apart m p q \<longleftrightarrow> file_off m p + 8 \<le> file_off m q \<or> file_off m q + 8 \<le> file_off m p"

section \<open>The interface: a store of 64-bit words\<close>

locale word_store =
  fixes load :: "'m \<Rightarrow> u64 \<Rightarrow> u64 option"
    and store :: "'m \<Rightarrow> u64 \<Rightarrow> u64 \<Rightarrow> 'm option"
    and disjoint :: "'m \<Rightarrow> u64 \<Rightarrow> u64 \<Rightarrow> bool"
  assumes load_store: "store m p v = Some m' \<Longrightarrow> load m' p = Some v"
    and load_store_disjoint: "store m p v = Some m' \<Longrightarrow> disjoint m p q \<Longrightarrow> load m' q = load m q"
    and store_defined: "load m p = Some w \<Longrightarrow> \<exists>m'. store m p v = Some m'"
    and store_same: "load m p = Some v \<Longrightarrow> store m p v = Some m"
begin

lemma load_after_store:
  assumes "store m p v = Some m'" and "p = q \<or> disjoint m p q"
  shows "load m' q = (if p = q then Some v else load m q)"
  using assms by (auto simp: load_store load_store_disjoint)

text \<open>
  Clearing bits of one word: every word whose access is the same or apart keeps all the other bits.
\<close>

lemma clear_bits_word:
  assumes "load m p = Some w" and "store m p (w AND NOT b) = Some m'"
    and "p = q \<or> disjoint m p q" and "load m q = Some x"
  shows "\<exists>x'. load m' q = Some x' \<and> (x' = x \<or> p = q \<and> x' = x AND NOT b)"
proof (cases "p = q")
  case True
  with assms show ?thesis by (auto simp: load_store)
next
  case False
  with assms have "load m' q = Some x" by (auto simp: load_store_disjoint)
  then show ?thesis by simp
qed

lemma clear_bits_idem:
  assumes "load m p = Some w" and "store m p (w AND NOT b) = Some m'"
  shows "load m' p = Some (w AND NOT b) \<and> store m' p ((w AND NOT b) AND NOT b) = Some m'"
  using load_store [OF assms(2)] store_same [of m' p "w AND NOT b"] by simp

end

interpretation pm: word_store load64 store64 apart
proof
  show "store64 m p v = Some m' \<Longrightarrow> load64 m' p = Some v" for m p v m'
    by (auto simp: store64_def load64_def file_off_def Let_def le_word_bytes split: if_splits
        intro: trans [OF le_word_cong le_word_bytes])
  show "store64 m p v = Some m' \<Longrightarrow> apart m p q \<Longrightarrow> load64 m' q = load64 m q" for m p v m' q
    by (auto simp: store64_def load64_def apart_def file_off_def Let_def split: if_splits
        intro!: le_word_cong)
  show "load64 m p = Some w \<Longrightarrow> \<exists>m'. store64 m p v = Some m'" for m p w v
    by (auto simp: store64_def load64_def Let_def split: if_splits)
  show "load64 m p = Some v \<Longrightarrow> store64 m p v = Some m" for m p v
    by (auto simp: store64_def load64_def Let_def le_byte_word fun_eq_iff split: if_splits
        intro!: phys.equality)
qed

section \<open>Frames\<close>

lemma store64_frame:
  assumes "store64 m p v = Some m'"
  shows "physmem m' = physmem m" and "st_size m' = st_size m"
    and "k < file_off m p \<or> file_off m p + 8 \<le> k \<Longrightarrow> file_bytes m' k = file_bytes m k"
  using assms by (auto simp: store64_def Let_def split: if_splits)

lemma store64_layout:
  assumes "store64 m p v = Some m'"
  shows "file_off m' q = file_off m q" and "apart m' p' q' = apart m p' q'"
  using store64_frame [OF assms] by (simp_all add: file_off_def apart_def)

lemma load64_defined: "(\<exists>w. load64 m p = Some w) \<longleftrightarrow> file_off m p + 8 \<le> st_size m"
  by (simp add: load64_def Let_def)

lemma multiples_apart: "a mod 8 = 0 \<Longrightarrow> b mod 8 = 0 \<Longrightarrow> a \<noteq> b \<Longrightarrow> a + 8 \<le> b \<or> b + 8 \<le> (a :: nat)"
  by presburger

text \<open>Accesses at multiples of eight are equal or apart: a page table entry never half overlaps.\<close>

lemma aligned_apart:
  assumes "file_off m p mod 8 = 0" and "file_off m q mod 8 = 0"
  shows "p = q \<or> apart m p q"
proof (cases "file_off m p = file_off m q")
  case True
  then have "p - physmem m = q - physmem m"
    unfolding file_off_def by (simp only: word_unat_eq_iff)
  then show ?thesis by simp
next
  case False
  then show ?thesis
    using multiples_apart [OF assms False] unfolding apart_def by blast
qed

section \<open>Clearing one bit of a word changes one bit of the file\<close>

lemma le_byte_clear_bit:
  assumes "i < 8" and "b < 64"
  shows "le_byte (w AND NOT (push_bit b 1)) i =
    (if i = b div 8 then le_byte w i AND NOT (push_bit (b mod 8) 1) else le_byte w i)"
proof (rule bit_eqI)
  fix n assume "possible_bit TYPE(u8) n"
  then have n: "n < 8" by simp
  have "8 * i + n = b \<longleftrightarrow> i = b div 8 \<and> n = b mod 8"
    using n by auto
  with n assms show "bit (le_byte (w AND NOT (push_bit b 1)) i) n \<longleftrightarrow>
      bit (if i = b div 8 then le_byte w i AND NOT (push_bit (b mod 8) 1) else le_byte w i) n"
    by (auto simp: le_byte_def bit_simps)
qed

lemma store64_clear_bit:
  assumes "load64 m p = Some w" and "store64 m p (w AND NOT (push_bit b 1)) = Some m'" and "b < 64"
  shows "file_bytes m' = (file_bytes m)(file_off m p + b div 8 :=
    file_bytes m (file_off m p + b div 8) AND NOT (push_bit (b mod 8) 1))"
proof
  fix k
  have w: "w = le_word (\<lambda>i. file_bytes m (file_off m p + i))"
    using assms(1) by (auto simp: load64_def Let_def split: if_splits)
  have stored: "file_bytes m' k = (if file_off m p \<le> k \<and> k < file_off m p + 8
      then le_byte (w AND NOT (push_bit b 1)) (k - file_off m p) else file_bytes m k)"
    using assms(2) by (auto simp: store64_def Let_def split: if_splits)
  have "b div 8 < 8"
    using assms(3) by simp
  show "file_bytes m' k = ((file_bytes m)(file_off m p + b div 8 :=
      file_bytes m (file_off m p + b div 8) AND NOT (push_bit (b mod 8) 1))) k"
  proof (cases "file_off m p \<le> k \<and> k < file_off m p + 8")
    case True
    then obtain i where k: "k = file_off m p + i" and i: "i < 8"
      using le_Suc_ex by auto
    from i assms(3) show ?thesis
      using stored le_byte_clear_bit [OF i assms(3), of w]
      unfolding k by (simp add: w le_byte_word)
  next
    case False
    with \<open>b div 8 < 8\<close> show ?thesis unfolding stored by auto
  qed
qed

end
