(* ===== verification/PageTable.thy ===== *)
theory PageTable
  imports PhysMem
begin

text \<open>
  The page-table vocabulary of \<^verbatim>\<open>memdump/modify-mem-dump.c\<close>: bit positions and flags of an entry,
  shifts, masks and indices of the four levels, the entry types, and the helpers that read the
  address of the next table out of an entry. Leading underscores of the C names are dropped.
  Pointers into the mapped dump are 64-bit addresses; array indexing scales by eight.
\<close>

section \<open>Addresses\<close>

definition CR3_ADDR_MASK :: u64 where "CR3_ADDR_MASK = 0x7FFFFFFFFFFFF000"
definition cr3_to_pgt_pa :: "u64 \<Rightarrow> u64" where "cr3_to_pgt_pa cr3 = cr3 AND CR3_ADDR_MASK"
definition PAGE_OFFSET :: u64 where "PAGE_OFFSET = 0xffff888000000000"
definition KERNEL_OFFSET :: u64 where "KERNEL_OFFSET = 0x1000000"
definition K_OFFSET :: "u64 \<Rightarrow> u64" where "K_OFFSET address = PAGE_OFFSET + KERNEL_OFFSET + address"
definition phys_to_virt :: "u64 \<Rightarrow> u64" where "phys_to_virt x = x + PAGE_OFFSET"

section \<open>Entries and their flags\<close>

record pgd_t = pgd_val :: u64
record pud_t = pud_val :: u64
record pmd_t = pmd_val :: u64
record pte_t = pte_val :: u64

definition pgd_none :: "pgd_t \<Rightarrow> bool" where "pgd_none e \<longleftrightarrow> \<not> c_true (pgd_val e)"
definition pud_none :: "pud_t \<Rightarrow> bool" where "pud_none e \<longleftrightarrow> \<not> c_true (pud_val e)"
definition pmd_none :: "pmd_t \<Rightarrow> bool" where "pmd_none e \<longleftrightarrow> \<not> c_true (pmd_val e)"

definition PAGE_PRESENT :: u64 where "PAGE_PRESENT = push_bit 0 1"
definition PAGE_RW :: u64 where "PAGE_RW = push_bit 1 1"
definition PAGE_USER :: u64 where "PAGE_USER = push_bit 2 1"
definition PAGE_ACCESSED :: u64 where "PAGE_ACCESSED = push_bit 5 1"
definition PAGE_DIRTY :: u64 where "PAGE_DIRTY = push_bit 6 1"
definition PAGE_PSE :: u64 where "PAGE_PSE = push_bit 7 1"
definition PAGE_GLOBAL :: u64 where "PAGE_GLOBAL = push_bit 8 1"
definition PAGE_NX :: u64 where "PAGE_NX = push_bit 63 1"
definition PAGE_ENC :: u64 where "PAGE_ENC = 0"

definition PAGE_KERNEL :: u64 where
  "PAGE_KERNEL = PAGE_PRESENT OR PAGE_RW OR PAGE_ACCESSED OR PAGE_NX OR PAGE_DIRTY OR PAGE_GLOBAL"
definition PAGE_KERNEL_EXEC :: u64 where
  "PAGE_KERNEL_EXEC = PAGE_PRESENT OR PAGE_RW OR PAGE_ACCESSED OR PAGE_DIRTY OR PAGE_GLOBAL"
definition KERNPG_TABLE :: u64 where
  "KERNPG_TABLE = PAGE_PRESENT OR PAGE_RW OR PAGE_ACCESSED OR PAGE_DIRTY OR PAGE_ENC"
definition PAGE_TABLE :: u64 where
  "PAGE_TABLE = PAGE_PRESENT OR PAGE_RW OR PAGE_USER OR PAGE_ACCESSED OR PAGE_DIRTY OR PAGE_ENC"
definition PAGE_KERNEL_LARGE :: u64 where
  "PAGE_KERNEL_LARGE = PAGE_PRESENT OR PAGE_RW OR PAGE_ACCESSED OR PAGE_NX OR PAGE_DIRTY
     OR PAGE_PSE OR PAGE_GLOBAL"
definition PAGE_KERNEL_LARGE_EXEC :: u64 where
  "PAGE_KERNEL_LARGE_EXEC = PAGE_PRESENT OR PAGE_RW OR PAGE_ACCESSED OR PAGE_DIRTY
     OR PAGE_PSE OR PAGE_GLOBAL"

section \<open>Shifts, masks and indices\<close>

definition PTE_ORDER :: nat where "PTE_ORDER = 0"
definition PAGE_SHIFT :: nat where "PAGE_SHIFT = 12"
definition PHYSICAL_MASK_SHIFT :: nat where "PHYSICAL_MASK_SHIFT = 52"

definition PMD_SHIFT :: nat where "PMD_SHIFT = PAGE_SHIFT + (PAGE_SHIFT + PTE_ORDER - 3)"
definition PMD_BITS :: nat where "PMD_BITS = PAGE_SHIFT - 3"
definition PUD_SHIFT :: nat where "PUD_SHIFT = PMD_SHIFT + PMD_BITS"
definition PUD_BITS :: nat where "PUD_BITS = PAGE_SHIFT - 3"
definition PGDIR_SHIFT :: nat where "PGDIR_SHIFT = PUD_SHIFT + PUD_BITS"

definition ENTRIES :: u64 where "ENTRIES = 512"

definition pgd_index :: "u64 \<Rightarrow> u64" where
  "pgd_index address = drop_bit PGDIR_SHIFT address AND (ENTRIES - 1)"
definition pud_index :: "u64 \<Rightarrow> u64" where
  "pud_index address = drop_bit PUD_SHIFT address AND (ENTRIES - 1)"
definition pmd_index :: "u64 \<Rightarrow> u64" where
  "pmd_index address = drop_bit PMD_SHIFT address AND (ENTRIES - 1)"
definition pte_index :: "u64 \<Rightarrow> u64" where
  "pte_index address = drop_bit PAGE_SHIFT address AND (ENTRIES - 1)"

definition pgd_offset_pgd :: "u64 \<Rightarrow> u64 \<Rightarrow> u64" where
  "pgd_offset_pgd pgd address = pgd + 8 * pgd_index address"

text \<open>
  \<open>PAGE_SIZE\<close> is an \<open>int\<close>, so \<open>PAGE_MASK\<close> is the \<open>int\<close> -4096, sign extended by the cast of
  \<open>PHYSICAL_PAGE_MASK\<close>.
\<close>

definition PAGE_SIZE :: u32 where "PAGE_SIZE = 4096"
definition PAGE_MASK :: u32 where "PAGE_MASK = NOT (PAGE_SIZE - 1)"
definition PHYSICAL_MASK :: u64 where "PHYSICAL_MASK = push_bit PHYSICAL_MASK_SHIFT 1 - 1"
definition PHYSICAL_PAGE_MASK :: u64 where "PHYSICAL_PAGE_MASK = scast PAGE_MASK AND PHYSICAL_MASK"
definition PTE_PFN_MASK :: u64 where "PTE_PFN_MASK = PHYSICAL_PAGE_MASK"
definition PUD_PAGE_SIZE :: u64 where "PUD_PAGE_SIZE = push_bit PUD_SHIFT 1"
definition PUD_PAGE_MASK :: u64 where "PUD_PAGE_MASK = NOT (PUD_PAGE_SIZE - 1)"
definition PMD_PAGE_SIZE :: u64 where "PMD_PAGE_SIZE = push_bit PMD_SHIFT 1"
definition PMD_PAGE_MASK :: u64 where "PMD_PAGE_MASK = NOT (PMD_PAGE_SIZE - 1)"
definition PHYSICAL_PMD_PAGE_MASK :: u64 where
  "PHYSICAL_PMD_PAGE_MASK = PMD_PAGE_MASK AND PHYSICAL_MASK"
definition PHYSICAL_PUD_PAGE_MASK :: u64 where
  "PHYSICAL_PUD_PAGE_MASK = PUD_PAGE_MASK AND PHYSICAL_MASK"

lemmas pt_shift_defs =
  PTE_ORDER_def PAGE_SHIFT_def PHYSICAL_MASK_SHIFT_def PMD_SHIFT_def PMD_BITS_def PUD_SHIFT_def
  PUD_BITS_def PGDIR_SHIFT_def

lemmas pt_flag_defs =
  PAGE_PRESENT_def PAGE_RW_def PAGE_USER_def PAGE_ACCESSED_def PAGE_DIRTY_def PAGE_PSE_def
  PAGE_GLOBAL_def PAGE_NX_def PAGE_ENC_def

lemma pt_shifts [simp]:
  "PAGE_SHIFT = 12" "PMD_SHIFT = 21" "PUD_SHIFT = 30" "PGDIR_SHIFT = 39"
  by (simp_all add: pt_shift_defs)

lemma PTE_PFN_MASK_val [simp]: "PTE_PFN_MASK = 0x000FFFFFFFFFF000"
  by (simp add: PTE_PFN_MASK_def PHYSICAL_PAGE_MASK_def PHYSICAL_MASK_def PAGE_MASK_def
      PAGE_SIZE_def pt_shift_defs)

lemma PHYSICAL_PMD_PAGE_MASK_val [simp]: "PHYSICAL_PMD_PAGE_MASK = 0x000FFFFFFFE00000"
  by (simp add: PHYSICAL_PMD_PAGE_MASK_def PMD_PAGE_MASK_def PMD_PAGE_SIZE_def PHYSICAL_MASK_def
      pt_shift_defs)

lemma PHYSICAL_PUD_PAGE_MASK_val [simp]: "PHYSICAL_PUD_PAGE_MASK = 0x000FFFFFC0000000"
  by (simp add: PHYSICAL_PUD_PAGE_MASK_def PUD_PAGE_MASK_def PUD_PAGE_SIZE_def PHYSICAL_MASK_def
      pt_shift_defs)

section \<open>Helpers of the walk\<close>

definition native_pud_val :: "pud_t \<Rightarrow> u64" where "native_pud_val pud = pud_val pud"
definition native_pmd_val :: "pmd_t \<Rightarrow> u64" where "native_pmd_val pmd = pmd_val pmd"

definition pud_pfn_mask :: "pud_t \<Rightarrow> u64" where
  "pud_pfn_mask pud = (if c_true (native_pud_val pud AND PAGE_PSE) then PHYSICAL_PUD_PAGE_MASK
                       else PTE_PFN_MASK)"
definition pud_flags_mask :: "pud_t \<Rightarrow> u64" where "pud_flags_mask pud = NOT (pud_pfn_mask pud)"
definition pud_flags :: "pud_t \<Rightarrow> u64" where
  "pud_flags pud = native_pud_val pud AND pud_flags_mask pud"

definition pmd_pfn_mask :: "pmd_t \<Rightarrow> u64" where
  "pmd_pfn_mask pmd = (if c_true (native_pmd_val pmd AND PAGE_PSE) then PHYSICAL_PMD_PAGE_MASK
                       else PTE_PFN_MASK)"
definition pmd_flags_mask :: "pmd_t \<Rightarrow> u64" where "pmd_flags_mask pmd = NOT (pmd_pfn_mask pmd)"
definition pmd_flags :: "pmd_t \<Rightarrow> u64" where
  "pmd_flags pmd = native_pmd_val pmd AND pmd_flags_mask pmd"

definition pgd_page_vaddr :: "pgd_t \<Rightarrow> u64" where "pgd_page_vaddr pgd = pgd_val pgd AND PTE_PFN_MASK"
definition pud_page_vaddr :: "pud_t \<Rightarrow> u64" where
  "pud_page_vaddr pud = pud_val pud AND pud_pfn_mask pud"
definition pmd_page_vaddr :: "pmd_t \<Rightarrow> u64" where
  "pmd_page_vaddr pmd = pmd_val pmd AND pmd_pfn_mask pmd"

text \<open>Reading the entry a pointer points to; \<open>None\<close> when the pointer is outside the dump.\<close>

definition deref_pgd :: "phys \<Rightarrow> u64 \<Rightarrow> pgd_t option" where
  "deref_pgd m p = map_option (\<lambda>w. \<lparr>pgd_val = w\<rparr>) (load64 m p)"
definition deref_pud :: "phys \<Rightarrow> u64 \<Rightarrow> pud_t option" where
  "deref_pud m p = map_option (\<lambda>w. \<lparr>pud_val = w\<rparr>) (load64 m p)"
definition deref_pmd :: "phys \<Rightarrow> u64 \<Rightarrow> pmd_t option" where
  "deref_pmd m p = map_option (\<lambda>w. \<lparr>pmd_val = w\<rparr>) (load64 m p)"
definition deref_pte :: "phys \<Rightarrow> u64 \<Rightarrow> pte_t option" where
  "deref_pte m p = map_option (\<lambda>w. \<lparr>pte_val = w\<rparr>) (load64 m p)"

definition pud_offset :: "phys \<Rightarrow> u64 \<Rightarrow> u64 \<Rightarrow> u64 option" where
  "pud_offset m pgd address = do {
     e \<leftarrow> deref_pgd m pgd;
     Some (physmem m + pgd_page_vaddr e + 8 * pud_index address) }"
definition pmd_offset :: "phys \<Rightarrow> u64 \<Rightarrow> u64 \<Rightarrow> u64 option" where
  "pmd_offset m pud address = do {
     e \<leftarrow> deref_pud m pud;
     Some (physmem m + pud_page_vaddr e + 8 * pmd_index address) }"
definition pte_offset_kernel :: "phys \<Rightarrow> u64 \<Rightarrow> u64 \<Rightarrow> u64 option" where
  "pte_offset_kernel m pmd address = do {
     e \<leftarrow> deref_pmd m pmd;
     Some (physmem m + pmd_page_vaddr e + 8 * pte_index address) }"

text \<open>Eight times an index plus the address of a table is a multiple of eight.\<close>

lemma entry_aligned:
  assumes "take_bit 3 t = (0 :: u64)"
  shows "file_off m (physmem m + t + 8 * i) mod 8 = 0"
proof -
  have "8 dvd unat t"
    using arg_cong [OF assms, of unat] by (simp add: take_bit_eq_mod unat_mod mod_eq_0_iff_dvd)
  moreover have "8 dvd (8 * unat i) mod 2 ^ 64"
    by (rule dvd_mod) simp_all
  ultimately have "8 dvd (unat t + (8 * unat i) mod 2 ^ 64) mod 2 ^ 64"
    by (intro dvd_mod dvd_add) simp_all
  then have "8 dvd unat (t + 8 * i)"
    by (simp add: unat_word_ariths)
  then show ?thesis
    by (simp add: file_off_def algebra_simps mod_eq_0_iff_dvd)
qed

lemma masked_aligned:
  "take_bit 3 (w AND 0x000FFFFFFFFFF000) = (0 :: u64)"
  "take_bit 3 (w AND 0x000FFFFFFFE00000) = (0 :: u64)"
  "take_bit 3 (w AND 0x000FFFFFC0000000) = (0 :: u64)"
  by (simp_all add: take_bit_and)

lemma pfn_mask_aligned:
  "take_bit 3 (pgd_page_vaddr g) = 0" "take_bit 3 (pud_page_vaddr u) = 0"
  "take_bit 3 (pmd_page_vaddr d) = 0"
  by (simp_all add: pgd_page_vaddr_def pud_page_vaddr_def pmd_page_vaddr_def pud_pfn_mask_def
      pmd_pfn_mask_def masked_aligned)

end
