(* ===== verification/PageProt.thy ===== *)
theory PageProt
  imports PageTable
begin

text \<open>
  The rest of the page-table vocabulary of \<^verbatim>\<open>memdump/modify-mem-dump.c\<close>: the other flags, the kernel's
  page protections, and the sizes and masks of the levels. Macros that name something the file does
  not define (\<^verbatim>\<open>__pg\<close>, \<^verbatim>\<open>_PAGE_BIT_SPECIAL\<close>, \<^verbatim>\<open>_PAGE_NOCACHE\<close>, \<^verbatim>\<open>_PAGE_CACHE_WP\<close>) cannot be
  expanded and are left out. The lemmas say what the tool's edit means in these terms: it turns every
  protection without execution into the one with it, and changes no other.
\<close>

definition PAGE_PWT :: u64 where "PAGE_PWT = push_bit 3 1"
definition PAGE_PCD :: u64 where "PAGE_PCD = push_bit 4 1"
definition PAGE_SOFTW1 :: u64 where "PAGE_SOFTW1 = push_bit 9 1"
definition PAGE_SOFTW2 :: u64 where "PAGE_SOFTW2 = push_bit 10 1"
definition PAGE_SOFTW3 :: u64 where "PAGE_SOFTW3 = push_bit 11 1"
definition PAGE_PAT :: u64 where "PAGE_PAT = push_bit 7 1"
definition PAGE_PAT_LARGE :: u64 where "PAGE_PAT_LARGE = push_bit 12 1"

definition KERNPG_TABLE_NOENC :: u64 where
  "KERNPG_TABLE_NOENC = PAGE_PRESENT OR PAGE_RW OR PAGE_ACCESSED OR PAGE_DIRTY"
definition PAGE_TABLE_NOENC :: u64 where
  "PAGE_TABLE_NOENC = PAGE_PRESENT OR PAGE_RW OR PAGE_USER OR PAGE_ACCESSED OR PAGE_DIRTY"
definition PAGE_KERNEL_RO :: u64 where
  "PAGE_KERNEL_RO = PAGE_PRESENT OR PAGE_ACCESSED OR PAGE_NX OR PAGE_DIRTY OR PAGE_GLOBAL"
definition PAGE_KERNEL_RX :: u64 where
  "PAGE_KERNEL_RX = PAGE_PRESENT OR PAGE_ACCESSED OR PAGE_DIRTY OR PAGE_GLOBAL"
definition PAGE_KERNEL_VVAR :: u64 where
  "PAGE_KERNEL_VVAR = PAGE_PRESENT OR PAGE_USER OR PAGE_ACCESSED OR PAGE_NX OR PAGE_DIRTY OR PAGE_GLOBAL"

definition PGD_ORDER :: nat where "PGD_ORDER = 0"
definition PMD_SIZE :: u64 where "PMD_SIZE = push_bit PMD_SHIFT 1"
definition PMD_MASK :: u64 where "PMD_MASK = NOT (PMD_SIZE - 1)"
definition PUD_SIZE :: u64 where "PUD_SIZE = push_bit PUD_SHIFT 1"
definition PUD_MASK :: u64 where "PUD_MASK = NOT (PUD_SIZE - 1)"
definition PGDIR_SIZE :: u64 where "PGDIR_SIZE = push_bit PGDIR_SHIFT 1"
definition PGDIR_MASK :: u64 where "PGDIR_MASK = NOT (PGDIR_SIZE - 1)"
definition PGDIR_BITS :: nat where "PGDIR_BITS = PAGE_SHIFT - 3"

lemmas prot_defs = pt_flag_defs PAGE_KERNEL_def PAGE_KERNEL_EXEC_def PAGE_KERNEL_RO_def PAGE_KERNEL_RX_def
  PAGE_KERNEL_LARGE_def PAGE_KERNEL_LARGE_EXEC_def KERNPG_TABLE_def KERNPG_TABLE_NOENC_def PAGE_TABLE_def
  PAGE_TABLE_NOENC_def PAGE_KERNEL_VVAR_def

text \<open>What clearing the no-execute flag makes of each protection.\<close>

lemma clear_nx_protections:
  "PAGE_KERNEL AND NOT PAGE_NX = PAGE_KERNEL_EXEC" "PAGE_KERNEL_RO AND NOT PAGE_NX = PAGE_KERNEL_RX"
  "PAGE_KERNEL_LARGE AND NOT PAGE_NX = PAGE_KERNEL_LARGE_EXEC"
  "p \<in> {PAGE_KERNEL_EXEC, PAGE_KERNEL_RX, PAGE_KERNEL_LARGE_EXEC, KERNPG_TABLE, PAGE_TABLE} \<Longrightarrow> p AND NOT PAGE_NX = p"
  by (auto simp: prot_defs)

lemma no_encryption: "KERNPG_TABLE = KERNPG_TABLE_NOENC" "PAGE_TABLE = PAGE_TABLE_NOENC"
  by (simp_all add: prot_defs)

text \<open>The tables of a level cover an entry of the level above, and the four indices the whole address.\<close>

lemma level_sizes:
  "unat PMD_SIZE = 512 * unat PAGE_SIZE" "unat PUD_SIZE = 512 * unat PMD_SIZE"
  "unat PGDIR_SIZE = 512 * unat PUD_SIZE" "PMD_SIZE = PMD_PAGE_SIZE" "PUD_SIZE = PUD_PAGE_SIZE"
  by (simp_all add: PMD_SIZE_def PUD_SIZE_def PGDIR_SIZE_def PMD_PAGE_SIZE_def PUD_PAGE_SIZE_def PAGE_SIZE_def)

lemma split_address: "va AND PMD_MASK = (va AND PUD_MASK) OR push_bit PMD_SHIFT (pmd_index va)"
  "va AND PUD_MASK = (va AND PGDIR_MASK) OR push_bit PUD_SHIFT (pud_index va)"
proof -
  have m: "ENTRIES - 1 = mask 9" by (simp add: ENTRIES_def mask_eq_exp_minus_1)
  have n: "NOT (push_bit n 1 - 1) = (NOT (mask n) :: u64)" for n
    by (simp add: mask_eq_decr_exp push_bit_eq_mult)
  show "va AND PMD_MASK = (va AND PUD_MASK) OR push_bit PMD_SHIFT (pmd_index va)"
    "va AND PUD_MASK = (va AND PGDIR_MASK) OR push_bit PUD_SHIFT (pud_index va)"
    unfolding PMD_MASK_def PUD_MASK_def PGDIR_MASK_def PMD_SIZE_def PUD_SIZE_def PGDIR_SIZE_def
      pmd_index_def pud_index_def m n pt_shifts
    by (rule bit_word_eqI; auto simp: bit_simps)+
qed

end
