(* ===== verification/Digits.thy ===== *)
theory Digits
  imports Prelude
begin

text \<open>
  Numbers written as digits: the value of a digit in the bases of C, reading digits from the front
  of a text, and the lower-case hexadecimal digits that QEMU prints, with their round trip.
\<close>

definition digit_val :: "char \<Rightarrow> nat option" where
  "digit_val c = (let n = (of_char c :: nat) in
     if 48 \<le> n \<and> n \<le> 57 then Some (n - 48)
     else if 97 \<le> n \<and> n \<le> 122 then Some (n - 87)
     else if 65 \<le> n \<and> n \<le> 90 then Some (n - 55)
     else None)"

fun scan_digits :: "nat \<Rightarrow> nat \<Rightarrow> string \<Rightarrow> nat" where
  "scan_digits b acc [] = acc"
| "scan_digits b acc (c # cs) = (case digit_val c of
     None \<Rightarrow> acc
   | Some d \<Rightarrow> if d < b then scan_digits b (b * acc + d) cs else acc)"

text \<open>The \<open>k\<close> lowest hexadecimal digits of a number, most significant first.\<close>

definition hex_char :: "nat \<Rightarrow> char" where
  "hex_char d = (if d < 10 then char_of (48 + d) else char_of (87 + d))"

fun hex_digits :: "nat \<Rightarrow> nat \<Rightarrow> string" where
  "hex_digits 0 n = []"
| "hex_digits (Suc k) n = hex_char (n div 16 ^ k mod 16) # hex_digits k n"

lemma digit_val_hex_char: "d < 16 \<Longrightarrow> digit_val (hex_char d) = Some d"
  by (auto simp: hex_char_def digit_val_def Let_def)

lemma scan_hex_digits: "scan_digits 16 acc (hex_digits k n) = 16 ^ k * acc + n mod 16 ^ k"
proof (induction k arbitrary: acc)
  case 0
  then show ?case by simp
next
  case (Suc k)
  have "n mod 16 ^ Suc k = 16 ^ k * (n div 16 ^ k mod 16) + n mod 16 ^ k"
    using mod_mult2_eq [of n "16 ^ k" 16] by (simp add: mult.commute)
  with Suc show ?case
    by (simp add: digit_val_hex_char algebra_simps)
qed

end
