(* ===== verification/MemDump.thy ===== *)
theory MemDump
  imports PageTable Digits
begin

text \<open>
  \<^verbatim>\<open>memdump/modify-mem-dump.c\<close>: \<open>ClearPageNXFlag\<close> walks the four-level page table inside the dump
  and clears the no-execute bit of the last entry; \<open>modify_mem_dump\<close> maps the file, runs it, and
  clears the busy bit of the TSS descriptor; \<open>main\<close> parses the command line with \<open>strtoul\<close>.
  \<open>None\<close> is an access outside the dump, which kills the process. The walk of the hardware,
  \<open>mmu_walk\<close>, is the specification the tool is compared with.
\<close>

section \<open>The walk of the tool\<close>

definition ClearPageNXFlag :: "phys \<Rightarrow> u64 \<Rightarrow> u64 \<Rightarrow> (int \<times> phys) option" where
  "ClearPageNXFlag m pgd_base va = do {
     let pgd = pgd_offset_pgd (physmem m + pgd_base) va;
     pgdv \<leftarrow> deref_pgd m pgd;
     if pgd_none pgdv then Some (-1, m)
     else do {
       pud \<leftarrow> pud_offset m pgd va;
       pudv \<leftarrow> deref_pud m pud;
       if pud_none pudv then Some (-2, m)
       else do {
         pmd \<leftarrow> pmd_offset m pud va;
         pmdv \<leftarrow> deref_pmd m pmd;
         if pmd_none pmdv then Some (-3, m)
         else do {
           ptep \<leftarrow> pte_offset_kernel m pmd va;
           if \<not> c_true ptep then Some (-4, m)
           else do {
             ptev \<leftarrow> deref_pte m ptep;
             m' \<leftarrow> store64 m ptep (pte_val ptev AND NOT PAGE_NX);
             Some (0, m') } } } } }"

section \<open>The tool\<close>

record dump_file =
  f_size :: nat
  f_bytes :: "nat \<Rightarrow> u8"

type_synonym files = "string \<rightharpoonup> dump_file"

datatype status = Returns | Exits int | Crashes

definition mmap_shared :: "u64 \<Rightarrow> dump_file \<Rightarrow> phys" where
  "mmap_shared addr f = \<lparr>physmem = addr, st_size = f_size f, file_bytes = f_bytes f\<rparr>"

definition written_back :: "phys \<Rightarrow> dump_file" where
  "written_back m = \<lparr>f_size = st_size m, f_bytes = file_bytes m\<rparr>"

definition gdt_phys_addr :: u64 where "gdt_phys_addr = 0x3d00b000"
definition tss_offset :: u64 where "tss_offset = 0x40"

definition clear_tss_busy :: "phys \<Rightarrow> phys option" where
  "clear_tss_busy m = do {
     let tss_desc = physmem m + gdt_phys_addr + tss_offset;
     v \<leftarrow> load64 m tss_desc;
     store64 m tss_desc (v AND NOT (push_bit 41 1)) }"

text \<open>
  \<open>addr\<close> is the address the operating system chose for the mapping. The mapping is shared, so
  what was stored before a crash is in the file. The return code of the walk is only printed.
\<close>

definition modify_mem_dump :: "u64 \<Rightarrow> files \<Rightarrow> string \<Rightarrow> u64 \<Rightarrow> u64 \<Rightarrow> status \<times> files" where
  "modify_mem_dump addr fs filename cr3 va = (case fs filename of
     None \<Rightarrow> (Exits 1, fs)
   | Some f \<Rightarrow> (case ClearPageNXFlag (mmap_shared addr f) cr3 va of
       None \<Rightarrow> (Crashes, fs)
     | Some (rc, m1) \<Rightarrow> (case clear_tss_busy m1 of
         None \<Rightarrow> (Crashes, fs(filename \<mapsto> written_back m1))
       | Some m2 \<Rightarrow> (Returns, fs(filename \<mapsto> written_back m2)))))"

subsection \<open>strtoul with base 0 of the C library\<close>

definition c_isspace :: "char \<Rightarrow> bool" where
  "c_isspace c = (let n = (of_char c :: nat) in n = 32 \<or> 9 \<le> n \<and> n \<le> 13)"

fun strtoul_digits :: "string \<Rightarrow> nat" where
  "strtoul_digits (z # x # d # cs) =
     (if z = CHR ''0'' \<and> (x = CHR ''x'' \<or> x = CHR ''X'') \<and> (\<exists>k\<in>set_option (digit_val d). k < 16)
      then scan_digits 16 0 (d # cs)
      else if z = CHR ''0'' then scan_digits 8 0 (x # d # cs)
      else scan_digits 10 0 (z # x # d # cs))"
| "strtoul_digits (z # cs) = (if z = CHR ''0'' then scan_digits 8 0 cs else scan_digits 10 0 (z # cs))"
| "strtoul_digits [] = 0"

definition strtoul :: "string \<Rightarrow> u64" where
  "strtoul s =
     (let t = dropWhile c_isspace s;
          neg = (case t of c # _ \<Rightarrow> c = CHR ''-'' | [] \<Rightarrow> False);
          u = (case t of c # cs \<Rightarrow> if c = CHR ''-'' \<or> c = CHR ''+'' then cs else t | [] \<Rightarrow> t);
          n = strtoul_digits u
      in if n \<ge> 2 ^ 64 then - 1 else if neg then - of_nat n else of_nat n)"

text \<open>
  \<open>argv\<close> ends with a null pointer, which the library call of \<open>main\<close> must not be given: with two or
  three arguments the program reads it (or reads beyond it), which is a crash.
\<close>

definition main :: "u64 \<Rightarrow> files \<Rightarrow> string list \<Rightarrow> status \<times> files" where
  "main addr fs argv =
     (if length argv < 2 then (Exits 1, fs)
      else if length argv < 4 then (Crashes, fs)
      else let cr3 = strtoul (argv ! 2); va = strtoul (argv ! 3)
           in (case modify_mem_dump addr fs (argv ! 1) cr3 va of
                 (Returns, fs') \<Rightarrow> (Exits 0, fs')
               | r \<Rightarrow> r))"

end
