(* ===== verification/QemuRegs.thy ===== *)
theory QemuRegs
  imports Digits
begin

text \<open>
  \<^verbatim>\<open>state-blob/process_qemu_info_registers.py\<close>: reading the registers QEMU prints, and generating
  the C statements that set the fields of the CPU state. A regular expression of the script is a
  function that does what the backtracking matcher of Python does with it; the text is ASCII. A
  dictionary is a map from strings to integers or strings, in which later assignments win. A missing
  register is a \<^verbatim>\<open>KeyError\<close>, the value \<open>Inl\<close>. The comment with the dictionary at the end of the
  generated file is left out.
\<close>

section \<open>Character classes of the expressions\<close>

definition in_range :: "nat \<Rightarrow> nat \<Rightarrow> char \<Rightarrow> bool" where
  "in_range a b c \<longleftrightarrow> a \<le> of_char c \<and> of_char c \<le> b"

text \<open>\<^verbatim>\<open>[A-Z0-9_]\<close>, \<^verbatim>\<open>[0-9a-f]\<close> and \<^verbatim>\<open>\s\<close>.\<close>

definition is_name :: "char \<Rightarrow> bool" where
  "is_name c \<longleftrightarrow> in_range 65 90 c \<or> in_range 48 57 c \<or> c = CHR ''_''"

definition is_hex :: "char \<Rightarrow> bool" where
  "is_hex c \<longleftrightarrow> in_range 48 57 c \<or> in_range 97 102 c"

definition is_space :: "char \<Rightarrow> bool" where
  "is_space c \<longleftrightarrow> in_range 9 13 c \<or> in_range 28 32 c"

definition py_strip :: "string \<Rightarrow> string" where
  "py_strip s = rev (dropWhile is_space (rev (dropWhile is_space s)))"

definition lower_char :: "char \<Rightarrow> char" where
  "lower_char c = (case map_of (zip ''ABCDEFGHIJKLMNOPQRSTUVWXYZ'' ''abcdefghijklmnopqrstuvwxyz'') c of
     Some d \<Rightarrow> d | None \<Rightarrow> c)"

definition py_lower :: "string \<Rightarrow> string" where
  "py_lower = map lower_char"

section \<open>The regular expressions\<close>

text \<open>
  \<^verbatim>\<open>([A-Z0-9_]+ ?)=([0-9a-f]+)\<close> at the front of the text: the two groups and the rest. The longest run
  of name characters is the only one that can be followed by a space or an equals sign.
\<close>

definition match_reg :: "string \<Rightarrow> (string \<times> string \<times> string) option" where
  "match_reg s =
     (let nm = takeWhile is_name s; r = dropWhile is_name s;
          sp = (case r of c # _ \<Rightarrow> if c = CHR '' '' then [c] else [] | [] \<Rightarrow> []);
          r = drop (length sp) r
      in if nm = [] then None
         else case r of
           [] \<Rightarrow> None
         | e # v \<Rightarrow> if e = CHR ''='' \<and> takeWhile is_hex v \<noteq> []
             then Some (nm @ sp, takeWhile is_hex v, dropWhile is_hex v) else None)"

lemma match_reg_shorter: "match_reg s = Some (n, v, r) \<Longrightarrow> length r < length s"
proof -
  assume "match_reg s = Some (n, v, r)"
  then have "length r < length (dropWhile is_name s)"
    by (auto simp: match_reg_def Let_def le_imp_less_Suc length_dropWhile_le less_SucI
        simp del: dropWhile_eq_Nil_conv dropWhile_eq_Cons_conv split: if_splits list.splits)
  then show ?thesis using length_dropWhile_le [of is_name s] by simp
qed

text \<open>\<^verbatim>\<open>re.findall\<close>: the leftmost matches that do not overlap.\<close>

function findall_regs :: "string \<Rightarrow> (string \<times> string) list" where
  "findall_regs s = (case match_reg s of
     Some (n, v, r) \<Rightarrow> (n, v) # findall_regs r
   | None \<Rightarrow> (case s of [] \<Rightarrow> [] | _ # t \<Rightarrow> findall_regs t))"
  by pat_completeness auto
termination
  by (relation "measure length") (auto dest: match_reg_shorter)

declare findall_regs.simps [simp del]

text \<open>\<^verbatim>\<open>^(.DT)=\s*([0-9a-f]+)\s+([0-9a-f]+)\<close>\<close>

fun match_dt :: "string \<Rightarrow> (string \<times> string \<times> string) option" where
  "match_dt (c # d # t # e # r) =
     (let r = dropWhile is_space r;
          a = takeWhile is_hex r; r' = dropWhile is_hex r;
          b = takeWhile is_hex (dropWhile is_space r')
      in if of_char c \<noteq> (10 :: nat) \<and> [d, t, e] = ''DT='' \<and> a \<noteq> [] \<and> takeWhile is_space r' \<noteq> [] \<and> b \<noteq> []
         then Some ([c, d, t], a, b) else None)"
| "match_dt _ = None"

text \<open>
  \<^verbatim>\<open>^(FS|GS) =[0-9a-f]+\s*([0-9a-f]+)\<close>: without a second number the matcher gives the last digit of
  the first one back.
\<close>

fun match_seg :: "string \<Rightarrow> (string \<times> string) option" where
  "match_seg (x # c # sp # e # r) =
     (let a = takeWhile is_hex r;
          b = takeWhile is_hex (dropWhile is_space (dropWhile is_hex r))
      in if [x, c, sp, e] \<in> {''FS ='', ''GS =''}
         then if a \<noteq> [] \<and> b \<noteq> [] then Some ([x, c], b)
              else if 2 \<le> length a then Some ([x, c], [last a]) else None
         else None)"
| "match_seg _ = None"

section \<open>The dictionary\<close>

datatype pyval = PyInt int | PyStr string

type_synonym pydict = "string \<rightharpoonup> pyval"

definition add_reg :: "string \<times> string \<Rightarrow> pydict \<Rightarrow> pydict" where
  "add_reg = (\<lambda>(n, v) d. d(py_lower (py_strip n) \<mapsto> PyStr (py_lower v)))"

definition add_dt :: "string \<Rightarrow> pydict \<Rightarrow> pydict" where
  "add_dt line d = (case match_dt line of
     Some (n, a, b) \<Rightarrow> d(py_lower n @ ''_addr'' \<mapsto> PyStr a, py_lower n @ ''_size'' \<mapsto> PyStr b)
   | None \<Rightarrow> d)"

definition add_seg :: "string \<Rightarrow> pydict \<Rightarrow> pydict" where
  "add_seg line d = (case match_seg line of
     Some (n, b) \<Rightarrow> d(py_lower n @ ''_base'' \<mapsto> PyStr b)
   | None \<Rightarrow> d)"

definition process_line :: "string \<Rightarrow> pydict \<Rightarrow> pydict" where
  "process_line line d = add_seg line (add_dt line (fold add_reg (findall_regs line) d))"

definition process_lines :: "int \<Rightarrow> string list \<Rightarrow> pydict" where
  "process_lines rip_offset lines = fold process_line lines [''rip_offset'' \<mapsto> PyInt rip_offset]"

section \<open>The generated statements\<close>

text \<open>
  The assignments of the template, in their order: the field of the structure and the register; the
  instruction pointer has the offset added. A statement is its field and its right-hand side.
\<close>

definition template :: "(string \<times> string) list" where
  "template = [
     (''regs.ax'', ''rax''), (''regs.bx'', ''rbx''), (''regs.cx'', ''rcx''), (''regs.dx'', ''rdx''),
     (''regs.si'', ''rsi''), (''regs.di'', ''rdi''), (''regs.bp'', ''rbp''), (''regs.sp'', ''rsp''),
     (''regs.r8'', ''r8''), (''regs.r9'', ''r9''), (''regs.r10'', ''r10''), (''regs.r11'', ''r11''),
     (''regs.r12'', ''r12''), (''regs.r13'', ''r13''), (''regs.r14'', ''r14''), (''regs.r15'', ''r15''),
     (''regs.flags'', ''rfl''), (''regs.orig_ax'', ''rax''), (''regs.ip'', ''rip''),
     (''regs.cs'', ''cs''), (''regs.ss'', ''ss''), (''ds'', ''ds''), (''es'', ''es''), (''fs'', ''fs''),
     (''gs'', ''gs''), (''tr'', ''tr''), (''fs_base'', ''fs_base''), (''gs_base'', ''gs_base''),
     (''kernelgs_base'', ''msr_kernelgsbase''), (''cr0'', ''cr0''), (''cr2'', ''cr2''), (''cr3'', ''cr3''),
     (''cr4'', ''cr4''), (''efer'', ''efer''), (''sysenter_cs'', ''msr_sysenter_cs''),
     (''sysenter_esp'', ''msr_sysenter_esp''), (''sysenter_eip'', ''msr_sysenter_eip''),
     (''star'', ''msr_star''), (''lstar'', ''msr_lstar''), (''cstar'', ''msr_cstar''),
     (''fmask'', ''msr_fmask''), (''tsc_aux'', ''msr_tsc_aux''), (''gdt_desc.size'', ''gdt_size''),
     (''gdt_desc.address'', ''gdt_addr''), (''idt.size'', ''idt_size''), (''idt.address'', ''idt_addr'')]"

datatype py_error = KeyError string

fun dec_digits :: "nat \<Rightarrow> string" where
  "dec_digits n = (if n < 10 then [char_of (48 + n)] else dec_digits (n div 10) @ [char_of (48 + n mod 10)])"

declare dec_digits.simps [simp del]

definition py_format :: "pyval \<Rightarrow> string" where
  "py_format v = (case v of
     PyStr s \<Rightarrow> s
   | PyInt i \<Rightarrow> (if i < 0 then ''-'' @ dec_digits (nat (- i)) else dec_digits (nat i)))"

definition lookup :: "pydict \<Rightarrow> string \<Rightarrow> py_error + string" where
  "lookup d k = (case d k of Some v \<Rightarrow> Inr (py_format v) | None \<Rightarrow> Inl (KeyError k))"

definition statement :: "pydict \<Rightarrow> string \<times> string \<Rightarrow> py_error + (string \<times> string)" where
  "statement d = (\<lambda>(field, reg). case lookup d reg of
     Inl e \<Rightarrow> Inl e
   | Inr v \<Rightarrow> if field = ''regs.ip''
       then (case lookup d ''rip_offset'' of Inl e \<Rightarrow> Inl e | Inr u \<Rightarrow> Inr (field, ''0x'' @ v @ '' + '' @ u))
       else Inr (field, ''0x'' @ v))"

fun statements :: "pydict \<Rightarrow> (string \<times> string) list \<Rightarrow> py_error + (string \<times> string) list" where
  "statements d [] = Inr []"
| "statements d (t # ts) = (case statement d t of
     Inl e \<Rightarrow> Inl e
   | Inr x \<Rightarrow> (case statements d ts of Inl e \<Rightarrow> Inl e | Inr xs \<Rightarrow> Inr (x # xs)))"

definition generate :: "int \<Rightarrow> string list \<Rightarrow> py_error + (string \<times> string) list" where
  "generate rip_offset lines = statements (process_lines rip_offset lines) template"

end
