(* ===== verification/Snapshot.thy ===== *)
theory Snapshot
  imports MemDump QemuRegs
begin

text \<open>
  \<^verbatim>\<open>snap-vm-qmp.py\<close> and \<^verbatim>\<open>reload-saved-memory-qmp.py\<close>: the memory of the source is dumped to a file,
  edited by \<^verbatim>\<open>modify-mem-dump\<close>, cut into two parts around the pages of the resume code, and loaded into
  the target around them. The memory commands of QEMU and \<^verbatim>\<open>dd\<close> are not part of the repository: they
  are the record \<open>host\<close>. The device state and the commands that only print are left out.
\<close>

type_synonym ram = "nat \<Rightarrow> u8"

text \<open>
  \<open>pmemsave\<close> and \<open>pmemload\<close> take an address and a size; \<open>dd\<close> takes the block size, the blocks to skip
  and to copy. Without \<^verbatim>\<open>skip\<close> it skips nothing.
\<close>

record host =
  pmemsave :: "nat \<Rightarrow> nat \<Rightarrow> ram \<Rightarrow> dump_file"
  pmemload :: "nat \<Rightarrow> nat \<Rightarrow> dump_file \<Rightarrow> ram \<Rightarrow> ram"
  dd :: "nat \<Rightarrow> nat \<Rightarrow> nat \<Rightarrow> dump_file \<Rightarrow> dump_file"

section \<open>Finding CR3\<close>

text \<open>\<^verbatim>\<open>re.search("CR3=([0-9a-f]+) ", text)\<close>: the group of the leftmost match.\<close>

fun search_cr3 :: "string \<Rightarrow> string option" where
  "search_cr3 [] = None"
| "search_cr3 (c # s) =
     (let h = takeWhile is_hex (drop 3 s)
      in if take 4 (c # s) = ''CR3='' \<and> h \<noteq> [] \<and> take 1 (dropWhile is_hex (drop 3 s)) = '' ''
         then Some h else search_cr3 s)"

section \<open>The source\<close>

definition GB :: nat where "GB = 1024 * (1024 * 1024)"

definition virt_addr :: string where "virt_addr = ''0xffff88800080c000''"

text \<open>A command of the shell that reads one file and writes another; nothing happens without its input.\<close>

definition copy_part :: "(dump_file \<Rightarrow> dump_file) \<Rightarrow> string \<Rightarrow> string \<Rightarrow> files \<Rightarrow> files" where
  "copy_part f input out fs = (case fs input of None \<Rightarrow> fs | Some d \<Rightarrow> fs(out \<mapsto> f d))"

text \<open>
  \<open>None\<close>: the script ends with an error, because no CR3 was printed. What the shell commands return is
  not looked at. \<open>addr\<close> is where the editor maps the dump.
\<close>

definition snap :: "host \<Rightarrow> u64 \<Rightarrow> ram \<Rightarrow> string \<Rightarrow> files \<Rightarrow> files option" where
  "snap H addr ram info_registers fs =
     (let fs = fs(''mem-dump.bin'' \<mapsto> pmemsave H 0x0 (1 * GB) ram)
      in case search_cr3 info_registers of
        None \<Rightarrow> None
      | Some m \<Rightarrow>
          (let cr3 = ''0x'' @ m;
               fs = snd (main addr fs [''./memdump/modify-mem-dump'', ''mem-dump.bin'', cr3, virt_addr]);
               fs = copy_part (dd H 4096 0 0x80b) ''mem-dump.bin'' ''mem-dump-1.bin'' fs
           in Some (copy_part (dd H 4096 0x80e 0x3f7f2) ''mem-dump.bin'' ''mem-dump-2.bin'' fs)))"

section \<open>The target\<close>

definition load_part :: "host \<Rightarrow> files \<Rightarrow> nat \<Rightarrow> nat \<Rightarrow> string \<Rightarrow> ram \<Rightarrow> ram" where
  "load_part H fs val sz name ram = (case fs name of None \<Rightarrow> ram | Some d \<Rightarrow> pmemload H val sz d ram)"

definition reload :: "host \<Rightarrow> files \<Rightarrow> ram \<Rightarrow> ram" where
  "reload H fs ram =
     (let ram = load_part H fs 0x0 0x80b000 ''mem-dump-1.bin'' ram;
          ram = load_part H fs 0x80e000 0x3F7F2000 ''mem-dump-2.bin'' ram
      in load_part H fs 0x80df08 0x8 ''mem-flag.bin'' ram)"

end
