(* ===== verification/MmuWalk.thy ===== *)
theory MmuWalk
  imports MemDump
begin

text \<open>
  The address translation of the processor (four levels, with 1 GB and 2 MB leaves) as the
  specification of the page-table edit, and what \<open>ClearPageNXFlag\<close> does to it: the edited page
  becomes executable, no translation of any address changes, and nothing else of the dump does.
\<close>

section \<open>Translation by the hardware\<close>

text \<open>
  Level 3 is the table CR3 points to, level 0 holds the 4 KB entries. Bit 0 is present, bit 7 makes
  an entry of level 1 or 2 a leaf, bit 63 forbids execution, bits 12 to 51 are the address.
\<close>

record xlate =
  x_pa :: u64
  x_level :: nat
  x_nx_tables :: bool
  x_nx_leaf :: bool

definition table_addr :: "u64 \<Rightarrow> u64" where
  "table_addr e = e AND 0x000FFFFFFFFFF000"

definition level_index :: "nat \<Rightarrow> u64 \<Rightarrow> u64" where
  "level_index n va = drop_bit (12 + 9 * n) va AND 511"

definition leaf_pa :: "nat \<Rightarrow> u64 \<Rightarrow> u64 \<Rightarrow> u64" where
  "leaf_pa n e va = (table_addr e AND NOT (mask (12 + 9 * n))) OR (va AND mask (12 + 9 * n))"

fun mmu_walk :: "phys \<Rightarrow> nat \<Rightarrow> u64 \<Rightarrow> u64 \<Rightarrow> xlate option" where
  "mmu_walk m 0 t va = do {
     e \<leftarrow> load64 m (physmem m + table_addr t + 8 * level_index 0 va);
     if bit e 0
     then Some \<lparr>x_pa = leaf_pa 0 e va, x_level = 0, x_nx_tables = False, x_nx_leaf = bit e 63\<rparr>
     else None }"
| "mmu_walk m (Suc n) t va = do {
     e \<leftarrow> load64 m (physmem m + table_addr t + 8 * level_index (Suc n) va);
     if \<not> bit e 0 then None
     else if Suc n \<le> 2 \<and> bit e 7
     then Some \<lparr>x_pa = leaf_pa (Suc n) e va, x_level = Suc n, x_nx_tables = False,
                x_nx_leaf = bit e 63\<rparr>
     else map_option (\<lambda>x. x\<lparr>x_nx_tables := x_nx_tables x \<or> bit e 63\<rparr>) (mmu_walk m n e va) }"

definition mmu_translate :: "phys \<Rightarrow> u64 \<Rightarrow> u64 \<Rightarrow> xlate option" where
  "mmu_translate m cr3 va = mmu_walk m 3 cr3 va"

definition executable :: "xlate \<Rightarrow> bool" where
  "executable x \<longleftrightarrow> \<not> x_nx_tables x \<and> \<not> x_nx_leaf x"

text \<open>The walk at the levels a four-level table has, for evaluation and for case analysis.\<close>

lemma mmu_walk_levels:
  "mmu_walk m 3 t va = do {
     e \<leftarrow> load64 m (physmem m + table_addr t + 8 * level_index 3 va);
     if \<not> bit e 0 then None
     else map_option (\<lambda>x. x\<lparr>x_nx_tables := x_nx_tables x \<or> bit e 63\<rparr>) (mmu_walk m 2 e va) }"
  "mmu_walk m 2 t va = do {
     e \<leftarrow> load64 m (physmem m + table_addr t + 8 * level_index 2 va);
     if \<not> bit e 0 then None
     else if bit e 7
     then Some \<lparr>x_pa = leaf_pa 2 e va, x_level = 2, x_nx_tables = False, x_nx_leaf = bit e 63\<rparr>
     else map_option (\<lambda>x. x\<lparr>x_nx_tables := x_nx_tables x \<or> bit e 63\<rparr>) (mmu_walk m 1 e va) }"
  "mmu_walk m (Suc 0) t va = do {
     e \<leftarrow> load64 m (physmem m + table_addr t + 8 * level_index 1 va);
     if \<not> bit e 0 then None
     else if bit e 7
     then Some \<lparr>x_pa = leaf_pa 1 e va, x_level = 1, x_nx_tables = False, x_nx_leaf = bit e 63\<rparr>
     else map_option (\<lambda>x. x\<lparr>x_nx_tables := x_nx_tables x \<or> bit e 63\<rparr>) (mmu_walk m 0 e va) }"
  by (simp_all add: numeral_3_eq_3 numeral_2_eq_2 cong: if_cong)

section \<open>Editing one no-execute bit\<close>

text \<open>
  \<open>m'\<close> is \<open>m\<close> with the no-execute bit of the word at \<open>p\<close> cleared, and \<open>p\<close> is a multiple of eight.
\<close>

definition nx_cleared :: "phys \<Rightarrow> u64 \<Rightarrow> phys \<Rightarrow> bool" where
  "nx_cleared m p m' \<longleftrightarrow> file_off m p mod 8 = 0 \<and>
     (\<exists>w. load64 m p = Some w \<and> store64 m p (w AND NOT PAGE_NX) = Some m')"

lemma bit_PAGE_NX [simp]: "bit PAGE_NX n \<longleftrightarrow> n = 63"
  unfolding PAGE_NX_def bit_push_bit_iff bit_1_iff by auto

lemma bit_PAGE_PSE [simp]: "bit PAGE_PSE n \<longleftrightarrow> n = 7"
  unfolding PAGE_PSE_def bit_push_bit_iff bit_1_iff by auto

lemma table_addr_clear_nx [simp]: "table_addr (w AND NOT PAGE_NX) = table_addr w"
proof -
  have "PAGE_NX AND 0x000FFFFFFFFFF000 = 0"
    by (simp add: PAGE_NX_def)
  then show ?thesis
    unfolding table_addr_def by (intro and_not_disjoint) (simp add: and.commute)
qed

lemma leaf_pa_clear_nx [simp]: "leaf_pa n (w AND NOT PAGE_NX) va = leaf_pa n w va"
  by (simp add: leaf_pa_def)

lemma nx_cleared_physmem: "nx_cleared m p m' \<Longrightarrow> physmem m' = physmem m"
  by (auto simp: nx_cleared_def dest: store64_frame)

lemma table_addr_aligned: "take_bit 3 (table_addr t) = 0"
  unfolding table_addr_def by (rule masked_aligned)

text \<open>Every table entry keeps all its bits, but for the no-execute bit, which can only be cleared.\<close>

lemma nx_cleared_entry:
  assumes "nx_cleared m p m'" and "load64 m (physmem m + table_addr t + 8 * i) = Some e"
  shows "\<exists>e'. load64 m' (physmem m + table_addr t + 8 * i) = Some e'
    \<and> (e' = e \<or> e' = e AND NOT PAGE_NX)"
proof -
  from assms(1) obtain w where w: "load64 m p = Some w"
    "store64 m p (w AND NOT PAGE_NX) = Some m'" "file_off m p mod 8 = 0"
    by (auto simp: nx_cleared_def)
  have "p = physmem m + table_addr t + 8 * i \<or> apart m p (physmem m + table_addr t + 8 * i)"
    by (rule aligned_apart [OF w(3) entry_aligned [OF table_addr_aligned]])
  from pm.clear_bits_word [OF w(1,2) this assms(2)] show ?thesis by blast
qed

lemma nx_cleared_no_entry:
  assumes "nx_cleared m p m'" and "load64 m q = None"
  shows "load64 m' q = None"
  using assms store64_frame store64_layout
  by (fastforce simp: nx_cleared_def load64_def Let_def split: if_splits)

text \<open>A translation after the edit is the one before, with no more no-execute bits.\<close>

definition same_mapping :: "xlate option \<Rightarrow> xlate option \<Rightarrow> bool" where
  "same_mapping a b \<longleftrightarrow> (case (a, b) of
     (None, None) \<Rightarrow> True
   | (Some x, Some y) \<Rightarrow> x_pa y = x_pa x \<and> x_level y = x_level x
       \<and> (x_nx_tables y \<longrightarrow> x_nx_tables x) \<and> (x_nx_leaf y \<longrightarrow> x_nx_leaf x)
   | _ \<Rightarrow> False)"

lemma mmu_walk_cong: "table_addr t = table_addr t' \<Longrightarrow> mmu_walk m n t va = mmu_walk m n t' va"
  by (cases n) simp_all

lemma mmu_walk_nx_cleared:
  assumes "nx_cleared m p m'"
  shows "same_mapping (mmu_walk m n t va) (mmu_walk m' n t va)"
proof (induction n arbitrary: t)
  case 0
  show ?case
  proof (cases "load64 m (physmem m + table_addr t + 8 * level_index 0 va)")
    case None
    with nx_cleared_no_entry [OF assms None] show ?thesis
      by (simp add: same_mapping_def nx_cleared_physmem [OF assms])
  next
    case (Some e)
    with nx_cleared_entry [OF assms Some] show ?thesis
      by (auto simp: same_mapping_def nx_cleared_physmem [OF assms] bit_simps)
  qed
next
  case (Suc n)
  show ?case
  proof (cases "load64 m (physmem m + table_addr t + 8 * level_index (Suc n) va)")
    case None
    with nx_cleared_no_entry [OF assms None] show ?thesis
      by (simp add: same_mapping_def nx_cleared_physmem [OF assms])
  next
    case (Some e)
    then obtain e' where e': "e' = e \<or> e' = e AND NOT PAGE_NX"
      "load64 m' (physmem m + table_addr t + 8 * level_index (Suc n) va) = Some e'"
      using nx_cleared_entry [OF assms Some] by blast
    then have same: "bit e' 0 = bit e 0" "bit e' 7 = bit e 7" "bit e' 63 \<longrightarrow> bit e 63"
      "\<And>k. leaf_pa k e' va = leaf_pa k e va" "mmu_walk m' n e' va = mmu_walk m' n e va"
      by (auto simp: bit_simps intro: mmu_walk_cong)
    from Some e'(2) same Suc.IH [of e] show ?thesis
      by (auto simp: same_mapping_def nx_cleared_physmem [OF assms] split: option.splits)
  qed
qed

section \<open>The walk of the tool is the walk of the hardware\<close>

lemma level_index_simps:
  "pgd_index va = level_index 3 va" "pud_index va = level_index 2 va"
  "pmd_index va = level_index 1 va" "pte_index va = level_index 0 va"
  by (simp_all add: level_index_def pgd_index_def pud_index_def pmd_index_def pte_index_def
      ENTRIES_def)

lemma and_PAGE_PSE [simp]: "w AND PAGE_PSE = 0 \<longleftrightarrow> \<not> bit w 7"
  using bit_eq_iff [of "w AND PAGE_PSE" 0] by (auto simp: bit_and_iff dest: spec [of _ 7])

lemma page_vaddr_table:
  "pgd_page_vaddr \<lparr>pgd_val = w\<rparr> = table_addr w"
  "\<not> bit w 7 \<Longrightarrow> pud_page_vaddr \<lparr>pud_val = w\<rparr> = table_addr w"
  "\<not> bit w 7 \<Longrightarrow> pmd_page_vaddr \<lparr>pmd_val = w\<rparr> = table_addr w"
  by (simp_all add: pgd_page_vaddr_def pud_page_vaddr_def pmd_page_vaddr_def table_addr_def
      pud_pfn_mask_def pmd_pfn_mask_def native_pud_val_def native_pmd_val_def)

lemmas walk_defs =
  ClearPageNXFlag_def deref_pgd_def deref_pud_def deref_pmd_def deref_pte_def pud_offset_def
  pmd_offset_def pte_offset_kernel_def pgd_offset_pgd_def pgd_none_def pud_none_def pmd_none_def
  level_index_simps

text \<open>The entries a walk reads on its way to a 4 KB page.\<close>

lemma mmu_translate_4k:
  assumes "mmu_translate m cr3 va = Some x" and "x_level x = 0"
  obtains e3 e2 e1 e0 where
    "load64 m (physmem m + table_addr cr3 + 8 * level_index 3 va) = Some e3" "bit e3 0"
    "load64 m (physmem m + table_addr e3 + 8 * level_index 2 va) = Some e2" "bit e2 0" "\<not> bit e2 7"
    "load64 m (physmem m + table_addr e2 + 8 * level_index 1 va) = Some e1" "bit e1 0" "\<not> bit e1 7"
    "load64 m (physmem m + table_addr e1 + 8 * level_index 0 va) = Some e0" "bit e0 0"
  using assms unfolding mmu_translate_def
  by (auto simp: mmu_walk_levels bind_eq_Some_conv split: if_splits)

lemma present_not_none: "bit w 0 \<Longrightarrow> w \<noteq> (0 :: u64)"
  by auto

text \<open>
  The mapping is in the address space of the process and not at address 0, so no pointer into it
  is null.
\<close>

definition user_mapping :: "phys \<Rightarrow> bool" where
  "user_mapping m \<longleftrightarrow> physmem m \<noteq> 0 \<and> unat (physmem m) + st_size m \<le> 2 ^ 64"

lemma unat_minus_word: "(p :: u64) \<noteq> 0 \<Longrightarrow> unat (0 - p) = 2 ^ 64 - unat p"
  using unat_sub_if' [of 0 p] by (simp add: word_unat_eq_iff)

lemma user_mapping_not_null:
  assumes "user_mapping m" and "load64 m p = Some w"
  shows "p \<noteq> 0"
proof
  assume "p = 0"
  with assms show False
    using unat_minus_word [of "physmem m"] unsigned_less [of "physmem m"]
    by (auto simp: user_mapping_def load64_def file_off_def Let_def split: if_splits)
qed

text \<open>Where the tool finds a present 4 KB entry, it clears the no-execute bit of exactly that entry.\<close>

lemma ClearPageNXFlag_present:
  assumes "user_mapping m" and "table_addr cr3 = cr3"
    and "mmu_translate m cr3 va = Some x" and "x_level x = 0"
  obtains m' p where "ClearPageNXFlag m cr3 va = Some (0, m')" and "nx_cleared m p m'"
    and "\<And>y. mmu_translate m' cr3 va = Some y \<Longrightarrow> \<not> x_nx_leaf y"
proof -
  obtain e3 e2 e1 e0 where
    e: "load64 m (physmem m + cr3 + 8 * level_index 3 va) = Some e3" "bit e3 0"
    "load64 m (physmem m + table_addr e3 + 8 * level_index 2 va) = Some e2" "bit e2 0" "\<not> bit e2 7"
    "load64 m (physmem m + table_addr e2 + 8 * level_index 1 va) = Some e1" "bit e1 0" "\<not> bit e1 7"
    "load64 m (physmem m + table_addr e1 + 8 * level_index 0 va) = Some e0" "bit e0 0"
    using mmu_translate_4k [OF assms(3,4)] assms(2) by metis
  let ?p = "physmem m + table_addr e1 + 8 * level_index 0 va"
  from pm.store_defined [OF e(9)] obtain m' where m': "store64 m ?p (e0 AND NOT PAGE_NX) = Some m'"
    by blast
  have "?p \<noteq> 0"
    using user_mapping_not_null [OF assms(1) e(9)] .
  then have run: "ClearPageNXFlag m cr3 va = Some (0, m')"
    using e m' by (simp add: walk_defs page_vaddr_table present_not_none Let_def)
  have cleared: "nx_cleared m ?p m'"
    using entry_aligned [OF table_addr_aligned] e(9) m' by (auto simp: nx_cleared_def)
  have pm: "physmem m' = physmem m"
    using cleared by (rule nx_cleared_physmem)
  have leaf: "load64 m' ?p = Some (e0 AND NOT PAGE_NX)"
    using m' by (rule pm.load_store)
  have "\<not> x_nx_leaf y" if y: "mmu_translate m' cr3 va = Some y" for y
  proof -
    have lvl: "x_level y = 0"
      using mmu_walk_nx_cleared [OF cleared, of 3 cr3 va] assms(3,4) y
      by (simp add: same_mapping_def mmu_translate_def)
    obtain d3 d2 d1 where
      d: "load64 m' (physmem m + cr3 + 8 * level_index 3 va) = Some d3"
      "load64 m' (physmem m + table_addr d3 + 8 * level_index 2 va) = Some d2" "\<not> bit d2 7"
      "load64 m' (physmem m + table_addr d2 + 8 * level_index 1 va) = Some d1" "\<not> bit d1 7"
      using mmu_translate_4k [OF y lvl] assms(2) pm by metis
    have "table_addr d3 = table_addr e3"
      using nx_cleared_entry [OF cleared, of cr3 "level_index 3 va" e3] e(1) d(1) assms(2) by auto
    then have "table_addr d2 = table_addr e2"
      using nx_cleared_entry [OF cleared e(3)] d(2) by auto
    then have "table_addr d1 = table_addr e1"
      using nx_cleared_entry [OF cleared e(6)] d(4) by auto
    with \<open>table_addr d3 = _\<close> \<open>table_addr d2 = _\<close> show ?thesis
      using y d leaf assms(2) pm unfolding mmu_translate_def
      by (auto simp: mmu_walk_levels bind_eq_Some_conv bit_simps split: if_splits)
  qed
  with run cleared show ?thesis by (rule that)
qed

text \<open>What every run of the tool does to the dump.\<close>

lemma pte_offset_nx_cleared:
  assumes "pte_offset_kernel m pmd va = Some p" and "load64 m p = Some w"
    and "store64 m p (w AND NOT PAGE_NX) = Some m'"
  shows "nx_cleared m p m'"
  using assms entry_aligned [OF pfn_mask_aligned(3)]
  by (auto simp: pte_offset_kernel_def bind_eq_Some_conv nx_cleared_def)

lemma ClearPageNXFlag_cases:
  assumes "ClearPageNXFlag m cr3 va = Some (rc, m')"
  shows "rc \<in> {-1, -2, -3, -4} \<and> m' = m \<or> rc = 0 \<and> (\<exists>p. nx_cleared m p m')"
  using assms pte_offset_nx_cleared
  by (fastforce simp: ClearPageNXFlag_def Let_def bind_eq_Some_conv deref_pte_def
      split: if_splits)

end
