(* ===== verification/MemDumpProps.thy ===== *)
theory MemDumpProps
  imports MmuWalk
begin

text \<open>
  The properties of the dump editor: the edited page becomes executable, no translation changes,
  every return code, the bytes of the file that can change, the behaviour on 2 MB pages, the TSS
  descriptor, and the command line. The witnesses run on one small dump, \<open>demo_dump\<close>.
\<close>

section \<open>A concrete dump\<close>

text \<open>A sparse file given by its non-zero words at offsets that are multiples of eight.\<close>

definition word_file :: "(nat \<times> u64) list \<Rightarrow> nat \<Rightarrow> u8" where
  "word_file ws k = (case map_of ws (k - k mod 8) of None \<Rightarrow> 0 | Some w \<Rightarrow> le_byte w (k mod 8))"

lemma le_word_zero: "le_word (\<lambda>i. 0) = 0"
  by (rule bit_eqI) (simp add: bit_le_word)

lemma load64_word_file:
  assumes "unat (p - a) mod 8 = 0" and "unat (p - a) + 8 \<le> n"
  shows "load64 \<lparr>physmem = a, st_size = n, file_bytes = word_file ws\<rparr> p =
    Some (case map_of ws (unat (p - a)) of None \<Rightarrow> 0 | Some w \<Rightarrow> w)"
proof -
  have idx: "(unat (p - a) + i) mod 8 = i" if "i < 8" for i
    using mod_add_left_eq [of "unat (p - a)" 8 i] assms(1) that by simp
  have "le_word (\<lambda>i. word_file ws (unat (p - a) + i)) =
      le_word (\<lambda>i. case map_of ws (unat (p - a)) of None \<Rightarrow> 0 | Some w \<Rightarrow> le_byte w i)"
    by (rule le_word_cong) (simp add: word_file_def idx split: option.split)
  also have "\<dots> = (case map_of ws (unat (p - a)) of None \<Rightarrow> 0 | Some w \<Rightarrow> w)"
    by (cases "map_of ws (unat (p - a))")
      (simp_all add: le_word_bytes le_word_zero)
  finally show ?thesis
    using assms(2) by (simp add: load64_def file_off_def)
qed

definition demo_va :: u64 where "demo_va = 0xffff88800080c000"

text \<open>
  Tables at 0x1000, 0x2000, 0x3000 and 0x4000 map \<open>demo_va\<close> to the page 0x80c000, which is not
  executable; \<open>demo_va2\<close> lies in a 2 MB page, and a TSS descriptor is marked busy.
\<close>

definition demo_va2 :: u64 where "demo_va2 = 0xffff888000a01000"

definition demo_words :: "(nat \<times> u64) list" where
  "demo_words = [(0x1888, 0x2067), (0x2000, 0x3067), (0x3020, 0x4067), (0x3028, 0x80000000002000e3),
     (0x4060, 0x800000000080c063), (0x200008, 0x8000000000000001), (0x3d00b040, 0x00008b003000206f)]"

definition demo_dump :: phys where
  "demo_dump = \<lparr>physmem = 0x7f0000000000, st_size = 0x40000000, file_bytes = word_file demo_words\<rparr>"

lemma demo_load:
  assumes "unat (p - 0x7f0000000000) mod 8 = 0" and "unat (p - 0x7f0000000000) + 8 \<le> 0x40000000"
  shows "load64 demo_dump p =
    Some (case map_of demo_words (unat (p - 0x7f0000000000)) of None \<Rightarrow> 0 | Some w \<Rightarrow> w)"
  unfolding demo_dump_def by (rule load64_word_file [OF assms])

lemma demo_fields [simp]: "physmem demo_dump = 0x7f0000000000" "st_size demo_dump = 0x40000000"
  by (simp_all add: demo_dump_def)

lemmas demo_eval = demo_load demo_words_def demo_va_def demo_va2_def level_index_def table_addr_def
  mmu_translate_def mmu_walk_levels mmu_walk.simps(1) leaf_pa_def
  mask_eq_exp_minus_1

lemma demo_translate:
  "mmu_translate demo_dump 0x1000 demo_va =
     Some \<lparr>x_pa = 0x80c000, x_level = 0, x_nx_tables = False, x_nx_leaf = True\<rparr>"
  by (simp add: demo_eval del: mmu_walk.simps(2))

lemma demo_user_mapping: "user_mapping demo_dump"
  by (simp add: user_mapping_def)

section \<open>The edited page becomes executable\<close>

text \<open>
  C3. For an address the hardware maps to a 4 KB page through tables that allow execution,
  \<open>ClearPageNXFlag\<close> returns 0, and afterwards the hardware translates the address to the same
  physical address and may execute it.
\<close>

theorem ClearPageNXFlag_makes_executable:
  assumes "user_mapping m" and "table_addr cr3 = cr3"
    and "mmu_translate m cr3 va = Some x" and "x_level x = 0" and "\<not> x_nx_tables x"
  shows "\<exists>m' y. ClearPageNXFlag m cr3 va = Some (0, m') \<and> mmu_translate m' cr3 va = Some y
    \<and> x_pa y = x_pa x \<and> executable y"
proof -
  obtain m' p where run: "ClearPageNXFlag m cr3 va = Some (0, m')" and cl: "nx_cleared m p m'"
    and leaf: "\<And>y. mmu_translate m' cr3 va = Some y \<Longrightarrow> \<not> x_nx_leaf y"
    using ClearPageNXFlag_present [OF assms(1-4)] by blast
  from mmu_walk_nx_cleared [OF cl, of 3 cr3 va] assms(3)
  obtain y where "mmu_translate m' cr3 va = Some y" "x_pa y = x_pa x"
    "x_nx_tables y \<longrightarrow> x_nx_tables x"
    by (auto simp: same_mapping_def mmu_translate_def split: option.splits)
  with run leaf assms(5) show ?thesis by (auto simp: executable_def)
qed

theorem ClearPageNXFlag_makes_executable_witness:
  "\<exists>m' y. ClearPageNXFlag demo_dump 0x1000 demo_va = Some (0, m')
    \<and> mmu_translate m' 0x1000 demo_va = Some y \<and> x_pa y = 0x80c000 \<and> executable y"
  using ClearPageNXFlag_makes_executable [OF demo_user_mapping _ demo_translate]
  by (simp add: table_addr_def)

section \<open>No translation changes\<close>

text \<open>
  C4. Whatever the tool returns, and whatever table and address one asks about, the hardware finds
  the same mapping as before (present or not, address, page size), with no more no-execute bits: the
  edit cannot redirect, remove or restrict any mapping, even if the tables alias each other.
\<close>

theorem ClearPageNXFlag_preserves_mappings:
  assumes "ClearPageNXFlag m cr3 va = Some (rc, m')"
  shows "same_mapping (mmu_translate m c v) (mmu_translate m' c v)"
proof -
  have "same_mapping (mmu_translate m c v) (mmu_translate m c v)"
    by (simp add: same_mapping_def split: option.split)
  with ClearPageNXFlag_cases [OF assms] mmu_walk_nx_cleared show ?thesis
    unfolding mmu_translate_def by blast
qed

theorem ClearPageNXFlag_preserves_mappings_witness:
  "\<exists>m'. same_mapping (mmu_translate demo_dump 0x1000 demo_va2) (mmu_translate m' 0x1000 demo_va2)
    \<and> m' = demo_dump"
proof -
  have "ClearPageNXFlag demo_dump 0x1000 0 = Some (-1, demo_dump)"
    by (simp add: walk_defs demo_eval Let_def)
  from ClearPageNXFlag_preserves_mappings [OF this, of "0x1000" demo_va2] show ?thesis by blast
qed

section \<open>Return codes\<close>

lemma pte_pointer_not_null:
  assumes "physmem m \<noteq> 0" and "unat (physmem m) + 2 ^ 53 \<le> 2 ^ 64"
    and "pte_offset_kernel m pmd va = Some p"
  shows "p \<noteq> 0"
proof -
  from assms(3) obtain e where p: "p = physmem m + (pmd_page_vaddr e + 8 * pte_index va)"
    by (auto simp: pte_offset_kernel_def bind_eq_Some_conv algebra_simps)
  have "unat (pmd_page_vaddr e) < 2 ^ 52"
    using unat_and_le [of "pmd_val e" "pmd_pfn_mask e"]
    by (simp add: pmd_page_vaddr_def pmd_pfn_mask_def split: if_splits)
  moreover have "unat (pte_index va) \<le> 511"
    using unat_and_le [of "drop_bit 12 va" 511] by (simp add: pte_index_def ENTRIES_def)
  then have "unat (8 * pte_index va) \<le> 4088"
    using mod_less_eq_dividend [of "8 * unat (pte_index va)" "2 ^ 64"]
    by (simp only: unat_word_ariths) simp
  ultimately have "unat (pmd_page_vaddr e) + unat (8 * pte_index va) < 2 ^ 53"
    by simp
  then have "unat (pmd_page_vaddr e + 8 * pte_index va) < 2 ^ 53"
    using unat_plus_if' [of "pmd_page_vaddr e" "8 * pte_index va"] by simp
  then have "unat p = unat (physmem m) + unat (pmd_page_vaddr e + 8 * pte_index va)"
    using unat_plus_if' [of "physmem m" "pmd_page_vaddr e + 8 * pte_index va"] assms(2)
    unfolding p by simp
  with assms(1) show ?thesis by (auto simp flip: unat_gt_0)
qed

lemma ClearPageNXFlag_null:
  "ClearPageNXFlag m cr3 va = Some (-4, m') \<Longrightarrow> \<exists>pmd. pte_offset_kernel m pmd va = Some 0"
  by (auto simp: ClearPageNXFlag_def Let_def bind_eq_Some_conv split: if_splits)

text \<open>The addresses of the entries the walk reads, in order, and their words.\<close>

lemma ClearPageNXFlag_levels:
  assumes "ClearPageNXFlag m cr3 va = Some (rc, m')"
  obtains w where "load64 m (pgd_offset_pgd (physmem m + cr3) va) = Some w" "w = 0" "rc = -1"
  | w pud w' where "load64 m (pgd_offset_pgd (physmem m + cr3) va) = Some w" "w \<noteq> 0"
      "pud_offset m (pgd_offset_pgd (physmem m + cr3) va) va = Some pud" "load64 m pud = Some w'"
      "w' = 0" "rc = -2"
  | w pud w' pmd w'' where "load64 m (pgd_offset_pgd (physmem m + cr3) va) = Some w" "w \<noteq> 0"
      "pud_offset m (pgd_offset_pgd (physmem m + cr3) va) va = Some pud" "load64 m pud = Some w'"
      "w' \<noteq> 0" "pmd_offset m pud va = Some pmd" "load64 m pmd = Some w''"
      "rc = -3 \<longleftrightarrow> w'' = 0" "rc \<in> {0, -3, -4}"
  using assms
  by (auto simp: ClearPageNXFlag_def Let_def bind_eq_Some_conv deref_pgd_def deref_pud_def
      deref_pmd_def pgd_none_def pud_none_def pmd_none_def split: if_splits)

text \<open>
  C9. The return code names the level whose entry is empty (the whole word is zero), in the order of
  the walk: -1 for the top level, -2 for the second, -3 for the third. With an error code the dump is
  not changed. The code -4 (a null pointer to the last entry) is never returned, because the dump is
  mapped below the last 2^53 bytes of the address space and not at 0.
\<close>

theorem ClearPageNXFlag_return_codes:
  assumes "physmem m \<noteq> 0" and "unat (physmem m) + 2 ^ 53 \<le> 2 ^ 64"
    and "ClearPageNXFlag m cr3 va = Some (rc, m')"
    and "pgd = physmem m + cr3 + 8 * pgd_index va"
  shows "rc \<in> {0, -1, -2, -3} \<and> (rc \<noteq> 0 \<longrightarrow> m' = m)
    \<and> (rc = -1 \<longleftrightarrow> load64 m pgd = Some 0)
    \<and> (rc = -2 \<longleftrightarrow> load64 m pgd \<noteq> Some 0
         \<and> (\<exists>pud. pud_offset m pgd va = Some pud \<and> load64 m pud = Some 0))
    \<and> (rc = -3 \<longleftrightarrow> load64 m pgd \<noteq> Some 0
         \<and> (\<exists>pud pmd. pud_offset m pgd va = Some pud \<and> load64 m pud \<noteq> Some 0
              \<and> pmd_offset m pud va = Some pmd \<and> load64 m pmd = Some 0))"
proof -
  have "rc \<noteq> -4"
    using ClearPageNXFlag_null [of m cr3 va m'] assms(3) pte_pointer_not_null [OF assms(1,2)] by auto
  moreover from this ClearPageNXFlag_cases [OF assms(3)]
  have "rc \<in> {0, -1, -2, -3} \<and> (rc \<noteq> 0 \<longrightarrow> m' = m)"
    by auto
  moreover have "pgd = pgd_offset_pgd (physmem m + cr3) va"
    using assms(4) by (simp add: pgd_offset_pgd_def)
  ultimately show ?thesis
    using assms(3) by (elim ClearPageNXFlag_levels) auto
qed

theorem ClearPageNXFlag_return_codes_witness:
  "load64 demo_dump (physmem demo_dump + 0x1000 + 8 * pgd_index 0) = Some 0"
proof -
  have "ClearPageNXFlag demo_dump 0x1000 0 = Some (-1, demo_dump)"
    by (simp add: walk_defs demo_eval Let_def)
  from ClearPageNXFlag_return_codes [OF _ _ this refl] show ?thesis by simp
qed

section \<open>The TSS descriptor\<close>

text \<open>The four type bits of a system descriptor: 11 is a busy 64-bit TSS, 9 an available one.\<close>

definition desc_type :: "u64 \<Rightarrow> u64" where
  "desc_type w = drop_bit 40 w AND 0xF"

lemma desc_type_clear_busy: "desc_type (w AND NOT (push_bit 41 1)) = desc_type w AND 0xD"
  by (simp add: desc_type_def drop_bit_and and.assoc)

abbreviation tss_addr :: "phys \<Rightarrow> u64" where
  "tss_addr m \<equiv> physmem m + gdt_phys_addr + tss_offset"

lemma clear_tss_busy_Some:
  assumes "clear_tss_busy m = Some m'"
  obtains w where "load64 m (tss_addr m) = Some w"
    and "store64 m (tss_addr m) (w AND NOT (push_bit 41 1)) = Some m'"
  using assms by (auto simp: clear_tss_busy_def Let_def bind_eq_Some_conv)

lemma file_off_tss [simp]: "file_off m (tss_addr m) = 0x3d00b040"
  by (simp add: file_off_def gdt_phys_addr_def tss_offset_def add.assoc)

text \<open>
  C10. A busy 64-bit TSS descriptor becomes an available one (type 11 to type 9), which is what lets
  the guest load it again; every other bit of the descriptor, the size and the place of the mapping
  stay. The edit is defined exactly when the dump reaches the descriptor.
\<close>

theorem clear_tss_busy_available:
  assumes "load64 m (tss_addr m) = Some w" and "desc_type w = 0xB"
  shows "\<exists>m' w'. clear_tss_busy m = Some m' \<and> load64 m' (tss_addr m) = Some w' \<and> desc_type w' = 0x9
    \<and> (\<forall>n. bit w' n = (bit w n \<and> n \<noteq> 41)) \<and> physmem m' = physmem m \<and> st_size m' = st_size m"
proof -
  let ?w = "w AND NOT (push_bit 41 1)"
  obtain m' where m': "store64 m (tss_addr m) ?w = Some m'"
    using pm.store_defined [OF assms(1)] by blast
  have "clear_tss_busy m = Some m'"
    using assms(1) m' by (simp add: clear_tss_busy_def Let_def)
  moreover have "load64 m' (tss_addr m) = Some ?w"
    using m' by (rule pm.load_store)
  moreover have "desc_type ?w = 0x9"
    using desc_type_clear_busy [of w] assms(2) by simp
  moreover have "\<forall>n. bit ?w n = (bit w n \<and> n \<noteq> 41)"
    unfolding bit_and_iff bit_not_iff bit_push_bit_iff bit_1_iff
    by (auto dest: bit_imp_possible_bit)
  ultimately show ?thesis
    using store64_frame [OF m'] by blast
qed

theorem clear_tss_busy_available_witness:
  "\<exists>m' w'. clear_tss_busy demo_dump = Some m' \<and> load64 m' (tss_addr demo_dump) = Some w'
    \<and> desc_type w' = 0x9"
proof -
  have "load64 demo_dump (tss_addr demo_dump) = Some 0x00008b003000206f"
    by (simp add: demo_eval gdt_phys_addr_def tss_offset_def)
  from clear_tss_busy_available [OF this] show ?thesis
    by (auto simp: desc_type_def)
qed

section \<open>What the tool changes in the file\<close>

lemma nx_cleared_bytes:
  assumes "nx_cleared m p m'"
  shows "\<exists>k. k mod 8 = 7 \<and> file_bytes m' = (file_bytes m)(k := file_bytes m k AND 0x7F)"
proof -
  from assms obtain w where w: "load64 m p = Some w"
    "store64 m p (w AND NOT (push_bit 63 1)) = Some m'" "file_off m p mod 8 = 0"
    by (auto simp: nx_cleared_def PAGE_NX_def)
  have "(file_off m p + 7) mod 8 = 7"
    using w(3) by presburger
  moreover have "NOT (push_bit 7 1) = (0x7F :: u8)"
    by simp
  moreover have "file_bytes m' = (file_bytes m)(file_off m p + 7 :=
      file_bytes m (file_off m p + 7) AND NOT (push_bit 7 1))"
    using store64_clear_bit [OF w(1,2)] by simp
  ultimately show ?thesis by metis
qed

lemma clear_tss_busy_bytes:
  assumes "clear_tss_busy m = Some m'"
  shows "file_bytes m' = (file_bytes m)(0x3d00b045 := file_bytes m 0x3d00b045 AND 0xFD)"
proof -
  obtain w where "load64 m (tss_addr m) = Some w"
    "store64 m (tss_addr m) (w AND NOT (push_bit 41 1)) = Some m'"
    using assms by (rule clear_tss_busy_Some)
  then have "file_bytes m' = (file_bytes m)(file_off m (tss_addr m) + 41 div 8 :=
      file_bytes m (file_off m (tss_addr m) + 41 div 8) AND NOT (push_bit (41 mod 8) 1))"
    by (rule store64_clear_bit) simp
  moreover have "NOT (push_bit (41 mod 8) 1) = (0xFD :: u8)" and "0x3d00b040 + 41 div 8 = (0x3d00b045 :: nat)"
    by simp_all
  ultimately show ?thesis
    by (simp only: file_off_tss)
qed

lemma ClearPageNXFlag_bytes:
  assumes "ClearPageNXFlag m cr3 va = Some (rc, m')"
  shows "\<exists>k. k mod 8 = 7 \<and>
    file_bytes m' = (file_bytes m)(k := file_bytes m k AND (if rc = 0 then 0x7F else 0xFF))"
proof (cases "rc = 0")
  case True
  with ClearPageNXFlag_cases [OF assms] nx_cleared_bytes show ?thesis by fastforce
next
  case False
  from False ClearPageNXFlag_cases [OF assms] have "m' = m"
    by blast
  then show ?thesis
    using False by (intro exI [of _ 7]) simp
qed

lemma ClearPageNXFlag_size:
  "ClearPageNXFlag m cr3 va = Some (rc, m') \<Longrightarrow> st_size m' = st_size m \<and> physmem m' = physmem m"
  by (drule ClearPageNXFlag_cases) (auto simp: nx_cleared_def dest: store64_frame)

text \<open>
  C8. When the tool finishes, at most two bits of one file have changed: bit 7 of a byte at an offset
  that is 7 modulo 8 (the no-execute bit of an entry), and bit 1 of the byte 0x3d00b045 (the busy
  bit). The size of the file and every other file are the same, whatever the walk returned: the busy
  bit is cleared even if the walk failed.
\<close>

theorem modify_mem_dump_changes_two_bits:
  assumes "modify_mem_dump addr fs fn cr3 va = (Returns, fs')" and "fs fn = Some d"
  shows "\<exists>d' k rc m1. ClearPageNXFlag (mmap_shared addr d) cr3 va = Some (rc, m1) \<and>
    fs' = fs(fn \<mapsto> d') \<and> f_size d' = f_size d \<and> k mod 8 = 7 \<and>
    f_bytes d' = (f_bytes d)(k := f_bytes d k AND (if rc = 0 then 0x7F else 0xFF),
                             0x3d00b045 := f_bytes d 0x3d00b045 AND 0xFD)"
proof -
  from assms obtain rc m1 m2 where run: "ClearPageNXFlag (mmap_shared addr d) cr3 va = Some (rc, m1)"
    "clear_tss_busy m1 = Some m2" and fs': "fs' = fs(fn \<mapsto> written_back m2)"
    by (auto simp: modify_mem_dump_def split: option.splits prod.splits)
  obtain k where k: "k mod 8 = 7"
    "file_bytes m1 = (f_bytes d)(k := f_bytes d k AND (if rc = 0 then 0x7F else 0xFF))"
    using ClearPageNXFlag_bytes [OF run(1)] by (auto simp: mmap_shared_def)
  have "k \<noteq> 0x3d00b045"
    using k(1) by auto
  moreover have "st_size m2 = f_size d"
    using ClearPageNXFlag_size [OF run(1)] clear_tss_busy_Some [OF run(2)] store64_frame
    by (metis mmap_shared_def phys.select_convs(2))
  ultimately show ?thesis
    using fs' k run(1) clear_tss_busy_bytes [OF run(2)]
    by (intro exI [of _ "written_back m2"] exI [of _ k] exI [of _ rc] exI [of _ m1])
      (auto simp: written_back_def fun_upd_twist)
qed

definition demo_file :: dump_file where
  "demo_file = \<lparr>f_size = 0x40000000, f_bytes = word_file demo_words\<rparr>"

lemma demo_mmap: "mmap_shared 0x7f0000000000 demo_file = demo_dump"
  by (simp add: mmap_shared_def demo_file_def demo_dump_def)

lemma demo_tss: "\<exists>m. clear_tss_busy demo_dump = Some m"
proof -
  have "load64 demo_dump (tss_addr demo_dump) = Some 0x00008b003000206f"
    by (simp add: demo_eval gdt_phys_addr_def tss_offset_def)
  from pm.store_defined [OF this] show ?thesis
    using \<open>load64 demo_dump _ = _\<close> by (auto simp: clear_tss_busy_def Let_def)
qed

lemma demo_not_mapped: "ClearPageNXFlag demo_dump 0x1000 0 = Some (-1, demo_dump)"
  by (simp add: walk_defs demo_eval Let_def)

theorem modify_mem_dump_changes_two_bits_witness:
  "\<exists>fs' d'. modify_mem_dump 0x7f0000000000 [''d'' \<mapsto> demo_file] ''d'' 0x1000 0 = (Returns, fs')
    \<and> fs' = [''d'' \<mapsto> d'] \<and> f_size d' = f_size demo_file"
proof -
  obtain m where "clear_tss_busy demo_dump = Some m"
    using demo_tss by blast
  then have run: "modify_mem_dump 0x7f0000000000 [''d'' \<mapsto> demo_file] ''d'' 0x1000 0 =
      (Returns, [''d'' \<mapsto> written_back m])"
    by (simp add: modify_mem_dump_def demo_mmap demo_not_mapped)
  from modify_mem_dump_changes_two_bits [OF this] show ?thesis
    using run by auto
qed

section \<open>Large pages\<close>

lemma leaf_pa_frame: "leaf_pa 1 e va AND NOT (mask 21) = e AND PHYSICAL_PMD_PAGE_MASK"
proof -
  have "leaf_pa 1 e va AND NOT (mask 21) = table_addr e AND NOT (mask 21)"
    by (simp add: leaf_pa_def bit_eq_iff bit_simps) blast
  also have "\<dots> = e AND PHYSICAL_PMD_PAGE_MASK"
    by (simp add: table_addr_def and.assoc mask_eq_exp_minus_1)
  finally show ?thesis .
qed

lemma mmu_translate_2m:
  assumes "mmu_translate m cr3 va = Some x" and "x_level x = 1"
  obtains e3 e2 e1 where
    "load64 m (physmem m + table_addr cr3 + 8 * level_index 3 va) = Some e3" "bit e3 0"
    "load64 m (physmem m + table_addr e3 + 8 * level_index 2 va) = Some e2" "bit e2 0" "\<not> bit e2 7"
    "load64 m (physmem m + table_addr e2 + 8 * level_index 1 va) = Some e1" "bit e1 0" "bit e1 7"
    "x_pa x = leaf_pa 1 e1 va"
  using assms unfolding mmu_translate_def
  by (auto simp: mmu_walk_levels bind_eq_Some_conv split: if_splits)

text \<open>
  C11. The walk does not stop at a 2 MB page: for an address in one, the tool takes the page itself
  for a page table, clears bit 63 of a data word inside it and reports success, while the no-execute
  bit of the mapping, in the entry of the level above, is not touched.
\<close>

theorem ClearPageNXFlag_large_page:
  assumes "user_mapping m" and "table_addr cr3 = cr3"
    and "mmu_translate m cr3 va = Some x" and "x_level x = 1"
    and "load64 m (physmem m + (x_pa x AND NOT (mask 21)) + 8 * pte_index va) = Some w"
  shows "\<exists>m'. ClearPageNXFlag m cr3 va = Some (0, m')
    \<and> load64 m' (physmem m + (x_pa x AND NOT (mask 21)) + 8 * pte_index va) = Some (w AND NOT PAGE_NX)"
proof -
  obtain e3 e2 e1 where
    e: "load64 m (physmem m + cr3 + 8 * level_index 3 va) = Some e3" "bit e3 0"
    "load64 m (physmem m + table_addr e3 + 8 * level_index 2 va) = Some e2" "bit e2 0" "\<not> bit e2 7"
    "load64 m (physmem m + table_addr e2 + 8 * level_index 1 va) = Some e1" "bit e1 0" "bit e1 7"
    and pa: "x_pa x = leaf_pa 1 e1 va"
    using mmu_translate_2m [OF assms(3,4)] assms(2) by metis
  let ?p = "physmem m + (x_pa x AND NOT (mask 21)) + 8 * pte_index va"
  have "pmd_page_vaddr \<lparr>pmd_val = e1\<rparr> = x_pa x AND NOT (mask 21)"
    using e(8) leaf_pa_frame [of e1 va]
    by (simp add: pa pmd_page_vaddr_def pmd_pfn_mask_def native_pmd_val_def del: One_nat_def)
  then have ptep: "pte_offset_kernel m (physmem m + table_addr e2 + 8 * level_index 1 va) va = Some ?p"
    using e(6) by (simp add: pte_offset_kernel_def deref_pmd_def)
  obtain m' where m': "store64 m ?p (w AND NOT PAGE_NX) = Some m'"
    using pm.store_defined [OF assms(5)] by blast
  have "ClearPageNXFlag m cr3 va = Some (0, m')"
    using e ptep m' assms(5) user_mapping_not_null [OF assms(1,5)]
    by (simp add: ClearPageNXFlag_def deref_pgd_def deref_pud_def deref_pmd_def deref_pte_def
        pud_offset_def pmd_offset_def pgd_offset_pgd_def pgd_none_def pud_none_def pmd_none_def
        level_index_simps(1-3) page_vaddr_table present_not_none Let_def)
  with pm.load_store [OF m'] show ?thesis by blast
qed

theorem ClearPageNXFlag_large_page_witness:
  "\<exists>m'. ClearPageNXFlag demo_dump 0x1000 demo_va2 = Some (0, m')
    \<and> load64 demo_dump 0x7f0000200008 = Some 0x8000000000000001
    \<and> load64 m' 0x7f0000200008 = Some 1"
proof -
  have t: "mmu_translate demo_dump 0x1000 demo_va2 =
      Some \<lparr>x_pa = 0x201000, x_level = 1, x_nx_tables = False, x_nx_leaf = True\<rparr>"
    by (simp add: demo_eval)
  have l: "load64 demo_dump 0x7f0000200008 = Some 0x8000000000000001"
    by (simp add: demo_eval)
  have p: "physmem demo_dump + (0x201000 AND NOT (mask 21)) + 8 * pte_index demo_va2 = 0x7f0000200008"
    by (simp add: pte_index_def ENTRIES_def demo_va2_def mask_eq_exp_minus_1)
  show ?thesis
    using ClearPageNXFlag_large_page
      [OF demo_user_mapping _ t, unfolded xlate.select_convs p, OF _ _ l] l
    by (simp add: table_addr_def PAGE_NX_def)
qed

section \<open>The command line\<close>

text \<open>
  C12. The exit status of the program is 0 or 1 or it crashes; it is 1 exactly when no file name is
  given or, with all three arguments, the file cannot be opened, and then no file changes. The check
  of \<open>argc\<close> lets two and three arguments pass, and the program crashes on the missing ones.
\<close>

theorem main_outcomes:
  "main addr fs argv = (st, fs') \<Longrightarrow>
     st \<in> {Exits 0, Exits 1, Crashes}
     \<and> (st = Exits 1 \<longleftrightarrow> length argv < 2 \<or> 4 \<le> length argv \<and> fs (argv ! 1) = None)
     \<and> (length argv \<in> {2, 3} \<longrightarrow> st = Crashes)
     \<and> (st = Exits 1 \<or> length argv < 4 \<longrightarrow> fs' = fs)
     \<and> (\<forall>f. f \<noteq> argv ! 1 \<longrightarrow> fs' f = fs f)"
  by (auto simp: main_def modify_mem_dump_def Let_def split: if_splits option.splits prod.splits)

theorem main_outcomes_witness:
  "main 0 Map.empty [''modify-mem-dump'', ''mem-dump.bin''] = (Crashes, Map.empty)
   \<and> (Crashes :: status) \<in> {Exits 0, Exits 1, Crashes}"
proof -
  have run: "main 0 Map.empty [''modify-mem-dump'', ''mem-dump.bin''] = (Crashes, Map.empty)"
    by (simp add: main_def)
  from main_outcomes [OF run] run show ?thesis by blast
qed

section \<open>Reading register values\<close>

text \<open>
  The tool is given register values as 16 lower-case hexadecimal digits after \<open>0x\<close>, the way QEMU
  prints them. \<open>hex_digits k w\<close> are the \<open>k\<close> lowest digits of \<open>w\<close>, most significant first.
\<close>

lemma strtoul_digits_hex:
  "strtoul_digits (CHR ''0'' # CHR ''x'' # hex_digits (Suc k) n) = n mod 16 ^ Suc k"
  using scan_hex_digits [of 0 "Suc k" n] by (simp add: digit_val_hex_char)

lemma strtoul_hex: "strtoul (''0x'' @ hex_digits 16 (unat w)) = w"
proof -
  have digits: "strtoul_digits (''0x'' @ hex_digits 16 (unat w)) = unat w"
  proof -
    have eq: "Suc 15 = 16" "(16 :: nat) ^ 16 = 2 ^ 64"
      by simp_all
    have "unat w mod 2 ^ 64 = unat w"
      using unat_word_lt [of w] by simp
    then show ?thesis
      using strtoul_digits_hex [of 15 "unat w"] unfolding eq append.simps by simp
  qed
  have "\<not> c_isspace (CHR ''0'')"
    by (simp add: c_isspace_def)
  with digits unat_word_lt [of w] show ?thesis
    by (simp add: strtoul_def Let_def)
qed

text \<open>
  C13. The tool edits the page it is told to: given CR3 and the address as the snapshot script writes
  them, 16 hexadecimal digits after \<open>0x\<close>, every 64-bit value is read back, and the run of the program is
  the run of the edit with these values, with the exit status 0 when it finishes.
\<close>

theorem main_reads_registers:
  "main addr fs [prog, fn, ''0x'' @ hex_digits 16 (unat cr3), ''0x'' @ hex_digits 16 (unat va)] =
    (case modify_mem_dump addr fs fn cr3 va of (Returns, fs') \<Rightarrow> (Exits 0, fs') | r \<Rightarrow> r)"
  by (simp add: main_def Let_def strtoul_hex del: append_Cons append_Nil)

section \<open>Low bits of CR3\<close>

text \<open>
  The tool uses the value of CR3 as the address of the first table; the processor ignores the low
  twelve bits (flags, or a process-context identifier), and the mask for it, \<open>cr3_to_pgt_pa\<close>, is
  defined and never used. With low bits set the tool looks at the wrong words.
\<close>

lemma ClearPageNXFlag_unmasked_cr3:
  "mmu_translate demo_dump 0x1005 demo_va = mmu_translate demo_dump 0x1000 demo_va
   \<and> cr3_to_pgt_pa 0x1005 = 0x1000
   \<and> ClearPageNXFlag demo_dump 0x1005 demo_va = Some (-1, demo_dump)"
proof (intro conjI)
  show "mmu_translate demo_dump 0x1005 demo_va = mmu_translate demo_dump 0x1000 demo_va"
    unfolding mmu_translate_def by (rule mmu_walk_cong) (simp add: table_addr_def)
  show "cr3_to_pgt_pa 0x1005 = 0x1000"
    by (simp add: cr3_to_pgt_pa_def CR3_ADDR_MASK_def)
  have "load64 demo_dump 0x7f000000188d = Some 0"
    by (simp add: load64_def file_off_def demo_dump_def word_file_def demo_words_def le_word_def
        le_byte_def upt_rec)
  then show "ClearPageNXFlag demo_dump 0x1005 demo_va = Some (-1, demo_dump)"
    by (simp add: ClearPageNXFlag_def Let_def deref_pgd_def pgd_none_def pgd_offset_pgd_def
        pgd_index_def ENTRIES_def demo_va_def)
qed

end
