(* ===== verification/QemuRegsProps.thy ===== *)
theory QemuRegsProps
  imports QemuRegs
begin

text \<open>
  The lines that QEMU prints for its registers, as a data type with its text, and the proof that the
  script reads every register back: what \<open>process_line\<close> does to the dictionary on each form of line.
\<close>

section \<open>Tokens\<close>

lemma takeWhile_token:
  assumes "\<forall>c\<in>set h. P c" and "r = [] \<or> \<not> P (hd r)"
  shows "takeWhile P (h @ r) = h" and "dropWhile P (h @ r) = r"
  using assms by (cases r; simp)+

lemma is_hex_hex_char: "d < 16 \<Longrightarrow> is_hex (hex_char d)"
  by (auto simp: is_hex_def in_range_def hex_char_def)

lemma hex_digits_hex: "\<forall>c\<in>set (hex_digits k n). is_hex c"
  by (induction k) (simp_all add: is_hex_hex_char)

lemma length_hex_digits [simp]: "length (hex_digits k n) = k"
  by (induction k) simp_all

lemma hex_digits_nonempty [simp]: "hex_digits k n = [] \<longleftrightarrow> k = 0"
  by (cases k) simp_all

lemma class_facts [simp]:
  "\<not> is_hex (CHR '' '')" "\<not> is_name (CHR '' '')" "\<not> is_name (CHR ''='')" "is_space (CHR '' '')"
  "\<not> is_hex (CHR ''='')" "\<not> is_space (CHR ''='')"
  by (simp_all add: is_hex_def is_name_def is_space_def in_range_def)

lemma not_both: "is_hex c \<Longrightarrow> \<not> is_space c" "is_name c \<Longrightarrow> \<not> is_space c" "is_name c \<Longrightarrow> c \<noteq> CHR ''=''"
  "is_name c \<Longrightarrow> c \<noteq> CHR '' ''"
  by (auto simp: is_hex_def is_name_def is_space_def in_range_def)

lemma py_lower_hex: "\<forall>c\<in>set h. is_hex c \<Longrightarrow> py_lower h = h"
proof -
  have "lower_char c = c" if "is_hex c" for c
  proof -
    have "\<forall>c\<in>set ''ABCDEFGHIJKLMNOPQRSTUVWXYZ''. \<not> is_hex c" by (simp add: is_hex_def in_range_def)
    with that have "c \<notin> set ''ABCDEFGHIJKLMNOPQRSTUVWXYZ''" by blast
    then have "map_of (zip ''ABCDEFGHIJKLMNOPQRSTUVWXYZ'' ''abcdefghijklmnopqrstuvwxyz'') c = None"
      by (subst map_of_zip_is_None) simp_all
    then show ?thesis by (simp add: lower_char_def)
  qed
  then show "\<forall>c\<in>set h. is_hex c \<Longrightarrow> py_lower h = h"
    by (induction h) (simp_all add: py_lower_def)
qed

lemma strip_name:
  assumes "\<forall>c\<in>set n. is_name c" and "pad \<in> {'''', '' ''}"
  shows "py_strip (n @ pad) = n"
proof (cases n)
  case Nil
  with assms(2) show ?thesis by (auto simp: py_strip_def)
next
  case (Cons c cs)
  with assms(1) have "\<forall>c\<in>set n. \<not> is_space c" by (simp add: not_both)
  then have "dropWhile is_space (rev n) = rev n" "dropWhile is_space (n @ pad) = n @ pad"
    using Cons last_in_set [of n] by (auto simp: dropWhile_eq_self_iff hd_rev simp del: rev.simps)
  with assms(2) show ?thesis by (auto simp: py_strip_def)
qed

section \<open>Finding registers in a line\<close>

lemma findall_Nil [simp]: "findall_regs [] = []"
  by (simp add: findall_regs.simps [of "[]"] match_reg_def)

lemma findall_skip: "match_reg (c # s) = None \<Longrightarrow> findall_regs (c # s) = findall_regs s"
  by (simp add: findall_regs.simps [of "c # s"])

text \<open>Text without an equals sign that does not run into a name holds no register.\<close>

lemma match_reg_separator:
  assumes "CHR ''='' \<notin> set p" and "p \<noteq> []" and "\<not> is_name (last p)" and "r = [] \<or> hd r \<noteq> CHR ''=''"
  shows "match_reg (p @ r) = None"
proof -
  obtain a x b where p: "p = a @ x # b" "\<forall>c\<in>set a. is_name c" "\<not> is_name x"
    using assms(2,3) split_list_first_prop [of p "\<lambda>c. \<not> is_name c"] last_in_set [of p] by blast
  then have w: "takeWhile is_name (p @ r) = a" "dropWhile is_name (p @ r) = x # b @ r"
    using takeWhile_token [of a is_name "x # b @ r"] by simp_all
  moreover have "x \<noteq> CHR ''=''" using assms(1) p(1) by auto
  moreover have "b @ r = [] \<or> hd (b @ r) \<noteq> CHR ''=''"
    using assms(1,4) p(1) by (cases b) auto
  ultimately show ?thesis
    by (cases "b @ r") (auto simp: match_reg_def Let_def)
qed

lemma findall_separator:
  assumes "CHR ''='' \<notin> set p" and "p = [] \<or> \<not> is_name (last p)" and "r = [] \<or> hd r \<noteq> CHR ''=''"
  shows "findall_regs (p @ r) = findall_regs r"
  using assms(1,2)
proof (induction p)
  case (Cons c p)
  have "match_reg ((c # p) @ r) = None"
    using Cons.prems assms(3) by (intro match_reg_separator) auto
  then show ?case using Cons by (auto simp: findall_skip split: if_splits)
qed simp

lemma findall_register:
  assumes "n \<noteq> []" and "\<forall>c\<in>set n. is_name c" and "pad \<in> {'''', '' ''}"
    and "h \<noteq> []" and "\<forall>c\<in>set h. is_hex c" and "r = [] \<or> \<not> is_hex (hd r)"
  shows "findall_regs (n @ pad @ CHR ''='' # h @ r) = (n @ pad, h) # findall_regs r"
proof -
  have "takeWhile is_name (n @ pad @ CHR ''='' # h @ r) = n"
    "dropWhile is_name (n @ pad @ CHR ''='' # h @ r) = pad @ CHR ''='' # h @ r"
    using takeWhile_token [of n is_name "pad @ CHR ''='' # h @ r"] assms(2,3) by auto
  with assms(1,3,4) takeWhile_token [OF assms(5,6)]
  have "match_reg (n @ pad @ CHR ''='' # h @ r) = Some (n @ pad, h, r)"
    by (auto simp: match_reg_def Let_def)
  then show ?thesis by (simp add: findall_regs.simps [of "n @ pad @ CHR ''='' # h @ r"])
qed

text \<open>An equals sign that is not followed by a digit makes no register.\<close>

lemma findall_no_value:
  assumes "\<forall>c\<in>set n. is_name c" and "r = [] \<or> \<not> is_hex (hd r)"
  shows "findall_regs (n @ CHR ''='' # r) = findall_regs r"
  using assms(1)
proof (induction n)
  case Nil
  then show ?case by (simp add: findall_skip match_reg_def)
next
  case (Cons c n)
  have "takeWhile is_hex r = []" using assms(2) by (cases r) auto
  moreover have "takeWhile is_name ((c # n) @ CHR ''='' # r) = c # n"
    "dropWhile is_name ((c # n) @ CHR ''='' # r) = CHR ''='' # r"
    using takeWhile_token [of "c # n" is_name "CHR ''='' # r"] Cons.prems by simp_all
  ultimately have "match_reg ((c # n) @ CHR ''='' # r) = None"
    by (auto simp: match_reg_def Let_def)
  then show ?case using Cons by (simp add: findall_skip)
qed

section \<open>The lines QEMU prints\<close>

text \<open>
  A register is its name, a space or nothing (as in \<^verbatim>\<open>R8 =\<close>), the number of digits, the value, and
  the text up to the next register. A line is a list of registers, or starts with a segment register
  (its selector and its base), or with a descriptor table register (after \<^verbatim>\<open>GDT=\<close> and \<^verbatim>\<open>IDT=\<close> come
  spaces, the base and the limit).
\<close>

record item =
  i_name :: string
  i_pad :: string
  i_digits :: nat
  i_value :: nat
  i_sep :: string

definition item_text :: "item \<Rightarrow> string" where
  "item_text i = i_name i @ i_pad i @ CHR ''='' # hex_digits (i_digits i) (i_value i) @ i_sep i"

definition sep_ok :: "string \<Rightarrow> bool" where
  "sep_ok s \<longleftrightarrow> s \<noteq> [] \<and> \<not> is_hex (hd s) \<and> CHR ''='' \<notin> set s \<and> \<not> is_name (last s)"

definition name_ok :: "string \<Rightarrow> bool" where
  "name_ok n \<longleftrightarrow> n \<noteq> [] \<and> list_all is_name n"

definition item_ok :: "item \<Rightarrow> bool" where
  "item_ok i \<longleftrightarrow> name_ok (i_name i) \<and> i_pad i \<in> {'''', '' ''} \<and> 0 < i_digits i \<and> sep_ok (i_sep i)"

definition items_text :: "item list \<Rightarrow> string" where
  "items_text is = concat (map item_text is)"

definition items_regs :: "item list \<Rightarrow> (string \<times> string) list" where
  "items_regs is = map (\<lambda>i. (py_lower (i_name i), hex_digits (i_digits i) (i_value i))) is"

datatype qline =
    Regs "item list"
  | Seg string nat nat string "item list"
  | Table string string nat nat nat nat string "item list"

fun qline_text :: "qline \<Rightarrow> string" where
  "qline_text (Regs is) = items_text is"
| "qline_text (Seg n sel base sep is) =
     n @ '' ='' @ hex_digits 4 sel @ '' '' @ hex_digits 16 base @ sep @ items_text is"
| "qline_text (Table n spaces ka a kb b sep is) =
     n @ ''='' @ spaces @ hex_digits ka a @ '' '' @ hex_digits kb b @ sep @ items_text is"

fun qline_ok :: "qline \<Rightarrow> bool" where
  "qline_ok (Regs is) \<longleftrightarrow> list_all item_ok is
     \<and> (\<forall>i\<in>set (take 1 is). drop 1 (i_name i) \<noteq> ''DT'' \<and> i_name i \<notin> {''FS'', ''GS''})"
| "qline_ok (Seg n sel base sep is) \<longleftrightarrow> length n = 2 \<and> name_ok n \<and> sep_ok sep \<and> list_all item_ok is"
| "qline_ok (Table n spaces ka a kb b sep is) \<longleftrightarrow> n \<in> {''GDT'', ''IDT'', ''LDT''}
     \<and> list_all (\<lambda>c. c = CHR '' '') spaces \<and> 0 < ka \<and> 0 < kb \<and> sep_ok sep \<and> list_all item_ok is"

text \<open>What the line tells, in the order in which the script records it.\<close>

fun qline_regs :: "qline \<Rightarrow> (string \<times> string) list" where
  "qline_regs (Regs is) = items_regs is"
| "qline_regs (Seg n sel base sep is) = (py_lower n, hex_digits 4 sel) # items_regs is
     @ (if n \<in> {''FS'', ''GS''} then [(py_lower n @ ''_base'', hex_digits 16 base)] else [])"
| "qline_regs (Table n spaces ka a kb b sep is) =
     (if spaces = [] then [(py_lower n, hex_digits ka a)] else []) @ items_regs is
     @ [(py_lower n @ ''_addr'', hex_digits ka a), (py_lower n @ ''_size'', hex_digits kb b)]"

definition record_reg :: "string \<times> string \<Rightarrow> pydict \<Rightarrow> pydict" where
  "record_reg = (\<lambda>(k, v) d. d(k \<mapsto> PyStr v))"

lemma items_text_front: "list_all item_ok is \<Longrightarrow> items_text is = [] \<or> is_name (hd (items_text is))"
  by (cases "is") (auto simp: items_text_def item_text_def item_ok_def name_ok_def neq_Nil_conv)

lemma items_text_not_eq: "list_all item_ok is \<Longrightarrow> items_text is = [] \<or> hd (items_text is) \<noteq> CHR ''=''"
  using items_text_front not_both(3) by blast

lemma findall_items:
  assumes "list_all item_ok is"
  shows "findall_regs (items_text is) =
    map (\<lambda>i. (i_name i @ i_pad i, hex_digits (i_digits i) (i_value i))) is"
  using assms
proof (induction "is")
  case (Cons i js)
  let ?h = "hex_digits (i_digits i) (i_value i)"
  from Cons.prems have i: "item_ok i" and js: "list_all item_ok js" by simp_all
  have "findall_regs (items_text (i # js)) = (i_name i @ i_pad i, ?h) # findall_regs (i_sep i @ items_text js)"
    using i findall_register [of "i_name i" "i_pad i" ?h "i_sep i @ items_text js"] hex_digits_hex
    by (simp add: items_text_def item_text_def item_ok_def name_ok_def sep_ok_def list_all_iff)
  also have "findall_regs (i_sep i @ items_text js) = findall_regs (items_text js)"
    using i by (intro findall_separator items_text_not_eq [OF js]) (auto simp: item_ok_def sep_ok_def)
  finally show ?case using Cons by simp
qed (simp add: items_text_def)

lemma add_reg_token:
  assumes "list_all is_name n" and "pad \<in> {'''', '' ''}"
  shows "add_reg (n @ pad, hex_digits k v) = record_reg (py_lower n, hex_digits k v)"
  using assms by (simp add: add_reg_def record_reg_def strip_name py_lower_hex hex_digits_hex list_all_iff)

lemma fold_add_items:
  assumes "list_all item_ok is"
  shows "fold add_reg (findall_regs (items_text is)) d = fold record_reg (items_regs is) d"
  unfolding findall_items [OF assms] using assms
  by (induction "is" arbitrary: d)
    (simp_all add: items_regs_def add_reg_token item_ok_def name_ok_def)

section \<open>Reading a line\<close>

lemma match_dt_None: "take 3 (drop 1 s) \<noteq> ''DT='' \<Longrightarrow> match_dt s = None"
  by (cases s rule: match_dt.cases) (auto simp: Let_def numeral_3_eq_3)

lemma match_seg_Some: "match_seg s = Some y \<Longrightarrow> \<exists>x r. s = x # ''S ='' @ r \<and> (x = CHR ''F'' \<or> x = CHR ''G'')"
  by (cases s rule: match_seg.cases) (auto simp: Let_def split: if_splits)

lemma match_dt_other:
  assumes "name_ok n" and "drop 1 n \<noteq> ''DT''" and "pad \<in> {'''', '' ''}"
  shows "match_dt (n @ pad @ CHR ''='' # r) = None"
proof -
  from assms(1) obtain c m where n: "n = c # m" "list_all is_name m"
    by (cases n) (auto simp: name_ok_def)
  show ?thesis
    using assms(2,3) n(2) unfolding n(1)
    by (intro match_dt_None; cases m; cases "tl m"; cases "tl (tl m)")
      (auto simp: numeral_3_eq_3 dest: not_both(3))
qed

lemma match_seg_other:
  assumes "name_ok n" and "n \<notin> {''FS'', ''GS''}" and "pad \<in> {'''', '' ''}"
  shows "match_seg (n @ pad @ CHR ''='' # r) = None"
proof (rule ccontr)
  assume "match_seg (n @ pad @ CHR ''='' # r) \<noteq> None"
  then obtain y where "match_seg (n @ pad @ CHR ''='' # r) = Some y" by blast
  from match_seg_Some [OF this] obtain x q where eq: "n @ pad @ CHR ''='' # r = x # CHR ''S'' # CHR '' '' # CHR ''='' # q"
    and x: "x = CHR ''F'' \<or> x = CHR ''G''"
    by auto
  from assms(1) obtain c m where n: "n = c # m" "list_all is_name m"
    by (cases n) (auto simp: name_ok_def)
  with eq assms(3) obtain k where m: "m = CHR ''S'' # k" by (cases m) auto
  with eq n assms(3) have "k = []" by (cases k) auto
  with eq x n(1) m assms(2) show False by auto
qed

lemma hex_token:
  assumes "r \<noteq> []" and "\<not> is_hex (hd r)"
  shows "takeWhile is_hex (hex_digits k n @ r) = hex_digits k n"
    and "dropWhile is_hex (hex_digits k n @ r) = r"
  using takeWhile_token [OF hex_digits_hex, of r k n] assms by simp_all

lemma hex_digits_no_eq [simp]: "CHR ''='' \<notin> set (hex_digits k n)"
  using hex_digits_hex [of k n] class_facts(5) by metis

lemma skip_space:
  assumes "0 < k" and "list_all (\<lambda>c. c = CHR '' '') s"
  shows "takeWhile is_space (s @ hex_digits k n @ r) = s"
    and "dropWhile is_space (s @ hex_digits k n @ r) = hex_digits k n @ r"
proof -
  have "\<not> is_space (hd (hex_digits k n @ r))"
    using assms(1) hex_digits_hex [of k n] not_both(1) [of "hd (hex_digits k n)"] by simp
  moreover have "\<forall>c\<in>set s. is_space c"
    using assms(2) by (induction s) simp_all
  ultimately show "takeWhile is_space (s @ hex_digits k n @ r) = s"
    and "dropWhile is_space (s @ hex_digits k n @ r) = hex_digits k n @ r"
    using takeWhile_token [of s is_space "hex_digits k n @ r"] by simp_all
qed

lemma findall_after:
  assumes "sep_ok sep" and "list_all item_ok is"
  shows "findall_regs (CHR '' '' # hex_digits k n @ sep @ items_text is) = findall_regs (items_text is)"
  using findall_separator [of "CHR '' '' # hex_digits k n @ sep" "items_text is"] assms(1) items_text_not_eq [OF assms(2)]
  by (simp add: sep_ok_def)

lemma process_Regs:
  assumes "qline_ok (Regs is)"
  shows "process_line (qline_text (Regs is)) d = fold record_reg (qline_regs (Regs is)) d"
proof -
  have "match_dt (items_text is) = None" "match_seg (items_text is) = None"
    using assms match_dt_other match_seg_other
    by (cases "is"; simp add: items_text_def item_text_def item_ok_def)+
  then show ?thesis
    using assms by (simp add: process_line_def add_dt_def add_seg_def fold_add_items)
qed

lemma process_Seg:
  assumes "qline_ok (Seg n sel base sep is)"
  shows "process_line (qline_text (Seg n sel base sep is)) d = fold record_reg (qline_regs (Seg n sel base sep is)) d"
proof -
  let ?r = "CHR '' '' # hex_digits 16 base @ sep @ items_text is"
  from assms obtain a b where n: "n = [a, b]" and ok: "name_ok n" "sep_ok sep" "list_all item_ok is"
    by (auto simp: length_Suc_conv numeral_2_eq_2)
  have "findall_regs (n @ '' ='' @ hex_digits 4 sel @ ?r) = (n @ '' '', hex_digits 4 sel) # findall_regs (items_text is)"
    using findall_register [of n "'' ''" "hex_digits 4 sel" ?r] ok findall_after [OF ok(2,3)] hex_digits_hex
    by (simp add: name_ok_def list_all_iff)
  moreover have "match_dt (n @ '' ='' @ s) = None" for s
    by (cases s) (simp_all add: n Let_def)
  moreover have "match_seg (n @ '' ='' @ hex_digits 4 sel @ ?r) =
      (if n \<in> {''FS'', ''GS''} then Some (n, hex_digits 16 base) else None)"
    using ok(2) hex_token [of ?r 4 sel] skip_space [of 16 "'' ''" base "sep @ items_text is"]
      hex_token [of "sep @ items_text is" 16 base]
    by (auto simp: n Let_def sep_ok_def)
  ultimately show ?thesis
    using ok add_reg_token [of n "'' ''" 4 sel]
    by (auto simp: process_line_def add_dt_def add_seg_def fold_add_items record_reg_def name_ok_def)
qed

lemma process_Table:
  assumes "qline_ok (Table n spaces ka a kb b sep is)"
  shows "process_line (qline_text (Table n spaces ka a kb b sep is)) d =
    fold record_reg (qline_regs (Table n spaces ka a kb b sep is)) d"
proof -
  let ?q = "CHR '' '' # hex_digits kb b @ sep @ items_text is"
  let ?r = "spaces @ hex_digits ka a @ ?q"
  have n: "n \<in> {''GDT'', ''IDT'', ''LDT''}" "list_all is_name n" "n \<noteq> []"
    and k: "0 < ka" "0 < kb" and sp: "list_all (\<lambda>c. c = CHR '' '') spaces" and ok: "sep_ok sep" "list_all item_ok is"
    using assms by (auto simp: is_name_def in_range_def)
  have q: "?q \<noteq> []" "\<not> is_hex (hd ?q)" by simp_all
  have "findall_regs (n @ ''='' @ ?r) =
      (if spaces = [] then [(n @ [], hex_digits ka a)] else []) @ findall_regs (items_text is)"
  proof (cases spaces)
    case Nil
    with findall_register [of n "[]" "hex_digits ka a" ?q] n k hex_digits_hex findall_after [OF ok]
    show ?thesis by (simp add: list_all_iff)
  next
    case (Cons c s)
    have "findall_regs (n @ CHR ''='' # ?r) = findall_regs ?r"
      using n(2) sp Cons by (intro findall_no_value) (auto simp: list_all_iff)
    also have "\<dots> = findall_regs ?q"
    proof -
      have "CHR ''='' \<notin> set spaces" using sp by (induction spaces) auto
      moreover have "hd (hex_digits kb b @ sep @ items_text is) \<noteq> CHR ''=''"
        using k(2) hex_digits_no_eq [of kb b] by (cases "hex_digits kb b") auto
      ultimately show ?thesis
        using findall_separator [of "spaces @ hex_digits ka a @ '' ''" "hex_digits kb b @ sep @ items_text is"]
          findall_separator [of "'' ''" "hex_digits kb b @ sep @ items_text is"]
        by simp
    qed
    finally show ?thesis using Cons by (simp add: findall_after [OF ok])
  qed
  moreover have "match_dt (n @ ''='' @ ?r) = Some (n, hex_digits ka a, hex_digits kb b)"
    using n(1) k ok(1) hex_token [OF q, of ka a] skip_space [OF k(1) sp, of a ?q]
      skip_space [of kb "'' ''" b "sep @ items_text is"] hex_token [of "sep @ items_text is" kb b]
    by (auto simp: Let_def sep_ok_def)
  moreover have "match_seg (n @ ''='' @ ?r) = None"
    using n(1) by (cases ?r) auto
  ultimately show ?thesis
    using ok n add_reg_token [of n "[]" ka a]
    by (auto simp: process_line_def add_dt_def add_seg_def fold_add_items record_reg_def)
qed

lemma process_qline: "qline_ok q \<Longrightarrow> process_line (qline_text q) d = fold record_reg (qline_regs q) d"
  by (cases q) (simp_all only: process_Regs process_Seg process_Table)

section \<open>Reading the whole text\<close>

text \<open>What the lines say of a register: its digits where it was printed last.\<close>

definition printed :: "qline list \<Rightarrow> string \<rightharpoonup> string" where
  "printed qs = map_of (rev (concat (map qline_regs qs)))"

lemma fold_record: "fold record_reg xs d k = (case map_of (rev xs) k of Some h \<Rightarrow> Some (PyStr h) | None \<Rightarrow> d k)"
proof (induction xs rule: rev_induct)
  case (snoc x xs)
  obtain n v where "x = (n, v)" by (cases x)
  with snoc show ?case by (simp add: record_reg_def)
qed simp

lemma process_qlines:
  assumes "list_all qline_ok qs"
  shows "fold process_line (map qline_text qs) d = fold record_reg (concat (map qline_regs qs)) d"
  using assms by (induction qs arbitrary: d) (simp_all add: process_qline)

lemma process_lines_printed:
  assumes "list_all qline_ok qs"
  shows "process_lines off (map qline_text qs) k = (case printed qs k of
    Some h \<Rightarrow> Some (PyStr h) | None \<Rightarrow> [''rip_offset'' \<mapsto> PyInt off] k)"
  unfolding process_lines_def process_qlines [OF assms] printed_def by (rule fold_record)

text \<open>
  C6. The script reads back the registers that QEMU prints: whatever the lines, each name is in the
  dictionary with exactly the digits it was last printed with (the bases of FS and GS, and the base and
  the limit of a descriptor table, under names of their own), and nothing else is in it but the offset.
\<close>

theorem process_lines_reads_back:
  assumes "list_all qline_ok qs"
  shows "process_lines off (map qline_text qs) =
    [''rip_offset'' \<mapsto> PyInt off] ++ (\<lambda>k. map_option PyStr (printed qs k))"
  using process_lines_printed [OF assms] by (auto simp: fun_eq_iff map_add_def split: option.split)

text \<open>Three lines as QEMU prints them.\<close>

definition demo_qlines :: "qline list" where
  "demo_qlines = [
     Regs [\<lparr>i_name = ''RIP'', i_pad = [], i_digits = 16, i_value = 0xffffffff81a5c0ae, i_sep = '' ''\<rparr>,
           \<lparr>i_name = ''RFL'', i_pad = [], i_digits = 8, i_value = 0x246, i_sep = '' [---Z-P-] ''\<rparr>],
     Seg ''FS'' 0 0x7f12 '' 00000000 '' [\<lparr>i_name = ''DPL'', i_pad = [], i_digits = 1, i_value = 0, i_sep = '' ''\<rparr>],
     Table ''GDT'' ''     '' 16 0xfffffe0000001000 8 0x7f '' '' []]"

lemma lower_names:
  "py_lower ''RIP'' = ''rip''" "py_lower ''RFL'' = ''rfl''" "py_lower ''FS'' = ''fs''"
  "py_lower ''DPL'' = ''dpl''" "py_lower ''GDT'' = ''gdt''"
  by code_simp+

theorem process_lines_reads_back_witness:
  "process_lines 16 (map qline_text demo_qlines) ''gdt_size'' = Some (PyStr (hex_digits 8 0x7f))
   \<and> process_lines 16 (map qline_text demo_qlines) ''fs_base'' = Some (PyStr (hex_digits 16 0x7f12))"
proof -
  have "list_all qline_ok demo_qlines"
    by (simp add: demo_qlines_def item_ok_def name_ok_def sep_ok_def is_name_def is_hex_def in_range_def)
  from process_lines_reads_back [OF this, of 16]
  have "process_lines 16 (map qline_text demo_qlines) k = ([''rip_offset'' \<mapsto> PyInt 16] ++ (\<lambda>k. map_option PyStr (printed demo_qlines k))) k" for k
    by simp
  moreover have "printed demo_qlines ''gdt_size'' = Some (hex_digits 8 0x7f)"
    by (simp add: printed_def demo_qlines_def items_regs_def lower_names)
  moreover have "printed demo_qlines ''fs_base'' = Some (hex_digits 16 0x7f12)"
    by (simp add: printed_def demo_qlines_def items_regs_def lower_names)
  ultimately show ?thesis by (simp add: map_add_def)
qed

end
