(* ===== verification/SnapshotProps.thy ===== *)
theory SnapshotProps
  imports Snapshot MemDumpProps QemuRegsProps
begin

text \<open>
  The snapshot and the reload together: the memory the target has after it was loaded, in terms of the
  memory of the source, and that the target can execute the page of the resume code in the page
  table of the source.
\<close>

section \<open>What the commands of the host do\<close>

definition host_ok :: "host \<Rightarrow> bool" where
  "host_ok H \<longleftrightarrow>
     (\<forall>val sz ram. f_size (pmemsave H val sz ram) = sz
        \<and> (\<forall>k. k < sz \<longrightarrow> f_bytes (pmemsave H val sz ram) k = ram (val + k)))
   \<and> (\<forall>val sz d ram. sz \<le> f_size d \<longrightarrow>
        (\<forall>k. pmemload H val sz d ram k = (if val \<le> k \<and> k < val + sz then f_bytes d (k - val) else ram k)))
   \<and> (\<forall>bs skip n d. bs * (skip + n) \<le> f_size d \<longrightarrow> f_size (dd H bs skip n d) = bs * n
        \<and> (\<forall>k. k < bs * n \<longrightarrow> f_bytes (dd H bs skip n d) k = f_bytes d (bs * skip + k)))"

text \<open>A host that does what the documentation of the commands says.\<close>

definition plain_host :: host where
  "plain_host = \<lparr>
     pmemsave = (\<lambda>val sz ram. \<lparr>f_size = sz, f_bytes = (\<lambda>k. if k < sz then ram (val + k) else 0)\<rparr>),
     pmemload = (\<lambda>val sz d ram k. if val \<le> k \<and> k < val + sz then f_bytes d (k - val) else ram k),
     dd = (\<lambda>bs skip n d. \<lparr>f_size = min (bs * n) (f_size d - bs * skip), f_bytes = (\<lambda>k. f_bytes d (bs * skip + k))\<rparr>)\<rparr>"

lemma plain_host_ok: "host_ok plain_host"
  by (auto simp: host_ok_def plain_host_def add_mult_distrib2)

section \<open>The memory of the target\<close>

definition in_hole :: "nat \<Rightarrow> bool" where
  "in_hole k \<longleftrightarrow> 0x80b000 \<le> k \<and> k < 0x80e000"

text \<open>Cutting a dump of 1 GB and loading its parts gives the dump, but for the hole.\<close>

lemma reload_parts:
  assumes "host_ok H" and "f_size d = GB" and "fs ''mem-dump.bin'' = Some d"
    and "fs ''mem-flag.bin'' = Some flag" and "8 \<le> f_size flag" and "k < GB"
  shows "reload H (copy_part (dd H 4096 0x80e 0x3f7f2) ''mem-dump.bin'' ''mem-dump-2.bin''
      (copy_part (dd H 4096 0 0x80b) ''mem-dump.bin'' ''mem-dump-1.bin'' fs)) ram k =
    (if 0x80df08 \<le> k \<and> k < 0x80df10 then f_bytes flag (k - 0x80df08)
     else if in_hole k then ram k else f_bytes d k)"
proof -
  let ?d1 = "dd H 4096 0 0x80b d" and ?d2 = "dd H 4096 0x80e 0x3f7f2 d"
  have d1: "f_size ?d1 = 0x80b000" "\<And>j. j < 0x80b000 \<Longrightarrow> f_bytes ?d1 j = f_bytes d j"
    using assms(1,2) unfolding host_ok_def by (simp_all add: GB_def)
  have d2: "f_size ?d2 = 0x3F7F2000" "\<And>j. j < 0x3F7F2000 \<Longrightarrow> f_bytes ?d2 j = f_bytes d (0x80e000 + j)"
    using assms(1,2) unfolding host_ok_def by (simp_all add: GB_def)
  have load: "pmemload H val sz x m j = (if val \<le> j \<and> j < val + sz then f_bytes x (j - val) else m j)"
    if "sz \<le> f_size x" for val sz x m j
    using assms(1) that unfolding host_ok_def by blast
  show ?thesis
    using assms(3-6) d1 d2
    by (simp add: reload_def load_part_def copy_part_def load in_hole_def GB_def)
qed

section \<open>What a translation reads\<close>

text \<open>The memory of a machine, seen from physical address 0.\<close>

definition ram_phys :: "ram \<Rightarrow> phys" where
  "ram_phys ram = \<lparr>physmem = 0, st_size = GB, file_bytes = ram\<rparr>"

text \<open>The offsets of the words a translation reads.\<close>

fun walk_offsets :: "phys \<Rightarrow> nat \<Rightarrow> u64 \<Rightarrow> u64 \<Rightarrow> nat list" where
  "walk_offsets m 0 t va = [unat (table_addr t + 8 * level_index 0 va)]"
| "walk_offsets m (Suc n) t va = unat (table_addr t + 8 * level_index (Suc n) va) #
     (case load64 m (physmem m + (table_addr t + 8 * level_index (Suc n) va)) of
        None \<Rightarrow> []
      | Some e \<Rightarrow> if bit e 0 \<and> \<not> (Suc n \<le> 2 \<and> bit e 7) then walk_offsets m n e va else [])"

lemma load64_rel: "load64 m (physmem m + x) =
    (if unat x + 8 \<le> st_size m then Some (le_word (\<lambda>i. file_bytes m (unat x + i))) else None)"
  by (simp add: load64_def file_off_def)

lemma load64_agree:
  assumes "st_size m' = st_size m" and "\<forall>i<8. file_bytes m' (unat x + i) = file_bytes m (unat x + i)"
  shows "load64 m' (physmem m' + x) = load64 m (physmem m + x)"
  using assms by (auto simp: load64_rel intro: le_word_cong)

lemma mmu_walk_agree:
  assumes "st_size m' = st_size m"
    and "\<forall>off\<in>set (walk_offsets m n t va). \<forall>i<8. file_bytes m' (off + i) = file_bytes m (off + i)"
  shows "mmu_walk m' n t va = mmu_walk m n t va"
  using assms(2)
proof (induction n arbitrary: t)
  case 0
  then show ?case using load64_agree [OF assms(1)] by (simp add: add.assoc)
next
  case (Suc n)
  let ?x = "table_addr t + 8 * level_index (Suc n) va"
  have eq: "load64 m' (physmem m' + ?x) = load64 m (physmem m + ?x)"
    using Suc.prems by (intro load64_agree [OF assms(1)]) simp
  show ?case
  proof (cases "load64 m (physmem m + ?x)")
    case None
    with eq show ?thesis by (simp add: add.assoc)
  next
    case (Some e)
    with Suc.prems have "bit e 0 \<and> \<not> (Suc n \<le> 2 \<and> bit e 7) \<Longrightarrow> mmu_walk m' n e va = mmu_walk m n e va"
      by (intro Suc.IH) auto
    with eq Some show ?thesis by (auto simp: add.assoc)
  qed
qed

lemma walk_offsets_table: "table_addr t = table_addr t' \<Longrightarrow> walk_offsets m n t va = walk_offsets m n t' va"
  by (cases n) simp_all

lemma walk_offsets_agree:
  assumes "st_size m' = st_size m" and "\<And>k. k < st_size m \<Longrightarrow> file_bytes m' k = file_bytes m k"
  shows "walk_offsets m' n t va = walk_offsets m n t va"
proof -
  have "load64 m' (physmem m' + x) = load64 m (physmem m + x)" for x
    using assms by (auto simp: load64_rel intro!: le_word_cong)
  then show ?thesis by (induction n arbitrary: t) (auto split: option.split)
qed

lemma walk_offsets_nx_cleared:
  assumes "nx_cleared m p m'"
  shows "walk_offsets m' n t va = walk_offsets m n t va"
proof (induction n arbitrary: t)
  case (Suc n)
  let ?x = "table_addr t + 8 * level_index (Suc n) va"
  show ?case
  proof (cases "load64 m (physmem m + ?x)")
    case None
    with nx_cleared_no_entry [OF assms None] show ?thesis by (simp add: nx_cleared_physmem [OF assms])
  next
    case (Some e)
    then obtain e' where e': "e' = e \<or> e' = e AND NOT PAGE_NX" "load64 m' (physmem m + ?x) = Some e'"
      using nx_cleared_entry [OF assms, of t "level_index (Suc n) va" e] by (auto simp: add.assoc)
    then have "bit e' 0 = bit e 0" "bit e' 7 = bit e 7" "walk_offsets m' n e' va = walk_offsets m' n e va"
      by (auto simp: bit_simps intro: walk_offsets_table)
    with Some e'(2) Suc.IH [of e] show ?thesis by (auto simp: nx_cleared_physmem [OF assms])
  qed
qed simp

section \<open>The edit of the dump\<close>

lemma ClearPageNXFlag_outcome:
  assumes "ClearPageNXFlag m cr3 va = Some (rc, m1)"
  obtains k where "k mod 8 = 7" "file_bytes m1 = (file_bytes m)(k := file_bytes m k AND (if rc = 0 then 0x7F else 0xFF))"
    "st_size m1 = st_size m" "physmem m1 = physmem m"
  using ClearPageNXFlag_bytes [OF assms] ClearPageNXFlag_size [OF assms] by blast

lemma clear_tss_busy_runs:
  assumes "0x3d00b048 \<le> st_size m"
  shows "\<exists>m'. clear_tss_busy m = Some m' \<and> st_size m' = st_size m"
proof -
  have "file_off m (tss_addr m) + 8 \<le> st_size m" using assms by simp
  then obtain w where "load64 m (tss_addr m) = Some w" using load64_defined by blast
  moreover from pm.store_defined [OF this] obtain m' where
    "store64 m (tss_addr m) (w AND NOT (push_bit 41 1)) = Some m'" by blast
  ultimately show ?thesis using store64_frame(2) by (auto simp: clear_tss_busy_def Let_def)
qed

lemma main_runs_editor:
  "snd (main addr fs [p, fn, c, v]) = snd (modify_mem_dump addr fs fn (strtoul c) (strtoul v))"
  by (simp add: main_def Let_def split: prod.split status.split)

lemma strtoul_virt_addr: "strtoul virt_addr = demo_va"
  by (simp add: virt_addr_def demo_va_def strtoul_def c_isspace_def digit_val_def)

text \<open>The editor on a dump of 1 GB: it fails to read the page table and changes nothing, or finishes.\<close>

lemma modify_dump_GB:
  assumes "fs fn = Some d" and "f_size d = GB"
  shows "\<exists>d'. snd (modify_mem_dump addr fs fn cr3 va) = fs(fn \<mapsto> d') \<and> f_size d' = GB
    \<and> (ClearPageNXFlag (mmap_shared addr d) cr3 va = None \<and> d' = d
      \<or> (\<exists>rc m1. ClearPageNXFlag (mmap_shared addr d) cr3 va = Some (rc, m1)
          \<and> f_bytes d' = (file_bytes m1)(0x3d00b045 := file_bytes m1 0x3d00b045 AND 0xFD)))"
proof (cases "ClearPageNXFlag (mmap_shared addr d) cr3 va")
  case None
  then show ?thesis using assms by (auto simp: modify_mem_dump_def fun_upd_idem)
next
  case (Some r)
  obtain rc m1 where r: "r = (rc, m1)" by (cases r)
  have "st_size m1 = GB"
    using ClearPageNXFlag_size Some r assms(2) by (fastforce simp: mmap_shared_def)
  then obtain m2 where m2: "clear_tss_busy m1 = Some m2" "st_size m2 = GB"
    using clear_tss_busy_runs [of m1] by (auto simp: GB_def)
  then have "snd (modify_mem_dump addr fs fn cr3 va) = fs(fn \<mapsto> written_back m2)"
    using assms(1) Some r by (simp add: modify_mem_dump_def)
  then show ?thesis
    using Some r m2 clear_tss_busy_bytes [OF m2(1)]
    by (intro exI [of _ "written_back m2"]) (simp add: written_back_def)
qed

text \<open>The dump as it was edited, and the memory that is loaded from it.\<close>

lemma snap_reload:
  assumes "host_ok H" and "snap H addr src info fs = Some fs'"
    and "fs ''mem-flag.bin'' = Some flag" and "8 \<le> f_size flag"
  obtains c d d' where "search_cr3 info = Some c" and "f_size d = GB" and "\<And>k. k < GB \<Longrightarrow> f_bytes d k = src k"
    and "ClearPageNXFlag (mmap_shared addr d) (strtoul (''0x'' @ c)) demo_va = None \<and> d' = d
      \<or> (\<exists>rc m1. ClearPageNXFlag (mmap_shared addr d) (strtoul (''0x'' @ c)) demo_va = Some (rc, m1)
          \<and> f_bytes d' = (file_bytes m1)(0x3d00b045 := file_bytes m1 0x3d00b045 AND 0xFD))"
    and "\<And>k tgt. k < GB \<Longrightarrow> reload H fs' tgt k =
      (if 0x80df08 \<le> k \<and> k < 0x80df10 then f_bytes flag (k - 0x80df08)
       else if in_hole k then tgt k else f_bytes d' k)"
proof -
  let ?d = "pmemsave H 0 GB src"
  let ?fs = "fs(''mem-dump.bin'' \<mapsto> ?d)"
  from assms(2) obtain c where c: "search_cr3 info = Some c"
    by (auto simp: snap_def Let_def split: option.splits)
  have d: "f_size ?d = GB" "\<And>k. k < GB \<Longrightarrow> f_bytes ?d k = src k"
    using assms(1) unfolding host_ok_def by simp_all
  obtain d' where d': "snd (modify_mem_dump addr ?fs ''mem-dump.bin'' (strtoul (''0x'' @ c)) demo_va) =
      ?fs(''mem-dump.bin'' \<mapsto> d')" "f_size d' = GB"
    and e: "ClearPageNXFlag (mmap_shared addr ?d) (strtoul (''0x'' @ c)) demo_va = None \<and> d' = ?d
      \<or> (\<exists>rc m1. ClearPageNXFlag (mmap_shared addr ?d) (strtoul (''0x'' @ c)) demo_va = Some (rc, m1)
          \<and> f_bytes d' = (file_bytes m1)(0x3d00b045 := file_bytes m1 0x3d00b045 AND 0xFD))"
    using modify_dump_GB [of ?fs "''mem-dump.bin''" ?d addr "strtoul (''0x'' @ c)" demo_va] d(1) by auto
  let ?fs2 = "?fs(''mem-dump.bin'' \<mapsto> d')"
  have "fs' = copy_part (dd H 4096 0x80e 0x3f7f2) ''mem-dump.bin'' ''mem-dump-2.bin''
      (copy_part (dd H 4096 0 0x80b) ''mem-dump.bin'' ''mem-dump-1.bin'' ?fs2)"
    using assms(2) c d'(1) by (simp add: snap_def Let_def main_runs_editor strtoul_virt_addr)
  then have "reload H fs' tgt k = (if 0x80df08 \<le> k \<and> k < 0x80df10 then f_bytes flag (k - 0x80df08)
       else if in_hole k then tgt k else f_bytes d' k)" if "k < GB" for k tgt
    using reload_parts [OF assms(1) d'(2), of ?fs2 flag k tgt] assms(3,4) that by simp
  with c d e show ?thesis by (rule that)
qed

section \<open>Properties\<close>

text \<open>
  C2. After the reload the memory of the target is that of the source, but for the three pages of the
  resume code, which keep what the firmware put there and get the flag, and for at most two bits: one at
  an offset that is 7 modulo 8 (the no-execute bit of a table entry), and the busy bit of the TSS.
\<close>

theorem target_memory:
  assumes "host_ok H" and "snap H addr src info fs = Some fs'"
    and "fs ''mem-flag.bin'' = Some flag" and "8 \<le> f_size flag"
  shows "\<exists>q. q mod 8 = 7 \<and> (\<forall>k tgt. k < GB \<longrightarrow> (let b = reload H fs' tgt k in
      if 0x80df08 \<le> k \<and> k < 0x80df10 then b = f_bytes flag (k - 0x80df08)
      else if 0x80b000 \<le> k \<and> k < 0x80e000 then b = tgt k
      else if k = q then b \<in> {src k, src k AND 0x7F}
      else if k = 0x3d00b045 then b \<in> {src k, src k AND 0xFD}
      else b = src k))"
proof -
  from assms obtain c d d' where d: "\<And>k. k < GB \<Longrightarrow> f_bytes d k = src k"
    and e: "ClearPageNXFlag (mmap_shared addr d) (strtoul (''0x'' @ c)) demo_va = None \<and> d' = d
      \<or> (\<exists>rc m1. ClearPageNXFlag (mmap_shared addr d) (strtoul (''0x'' @ c)) demo_va = Some (rc, m1)
          \<and> f_bytes d' = (file_bytes m1)(0x3d00b045 := file_bytes m1 0x3d00b045 AND 0xFD))"
    and r: "\<And>k tgt. k < GB \<Longrightarrow> reload H fs' tgt k =
      (if 0x80df08 \<le> k \<and> k < 0x80df10 then f_bytes flag (k - 0x80df08)
       else if in_hole k then tgt k else f_bytes d' k)"
    by (rule snap_reload) blast
  have "\<exists>q. q mod 8 = 7 \<and> (\<forall>k. f_bytes d' k \<in> (if k = q then {f_bytes d k, f_bytes d k AND 0x7F}
      else if k = 0x3d00b045 then {f_bytes d k, f_bytes d k AND 0xFD} else {f_bytes d k}))"
    using e
  proof (elim disjE exE conjE)
    assume "d' = d"
    then show ?thesis by (intro exI [of _ 7]) simp
  next
    fix rc m1 assume run: "ClearPageNXFlag (mmap_shared addr d) (strtoul (''0x'' @ c)) demo_va = Some (rc, m1)"
      and b: "f_bytes d' = (file_bytes m1)(0x3d00b045 := file_bytes m1 0x3d00b045 AND 0xFD)"
    from run obtain q where q: "q mod 8 = 7"
      "file_bytes m1 = (f_bytes d)(q := f_bytes d q AND (if rc = 0 then 0x7F else 0xFF))"
      by (rule ClearPageNXFlag_outcome) (simp add: mmap_shared_def)
    have "q \<noteq> 0x3d00b045" using q(1) by auto
    then show ?thesis using q b by (intro exI [of _ q]) auto
  qed
  then obtain q where q: "q mod 8 = 7" "\<And>k. f_bytes d' k \<in> (if k = q then {f_bytes d k, f_bytes d k AND 0x7F}
      else if k = 0x3d00b045 then {f_bytes d k, f_bytes d k AND 0xFD} else {f_bytes d k})"
    by blast
  have "let b = reload H fs' tgt k in
      if 0x80df08 \<le> k \<and> k < 0x80df10 then b = f_bytes flag (k - 0x80df08)
      else if 0x80b000 \<le> k \<and> k < 0x80e000 then b = tgt k
      else if k = q then b \<in> {src k, src k AND 0x7F}
      else if k = 0x3d00b045 then b \<in> {src k, src k AND 0xFD}
      else b = src k" if "k < GB" for k tgt
    using q(2) [of k] d [OF that] r [OF that, of tgt]
    by (auto simp: in_hole_def Let_def split: if_splits)
  with q(1) show ?thesis by blast
qed

text \<open>A run on the small dump, with a flag of eight zero bytes.\<close>

definition demo_info :: string where
  "demo_info = ''CR3='' @ hex_digits 16 0x1000 @ '' ''"

definition demo_flag :: dump_file where
  "demo_flag = \<lparr>f_size = 8, f_bytes = (\<lambda>k. 0)\<rparr>"

lemma demo_flag_facts:
  "[''mem-flag.bin'' \<mapsto> demo_flag] ''mem-flag.bin'' = Some demo_flag" "8 \<le> f_size demo_flag"
  by (simp_all add: demo_flag_def)

lemma search_demo_info: "search_cr3 demo_info = Some (hex_digits 16 0x1000)"
  using hex_token [of "'' ''" 16 "0x1000"] by (simp add: demo_info_def Let_def)

lemma demo_snap: "\<exists>fs'. snap plain_host 0x7f0000000000 (word_file demo_words) demo_info [''mem-flag.bin'' \<mapsto> demo_flag] = Some fs'"
  by (simp add: snap_def search_demo_info Let_def)

theorem target_memory_witness:
  "\<exists>fs'. snap plain_host 0x7f0000000000 (word_file demo_words) demo_info [''mem-flag.bin'' \<mapsto> demo_flag] = Some fs'
    \<and> reload plain_host fs' (\<lambda>k. 7) 0x80c000 = 7"
proof -
  obtain fs' where fs': "snap plain_host 0x7f0000000000 (word_file demo_words) demo_info [''mem-flag.bin'' \<mapsto> demo_flag] = Some fs'"
    using demo_snap by blast
  have "reload plain_host fs' (\<lambda>k. 7) 0x80c000 = 7"
    using target_memory [OF plain_host_ok fs' demo_flag_facts]
    apply (elim exE conjE)
    apply (drule spec [of _ "0x80c000"], drule spec [of _ "\<lambda>k. 7"])
    apply (simp add: GB_def Let_def)
    done
  with fs' show ?thesis by blast
qed

text \<open>
  C1. The target can execute the resume code in the page table of the source: when the source maps the
  address of the resume code to a 4 KB page through tables that allow execution, CR3 is what QEMU
  printed, and the words of the translation are neither in the pages of the resume code nor in the TSS
  descriptor, then the memory of the target translates that address to the same page, executable.
\<close>

theorem target_executes_resume_code:
  assumes "host_ok H" and "snap H addr src info fs = Some fs'"
    and "fs ''mem-flag.bin'' = Some flag" and "8 \<le> f_size flag"
    and "addr \<noteq> 0" and "unat addr + GB \<le> 2 ^ 64"
    and "search_cr3 info = Some c" and "strtoul (''0x'' @ c) = cr3" and "table_addr cr3 = cr3"
    and "mmu_translate (ram_phys src) cr3 0xffff88800080c000 = Some x" and "x_level x = 0" and "\<not> x_nx_tables x"
    and "\<forall>off\<in>set (walk_offsets (ram_phys src) 3 cr3 0xffff88800080c000).
      (off + 8 \<le> 0x80b000 \<or> 0x80e000 \<le> off) \<and> (off + 8 \<le> 0x3d00b040 \<or> 0x3d00b048 \<le> off) \<and> off + 8 \<le> GB"
  shows "\<exists>y. mmu_translate (ram_phys (reload H fs' tgt)) cr3 0xffff88800080c000 = Some y
    \<and> x_pa y = x_pa x \<and> executable y"
proof -
  have va: "(0xffff88800080c000 :: u64) = demo_va" by (simp add: demo_va_def)
  from assms(1-4) obtain c' d d' where c: "search_cr3 info = Some c'"
    and d: "f_size d = GB" "\<And>k. k < GB \<Longrightarrow> f_bytes d k = src k"
    and e: "ClearPageNXFlag (mmap_shared addr d) (strtoul (''0x'' @ c')) demo_va = None \<and> d' = d
      \<or> (\<exists>rc m1. ClearPageNXFlag (mmap_shared addr d) (strtoul (''0x'' @ c')) demo_va = Some (rc, m1)
          \<and> f_bytes d' = (file_bytes m1)(0x3d00b045 := file_bytes m1 0x3d00b045 AND 0xFD))"
    and r: "\<And>k tgt. k < GB \<Longrightarrow> reload H fs' tgt k =
      (if 0x80df08 \<le> k \<and> k < 0x80df10 then f_bytes flag (k - 0x80df08)
       else if in_hole k then tgt k else f_bytes d' k)"
    by (rule snap_reload) blast
  have cr3: "strtoul (''0x'' @ c') = cr3" using c assms(7,8) by simp
  let ?m = "mmap_shared addr d" and ?s = "ram_phys src" and ?t = "ram_phys (reload H fs' tgt)"
  let ?offs = "walk_offsets ?s 3 cr3 demo_va"
  have m: "st_size ?m = GB" "physmem ?m = addr" "file_bytes ?m = f_bytes d" using d(1) by (simp_all add: mmap_shared_def)
  have off: "(off + 8 \<le> 0x80b000 \<or> 0x80e000 \<le> off)" "(off + 8 \<le> 0x3d00b040 \<or> 0x3d00b048 \<le> off)" "off + 8 \<le> GB"
    if "off \<in> set ?offs" for off
    using assms(13) that unfolding va by blast+
  have walk_m: "mmu_walk ?m 3 cr3 demo_va = mmu_walk ?s 3 cr3 demo_va"
  proof (rule mmu_walk_agree)
    show "\<forall>off\<in>set ?offs. \<forall>i<8. file_bytes ?m (off + i) = file_bytes ?s (off + i)"
    proof (intro ballI allI impI)
      fix j i :: nat assume "j \<in> set ?offs" "i < 8"
      with off(3) have "j + i < GB" by fastforce
      then show "file_bytes ?m (j + i) = file_bytes ?s (j + i)" using d(2) m(3) by (simp add: ram_phys_def)
    qed
  qed (simp add: m ram_phys_def)
  then have xm: "mmu_translate ?m cr3 demo_va = Some x" using assms(10) by (simp add: mmu_translate_def va)
  have "user_mapping ?m" using assms(5,6) m by (simp add: user_mapping_def)
  then obtain m1 p where run: "ClearPageNXFlag ?m cr3 demo_va = Some (0, m1)" and cl: "nx_cleared ?m p m1"
    and leaf: "\<And>y. mmu_translate m1 cr3 demo_va = Some y \<Longrightarrow> \<not> x_nx_leaf y"
    using ClearPageNXFlag_present [OF _ assms(9) xm assms(11)] by blast
  have d': "f_bytes d' = (file_bytes m1)(0x3d00b045 := file_bytes m1 0x3d00b045 AND 0xFD)"
    using e run unfolding cr3 by auto
  from mmu_walk_nx_cleared [OF cl, of 3 cr3 demo_va] xm obtain y where
    y: "mmu_translate m1 cr3 demo_va = Some y" "x_pa y = x_pa x" "x_nx_tables y \<longrightarrow> x_nx_tables x"
    by (auto simp: same_mapping_def mmu_translate_def split: option.splits)
  have st: "st_size m1 = GB" using ClearPageNXFlag_size [OF run] m(1) by simp
  have "walk_offsets m1 3 cr3 demo_va = walk_offsets ?m 3 cr3 demo_va" by (rule walk_offsets_nx_cleared [OF cl])
  also have "\<dots> = ?offs"
    by (rule walk_offsets_agree) (use d(2) m in \<open>simp_all add: ram_phys_def\<close>)
  finally have offs: "walk_offsets m1 3 cr3 demo_va = ?offs" .
  have "reload H fs' tgt (q + i) = file_bytes m1 (q + i)" if "q \<in> set ?offs" "i < 8" for q i
  proof -
    have "q + i < GB" "\<not> in_hole (q + i)" "q + i \<noteq> 0x3d00b045" "\<not> (0x80df08 \<le> q + i \<and> q + i < 0x80df10)"
      using off [OF that(1)] that(2) by (auto simp: in_hole_def)
    then show ?thesis using r [of "q + i" tgt] d' by auto
  qed
  then have "mmu_walk ?t 3 cr3 demo_va = mmu_walk m1 3 cr3 demo_va"
    using offs st by (intro mmu_walk_agree) (auto simp: ram_phys_def)
  then have "mmu_translate ?t cr3 demo_va = Some y" using y(1) by (simp add: mmu_translate_def)
  with y(2,3) leaf [OF y(1)] assms(12) show ?thesis unfolding va by (auto simp: executable_def)
qed

lemma strtoul_demo: "strtoul (''0x'' @ hex_digits 16 0x1000) = 0x1000"
  using strtoul_hex [of "0x1000"] by simp

lemma walk_offsets_3: "walk_offsets m 3 = walk_offsets m (Suc (Suc (Suc 0)))"
  by (simp add: numeral_3_eq_3)

lemmas demo_offsets = demo_load demo_words_def demo_va_def level_index_def table_addr_def

theorem target_executes_resume_code_witness:
  "\<exists>fs' y. snap plain_host 0x7f0000000000 (word_file demo_words) demo_info [''mem-flag.bin'' \<mapsto> demo_flag] = Some fs'
    \<and> mmu_translate (ram_phys (reload plain_host fs' (\<lambda>k. 0))) 0x1000 0xffff88800080c000 = Some y
    \<and> x_pa y = 0x80c000 \<and> executable y"
proof -
  have same: "mmu_translate (ram_phys (word_file demo_words)) 0x1000 demo_va = mmu_translate demo_dump 0x1000 demo_va"
    unfolding mmu_translate_def by (rule mmu_walk_agree) (simp_all add: ram_phys_def demo_dump_def GB_def)
  have "walk_offsets (ram_phys (word_file demo_words)) 3 0x1000 demo_va = walk_offsets demo_dump 3 0x1000 demo_va"
    by (rule walk_offsets_agree) (simp_all add: ram_phys_def demo_dump_def GB_def)
  also have "\<dots> = [0x1888, 0x2000, 0x3020, 0x4060]"
    by (simp add: walk_offsets_3 demo_offsets)
  finally have offs: "walk_offsets (ram_phys (word_file demo_words)) 3 0x1000 0xffff88800080c000 = [0x1888, 0x2000, 0x3020, 0x4060]"
    by (simp add: demo_va_def)
  obtain fs' where fs': "snap plain_host 0x7f0000000000 (word_file demo_words) demo_info [''mem-flag.bin'' \<mapsto> demo_flag] = Some fs'"
    using demo_snap by blast
  have "\<exists>y. mmu_translate (ram_phys (reload plain_host fs' (\<lambda>k. 0))) 0x1000 0xffff88800080c000 = Some y
      \<and> x_pa y = x_pa \<lparr>x_pa = 0x80c000, x_level = 0, x_nx_tables = False, x_nx_leaf = True\<rparr> \<and> executable y"
  proof (rule target_executes_resume_code [OF plain_host_ok fs' demo_flag_facts _ _ search_demo_info strtoul_demo])
    show "mmu_translate (ram_phys (word_file demo_words)) 0x1000 0xffff88800080c000 =
        Some \<lparr>x_pa = 0x80c000, x_level = 0, x_nx_tables = False, x_nx_leaf = True\<rparr>"
      using same demo_translate by (simp add: demo_va_def)
  qed (simp_all add: GB_def table_addr_def offs)
  with fs' show ?thesis by auto
qed

end
