(* ===== verification/StateBlob.thy ===== *)
theory StateBlob
  imports QemuRegs MemDump
begin

text \<open>
  \<^verbatim>\<open>state-blob/state-blob.c\<close> and \<^verbatim>\<open>generate_cpu_state.sh\<close>: the program that is compiled with the generated
  statements and writes the state of the processor to a file. The structure comes from a header of
  edk2 that is not here, so its size and the offset and width of each field are a parameter
  \<open>layout\<close>. The right-hand sides are evaluated as C does it on a 64-bit machine, with the types of the
  literals; where C leaves the result undefined (a signed overflow), or the text is no expression, the
  result is \<open>None\<close>.
\<close>

section \<open>Integer expressions of C\<close>

datatype cty = TInt | TUInt | TLong | TULong

definition all_digits :: "nat \<Rightarrow> string \<Rightarrow> bool" where
  "all_digits b ds \<longleftrightarrow> ds \<noteq> [] \<and> list_all (\<lambda>c. \<exists>d\<in>set_option (digit_val c). d < b) ds"

text \<open>A literal has the first type that can hold it; a decimal literal is never unsigned.\<close>

definition literal_type :: "bool \<Rightarrow> nat \<Rightarrow> cty option" where
  "literal_type decimal n =
     (if n < 2 ^ 31 then Some TInt
      else if \<not> decimal \<and> n < 2 ^ 32 then Some TUInt
      else if n < 2 ^ 63 then Some TLong
      else if \<not> decimal \<and> n < 2 ^ 64 then Some TULong else None)"

definition c_number :: "nat \<Rightarrow> string \<Rightarrow> (cty \<times> int) option" where
  "c_number b ds = (if all_digits b ds
     then map_option (\<lambda>t. (t, int (scan_digits b 0 ds))) (literal_type (b = 10) (scan_digits b 0 ds))
     else None)"

definition c_literal :: "string \<Rightarrow> (cty \<times> int) option" where
  "c_literal s =
     (if take 2 s \<in> {''0x'', ''0X''} then c_number 16 (drop 2 s)
      else if take 1 s = ''0'' \<and> s \<noteq> ''0'' then c_number 8 (drop 1 s)
      else c_number 10 s)"

text \<open>The usual arithmetic conversions, and the value of a sum in the common type.\<close>

definition common_type :: "cty \<Rightarrow> cty \<Rightarrow> cty" where
  "common_type s t = (if TULong \<in> {s, t} then TULong else if TLong \<in> {s, t} then TLong
     else if TUInt \<in> {s, t} then TUInt else TInt)"

fun c_value :: "cty \<Rightarrow> int \<Rightarrow> (cty \<times> int) option" where
  "c_value TUInt i = Some (TUInt, i mod 2 ^ 32)"
| "c_value TULong i = Some (TULong, i mod 2 ^ 64)"
| "c_value TInt i = (if - (2 ^ 31) \<le> i \<and> i < 2 ^ 31 then Some (TInt, i) else None)"
| "c_value TLong i = (if - (2 ^ 63) \<le> i \<and> i < 2 ^ 63 then Some (TLong, i) else None)"

definition c_add :: "cty \<times> int \<Rightarrow> cty \<times> int \<Rightarrow> (cty \<times> int) option" where
  "c_add = (\<lambda>(s, i) (t, j). let u = common_type s t in do {
     (_, i') \<leftarrow> c_value u i;
     (_, j') \<leftarrow> c_value u j;
     c_value u (i' + j') })"

definition c_unary :: "string \<Rightarrow> (cty \<times> int) option" where
  "c_unary s = (if take 1 s = ''-''
     then Option.bind (c_literal (drop 1 s)) (\<lambda>(t, i). c_value t (- i)) else c_literal s)"

definition c_eval :: "string \<Rightarrow> (cty \<times> int) option" where
  "c_eval s =
     (let a = takeWhile (\<lambda>c. c \<noteq> CHR '' '') s; r = dropWhile (\<lambda>c. c \<noteq> CHR '' '') s
      in if r = [] then c_unary a
         else if take 3 r = '' + '' then do { x \<leftarrow> c_unary a; y \<leftarrow> c_unary (drop 3 r); c_add x y }
         else None)"

section \<open>The structure\<close>

record layout =
  l_sizeof :: nat
  l_at :: "string \<Rightarrow> nat"
  l_width :: "string \<Rightarrow> nat"

definition write_at :: "nat \<Rightarrow> u8 list \<Rightarrow> u8 list \<Rightarrow> u8 list" where
  "write_at off bs s = take off s @ bs @ drop (off + length bs) s"

fun le_bytes :: "nat \<Rightarrow> nat \<Rightarrow> u8 list" where
  "le_bytes 0 v = []"
| "le_bytes (Suc w) v = of_nat v # le_bytes w (v div 256)"

text \<open>An assignment to a field, all of which are unsigned; the value is reduced to its width.\<close>

definition set_field :: "layout \<Rightarrow> string \<Rightarrow> int \<Rightarrow> u8 list \<Rightarrow> u8 list" where
  "set_field L f i s = write_at (l_at L f) (le_bytes (l_width L f) (nat (i mod 2 ^ (8 * l_width L f)))) s"

fun run_statements :: "layout \<Rightarrow> (string \<times> string) list \<Rightarrow> u8 list \<Rightarrow> u8 list option" where
  "run_statements L [] s = Some s"
| "run_statements L ((f, e) # xs) s = (case c_eval e of
     None \<Rightarrow> None
   | Some (t, i) \<Rightarrow> run_statements L xs (set_field L f i s))"

definition ascii :: "string \<Rightarrow> u8 list" where
  "ascii = map of_char"

text \<open>The bytes of the structure that \<open>main\<close> writes.\<close>

definition state_image :: "layout \<Rightarrow> (string \<times> string) list \<Rightarrow> u8 list option" where
  "state_image L stmts = do {
     let s = replicate (l_sizeof L) 0;
     let s = write_at (l_at L ''magic'') (ascii ''CPUSTATE'') s;
     let s = set_field L ''version'' 0x0100 s;
     s \<leftarrow> run_statements L stmts s;
     Some (write_at (l_at L ''end_magic'') (ascii ''ENDSTATE'') s) }"

text \<open>\<open>opens\<close>: whether the file can be opened; the program does not check it.\<close>

definition state_main :: "layout \<Rightarrow> (string \<times> string) list \<Rightarrow> bool \<Rightarrow> files \<Rightarrow> (status \<times> files) option" where
  "state_main L stmts opens fs = map_option (\<lambda>s.
     if opens then (Exits 0, fs(''cpu_state.bin'' \<mapsto> \<lparr>f_size = length s, f_bytes = (\<lambda>k. if k < length s then s ! k else 0)\<rparr>))
     else (Crashes, fs)) (state_image L stmts)"

text \<open>The shell script: with \<^verbatim>\<open>--escape-zzzloop\<close> the instruction pointer is moved by 16.\<close>

definition generate_cpu_state ::
  "layout \<Rightarrow> bool \<Rightarrow> string list \<Rightarrow> bool \<Rightarrow> files \<Rightarrow> (status \<times> files) option" where
  "generate_cpu_state L escape lines opens fs =
     (case generate (if escape then 16 else 0) lines of
        Inl e \<Rightarrow> Some (Exits 1, fs)
      | Inr stmts \<Rightarrow> state_main L stmts opens fs)"

end
