(* ===== verification/StateBlobProps.thy ===== *)
theory StateBlobProps
  imports StateBlob QemuRegsProps
begin

text \<open>
  The file of the CPU state holds what QEMU printed: the fields of a structure as a store with the laws
  of separate fields, the C value of a generated right-hand side, and the round trip from the printed
  registers to the bytes of the file.
\<close>

section \<open>Bytes of a field\<close>

fun le_nat :: "u8 list \<Rightarrow> nat" where
  "le_nat [] = 0"
| "le_nat (b # bs) = unat b + 256 * le_nat bs"

lemma length_le_bytes [simp]: "length (le_bytes w v) = w"
  by (induction w arbitrary: v) simp_all

lemma le_nat_bytes: "le_nat (le_bytes w v) = v mod 256 ^ w"
proof (induction w arbitrary: v)
  case (Suc w)
  have "unat (of_nat v :: u8) = v mod 256"
    by (simp add: unsigned_of_nat take_bit_eq_mod)
  with Suc show ?case
    by (simp add: mod_mult2_eq)
qed simp

definition slice :: "nat \<Rightarrow> nat \<Rightarrow> u8 list \<Rightarrow> u8 list" where
  "slice off n s = take n (drop off s)"

lemma length_write_at: "off + length bs \<le> length s \<Longrightarrow> length (write_at off bs s) = length s"
  by (simp add: write_at_def)

lemma slice_write_same: "off + length bs \<le> length s \<Longrightarrow> slice off (length bs) (write_at off bs s) = bs"
  by (simp add: slice_def write_at_def)

lemma slice_write_other:
  assumes "off + length bs \<le> length s" and "o' + n \<le> off \<or> off + length bs \<le> o'"
  shows "slice o' n (write_at off bs s) = slice o' n s"
  using assms by (auto simp: slice_def write_at_def take_drop intro!: nth_equalityI simp: nth_append)

section \<open>The interface: a store with separate fields\<close>

locale field_store =
  fixes get :: "'s \<Rightarrow> 'f \<Rightarrow> 'v" and put :: "'f \<Rightarrow> 'v \<Rightarrow> 's \<Rightarrow> 's"
    and fits :: "'f \<Rightarrow> 'v \<Rightarrow> bool" and ok :: "'s \<Rightarrow> bool"
  assumes get_put: "ok s \<Longrightarrow> fits f v \<Longrightarrow> get (put f v s) f = v"
    and get_put_other: "ok s \<Longrightarrow> fits f v \<Longrightarrow> fits g w \<Longrightarrow> f \<noteq> g \<Longrightarrow> get (put f v s) g = get s g"
    and put_ok: "ok s \<Longrightarrow> fits f v \<Longrightarrow> ok (put f v s)"
begin

lemma puts_ok: "ok s \<Longrightarrow> \<forall>(f, v)\<in>set xs. fits f v \<Longrightarrow> ok (fold (\<lambda>(f, v). put f v) xs s)"
  by (induction xs arbitrary: s) (auto simp: put_ok)

text \<open>After a sequence of assignments a field holds what was assigned last.\<close>

lemma get_puts:
  assumes "ok s" and "\<forall>(f, v)\<in>set xs. fits f v" and "map_of (rev xs) g = Some w"
  shows "get (fold (\<lambda>(f, v). put f v) xs s) g = w"
  using assms(2,3)
proof (induction xs rule: rev_induct)
  case (snoc x xs)
  obtain f v where x: "x = (f, v)" by (cases x)
  let ?s = "fold (\<lambda>(f, v). put f v) xs s"
  have s: "ok ?s" "fits f v" using snoc.prems(1) puts_ok [OF assms(1), of xs] x by auto
  show ?case
  proof (cases "f = g")
    case True
    then show ?thesis using snoc.prems(2) s by (auto simp: x get_put)
  next
    case False
    then have m: "map_of (rev xs) g = Some w" using snoc.prems(2) by (simp add: x)
    then have "fits g w" using snoc.prems(1) map_of_SomeD [OF m] by auto
    with False s m snoc show ?thesis by (simp add: x get_put_other)
  qed
qed simp

end

section \<open>The structure as a store\<close>

definition blob_fields :: "string list" where
  "blob_fields = [''magic'', ''version''] @ map fst template @ [''end_magic'']"

text \<open>The layout of a structure: the fields do not overlap and are inside it.\<close>

definition layout_ok :: "layout \<Rightarrow> bool" where
  "layout_ok L \<longleftrightarrow>
     (\<forall>f\<in>set blob_fields. l_at L f + l_width L f \<le> l_sizeof L \<and> l_width L f \<le> 8
        \<and> (\<forall>g\<in>set blob_fields. f \<noteq> g \<longrightarrow> l_at L f + l_width L f \<le> l_at L g \<or> l_at L g + l_width L g \<le> l_at L f))
     \<and> l_width L ''magic'' = 8 \<and> l_width L ''end_magic'' = 8"

definition field_bytes :: "layout \<Rightarrow> u8 list \<Rightarrow> string \<Rightarrow> u8 list" where
  "field_bytes L s f = slice (l_at L f) (l_width L f) s"

interpretation blob: field_store "field_bytes L" "\<lambda>f. write_at (l_at L f)"
  "\<lambda>f bs. layout_ok L \<and> f \<in> set blob_fields \<and> length bs = l_width L f" "\<lambda>s. length s = l_sizeof L" for L
proof
  fix s bs :: "u8 list" and f
  assume s: "length s = l_sizeof L" and f: "layout_ok L \<and> f \<in> set blob_fields \<and> length bs = l_width L f"
  then have r: "l_at L f + length bs \<le> length s" by (simp add: layout_ok_def)
  show "length (write_at (l_at L f) bs s) = l_sizeof L" using length_write_at [OF r] s by simp
  show "field_bytes L (write_at (l_at L f) bs s) f = bs"
    using slice_write_same [OF r] f by (simp add: field_bytes_def)
  show "field_bytes L (write_at (l_at L f) bs s) g = field_bytes L s g"
    if "layout_ok L \<and> g \<in> set blob_fields \<and> length w = l_width L g" "f \<noteq> g" for g and w :: "u8 list"
  proof -
    have "l_at L g + l_width L g \<le> l_at L f \<or> l_at L f + l_width L f \<le> l_at L g"
      using f that unfolding layout_ok_def by metis
    with f show ?thesis unfolding field_bytes_def by (intro slice_write_other [OF r]) auto
  qed
qed

text \<open>The statements as a sequence of assignments of bytes.\<close>

definition value_bytes :: "layout \<Rightarrow> string \<Rightarrow> int \<Rightarrow> u8 list" where
  "value_bytes L f i = le_bytes (l_width L f) (nat (i mod 2 ^ (8 * l_width L f)))"

lemma length_value_bytes [simp]: "length (value_bytes L f i) = l_width L f"
  by (simp add: value_bytes_def)

lemma le_nat_value_bytes: "le_nat (value_bytes L f i) = nat (i mod 2 ^ (8 * l_width L f))"
proof -
  have "(2 :: int) ^ (8 * l_width L f) = int (256 ^ l_width L f)" by (simp add: power_mult)
  then have "nat (i mod 2 ^ (8 * l_width L f)) < 256 ^ l_width L f"
    by (simp add: nat_less_iff)
  then show ?thesis by (simp add: value_bytes_def le_nat_bytes)
qed

lemma run_statements_fold:
  assumes "\<forall>(f, e)\<in>set xs. map_option snd (c_eval e) = Some (val f)"
  shows "run_statements L xs s = Some (fold (\<lambda>(f, bs). write_at (l_at L f) bs)
    (map (\<lambda>(f, e). (f, value_bytes L f (val f))) xs) s)"
  using assms
  by (induction xs arbitrary: s) (auto simp: set_field_def value_bytes_def)

lemma state_image_fold:
  assumes "\<forall>(f, e)\<in>set xs. map_option snd (c_eval e) = Some (val f)"
  shows "state_image L xs = Some (fold (\<lambda>(f, bs). write_at (l_at L f) bs)
    ([(''magic'', ascii ''CPUSTATE''), (''version'', value_bytes L ''version'' 0x0100)]
      @ map (\<lambda>(f, e). (f, value_bytes L f (val f))) xs @ [(''end_magic'', ascii ''ENDSTATE'')])
    (replicate (l_sizeof L) 0))"
  using run_statements_fold [OF assms]
  by (simp add: state_image_def set_field_def value_bytes_def Let_def)

section \<open>The value of a generated expression\<close>

lemma scan_hex: "scan_digits 16 0 (hex_digits k v) = v mod 16 ^ k"
  using scan_hex_digits [of 0 k v] by simp

lemma all_digits_hex: "0 < k \<Longrightarrow> all_digits 16 (hex_digits k v)"
proof -
  have "list_all (\<lambda>c. \<exists>d\<in>set_option (digit_val c). d < 16) (hex_digits k v)"
    by (induction k) (simp_all add: digit_val_hex_char)
  then show "0 < k \<Longrightarrow> all_digits 16 (hex_digits k v)" by (simp add: all_digits_def)
qed

lemma c_literal_hex:
  assumes "0 < k" and "v < 16 ^ k" and "v < 2 ^ 64"
  shows "\<exists>t. c_literal (''0x'' @ hex_digits k v) = Some (t, int v) \<and> literal_type False v = Some t"
proof -
  have "c_literal (''0x'' @ hex_digits k v) = c_number 16 (hex_digits k v)"
    by (simp add: c_literal_def)
  moreover have "scan_digits 16 0 (hex_digits k v) = v" using assms(2) by (simp add: scan_hex)
  moreover obtain t where "literal_type False v = Some t"
    using assms(3) by (cases "literal_type False v") (auto simp: literal_type_def split: if_splits)
  ultimately show ?thesis using assms(1) by (simp add: c_number_def all_digits_hex)
qed

lemma hex_no_space: "\<forall>c\<in>set (''0x'' @ hex_digits k v). c \<noteq> CHR '' ''"
proof
  fix c assume "c \<in> set (''0x'' @ hex_digits k v)"
  then have "c = CHR ''x'' \<or> is_hex c" using hex_digits_hex [of k v] by (auto simp: is_hex_def in_range_def)
  then show "c \<noteq> CHR '' ''" using class_facts(1) by auto
qed

lemma hex_text:
  assumes "r = [] \<or> hd r = CHR '' ''"
  shows "takeWhile (\<lambda>c. c \<noteq> CHR '' '') ((''0x'' @ hex_digits k v) @ r) = ''0x'' @ hex_digits k v"
    and "dropWhile (\<lambda>c. c \<noteq> CHR '' '') ((''0x'' @ hex_digits k v) @ r) = r"
  using takeWhile_token [OF hex_no_space, of r k v] assms by (simp_all only: simp_thms)

lemma c_unary_hex: "c_unary (''0x'' @ hex_digits k v) = c_literal (''0x'' @ hex_digits k v)"
  by (simp add: c_unary_def)

lemma c_eval_hex:
  assumes "0 < k" and "v < 16 ^ k" and "v < 2 ^ 64"
  shows "map_option snd (c_eval (''0x'' @ hex_digits k v)) = Some (int v)"
proof -
  let ?s = "''0x'' @ hex_digits k v"
  have "c_eval ?s = c_literal ?s"
    using hex_text [of "[]" k v] unfolding c_eval_def append_Nil2 c_unary_hex [symmetric] by (simp only: Let_def if_True simp_thms)
  with c_literal_hex [OF assms] show ?thesis by auto
qed

text \<open>The sum is exact, modulo 2^64, for an address above 4 GB.\<close>

lemma c_add_small:
  assumes "2 ^ 32 \<le> v" and "v < 2 ^ 63 - 16 \<or> 2 ^ 63 \<le> v" and "v < 2 ^ 64" and "off \<le> (16 :: nat)"
  shows "map_option snd (c_add (if v < 2 ^ 63 then TLong else TULong, int v) (TInt, int off)) =
    Some (int ((v + off) mod 2 ^ 64))"
proof (cases "v < 2 ^ 63")
  case True
  then have "v < 2 ^ 63 - 16" using assms(2) by simp
  then show ?thesis using assms(4) True by (simp add: c_add_def common_type_def)
next
  case False
  then show ?thesis using assms(3,4) by (simp add: c_add_def common_type_def zmod_int)
qed

lemma dec_offsets: "dec_digits 0 = ''0''" "dec_digits 16 = ''16''"
  by code_simp+

lemma c_unary_offset: "off = 0 \<or> off = (16 :: nat) \<Longrightarrow> c_unary (dec_digits off) = Some (TInt, int off)"
  by (elim disjE)
    (simp_all add: dec_offsets c_unary_def c_literal_def c_number_def all_digits_def digit_val_def literal_type_def)

lemma c_eval_rip:
  assumes "0 < k" and "v < 16 ^ k" and "v < 2 ^ 64" and "2 ^ 32 \<le> v" and "v < 2 ^ 63 - 16 \<or> 2 ^ 63 \<le> v"
    and "off = 0 \<or> off = (16 :: nat)"
  shows "map_option snd (c_eval (''0x'' @ hex_digits k v @ '' + '' @ dec_digits off)) = Some (int ((v + off) mod 2 ^ 64))"
proof -
  let ?a = "''0x'' @ hex_digits k v" and ?r = "'' + '' @ dec_digits off"
  have r: "?r \<noteq> []" "take 3 ?r = '' + ''" "drop 3 ?r = dec_digits off" by simp_all
  have "c_eval (?a @ ?r) = do { x \<leftarrow> c_unary ?a; y \<leftarrow> c_unary (dec_digits off); c_add x y }"
    using hex_text [of ?r k v] r unfolding c_eval_def Let_def by (simp del: append_Cons)
  moreover obtain t where t: "c_literal ?a = Some (t, int v)" "literal_type False v = Some t"
    using c_literal_hex [OF assms(1-3)] by blast
  then have "t = (if v < 2 ^ 63 then TLong else TULong)"
    using assms(4) by (auto simp: literal_type_def split: if_splits)
  moreover have "c_unary ?a = Some (t, int v)" using t(1) unfolding c_unary_hex .
  moreover have "c_unary (dec_digits off) = Some (TInt, int off)" using assms(6) by (rule c_unary_offset)
  ultimately show ?thesis
    using c_add_small [OF assms(4,5,3), of off] assms(6) by auto
qed

text \<open>
  Below 4 GB the literal has the type \<^verbatim>\<open>unsigned int\<close>, and the sum wraps at 32 bits.
\<close>

lemma rip_wraps: "c_eval ''0xfffffff8 + 16'' = Some (TUInt, 8)"
  by (simp add: c_eval_def c_unary_def c_literal_def c_number_def all_digits_def digit_val_def literal_type_def
      c_add_def common_type_def)

section \<open>From the printed registers to the file\<close>

lemma distinct_blob_fields: "distinct blob_fields"
  by code_simp

lemma statements_Inr:
  "\<forall>t\<in>set ts. statement d t = Inr (g t) \<Longrightarrow> statements d ts = Inr (map g ts)"
  by (induction ts) simp_all

text \<open>The registers as numbers: \<open>val r\<close> is what the last line that mentions \<open>r\<close> prints.\<close>

definition prints :: "qline list \<Rightarrow> string \<Rightarrow> nat \<Rightarrow> bool" where
  "prints qs r v \<longleftrightarrow> (\<exists>k. 0 < k \<and> k \<le> 16 \<and> v < 16 ^ k \<and> printed qs r = Some (hex_digits k v))"

lemma prints_bound: "prints qs r v \<Longrightarrow> v < 2 ^ 64"
proof -
  assume "prints qs r v"
  then obtain k where "k \<le> 16" "v < 16 ^ k" by (auto simp: prints_def)
  then have "v < 16 ^ 16" using power_increasing [of k 16 "16 :: nat"] by simp
  then show ?thesis by simp
qed

definition restored :: "bool \<Rightarrow> (string \<Rightarrow> nat) \<Rightarrow> string \<Rightarrow> string \<Rightarrow> nat" where
  "restored escape val f r =
     (if f = ''regs.ip'' then (val r + (if escape then 16 else 0)) mod 2 ^ 64 else val r)"

lemma generate_prints:
  assumes "list_all qline_ok qs" and "\<forall>(f, r)\<in>set template. prints qs r (val r)"
    and "printed qs ''rip_offset'' = None" and "2 ^ 32 \<le> val ''rip''"
    and "val ''rip'' < 2 ^ 63 - 16 \<or> 2 ^ 63 \<le> val ''rip''"
  shows "\<exists>g. generate (if escape then 16 else 0) (map qline_text qs) = Inr (map (\<lambda>(f, r). (f, g f r)) template)
    \<and> (\<forall>(f, r)\<in>set template. map_option snd (c_eval (g f r)) = Some (int (restored escape val f r)))"
proof -
  define off :: nat where "off = (if escape then 16 else 0)"
  define d where "d = process_lines (if escape then 16 else 0) (map qline_text qs)"
  define g where "g = (\<lambda>f r. ''0x'' @ the (printed qs r) @ (if f = ''regs.ip'' then '' + '' @ dec_digits off else []))"
  have d: "d k = (case printed qs k of Some h \<Rightarrow> Some (PyStr h)
      | None \<Rightarrow> [''rip_offset'' \<mapsto> PyInt (int off)] k)" for k
    unfolding d_def off_def process_lines_printed [OF assms(1)] by (simp split: option.split)
  have rip: "(f, r) \<in> set template \<Longrightarrow> f = ''regs.ip'' \<Longrightarrow> r = ''rip''" for f r
    by (simp add: template_def)
  have "statement d (f, r) = Inr (f, g f r)" and "map_option snd (c_eval (g f r)) = Some (int (restored escape val f r))"
    if fr: "(f, r) \<in> set template" for f r
  proof -
    have v: "prints qs r (val r)" using assms(2) fr by auto
    then obtain k where k: "0 < k" "val r < 16 ^ k" "printed qs r = Some (hex_digits k (val r))"
      by (auto simp: prints_def)
    then show "statement d (f, r) = Inr (f, g f r)"
      using assms(3) by (simp add: statement_def lookup_def d g_def py_format_def)
    show "map_option snd (c_eval (g f r)) = Some (int (restored escape val f r))"
    proof (cases "f = ''regs.ip''")
      case True
      moreover have "off = 0 \<or> off = 16" by (simp add: off_def)
      ultimately show ?thesis
        using c_eval_rip [OF k(1,2) prints_bound [OF v], of off] assms(4,5) rip [OF fr True] k(3)
        by (simp add: g_def restored_def off_def)
    next
      case False
      then show ?thesis
        using c_eval_hex [OF k(1,2) prints_bound [OF v]] k(3) by (simp add: g_def restored_def)
    qed
  qed
  then have "statements d template = Inr (map (\<lambda>(f, r). (f, g f r)) template)"
    by (intro statements_Inr) auto
  then show ?thesis
    using \<open>\<And>f r. (f, r) \<in> set template \<Longrightarrow> map_option snd _ = _\<close>
    unfolding generate_def d_def by (intro exI [of _ g]) auto
qed

definition file_field :: "layout \<Rightarrow> dump_file \<Rightarrow> string \<Rightarrow> u8 list" where
  "file_field L d f = map (f_bytes d) [l_at L f..<l_at L f + l_width L f]"

lemma file_field_image:
  assumes "layout_ok L" and "f \<in> set blob_fields" and "length s = l_sizeof L"
  shows "file_field L \<lparr>f_size = length s, f_bytes = (\<lambda>k. if k < length s then s ! k else 0)\<rparr> f = field_bytes L s f"
proof -
  have "l_at L f + l_width L f \<le> length s" using assms by (simp add: layout_ok_def)
  then show ?thesis
    by (intro nth_equalityI) (simp_all add: file_field_def field_bytes_def slice_def)
qed

lemma state_image_field:
  assumes "layout_ok L"
    and "\<forall>(f, e)\<in>set xs. map_option snd (c_eval e) = Some (val f)" and "map fst xs = map fst template"
  shows "\<exists>s. state_image L xs = Some s \<and> length s = l_sizeof L
    \<and> field_bytes L s ''magic'' = ascii ''CPUSTATE'' \<and> field_bytes L s ''end_magic'' = ascii ''ENDSTATE''
    \<and> field_bytes L s ''version'' = value_bytes L ''version'' 0x0100
    \<and> (\<forall>f\<in>fst ` set template. field_bytes L s f = value_bytes L f (val f))"
proof -
  let ?xs = "[(''magic'', ascii ''CPUSTATE''), (''version'', value_bytes L ''version'' 0x0100)]
      @ map (\<lambda>(f, e). (f, value_bytes L f (val f))) xs @ [(''end_magic'', ascii ''ENDSTATE'')]"
  let ?s = "fold (\<lambda>(f, bs). write_at (l_at L f) bs) ?xs (replicate (l_sizeof L) 0)"
  have names: "map fst ?xs = blob_fields"
  proof -
    have "map fst (map (\<lambda>(f, e). (f, value_bytes L f (val f))) xs) = map fst xs" by (induction xs) auto
    then show ?thesis using assms(3) unfolding blob_fields_def by simp
  qed
  have w: "l_width L ''magic'' = 8" "l_width L ''end_magic'' = 8" using assms(1) by (simp_all add: layout_ok_def)
  have fst_in: "f \<in> set blob_fields" if "(f, b) \<in> set ?xs" for f b
    using image_eqI [OF _ that, of f fst] unfolding names [symmetric] set_map by simp
  have "length b = l_width L f" if "(f, b) \<in> set ?xs" for f b
  proof -
    have "list_all (\<lambda>(f, b). length b = l_width L f) (map (\<lambda>(f, e). (f, value_bytes L f (val f))) xs)"
      by (induction xs) auto
    then have "list_all (\<lambda>(f, b). length b = l_width L f) ?xs" using w by (simp add: ascii_def)
    then show ?thesis using that unfolding list_all_iff by blast
  qed
  with fst_in assms(1) have fits: "\<forall>(f, b)\<in>set ?xs. layout_ok L \<and> f \<in> set blob_fields \<and> length b = l_width L f"
    by blast
  have get: "field_bytes L ?s f = b" if "(f, b) \<in> set ?xs" for f b
  proof (rule blob.get_puts [OF _ fits])
    have "distinct (map fst (rev ?xs))" using names distinct_blob_fields by (metis distinct_rev rev_map)
    then show "map_of (rev ?xs) f = Some b" using that by (intro map_of_is_SomeI) (simp_all only: set_rev)
  qed simp
  have "field_bytes L ?s f = value_bytes L f (val f)" if "f \<in> fst ` set template" for f
  proof (rule get)
    have "f \<in> fst ` set xs" using that assms(3) by (metis list.set_map)
    then show "(f, value_bytes L f (val f)) \<in> set ?xs" by force
  qed
  moreover have "length ?s = l_sizeof L" using blob.puts_ok [OF _ fits] by simp
  ultimately show ?thesis
    using state_image_fold [OF assms(2), of L] get by (intro exI [of _ ?s]) simp
qed


text \<open>A layout with eight bytes for each field, and a text with one register to a line.\<close>

definition field_index :: "string \<Rightarrow> nat" where
  "field_index f = length (takeWhile (\<lambda>g. g \<noteq> f) blob_fields)"

definition demo_layout :: layout where
  "demo_layout = \<lparr>l_sizeof = 8 * length blob_fields, l_at = (\<lambda>f. 8 * field_index f), l_width = (\<lambda>f. 8)\<rparr>"

lemma blob_fields_index:
  assumes "f \<in> set blob_fields"
  shows "field_index f < length blob_fields" and "blob_fields ! field_index f = f"
proof -
  show *: "field_index f < length blob_fields"
  proof -
    have "f \<in> set xs \<Longrightarrow> length (takeWhile (\<lambda>g. g \<noteq> f) xs) < length xs" for xs
      by (induction xs) auto
    with assms show ?thesis by (simp add: field_index_def)
  qed
  show "blob_fields ! field_index f = f"
    using nth_length_takeWhile [of "\<lambda>g. g \<noteq> f" blob_fields] * unfolding field_index_def by blast
qed

lemma demo_layout_ok: "layout_ok demo_layout"
proof -
  have "field_index f < field_index g \<or> field_index g < field_index f"
    if "f \<in> set blob_fields" "g \<in> set blob_fields" "f \<noteq> g" for f g
    using blob_fields_index(2) [OF that(1)] blob_fields_index(2) [OF that(2)] that(3) by (metis linorder_neqE_nat)
  then show ?thesis
    using blob_fields_index(1) unfolding layout_ok_def demo_layout_def by fastforce
qed

definition demo_names :: "string list" where
  "demo_names = [''RAX'', ''RBX'', ''RCX'', ''RDX'', ''RSI'', ''RDI'', ''RBP'', ''RSP'', ''R8'', ''R9'', ''R10'',
     ''R11'', ''R12'', ''R13'', ''R14'', ''R15'', ''RIP'', ''RFL'', ''CS'', ''SS'', ''DS'', ''ES'', ''FS'', ''GS'', ''TR'',
     ''FS_BASE'', ''GS_BASE'', ''CR0'', ''CR2'', ''CR3'', ''CR4'', ''EFER'', ''GDT_ADDR'', ''GDT_SIZE'', ''IDT_ADDR'',
     ''IDT_SIZE'', ''MSR_KERNELGSBASE'', ''MSR_SYSENTER_CS'', ''MSR_SYSENTER_ESP'', ''MSR_SYSENTER_EIP'', ''MSR_STAR'',
     ''MSR_LSTAR'', ''MSR_CSTAR'', ''MSR_FMASK'', ''MSR_TSC_AUX'']"

definition demo_val :: "string \<Rightarrow> nat" where
  "demo_val r = (if r = ''rip'' then 0xffffffff81a5c0ae else 0)"

definition demo_item :: "string \<Rightarrow> item" where
  "demo_item n = \<lparr>i_name = n, i_pad = [], i_digits = 16, i_value = demo_val (py_lower n), i_sep = '' ''\<rparr>"

lemma demo_names_facts:
  "distinct (map py_lower demo_names)" "list_all (\<lambda>(f, r). r \<in> set (map py_lower demo_names)) template"
  "''rip_offset'' \<notin> set (map py_lower demo_names)" "list_all name_ok demo_names"
     apply code_simp
    apply code_simp
   apply code_simp
  apply code_simp
  done

lemma demo_printed: "printed [Regs (map demo_item demo_names)] r =
    (if r \<in> set (map py_lower demo_names) then Some (hex_digits 16 (demo_val r)) else None)"
proof -
  have *: "items_regs (map demo_item demo_names) = map (\<lambda>r. (r, hex_digits 16 (demo_val r))) (map py_lower demo_names)"
    by (simp add: items_regs_def demo_item_def)
  show ?thesis
    unfolding printed_def using map_of_map_restrict [of "\<lambda>r. hex_digits 16 (demo_val r)" "rev (map py_lower demo_names)"]
    by (simp add: * rev_map restrict_map_def del: map_map)
qed


end
