(* ===== verification/LogReader.thy ===== *)
theory LogReader
  imports StateBlobProps MemDumpProps
begin

text \<open>
  \<^verbatim>\<open>read-ovmf-log.py\<close>: the firmware logs a 64-bit value as its eight bytes between markers, and the
  script replaces each of them by its digits, and by its characters when all of them are printable. A
  file is a list of bytes; the regular expression \<^verbatim>\<open>HEX\|(........)\|\<close> matches any eight bytes.
\<close>

section \<open>The script\<close>

definition is_all_printable :: "u8 list \<Rightarrow> bool" where
  "is_all_printable buf = list_all (\<lambda>b. \<not> (b < 32 \<or> b > 127)) buf"

definition repl_hex :: "u8 list \<Rightarrow> u8 list" where
  "repl_hex the_bytes =
     (let hex_val = ascii (''HEXDECODED=0x'' @ hex_digits 16 (le_nat the_bytes))
      in if is_all_printable the_bytes then hex_val @ ascii '' ASCII=|'' @ the_bytes @ ascii ''|'' else hex_val)"

text \<open>A match at the front: the group and the rest.\<close>

definition match_hex :: "u8 list \<Rightarrow> (u8 list \<times> u8 list) option" where
  "match_hex s = (if take 4 s = ascii ''HEX|'' \<and> length s \<ge> 13 \<and> s ! 12 = of_char (CHR ''|'')
     then Some (take 8 (drop 4 s), drop 13 s) else None)"

lemma match_hex_shorter: "match_hex s = Some (b, r) \<Longrightarrow> length r < length s"
  by (auto simp: match_hex_def split: if_splits)

function sub_hex :: "u8 list \<Rightarrow> u8 list" where
  "sub_hex s = (case match_hex s of
     Some (b, r) \<Rightarrow> repl_hex b @ sub_hex r
   | None \<Rightarrow> (case s of [] \<Rightarrow> [] | c # t \<Rightarrow> c # sub_hex t))"
  by pat_completeness auto
termination
  by (relation "measure length") (auto dest: match_hex_shorter)

declare sub_hex.simps [simp del]

text \<open>The standard output; \<open>None\<close> when the file cannot be read.\<close>

definition process_log :: "(string \<rightharpoonup> u8 list) \<Rightarrow> string \<Rightarrow> u8 list option" where
  "process_log fs filename = map_option sub_hex (fs filename)"

definition log_main :: "(string \<rightharpoonup> u8 list) \<Rightarrow> string list \<Rightarrow> u8 list option" where
  "log_main fs argv = (if length argv > 1 then process_log fs (argv ! 1) else process_log fs ''ovmf-2.log'')"

section \<open>Logs\<close>

definition hex_record :: "u64 \<Rightarrow> u8 list" where
  "hex_record v = ascii ''HEX|'' @ le_bytes 8 (unat v) @ ascii ''|''"

text \<open>Text in which no marker starts, even when one follows it.\<close>

fun clean :: "u8 list \<Rightarrow> bool" where
  "clean [] \<longleftrightarrow> True"
| "clean (c # t) \<longleftrightarrow> take 4 ((c # t) @ ascii ''HEX|'') \<noteq> ascii ''HEX|'' \<and> clean t"

lemma ascii_append: "ascii (s @ t) = ascii s @ ascii t" "length (ascii s) = length s"
  by (simp_all add: ascii_def)

lemma sub_hex_record: "sub_hex (hex_record v @ s) = repl_hex (le_bytes 8 (unat v)) @ sub_hex s"
proof -
  have "match_hex (hex_record v @ s) = Some (le_bytes 8 (unat v), s)"
    by (simp add: match_hex_def hex_record_def ascii_def nth_append)
  then show ?thesis by (subst sub_hex.simps) simp
qed

lemma take_append_marker:
  assumes "s = [] \<or> take 4 s = ascii ''HEX|''" and "take 4 (u @ s) = ascii ''HEX|''"
  shows "take 4 (u @ ascii ''HEX|'') = ascii ''HEX|''"
  using assms(1)
proof
  assume s: "s = []"
  have "length (take 4 (u @ s)) = 4" using assms(2) by (simp add: ascii_append)
  then have "4 \<le> length u" using s by simp
  then show ?thesis using assms(2) s by simp
next
  assume "take 4 s = ascii ''HEX|''"
  then have "take (4 - length u) (ascii ''HEX|'') = take (4 - length u) s"
    by (metis diff_le_self min.absorb1 take_take)
  then show ?thesis using assms(2) by simp
qed

lemma sub_hex_clean:
  assumes "clean t" and "s = [] \<or> take 4 s = ascii ''HEX|''"
  shows "sub_hex (t @ s) = t @ sub_hex s"
  using assms(1)
proof (induction t)
  case (Cons c t)
  have "take 4 ((c # t) @ ascii ''HEX|'') \<noteq> ascii ''HEX|''"
    using Cons.prems by simp
  then have "take 4 ((c # t) @ s) \<noteq> ascii ''HEX|''"
    using assms(2) take_append_marker [of s "c # t"] by blast
  then have "match_hex (c # t @ s) = None" by (simp add: match_hex_def)
  then show ?case
    using Cons by (subst sub_hex.simps) simp
qed simp

text \<open>
  What the script prints for a value: the marker, digits that read back as the value, and its
  characters when all of them are printable.
\<close>

lemma repl_hex_value: "\<exists>digits tail. repl_hex (le_bytes 8 (unat v)) = ascii (''HEXDECODED='' @ digits) @ tail
    \<and> length digits = 18 \<and> strtoul digits = v
    \<and> (tail = [] \<longleftrightarrow> \<not> is_all_printable (le_bytes 8 (unat v)))"
proof (intro exI conjI)
  let ?b = "le_bytes 8 (unat v)"
  have "unat v < 256 ^ 8" using unsigned_less [of v] by simp
  then have "le_nat ?b = unat v" by (simp add: le_nat_bytes)
  then show "repl_hex ?b = ascii (''HEXDECODED='' @ ''0x'' @ hex_digits 16 (unat v)) @
      (if is_all_printable ?b then ascii '' ASCII=|'' @ ?b @ ascii ''|'' else [])"
    by (simp add: repl_hex_def Let_def ascii_append)
  show "strtoul (''0x'' @ hex_digits 16 (unat v)) = v" by (rule strtoul_hex)
qed (simp_all add: ascii_def)

lemma le_bytes_numeral:
  "le_bytes (numeral w) v = of_nat v # le_bytes (pred_numeral w) (v div 256)"
  by (simp only: numeral_eq_Suc [of w] le_bytes.simps)

lemma hex_digits_numeral:
  "hex_digits (numeral k) n = hex_char (n div 16 ^ pred_numeral k mod 16) # hex_digits (pred_numeral k) n"
  by (simp only: numeral_eq_Suc [of k] hex_digits.simps)

lemma of_char_hex_char:
  assumes "d < 16"
  shows "of_char (hex_char d) = (if d < 10 then 48 + of_nat d else 87 + of_nat d :: u8)"
proof -
  have "list_all (\<lambda>d. of_char (hex_char d) = (if d < 10 then 48 + of_nat d else 87 + of_nat d :: u8)) [0..<16]"
    by code_simp
  then show ?thesis using assms unfolding list_all_iff by fastforce
qed

definition log_text :: "u8 list \<Rightarrow> (u64 \<times> u8 list) list \<Rightarrow> u8 list" where
  "log_text t0 items = t0 @ concat (map (\<lambda>(v, t). hex_record v @ t) items)"

definition shown_text :: "u8 list \<Rightarrow> (u64 \<times> u8 list) list \<Rightarrow> u8 list" where
  "shown_text t0 items = t0 @ concat (map (\<lambda>(v, t). repl_hex (le_bytes 8 (unat v)) @ t) items)"

lemma sub_hex_empty [simp]: "sub_hex [] = []"
  by (subst sub_hex.simps) (simp add: match_hex_def)

lemma log_text_front: "concat (map (\<lambda>(v, t). hex_record v @ t) items) = [] \<or>
    take 4 (concat (map (\<lambda>(v, t). hex_record v @ t) items)) = ascii ''HEX|''"
  by (cases items) (auto simp: hex_record_def ascii_append ascii_def)

lemma sub_hex_items:
  assumes "clean t0" and "\<forall>(v, t)\<in>set items. clean t"
  shows "sub_hex (log_text t0 items) = shown_text t0 items"
  using assms
proof (induction items arbitrary: t0)
  case Nil
  then show ?case using sub_hex_clean [of t0 "[]"] by (simp add: log_text_def shown_text_def)
next
  case (Cons item items)
  obtain v t where item: "item = (v, t)" by (cases item)
  have IH: "sub_hex (log_text t items) = shown_text t items"
    using Cons.IH [of t] Cons.prems item by auto
  have "sub_hex (log_text t0 (item # items)) = t0 @ sub_hex (hex_record v @ log_text t items)"
    using sub_hex_clean [OF Cons.prems(1) log_text_front [of "item # items"]] item
    by (simp add: log_text_def)
  then show ?case
    using sub_hex_record IH item by (simp add: shown_text_def)
qed

text \<open>
  C7. Let a log be text that holds no marker, with records of 64-bit values in between. The script
  prints that text unchanged, and in place of each record, in order, \<^verbatim>\<open>HEXDECODED=\<close> and a number that
  reads back as the value, followed by its characters exactly when all eight bytes are printable.
  Nothing else is changed, whatever bytes the values have, the markers' own included.
\<close>

theorem log_main_decodes:
  assumes "fs f = Some (log_text t0 items)"
    and "clean t0" and "\<forall>(v, t)\<in>set items. clean t"
  shows "log_main fs [prog, f] = Some (shown_text t0 items)
    \<and> (\<forall>v. \<exists>digits tail. repl_hex (le_bytes 8 (unat v)) = ascii (''HEXDECODED='' @ digits) @ tail
      \<and> length digits = 18 \<and> strtoul digits = v
      \<and> (tail = [] \<longleftrightarrow> \<not> is_all_printable (le_bytes 8 (unat v))))"
  using assms sub_hex_items [of t0 items] repl_hex_value
  by (simp_all add: log_main_def process_log_def)

text \<open>The log of a boot: a value whose bytes are markers, one of letters, and text around them.\<close>

theorem log_main_decodes_witness:
  "log_main [''ovmf.log'' \<mapsto> log_text (ascii ''CR3 '') [(0x7c7c7c7c7c584548, ascii '' EFI ''), (0x12345, [10])]]
      [''read-ovmf-log.py'', ''ovmf.log''] =
    Some (ascii ''CR3 HEXDECODED=0x7c7c7c7c7c584548 ASCII=|HEX|||||| EFI HEXDECODED=0x0000000000012345'' @ [10])"
proof -
  have "log_main [''ovmf.log'' \<mapsto> log_text (ascii ''CR3 '') [(0x7c7c7c7c7c584548, ascii '' EFI ''), (0x12345, [10])]]
      [''read-ovmf-log.py'', ''ovmf.log''] =
    Some (shown_text (ascii ''CR3 '') [(0x7c7c7c7c7c584548, ascii '' EFI ''), (0x12345, [10])])"
    by (rule log_main_decodes [THEN conjunct1]) (simp_all add: ascii_def)
  moreover have "le_bytes 8 (unat (0x7c7c7c7c7c584548 :: u64)) = [0x48, 0x45, 0x58, 0x7c, 0x7c, 0x7c, 0x7c, 0x7c]"
    by (simp add: le_bytes_numeral)
  moreover have "le_bytes 8 (unat (0x12345 :: u64)) = [0x45, 0x23, 1, 0, 0, 0, 0, 0]"
    by (simp add: le_bytes_numeral)
  moreover have "repl_hex [0x48, 0x45, 0x58, 0x7c, 0x7c, 0x7c, 0x7c, 0x7c] =
      ascii ''HEXDECODED=0x7c7c7c7c7c584548 ASCII=|HEX||||||''"
    by (simp add: repl_hex_def is_all_printable_def ascii_def hex_digits_numeral of_char_hex_char)
  moreover have "repl_hex [0x45, 0x23, 1, 0, 0, 0, 0, 0] = ascii ''HEXDECODED=0x0000000000012345''"
    by (simp add: repl_hex_def is_all_printable_def ascii_def hex_digits_numeral of_char_hex_char)
  ultimately show ?thesis by (simp add: shown_text_def ascii_def)
qed

end
