(* ===== verification/Platform.thy ===== *)
theory Platform
  imports Prelude
begin

text \<open>
  What the local APIC code takes from headers and kernel functions that are not in the repository.
  The kernel's \<^verbatim>\<open>asm/apicdef.h\<close>, \<^verbatim>\<open>msr-index.h\<close> and the configuration are one parameter, a record
  of type \<open>platform\<close> (the argument \<open>K\<close> of the definitions): register offsets, bit constants, macro
  functions and configuration switches, under their source names. The predicates \<open>\<dots>_ok\<close> state the
  documented facts (Intel SDM, volume 3, chapter on the APIC) a theorem relies on; \<open>sdm\<close> is a
  concrete platform for the witnesses. The hardware and the rest of the kernel are a machine that
  answers every access in an arbitrary way, as a function of all accesses so far, and logs it.
\<close>

section \<open>Names of registers, constants and features\<close>

datatype (plugins only: code size) apic_reg =
    APIC_ID | APIC_LVR | APIC_TASKPRI | APIC_EOI | APIC_LDR | APIC_DFR | APIC_SPIV | APIC_ISR
  | APIC_IRR | APIC_ESR | APIC_LVTCMCI | APIC_ICR | APIC_ICR2 | APIC_LVTT | APIC_LVTTHMR
  | APIC_LVTPC | APIC_LVT0 | APIC_LVT1 | APIC_LVTERR | APIC_TMICT | APIC_TMCCT | APIC_TDCR

datatype (plugins only: code size) apic_const =
    APIC_EOI_ACK | APIC_ICR_BUSY | APIC_VECTOR_MASK | APIC_SPIV_APIC_ENABLED
  | APIC_SPIV_FOCUS_DISABLED | APIC_TPRI_MASK | APIC_LVT_MASKED | APIC_LVT_LEVEL_TRIGGER
  | APIC_LVT_REMOTE_IRR | APIC_INPUT_POLARITY | APIC_SEND_PENDING | APIC_MODE_MASK
  | APIC_MODE_EXTINT | APIC_MODE_NMI | APIC_LVT_TIMER_PERIODIC | APIC_LVT_TIMER_TSCDEADLINE
  | APIC_TIMER_BASE_DIV | APIC_TDR_DIV_1 | APIC_TDR_DIV_16 | APIC_TDR_DIV_TMBASE | APIC_DM_NMI
  | APIC_DM_INIT | APIC_DM_EXTINT | APIC_DEST_ALLINC | APIC_INT_LEVELTRIG | APIC_EILVT_MASKED
  | SPURIOUS_APIC_VECTOR | ERROR_APIC_VECTOR | LOCAL_TIMER_VECTOR | BAD_APICID
  | APIC_BASE_MSR | MSR_IA32_APICBASE | MSR_IA32_APICBASE_ENABLE | MSR_IA32_APICBASE_BASE
  | X2APIC_ENABLE | XAPIC_ENABLE | MSR_IA32_TSC_DEADLINE | APIC_DEFAULT_PHYS_BASE

datatype cpu_feature =
    X86_FEATURE_APIC | X86_FEATURE_TSC | X86_FEATURE_TSC_DEADLINE_TIMER | X86_FEATURE_HYPERVISOR
  | X86_FEATURE_ARAT | X86_FEATURE_X2APIC | X86_FEATURE_EXTD_APICID

datatype intel_model =
    HASWELL_X | BROADWELL_X | BROADWELL_D | SKYLAKE_X | HASWELL | HASWELL_L | HASWELL_G | BROADWELL
  | BROADWELL_G | SKYLAKE_L | SKYLAKE | KABYLAKE_L | KABYLAKE

datatype cpu_vendor =
  X86_VENDOR_INTEL | X86_VENDOR_AMD | X86_VENDOR_HYGON | X86_VENDOR_OTHER

section \<open>The platform\<close>

record platform =
  reg :: "apic_reg \<Rightarrow> u32"
  cst :: "apic_const \<Rightarrow> u32"
  APIC_BASE :: u64
  GET_APIC_VERSION :: "u32 \<Rightarrow> u32"
  GET_APIC_MAXLVT :: "u32 \<Rightarrow> u32"
  APIC_INTEGRATED :: "u32 \<Rightarrow> bool"
  APIC_XAPIC :: "u32 \<Rightarrow> bool"
  SET_APIC_DEST_FIELD :: "u32 \<Rightarrow> u32"
  GET_APIC_LOGICAL_ID :: "u32 \<Rightarrow> u32"
  SET_APIC_DELIVERY_MODE :: "u32 \<Rightarrow> u32 \<Rightarrow> u32"
  SET_APIC_TIMER_BASE :: "u32 \<Rightarrow> u32"
  APIC_EILVTn :: "nat \<Rightarrow> u32"
  APIC_EILVT_NR_MAX :: nat
  fls :: "u32 \<Rightarrow> nat"
  IRQ_REMAP_X2APIC_MODE :: int
  INTEL_FAM6 :: "intel_model \<Rightarrow> u32"
  HZ :: nat
  TICK_NSEC :: u64
  ACPI_PM_OVRRUN :: u64
  PMTMR_TICKS_PER_SEC :: u64
  div_sc :: "u64 \<Rightarrow> u64 \<Rightarrow> nat \<Rightarrow> u64"
  clockevent_delta2ns :: "u64 \<Rightarrow> u32 \<Rightarrow> nat \<Rightarrow> u64"
  CONFIG_X86_32 :: bool
  CONFIG_X86_64 :: bool
  CONFIG_SMP :: bool
  CONFIG_X86_THERMAL_VECTOR :: bool
  CONFIG_X86_MCE_INTEL :: bool
  CONFIG_UP_LATE_INIT :: bool
  CONFIG_CRASH_DUMP :: bool
  CONFIG_X86_PM_TIMER :: bool

text \<open>Registers have different offsets, multiples of 16 inside one page.\<close>

definition regs_ok :: "platform \<Rightarrow> bool" where
  "regs_ok K \<longleftrightarrow> inj (reg K) \<and> (\<forall>r. reg K r AND 0xF = 0 \<and> reg K r < 0x1000)"

text \<open>Mask, enable and mode fields of the registers occupy different bits.\<close>

definition bits_ok :: "platform \<Rightarrow> bool" where
  "bits_ok K \<longleftrightarrow>
     cst K APIC_LVT_MASKED = BIT 16 \<and> cst K APIC_SPIV_APIC_ENABLED = BIT 8
     \<and> cst K APIC_VECTOR_MASK AND cst K APIC_SPIV_APIC_ENABLED = 0
     \<and> cst K SPURIOUS_APIC_VECTOR AND cst K APIC_SPIV_APIC_ENABLED = 0
     \<and> cst K SPURIOUS_APIC_VECTOR AND cst K APIC_VECTOR_MASK = cst K SPURIOUS_APIC_VECTOR
     \<and> cst K APIC_SPIV_FOCUS_DISABLED AND cst K APIC_SPIV_APIC_ENABLED = 0
     \<and> cst K APIC_SPIV_FOCUS_DISABLED AND cst K APIC_VECTOR_MASK = 0
     \<and> cst K APIC_DM_EXTINT AND cst K APIC_LVT_MASKED = 0
     \<and> cst K APIC_DM_NMI AND cst K APIC_LVT_MASKED = 0
     \<and> cst K APIC_LVT_LEVEL_TRIGGER AND cst K APIC_LVT_MASKED = 0"

section \<open>A concrete platform\<close>

fun sdm_reg :: "apic_reg \<Rightarrow> u32" where
  "sdm_reg APIC_ID = 0x20" | "sdm_reg APIC_LVR = 0x30" | "sdm_reg APIC_TASKPRI = 0x80"
| "sdm_reg APIC_EOI = 0xB0" | "sdm_reg APIC_LDR = 0xD0" | "sdm_reg APIC_DFR = 0xE0"
| "sdm_reg APIC_SPIV = 0xF0" | "sdm_reg APIC_ISR = 0x100" | "sdm_reg APIC_IRR = 0x200"
| "sdm_reg APIC_ESR = 0x280" | "sdm_reg APIC_LVTCMCI = 0x2F0" | "sdm_reg APIC_ICR = 0x300"
| "sdm_reg APIC_ICR2 = 0x310" | "sdm_reg APIC_LVTT = 0x320" | "sdm_reg APIC_LVTTHMR = 0x330"
| "sdm_reg APIC_LVTPC = 0x340" | "sdm_reg APIC_LVT0 = 0x350" | "sdm_reg APIC_LVT1 = 0x360"
| "sdm_reg APIC_LVTERR = 0x370" | "sdm_reg APIC_TMICT = 0x380" | "sdm_reg APIC_TMCCT = 0x390"
| "sdm_reg APIC_TDCR = 0x3E0"

fun sdm_cst :: "apic_const \<Rightarrow> u32" where
  "sdm_cst APIC_EOI_ACK = 0" | "sdm_cst APIC_ICR_BUSY = 0x1000"
| "sdm_cst APIC_VECTOR_MASK = 0xFF" | "sdm_cst APIC_SPIV_APIC_ENABLED = 0x100"
| "sdm_cst APIC_SPIV_FOCUS_DISABLED = 0x200" | "sdm_cst APIC_TPRI_MASK = 0xFF"
| "sdm_cst APIC_LVT_MASKED = 0x10000" | "sdm_cst APIC_LVT_LEVEL_TRIGGER = 0x8000"
| "sdm_cst APIC_LVT_REMOTE_IRR = 0x4000" | "sdm_cst APIC_INPUT_POLARITY = 0x2000"
| "sdm_cst APIC_SEND_PENDING = 0x1000" | "sdm_cst APIC_MODE_MASK = 0x700"
| "sdm_cst APIC_MODE_EXTINT = 7" | "sdm_cst APIC_MODE_NMI = 4"
| "sdm_cst APIC_LVT_TIMER_PERIODIC = 0x20000" | "sdm_cst APIC_LVT_TIMER_TSCDEADLINE = 0x40000"
| "sdm_cst APIC_TIMER_BASE_DIV = 2" | "sdm_cst APIC_TDR_DIV_1 = 0xB"
| "sdm_cst APIC_TDR_DIV_16 = 3" | "sdm_cst APIC_TDR_DIV_TMBASE = 4"
| "sdm_cst APIC_DM_NMI = 0x400" | "sdm_cst APIC_DM_INIT = 0x500" | "sdm_cst APIC_DM_EXTINT = 0x700"
| "sdm_cst APIC_DEST_ALLINC = 0x80000" | "sdm_cst APIC_INT_LEVELTRIG = 0x8000"
| "sdm_cst APIC_EILVT_MASKED = 0x10000" | "sdm_cst SPURIOUS_APIC_VECTOR = 0xFF"
| "sdm_cst ERROR_APIC_VECTOR = 0xFE" | "sdm_cst LOCAL_TIMER_VECTOR = 0xEC"
| "sdm_cst BAD_APICID = 0xFFFF" | "sdm_cst APIC_BASE_MSR = 0x800"
| "sdm_cst MSR_IA32_APICBASE = 0x1B" | "sdm_cst MSR_IA32_APICBASE_ENABLE = 0x800"
| "sdm_cst MSR_IA32_APICBASE_BASE = 0xFFFFF000" | "sdm_cst X2APIC_ENABLE = 0x400"
| "sdm_cst XAPIC_ENABLE = 0x800" | "sdm_cst MSR_IA32_TSC_DEADLINE = 0x6E0"
| "sdm_cst APIC_DEFAULT_PHYS_BASE = 0xFEE00000"

definition sdm :: platform where
  "sdm = \<lparr>reg = sdm_reg, cst = sdm_cst, APIC_BASE = 0xffffffffff5fd000,
     GET_APIC_VERSION = (\<lambda>x. x AND 0xFF), GET_APIC_MAXLVT = (\<lambda>x. drop_bit 16 x AND 0xFF),
     APIC_INTEGRATED = (\<lambda>x. x AND 0xF0 \<noteq> 0), APIC_XAPIC = (\<lambda>x. 0x14 \<le> x),
     SET_APIC_DEST_FIELD = push_bit 24, GET_APIC_LOGICAL_ID = (\<lambda>x. drop_bit 24 x AND 0xFF),
     SET_APIC_DELIVERY_MODE = (\<lambda>x y. (x AND NOT 0x700) OR push_bit 8 y),
     SET_APIC_TIMER_BASE = push_bit 18, APIC_EILVTn = (\<lambda>n. 0x500 + 0x10 * of_nat n),
     APIC_EILVT_NR_MAX = 4, fls = (\<lambda>x. foldl (\<lambda>a n. if bit x n then Suc n else a) 0 [0..<32]),
     IRQ_REMAP_X2APIC_MODE = 1, INTEL_FAM6 = (\<lambda>m. case m of HASWELL_X \<Rightarrow> 0x3F | BROADWELL_X \<Rightarrow> 0x4F | BROADWELL_D \<Rightarrow> 0x56
       | SKYLAKE_X \<Rightarrow> 0x55 | HASWELL \<Rightarrow> 0x3C | HASWELL_L \<Rightarrow> 0x45 | HASWELL_G \<Rightarrow> 0x46
       | BROADWELL \<Rightarrow> 0x3D | BROADWELL_G \<Rightarrow> 0x47 | SKYLAKE_L \<Rightarrow> 0x4E | SKYLAKE \<Rightarrow> 0x5E
       | KABYLAKE_L \<Rightarrow> 0x8E | KABYLAKE \<Rightarrow> 0x9E),
     HZ = 1000, TICK_NSEC = 1000000, ACPI_PM_OVRRUN = 0x1000000, PMTMR_TICKS_PER_SEC = 3579545,
     div_sc = (\<lambda>t n s. push_bit s t div n),
     clockevent_delta2ns = (\<lambda>l m s. push_bit s l div ucast m),
     CONFIG_X86_32 = False, CONFIG_X86_64 = True, CONFIG_SMP = True,
     CONFIG_X86_THERMAL_VECTOR = True, CONFIG_X86_MCE_INTEL = True, CONFIG_UP_LATE_INIT = False,
     CONFIG_CRASH_DUMP = True, CONFIG_X86_PM_TIMER = True\<rparr>"

lemma sdm_simps [simp]:
  "reg sdm = sdm_reg" "cst sdm = sdm_cst" "GET_APIC_VERSION sdm x = x AND 0xFF"
  "GET_APIC_MAXLVT sdm x = drop_bit 16 x AND 0xFF" "APIC_INTEGRATED sdm x = (x AND 0xF0 \<noteq> 0)"
  "APIC_EILVT_NR_MAX sdm = 4" "APIC_EILVTn sdm n = 0x500 + 0x10 * of_nat n"
  "SET_APIC_DEST_FIELD sdm = push_bit 24" "\<not> CONFIG_X86_32 sdm" "CONFIG_X86_64 sdm" "CONFIG_SMP sdm"
  "CONFIG_X86_THERMAL_VECTOR sdm" "CONFIG_X86_MCE_INTEL sdm" "\<not> CONFIG_UP_LATE_INIT sdm"
  "HZ sdm = 1000" "IRQ_REMAP_X2APIC_MODE sdm = 1"
  by (simp_all add: sdm_def)

definition sdm_reg_inv :: "u32 \<Rightarrow> apic_reg" where
  "sdm_reg_inv w = (case map_of
     [(0x20, APIC_ID), (0x30, APIC_LVR), (0x80, APIC_TASKPRI), (0xB0, APIC_EOI), (0xD0, APIC_LDR),
      (0xE0, APIC_DFR), (0xF0, APIC_SPIV), (0x100, APIC_ISR), (0x200, APIC_IRR), (0x280, APIC_ESR),
      (0x2F0, APIC_LVTCMCI), (0x300, APIC_ICR), (0x310, APIC_ICR2), (0x320, APIC_LVTT),
      (0x330, APIC_LVTTHMR), (0x340, APIC_LVTPC), (0x350, APIC_LVT0), (0x360, APIC_LVT1),
      (0x370, APIC_LVTERR), (0x380, APIC_TMICT), (0x390, APIC_TMCCT), (0x3E0, APIC_TDCR)] w of
     Some r \<Rightarrow> r | None \<Rightarrow> APIC_ID)"

lemma sdm_reg_inj: "inj sdm_reg"
proof (rule inj_on_inverseI)
  show "sdm_reg_inv (sdm_reg r) = r" for r
    by (cases r) (simp_all add: sdm_reg_inv_def)
qed

lemma sdm_regs_ok: "regs_ok sdm"
proof -
  have "sdm_reg r AND 0xF = 0 \<and> sdm_reg r < 0x1000" for r
    by (cases r) simp_all
  then show ?thesis by (simp add: regs_ok_def sdm_reg_inj)
qed

lemma bits_ok_masked: "bits_ok K \<Longrightarrow> w AND cst K APIC_LVT_MASKED \<noteq> 0 \<Longrightarrow>
    w AND cst K APIC_LVT_MASKED = cst K APIC_LVT_MASKED"
  using and_BIT_cases [of w 16] by (simp add: bits_ok_def del: push_bit_of_1)

lemma sdm_bits_ok: "bits_ok sdm"
  by (simp add: bits_ok_def)

section \<open>The machine\<close>

text \<open>
  Every access that leaves the code of the repository: volatile memory, model-specific registers,
  ports, the time stamp counter, interrupt enabling, and calls of other kernel functions.
\<close>

datatype (plugins only: code size) outside =
    mask_ioapic_entries | restore_ioapic_entries | save_ioapic_entries | disable_ioapic_support
  | enable_IO_APIC | setup_IO_APIC | legacy_pic_mask_all | legacy_pic_restore_mask
  | irq_remapping_prepare | irq_remapping_enable | irq_remapping_disable
  | irq_remapping_reenable bool | irq_remap_enable_fault_handling | x2apic_available
  | perf_events_lapic_init | cmci_recheck | default_setup_apic_routing | setup_percpu_clockev
  | set_fixmap_nocache u64
  | clockevents_register_device | clockevents_config_and_register u32 | clockevents_update_freq u32
  | amd_e400_c1e_apic_setup | event_handler | inc_irq_stat string | printk string
  | register_syscore_ops | insert_resource u64 u64 | notsc_setup
  | seq_printf string | proc_create string | mod_timer u64 | del_timer
  | tsc_verify_tsc_adjust bool | tsc_restore_sched_clock_state

datatype (plugins only: code size) access =
    MemRd u64 | MemWr u64 u32 | Jiffies | PmTimer | TimerIrq
  | RdMsr u32 | RdMsrFaults u32 | WrMsr u32 u64
  | CpuidEdx u32 | Pause | RunFlag nat
  | Outb u8 u16 | Rdtsc | Mfence | Udelay nat | CpuRelax
  | IrqSave | IrqRestore | IrqDisable | IrqEnable
  | Call outside

record machine =
  answer :: "access list \<Rightarrow> access \<Rightarrow> u64"
  log :: "access list" \<comment> \<open>newest first\<close>

definition access :: "access \<Rightarrow> (machine, u64) state" where
  "access c = State (\<lambda>m. (answer m (log m) c, m\<lparr>log := c # log m\<rparr>))"

definition do_access :: "access \<Rightarrow> (machine, unit) state" where
  "do_access c = modify (\<lambda>m. m\<lparr>log := c # log m\<rparr>)"

lemma run_access [simp]:
  "run_state (access c) m = (answer m (log m) c, m\<lparr>log := c # log m\<rparr>)"
  "run_state (do_access c) m = ((), m\<lparr>log := c # log m\<rparr>)"
  by (simp_all add: access_def do_access_def)

definition mem_read32 :: "u64 \<Rightarrow> (machine, u32) state" where
  "mem_read32 p = do { v \<leftarrow> access (MemRd p); ret (ucast v) }"

definition mem_write32 :: "u64 \<Rightarrow> u32 \<Rightarrow> (machine, unit) state" where
  "mem_write32 p v = do_access (MemWr p v)"

definition rdmsrl :: "u32 \<Rightarrow> (machine, u64) state" where
  "rdmsrl n = access (RdMsr n)"

text \<open>The safe read gives \<open>None\<close> where the instruction faults.\<close>

definition rdmsrl_safe :: "u32 \<Rightarrow> (machine, u64 option) state" where
  "rdmsrl_safe n = do {
     f \<leftarrow> access (RdMsrFaults n);
     if c_true f then ret None else do { v \<leftarrow> access (RdMsr n); ret (Some v) } }"

definition wrmsrl :: "u32 \<Rightarrow> u64 \<Rightarrow> (machine, unit) state" where
  "wrmsrl n v = do_access (WrMsr n v)"

definition wrmsr :: "u32 \<Rightarrow> u32 \<Rightarrow> u32 \<Rightarrow> (machine, unit) state" where
  "wrmsr n low high = wrmsrl n (push_bit 32 (ucast high) OR ucast low)"

definition rdmsr :: "u32 \<Rightarrow> (machine, u32 \<times> u32) state" where
  "rdmsr n = do { v \<leftarrow> rdmsrl n; ret (ucast v, ucast (drop_bit 32 v)) }"

definition outb :: "u8 \<Rightarrow> u16 \<Rightarrow> (machine, unit) state" where
  "outb v port = do_access (Outb v port)"

definition call :: "outside \<Rightarrow> (machine, unit) state" where
  "call f = do_access (Call f)"

definition call_int :: "outside \<Rightarrow> (machine, u32) state" where
  "call_int f = do { v \<leftarrow> access (Call f); ret (ucast v) }"

lemmas machine_defs = mem_read32_def mem_write32_def rdmsrl_def rdmsrl_safe_def wrmsrl_def
  wrmsr_def rdmsr_def outb_def call_def call_int_def

end
