(* ===== verification/Apic.thy ===== *)
theory Apic
  imports Platform
begin

text \<open>
  \<^verbatim>\<open>arch/x86/include/asm/apic.h\<close>: the interface \<open>struct apic\<close> of a local APIC driver and the two
  native ways to reach the registers, through memory and (x2APIC) through model-specific registers.
  The locale \<open>apic_driver\<close> is the contract the rest of the code relies on: reads do not write, and a
  write reaches exactly the register it names. The locale \<open>apic_device\<close> adds a device whose plain
  registers keep what was written. Both are interpreted on both native drivers.
\<close>

section \<open>The driver interface\<close>

type_synonym cpumask = "nat set"

record apic_drv =
  drv_eoi_write :: "u32 \<Rightarrow> u32 \<Rightarrow> (machine, unit) state"
  drv_native_eoi_write :: "u32 \<Rightarrow> u32 \<Rightarrow> (machine, unit) state"
  drv_write :: "u32 \<Rightarrow> u32 \<Rightarrow> (machine, unit) state"
  drv_read :: "u32 \<Rightarrow> (machine, u32) state"
  drv_wait_icr_idle :: "(machine, unit) state"
  drv_safe_wait_icr_idle :: "(machine, u32) state"
  drv_send_IPI_mask :: "cpumask \<Rightarrow> u32 \<Rightarrow> (machine, unit) state"
  drv_dest_logical :: u32
  drv_disable_esr :: u32
  drv_icr_read :: "(machine, u64) state"
  drv_icr_write :: "u32 \<Rightarrow> u32 \<Rightarrow> (machine, unit) state"
  drv_apic_id_registered :: "(machine, u32) state"
  drv_init_apic_ldr :: "(machine, unit) state"
  drv_get_apic_id :: "u64 \<Rightarrow> u32"
  drv_set_apic_id :: "u32 \<Rightarrow> u32"
  drv_x86_32_early_logical_apicid :: "nat \<Rightarrow> u32"

section \<open>Registers in memory\<close>

definition native_apic_mem_write :: "platform \<Rightarrow> u32 \<Rightarrow> u32 \<Rightarrow> (machine, unit) state" where
  "native_apic_mem_write K r v = mem_write32 (APIC_BASE K + ucast r) v"

definition native_apic_mem_read :: "platform \<Rightarrow> u32 \<Rightarrow> (machine, u32) state" where
  "native_apic_mem_read K r = mem_read32 (APIC_BASE K + ucast r)"

section \<open>Registers as model-specific registers (x2APIC)\<close>

definition apic_is_x2apic_enabled :: "platform \<Rightarrow> (machine, bool) state" where
  "apic_is_x2apic_enabled K = do {
     msr \<leftarrow> rdmsrl_safe (cst K MSR_IA32_APICBASE);
     (case msr of None \<Rightarrow> ret False | Some v \<Rightarrow> ret (c_true (v AND ucast (cst K X2APIC_ENABLE)))) }"

definition x2apic_wrmsr_fence :: "(machine, unit) state" where
  "x2apic_wrmsr_fence = do_access Mfence"

definition native_apic_msr_write :: "platform \<Rightarrow> u32 \<Rightarrow> u32 \<Rightarrow> (machine, unit) state" where
  "native_apic_msr_write K r v =
     (if r = reg K APIC_DFR \<or> r = reg K APIC_ID \<or> r = reg K APIC_LDR \<or> r = reg K APIC_LVR
      then ret ()
      else wrmsr (cst K APIC_BASE_MSR + drop_bit 4 r) v 0)"

definition native_apic_msr_eoi_write :: "platform \<Rightarrow> u32 \<Rightarrow> u32 \<Rightarrow> (machine, unit) state" where
  "native_apic_msr_eoi_write K r v =
     wrmsr (cst K APIC_BASE_MSR + drop_bit 4 (reg K APIC_EOI)) (cst K APIC_EOI_ACK) 0"

definition native_apic_msr_read :: "platform \<Rightarrow> u32 \<Rightarrow> (machine, u32) state" where
  "native_apic_msr_read K r =
     (if r = reg K APIC_DFR then ret (- 1)
      else do { msr \<leftarrow> rdmsrl (cst K APIC_BASE_MSR + drop_bit 4 r); ret (ucast msr) })"

definition native_x2apic_wait_icr_idle :: "(machine, unit) state" where
  "native_x2apic_wait_icr_idle = ret ()"

definition native_safe_x2apic_wait_icr_idle :: "(machine, u32) state" where
  "native_safe_x2apic_wait_icr_idle = ret 0"

definition native_x2apic_icr_write :: "platform \<Rightarrow> u32 \<Rightarrow> u32 \<Rightarrow> (machine, unit) state" where
  "native_x2apic_icr_write K low dest =
     wrmsrl (cst K APIC_BASE_MSR + drop_bit 4 (reg K APIC_ICR)) (push_bit 32 (ucast dest) OR ucast low)"

definition native_x2apic_icr_read :: "platform \<Rightarrow> (machine, u64) state" where
  "native_x2apic_icr_read K = rdmsrl (cst K APIC_BASE_MSR + drop_bit 4 (reg K APIC_ICR))"

text \<open>Drivers that use the native accessors; the other operations are those of any driver \<open>a\<close>.\<close>

definition mem_driver :: "platform \<Rightarrow> apic_drv \<Rightarrow> apic_drv" where
  "mem_driver K a = a\<lparr>drv_write := native_apic_mem_write K, drv_read := native_apic_mem_read K,
     drv_eoi_write := native_apic_mem_write K\<rparr>"

definition msr_driver :: "platform \<Rightarrow> apic_drv \<Rightarrow> apic_drv" where
  "msr_driver K a = a\<lparr>drv_write := native_apic_msr_write K, drv_read := native_apic_msr_read K,
     drv_eoi_write := native_apic_msr_eoi_write K,
     drv_wait_icr_idle := native_x2apic_wait_icr_idle,
     drv_safe_wait_icr_idle := native_safe_x2apic_wait_icr_idle,
     drv_icr_read := native_x2apic_icr_read K, drv_icr_write := native_x2apic_icr_write K\<rparr>"

section \<open>The contract of a driver\<close>

text \<open>The register writes in a log, newest first, as each native accessor encodes them.\<close>

definition mem_reg_write :: "platform \<Rightarrow> access \<Rightarrow> (u32 \<times> u32) option" where
  "mem_reg_write K c = (case c of
     MemWr p v \<Rightarrow> if p - APIC_BASE K < 0x100000000 then Some (ucast (p - APIC_BASE K), v) else None
   | _ \<Rightarrow> None)"

definition mem_writes :: "platform \<Rightarrow> access list \<Rightarrow> (u32 \<times> u32) list" where
  "mem_writes K = List.map_filter (mem_reg_write K)"

definition msr_reg_write :: "platform \<Rightarrow> access \<Rightarrow> (u32 \<times> u32) option" where
  "msr_reg_write K c = (case c of
     WrMsr n v \<Rightarrow> if n - cst K APIC_BASE_MSR < 0x100
                  then Some (push_bit 4 (n - cst K APIC_BASE_MSR), ucast v) else None
   | _ \<Rightarrow> None)"

definition msr_writes :: "platform \<Rightarrow> access list \<Rightarrow> (u32 \<times> u32) list" where
  "msr_writes K = List.map_filter (msr_reg_write K)"

text \<open>The value a register holds after a list of writes, newest first.\<close>

definition reg_val :: "(u32 \<Rightarrow> u32) \<Rightarrow> (u32 \<times> u32) list \<Rightarrow> u32 \<Rightarrow> u32" where
  "reg_val init ws r = (case map_of ws r of None \<Rightarrow> init r | Some v \<Rightarrow> v)"

lemma reg_val_Nil [simp]: "reg_val init [] r = init r"
  by (simp add: reg_val_def)

lemma reg_val_Cons [simp]: "reg_val init ((r', v) # ws) r = (if r' = r then v else reg_val init ws r)"
  by (simp add: reg_val_def)

lemma reg_val_append:
  "reg_val init (ws @ ws') r = (case map_of ws r of None \<Rightarrow> reg_val init ws' r | Some v \<Rightarrow> v)"
  by (simp add: reg_val_def map_add_def split: option.split)

text \<open>Accesses that are not writes of memory or of a model-specific register.\<close>

fun is_store :: "access \<Rightarrow> bool" where
  "is_store (MemWr p v) = True"
| "is_store (WrMsr n v) = True"
| "is_store _ = False"

locale apic_driver =
  fixes a :: apic_drv
    and writable :: "u32 \<Rightarrow> bool"
    and trace :: "machine \<Rightarrow> (u32 \<times> u32) list"
  assumes trace_read: "trace (exec (drv_read a r) m) = trace m"
    and trace_write: "writable r \<Longrightarrow> trace (exec (drv_write a r v) m) = (r, v) # trace m"
    and trace_access: "\<not> is_store c \<Longrightarrow> trace (m\<lparr>log := c # log m\<rparr>) = trace m"

text \<open>A device in which the plain registers hold what was last written to them.\<close>

locale apic_device = apic_driver +
  fixes init :: "u32 \<Rightarrow> u32"
    and plain :: "u32 \<Rightarrow> bool"
    and device :: "machine \<Rightarrow> bool"
  assumes read_value: "device m \<Longrightarrow> plain r \<Longrightarrow> result (drv_read a r) m = reg_val init (trace m) r"
    and device_read: "device m \<Longrightarrow> device (exec (drv_read a r) m)"
    and device_write: "device m \<Longrightarrow> device (exec (drv_write a r v) m)"
    and device_access: "device m \<Longrightarrow> device (m\<lparr>log := c # log m\<rparr>)"
begin

text \<open>Reading back a plain register gives the value written, whatever is read in between.\<close>

lemma read_back:
  assumes "device m" and "plain r" and "writable r"
  shows "result (drv_read a r) (exec (drv_read a r') (exec (drv_write a r v) m)) = v"
  using assms by (simp add: read_value device_read device_write trace_read trace_write)

lemma write_other:
  assumes "device m" and "plain r" and "writable r'" and "r \<noteq> r'"
  shows "result (drv_read a r) (exec (drv_write a r' v) m) = result (drv_read a r) m"
  using assms by (simp add: read_value device_write trace_write)

end

section \<open>The native drivers keep the contract\<close>

lemma mem_writes_simps [simp]:
  "mem_writes K [] = []"
  "mem_writes K (MemWr (APIC_BASE K + ucast r) v # l) = (r, v) # mem_writes K l"
  by (simp_all add: mem_writes_def List.map_filter_simps mem_reg_write_def ucast_u32_less)

lemma mem_writes_other [simp]: "\<not> is_store c \<Longrightarrow> mem_writes K (c # l) = mem_writes K l"
  by (cases c) (simp_all add: mem_writes_def List.map_filter_simps mem_reg_write_def)

definition msr_writable :: "platform \<Rightarrow> u32 \<Rightarrow> bool" where
  "msr_writable K r \<longleftrightarrow> r AND 0xF = 0 \<and> r < 0x1000
     \<and> r \<notin> {reg K APIC_DFR, reg K APIC_ID, reg K APIC_LDR, reg K APIC_LVR}"

lemma msr_index_less: "r < (0x1000 :: u32) \<Longrightarrow> drop_bit 4 r < 0x100"
  using drop_bit_eq_div [of 4 "unat r"] by (simp add: word_less_nat_alt unat_drop_bit_eq)

lemma msr_writes_Nil [simp]: "msr_writes K [] = []"
  by (simp add: msr_writes_def List.map_filter_simps)

lemma msr_writes_other [simp]: "\<not> is_store c \<Longrightarrow> msr_writes K (c # l) = msr_writes K l"
  by (cases c) (simp_all add: msr_writes_def List.map_filter_simps msr_reg_write_def)

lemma msr_writes_reg:
  assumes "r AND 0xF = 0" and "r < 0x1000"
  shows "msr_writes K (WrMsr (cst K APIC_BASE_MSR + drop_bit 4 r) (ucast v) # l) =
    (r, v) # msr_writes K l"
  using msr_index_less [OF assms(2)] push_drop_bit [OF and_zero_take_bit [OF assms(1)]]
  by (simp add: msr_writes_def List.map_filter_simps msr_reg_write_def)

definition mem_trace :: "platform \<Rightarrow> machine \<Rightarrow> (u32 \<times> u32) list" where
  "mem_trace K m = mem_writes K (log m)"

definition msr_trace :: "platform \<Rightarrow> machine \<Rightarrow> (u32 \<times> u32) list" where
  "msr_trace K m = msr_writes K (log m)"

text \<open>The hardware behind each accessor answers reads of plain registers with the last write.\<close>

definition mem_device :: "platform \<Rightarrow> (u32 \<Rightarrow> u32) \<Rightarrow> (u32 \<Rightarrow> bool) \<Rightarrow> machine \<Rightarrow> bool" where
  "mem_device K init plain m \<longleftrightarrow> (\<forall>l r. plain r \<longrightarrow>
     ucast (answer m l (MemRd (APIC_BASE K + ucast r))) = reg_val init (mem_writes K l) r)"

definition msr_device :: "platform \<Rightarrow> (u32 \<Rightarrow> u32) \<Rightarrow> (u32 \<Rightarrow> bool) \<Rightarrow> machine \<Rightarrow> bool" where
  "msr_device K init plain m \<longleftrightarrow> (\<forall>l r. plain r \<longrightarrow>
     ucast (answer m l (RdMsr (cst K APIC_BASE_MSR + drop_bit 4 r))) = reg_val init (msr_writes K l) r)"

lemma native_apic_mem_runs [simp]:
  "exec (native_apic_mem_read K r) m = m\<lparr>log := MemRd (APIC_BASE K + ucast r) # log m\<rparr>"
  "result (native_apic_mem_read K r) m = ucast (answer m (log m) (MemRd (APIC_BASE K + ucast r)))"
  "exec (native_apic_mem_write K r v) m = m\<lparr>log := MemWr (APIC_BASE K + ucast r) v # log m\<rparr>"
  by (simp_all add: exec_def result_def native_apic_mem_read_def native_apic_mem_write_def
      machine_defs)

lemma native_apic_msr_runs:
  "r \<noteq> reg K APIC_DFR \<Longrightarrow> exec (native_apic_msr_read K r) m =
     m\<lparr>log := RdMsr (cst K APIC_BASE_MSR + drop_bit 4 r) # log m\<rparr>"
  "r \<noteq> reg K APIC_DFR \<Longrightarrow> result (native_apic_msr_read K r) m =
     ucast (answer m (log m) (RdMsr (cst K APIC_BASE_MSR + drop_bit 4 r)))"
  "msr_writable K r \<Longrightarrow> exec (native_apic_msr_write K r v) m =
     m\<lparr>log := WrMsr (cst K APIC_BASE_MSR + drop_bit 4 r) (ucast v) # log m\<rparr>"
  by (simp_all add: exec_def result_def native_apic_msr_read_def native_apic_msr_write_def
      machine_defs msr_writable_def)

lemma native_apic_msr_ignored:
  "exec (native_apic_msr_read K (reg K APIC_DFR)) m = m"
  "r \<in> {reg K APIC_DFR, reg K APIC_ID, reg K APIC_LDR, reg K APIC_LVR} \<Longrightarrow>
     exec (native_apic_msr_write K r v) m = m"
  by (auto simp add: exec_def native_apic_msr_read_def native_apic_msr_write_def)

lemma native_answer [simp]:
  "answer (exec (native_apic_msr_read K r) m) = answer m"
  "answer (exec (native_apic_msr_write K r v) m) = answer m"
  by (simp_all add: exec_def native_apic_msr_read_def native_apic_msr_write_def machine_defs)

lemma driver_simps [simp]:
  "drv_read (mem_driver K a) = native_apic_mem_read K"
  "drv_write (mem_driver K a) = native_apic_mem_write K"
  "drv_read (msr_driver K a) = native_apic_msr_read K"
  "drv_write (msr_driver K a) = native_apic_msr_write K"
  by (simp_all add: mem_driver_def msr_driver_def)

interpretation mem: apic_device "mem_driver K a" "\<lambda>_. True" "mem_trace K" init plain
  "mem_device K init plain" for K a init plain
  by unfold_locales (simp_all add: mem_trace_def mem_device_def)

interpretation msr: apic_device "msr_driver K a" "msr_writable K" "msr_trace K" init
  "\<lambda>r. plain r \<and> r \<noteq> reg K APIC_DFR" "msr_device K init plain" for K a init plain
proof
  show "msr_trace K (exec (drv_read (msr_driver K a) r) m) = msr_trace K m" for r m
    by (cases "r = reg K APIC_DFR")
      (simp_all add: native_apic_msr_runs native_apic_msr_ignored msr_trace_def)
  show "msr_writable K r \<Longrightarrow>
      msr_trace K (exec (drv_write (msr_driver K a) r v) m) = (r, v) # msr_trace K m" for r v m
    by (simp add: native_apic_msr_runs msr_trace_def msr_writes_reg msr_writable_def)
  show "msr_device K init plain m \<Longrightarrow> plain r \<and> r \<noteq> reg K APIC_DFR \<Longrightarrow>
      result (drv_read (msr_driver K a) r) m = reg_val init (msr_trace K m) r" for m r
    by (simp add: native_apic_msr_runs msr_trace_def msr_device_def)
qed (simp_all add: msr_trace_def msr_device_def)

section \<open>Concrete hardware and drivers\<close>

text \<open>
  Register hardware that satisfies the contract of the devices, and a driver, for the witnesses.
\<close>

definition mem_hw :: "platform \<Rightarrow> (u32 \<Rightarrow> u32) \<Rightarrow> access list \<Rightarrow> access \<Rightarrow> u64" where
  "mem_hw K init l c = (case c of
     MemRd p \<Rightarrow> ucast (reg_val init (mem_writes K l) (ucast (p - APIC_BASE K))) | _ \<Rightarrow> 0)"

definition msr_hw :: "platform \<Rightarrow> (u32 \<Rightarrow> u32) \<Rightarrow> access list \<Rightarrow> access \<Rightarrow> u64" where
  "msr_hw K init l c = (case c of
     RdMsr n \<Rightarrow> ucast (reg_val init (msr_writes K l) (push_bit 4 (n - cst K APIC_BASE_MSR))) | _ \<Rightarrow> 0)"

lemma mem_hw_device [simp]: "mem_device K init plain \<lparr>answer = mem_hw K init, log = l\<rparr>"
  by (simp add: mem_device_def mem_hw_def)

definition demo_drv :: "platform \<Rightarrow> apic_drv" where
  "demo_drv K = \<lparr>drv_eoi_write = native_apic_mem_write K, drv_native_eoi_write = native_apic_mem_write K,
     drv_write = native_apic_mem_write K, drv_read = native_apic_mem_read K,
     drv_wait_icr_idle = ret (), drv_safe_wait_icr_idle = ret 0,
     drv_send_IPI_mask = (\<lambda>m v. ret ()), drv_dest_logical = 0x800, drv_disable_esr = 0,
     drv_icr_read = ret 0, drv_icr_write = (\<lambda>l h. ret ()),
     drv_apic_id_registered = ret 1,
     drv_init_apic_ldr = do { native_apic_mem_write K (reg K APIC_DFR) (- 1);
                              native_apic_mem_write K (reg K APIC_LDR) 0x01000000 },
     drv_get_apic_id = (\<lambda>x. ucast (drop_bit 24 x)), drv_set_apic_id = push_bit 24,
     drv_x86_32_early_logical_apicid = (\<lambda>c. 0xFFFF)\<rparr>"

lemma demo_drv_mem: "mem_driver K (demo_drv K) = demo_drv K"
  by (simp add: mem_driver_def demo_drv_def)

end
