(* ===== verification/Kernel.thy ===== *)
theory Kernel
  imports Apic
begin

text \<open>
  The global variables of \<^verbatim>\<open>arch/x86/kernel/apic/apic.c\<close>, in the order of the file, with the globals of
  other files it reads. Integer flags that are only set to 0 or 1 and tested are truth values. The
  field \<open>mach\<close> is the machine; \<open>apic\<close> is the pointer to the driver in use, by value, since no two
  parts of the code hold a driver at the same time. Hardware accesses lift to the kernel state by
  \<open>on_mach\<close>; the contract locales of the driver are extended with rules for reads and writes made
  by kernel code.
\<close>

section \<open>Types of the globals\<close>

datatype apic_intr_mode_id =
  APIC_PIC | APIC_VIRTUAL_WIRE | APIC_VIRTUAL_WIRE_NO_CONFIG | APIC_SYMMETRIC_IO
  | APIC_SYMMETRIC_IO_NO_ROUTING

datatype x2apic_state_t = X2APIC_OFF | X2APIC_ON | X2APIC_DISABLED

definition APIC_QUIET :: int where "APIC_QUIET = 0"
definition APIC_VERBOSE :: int where "APIC_VERBOSE = 1"
definition APIC_DEBUG :: int where "APIC_DEBUG = 2"

definition APIC_EXTNMI_BSP :: int where "APIC_EXTNMI_BSP = 0"
definition APIC_EXTNMI_ALL :: int where "APIC_EXTNMI_ALL = 1"
definition APIC_EXTNMI_NONE :: int where "APIC_EXTNMI_NONE = 2"

lemmas extnmi_defs = APIC_EXTNMI_BSP_def APIC_EXTNMI_ALL_def APIC_EXTNMI_NONE_def

text \<open>Error numbers of the kernel, returned negated.\<close>

definition EINVAL :: int where "EINVAL = 22"
definition EBUSY :: int where "EBUSY = 16"
definition ENODEV :: int where "ENODEV = 19"

datatype next_event_fn = lapic_next_event_fn | lapic_next_deadline_fn
datatype event_handler_fn = lapic_cal_handler_fn | other_event_handler

record clock_event_device =
  ce_name :: string
  ce_periodic :: bool
  ce_oneshot :: bool
  ce_c3stop :: bool
  ce_dummy :: bool
  ce_shift :: nat
  ce_mult :: u32
  ce_max_delta_ns :: u64
  ce_max_delta_ticks :: u64
  ce_min_delta_ns :: u64
  ce_min_delta_ticks :: u64
  ce_set_next_event :: next_event_fn
  ce_event_handler :: "event_handler_fn option"
  ce_rating :: int
  ce_cpumask :: cpumask

record apic_pm_state_t =
  pm_active :: bool
  pm_apic_id :: u32
  pm_apic_taskpri :: u32
  pm_apic_ldr :: u32
  pm_apic_dfr :: u32
  pm_apic_spiv :: u32
  pm_apic_lvtt :: u32
  pm_apic_lvtpc :: u32
  pm_apic_lvt0 :: u32
  pm_apic_lvt1 :: u32
  pm_apic_lvterr :: u32
  pm_apic_tmict :: u32
  pm_apic_tdcr :: u32
  pm_apic_thmr :: u32
  pm_apic_cmci :: u32

section \<open>The state of the kernel\<close>

record kernel_setup =
  mach :: machine
  apic :: apic_drv
  this_cpu :: nat
  boot_caps :: "cpu_feature \<Rightarrow> bool"
  this_caps :: "cpu_feature \<Rightarrow> bool"
  x86_vendor :: cpu_vendor
  x86 :: u32
  x86_model :: u32
  x86_stepping :: nat
  microcode :: u32
  apic_extnmi :: int
  enabled_via_apicbase :: bool
  force_enable_local_apic :: bool
  mp_lapic_addr :: u64
  disable_apic :: bool
  apic_verbosity :: int
  pic_mode :: bool
  smp_found_config :: bool
  acpi_lapic :: bool
  skip_ioapic_setup :: bool
  setup_max_cpus :: u32
  apic_phys :: u64
  apic_intr_mode :: apic_intr_mode_id
  x2apic_mode :: bool
  x2apic_phys :: bool
  x2apic_state :: x2apic_state_t

record kernel_cpus = kernel_setup +
  num_processors :: u32
  disabled_cpus :: u32
  boot_cpu_physical_apicid :: u32
  boot_cpu_apic_version :: u8
  max_physical_apicid :: u32
  phys_cpu_present_map :: "u32 set"
  disabled_cpu_apicid :: u32
  nr_cpu_ids :: u32
  nr_logical_cpuids :: nat
  cpuid_to_apicid :: "nat \<Rightarrow> u32"
  x86_cpu_to_apicid :: "nat \<Rightarrow> u16"
  x86_bios_cpu_apicid :: "nat \<Rightarrow> u16"
  x86_cpu_to_logical_apicid :: "nat \<Rightarrow> u32"
  cpu_possible :: "nat set"
  cpu_present :: "nat set"
  smp_num_siblings :: u32

record kernel = kernel_cpus +
  apic_zzz_debug_flag :: bool
  eilvt_offsets :: "nat \<Rightarrow> u32"
  tsc_khz :: u32
  cpu_khz :: u32
  lapic_timer_period :: u32
  disable_apic_timer :: bool
  local_apic_timer_c2_ok :: bool
  lapic_clockevent :: clock_event_device
  lapic_events :: clock_event_device
  apic_pm_state :: apic_pm_state_t
  irq_err_count :: u32
  apic_calibrate_pmtmr :: bool
  global_clock_event :: bool
  lapic_cal_loops :: int
  lapic_cal_t1 :: u64
  lapic_cal_t2 :: u64
  lapic_cal_tsc1 :: u64
  lapic_cal_tsc2 :: u64
  lapic_cal_pm1 :: u64
  lapic_cal_pm2 :: u64
  lapic_cal_j1 :: u64
  lapic_cal_j2 :: u64

type_synonym 'a kprog = "(kernel, 'a) state"

section \<open>Access to the hardware and to the rest of the kernel\<close>

definition on_mach :: "(machine, 'a) state \<Rightarrow> 'a kprog" where
  "on_mach p = State (\<lambda>s. case run_state p (mach s) of (v, m) \<Rightarrow> (v, s\<lparr>mach := m\<rparr>))"

definition apic_read :: "u32 \<Rightarrow> u32 kprog" where
  "apic_read r = do { a \<leftarrow> gets apic; on_mach (drv_read a r) }"

definition apic_write :: "u32 \<Rightarrow> u32 \<Rightarrow> unit kprog" where
  "apic_write r v = do { a \<leftarrow> gets apic; on_mach (drv_write a r v) }"

definition apic_eoi :: "platform \<Rightarrow> unit kprog" where
  "apic_eoi K = do { a \<leftarrow> gets apic; on_mach (drv_eoi_write a (reg K APIC_EOI) (cst K APIC_EOI_ACK)) }"

definition ack_APIC_irq :: "platform \<Rightarrow> unit kprog" where
  "ack_APIC_irq K = apic_eoi K"

definition apic_icr_read :: "u64 kprog" where
  "apic_icr_read = do { a \<leftarrow> gets apic; on_mach (drv_icr_read a) }"

definition apic_icr_write :: "u32 \<Rightarrow> u32 \<Rightarrow> unit kprog" where
  "apic_icr_write low high = do { a \<leftarrow> gets apic; on_mach (drv_icr_write a low high) }"

definition apic_wait_icr_idle :: "unit kprog" where
  "apic_wait_icr_idle = do { a \<leftarrow> gets apic; on_mach (drv_wait_icr_idle a) }"

definition safe_apic_wait_icr_idle :: "u32 kprog" where
  "safe_apic_wait_icr_idle = do { a \<leftarrow> gets apic; on_mach (drv_safe_wait_icr_idle a) }"

definition read_apic_id :: "platform \<Rightarrow> u32 kprog" where
  "read_apic_id K = do {
     v \<leftarrow> apic_read (reg K APIC_ID);
     a \<leftarrow> gets apic;
     ret (drv_get_apic_id a (ucast v)) }"

definition boot_cpu_has :: "cpu_feature \<Rightarrow> bool kprog" where
  "boot_cpu_has f = gets (\<lambda>s. boot_caps s f)"

definition this_cpu_has :: "cpu_feature \<Rightarrow> bool kprog" where
  "this_cpu_has f = gets (\<lambda>s. this_caps s f)"

definition apic_from_smp_config :: "bool kprog" where
  "apic_from_smp_config = gets (\<lambda>s. smp_found_config s \<and> \<not> disable_apic s)"

definition kcall :: "outside \<Rightarrow> unit kprog" where
  "kcall f = on_mach (call f)"

definition kcall_int :: "outside \<Rightarrow> u32 kprog" where
  "kcall_int f = on_mach (call_int f)"

definition pr_info :: "string \<Rightarrow> unit kprog" where
  "pr_info msg = kcall (printk msg)"

definition apic_printk :: "int \<Rightarrow> string \<Rightarrow> unit kprog" where
  "apic_printk v msg = do { verbosity \<leftarrow> gets apic_verbosity; whenM (v \<le> verbosity) (pr_info msg) }"

text \<open>Code that may panic returns the message as \<open>Inl\<close>; what follows it is then not run.\<close>

datatype panic = Panic string

type_synonym 'a kresult = "(panic + 'a) kprog"

definition andthen :: "'a kresult \<Rightarrow> ('a \<Rightarrow> 'b kresult) \<Rightarrow> 'b kresult" where
  "andthen p f = do { r \<leftarrow> p; (case r of Inl e \<Rightarrow> ret (Inl e) | Inr x \<Rightarrow> f x) }"

definition fine :: "'a kprog \<Rightarrow> 'a kresult" where
  "fine p = do { x \<leftarrow> p; ret (Inr x) }"

definition panic :: "string \<Rightarrow> 'a kresult" where
  "panic msg = ret (Inl (Panic msg))"

definition local_irq_save :: "unit kprog" where "local_irq_save = on_mach (do_access IrqSave)"
definition local_irq_restore :: "unit kprog" where "local_irq_restore = on_mach (do_access IrqRestore)"
definition local_irq_disable :: "unit kprog" where "local_irq_disable = on_mach (do_access IrqDisable)"
definition local_irq_enable :: "unit kprog" where "local_irq_enable = on_mach (do_access IrqEnable)"

definition lapic_vector_set_in_irr :: "platform \<Rightarrow> u32 \<Rightarrow> bool kprog" where
  "lapic_vector_set_in_irr K vector = do {
     irr \<leftarrow> apic_read (reg K APIC_IRR + vector div 32 * 0x10);
     ret (c_true (irr AND push_bit (unat (vector mod 32)) 1)) }"

definition default_get_apic_id :: "platform \<Rightarrow> u64 \<Rightarrow> u32 kprog" where
  "default_get_apic_id K x = do {
     lvr \<leftarrow> apic_read (reg K APIC_LVR);
     extd \<leftarrow> boot_cpu_has X86_FEATURE_EXTD_APICID;
     (if APIC_XAPIC K (GET_APIC_VERSION K lvr) \<or> extd
      then ret (ucast (drop_bit 24 x AND 0xFF))
      else ret (ucast (drop_bit 24 x AND 0x0F))) }"

definition x2apic_enabled :: "platform \<Rightarrow> bool kprog" where
  "x2apic_enabled K = do {
     has \<leftarrow> boot_cpu_has X86_FEATURE_X2APIC;
     (if has then on_mach (apic_is_x2apic_enabled K) else ret False) }"

section \<open>Rules\<close>

lemma run_on_mach: "run_state (on_mach p) s = (result p (mach s), s\<lparr>mach := exec p (mach s)\<rparr>)"
  by (simp add: on_mach_def result_def exec_def split: prod.split)

lemma wp_on_mach: "wp (on_mach p) Q s = Q (result p (mach s)) (s\<lparr>mach := exec p (mach s)\<rparr>)"
  by (simp add: wp_def run_on_mach)

lemma wp_access [wp]:
  "wp (on_mach (do_access c)) Q s = Q () (s\<lparr>mach := (mach s)\<lparr>log := c # log (mach s)\<rparr>\<rparr>)"
  "wp (on_mach (access c)) R s =
     R (answer (mach s) (log (mach s)) c) (s\<lparr>mach := (mach s)\<lparr>log := c # log (mach s)\<rparr>\<rparr>)"
  by (simp_all add: wp_on_mach result_def exec_def)

lemma wp_kcall [wp]:
  "wp (kcall f) Q s = Q () (s\<lparr>mach := (mach s)\<lparr>log := Call f # log (mach s)\<rparr>\<rparr>)"
  by (simp add: kcall_def call_def wp)

lemma wp_kcall_int [wp]:
  "wp (kcall_int f) Q s = Q (ucast (answer (mach s) (log (mach s)) (Call f)))
     (s\<lparr>mach := (mach s)\<lparr>log := Call f # log (mach s)\<rparr>\<rparr>)"
  by (simp add: kcall_int_def call_int_def wp_on_mach result_def exec_def)

lemma wp_irq [wp]:
  "wp local_irq_save Q s = Q () (s\<lparr>mach := (mach s)\<lparr>log := IrqSave # log (mach s)\<rparr>\<rparr>)"
  "wp local_irq_restore Q s = Q () (s\<lparr>mach := (mach s)\<lparr>log := IrqRestore # log (mach s)\<rparr>\<rparr>)"
  "wp local_irq_disable Q s = Q () (s\<lparr>mach := (mach s)\<lparr>log := IrqDisable # log (mach s)\<rparr>\<rparr>)"
  "wp local_irq_enable Q s = Q () (s\<lparr>mach := (mach s)\<lparr>log := IrqEnable # log (mach s)\<rparr>\<rparr>)"
  by (simp_all add: local_irq_save_def local_irq_restore_def local_irq_disable_def
      local_irq_enable_def wp)

lemma wp_pr_info [wp]:
  "wp (pr_info msg) Q s = Q () (s\<lparr>mach := (mach s)\<lparr>log := Call (printk msg) # log (mach s)\<rparr>\<rparr>)"
  by (simp add: pr_info_def wp)

lemma wp_andthen [wp]: "wp (andthen p f) Q s =
    wp p (\<lambda>r. case r of Inl e \<Rightarrow> Q (Inl e) | Inr x \<Rightarrow> wp (f x) Q) s"
  by (simp add: andthen_def wp_def split: prod.splits sum.splits)

lemma wp_fine [wp]: "wp (fine p) Q s = wp p (\<lambda>x. Q (Inr x)) s"
  by (simp add: fine_def wp_def split: prod.splits)

lemma wp_panic [wp]: "wp (panic msg) Q s = Q (Inl (Panic msg)) s"
  by (simp add: panic_def wp)

lemma wp_boot_cpu_has [wp]: "wp (boot_cpu_has f) Q s = Q (boot_caps s f) s"
  by (simp add: boot_cpu_has_def wp)

lemma wp_this_cpu_has [wp]: "wp (this_cpu_has f) Q s = Q (this_caps s f) s"
  by (simp add: this_cpu_has_def wp)

lemma wp_apic_from_smp_config [wp]:
  "wp apic_from_smp_config Q s = Q (smp_found_config s \<and> \<not> disable_apic s) s"
  by (simp add: apic_from_smp_config_def wp)

lemma wp_apic_read_drv: "wp (apic_read r) Q s =
    Q (result (drv_read (apic s) r) (mach s)) (s\<lparr>mach := exec (drv_read (apic s) r) (mach s)\<rparr>)"
  by (simp add: apic_read_def wp wp_on_mach)

lemma wp_apic_write_drv: "wp (apic_write r v) Q s =
    Q () (s\<lparr>mach := exec (drv_write (apic s) r v) (mach s)\<rparr>)"
  by (simp add: apic_write_def wp wp_on_mach)

lemma run_apic_read: "run_state (apic_read r) s =
    (result (drv_read (apic s) r) (mach s), s\<lparr>mach := exec (drv_read (apic s) r) (mach s)\<rparr>)"
  by (simp add: apic_read_def run_on_mach)

lemma run_apic_write: "run_state (apic_write r v) s =
    (result (drv_write (apic s) r v) (mach s), s\<lparr>mach := exec (drv_write (apic s) r v) (mach s)\<rparr>)"
  by (simp add: apic_write_def run_on_mach)

lemma run_access_k: "run_state (on_mach (do_access c)) s =
    ((), s\<lparr>mach := (mach s)\<lparr>log := c # log (mach s)\<rparr>\<rparr>)"
  by (simp add: on_mach_def)

lemmas kernel_run = exec_def [of p for p :: "'a kprog"] result_def [of p for p :: "'a kprog"]

text \<open>
  Kernel code over a device that keeps the contract: a read gives the value of a plain register,
  some value for another one, and adds no write; a write adds itself. The value read is a fresh
  variable, so a proof about a long sequence of accesses stays linear in its length. A guard
  contributes to the trace, it does not split the proof. With no plain register the rules hold for
  every driver.
\<close>

lemma reg_val_if [simp]:
  "r' \<noteq> r \<Longrightarrow> reg_val init ((if b then [(r', v)] else []) @ ws) r = reg_val init ws r"
  by simp

lemma apic_mach_update: "apic s = a \<Longrightarrow> apic (s\<lparr>mach := m\<rparr>) = a"
  by simp

context apic_device
begin

lemma device_mach_update: "device m \<Longrightarrow> device (mach (s\<lparr>mach := m\<rparr>))"
  by simp

lemma wp_read:
  assumes "apic s = a" and "device (mach s)"
    and "\<And>v m. device m \<Longrightarrow> trace m = trace (mach s) \<Longrightarrow>
      (plain r \<Longrightarrow> v = reg_val init (trace (mach s)) r) \<Longrightarrow> Q v (s\<lparr>mach := m\<rparr>)"
  shows "wp (apic_read r) Q s"
  unfolding wp_apic_read_drv assms(1)
  using assms(2) by (intro assms(3)) (simp_all add: device_read trace_read read_value)

lemma wp_write:
  assumes "apic s = a" and "device (mach s)" and "writable r"
    and "\<And>m. device m \<Longrightarrow> trace m = (r, v) # trace (mach s) \<Longrightarrow> Q () (s\<lparr>mach := m\<rparr>)"
  shows "wp (apic_write r v) Q s"
  unfolding wp_apic_write_drv assms(1)
  using assms(2,3) by (intro assms(4)) (simp_all add: device_write trace_write)

lemma wp_silent:
  assumes "device (mach s)"
    and "\<And>m. device m \<Longrightarrow> trace m = trace (mach s) \<Longrightarrow> Q () (s\<lparr>mach := m\<rparr>)"
  shows "wp (kcall f) Q s" and "wp local_irq_save Q s" and "wp local_irq_restore Q s"
    and "wp local_irq_disable Q s" and "wp local_irq_enable Q s" and "wp (pr_info msg) Q s"
  using assms by (simp_all add: wp_kcall wp_irq wp_pr_info trace_access device_access)

lemma wp_apic_printk:
  assumes "device (mach s)"
    and "\<And>m. device m \<Longrightarrow> trace m = trace (mach s) \<Longrightarrow> Q () (s\<lparr>mach := m\<rparr>)"
  shows "wp (apic_printk v msg) Q s"
  using assms assms(2) [of "mach s"] by (simp add: apic_printk_def wp trace_access device_access)

lemma wp_guarded_write:
  assumes "apic s = a" and "device (mach s)" and "writable r"
    and "\<And>m. device m \<Longrightarrow> trace m = (if b then [(r, v)] else []) @ trace (mach s) \<Longrightarrow>
      Q () (s\<lparr>mach := m\<rparr>)"
  shows "wp (whenM b (apic_write r v)) Q s"
  using assms assms(4) [of "mach s"] by (cases b) (auto simp: wp intro: wp_write)

lemma wp_guarded_update:
  assumes "apic s = a" and "device (mach s)" and "writable r"
    and "\<And>v m. device m \<Longrightarrow> trace m = (if b then [(r, f v)] else []) @ trace (mach s) \<Longrightarrow>
      (b \<Longrightarrow> plain r \<Longrightarrow> v = reg_val init (trace (mach s)) r) \<Longrightarrow> Q () (s\<lparr>mach := m\<rparr>)"
  shows "wp (whenM b (do { v \<leftarrow> apic_read r; apic_write r (f v) })) Q s"
proof (cases b)
  case True
  then have b: "b = True" by simp
  show ?thesis
    unfolding b whenM_simps wp_bind using assms by (intro wp_read wp_write) (simp_all add: b)
next
  case False
  then show ?thesis
    using assms(2) assms(4) [of "mach s"] by (simp add: wp_return)
qed

text \<open>
  The same rules with the machine in the open, for long sequences: the states do not nest, and the
  trace of the machine before an access is found by assumption.
\<close>

lemma flat_read:
  "apic s = a \<Longrightarrow> device m0 \<and> trace m0 = T \<Longrightarrow>
    (\<And>v m. device m \<and> trace m = T \<Longrightarrow> (plain r \<Longrightarrow> v = reg_val init T r) \<Longrightarrow> Q v (s\<lparr>mach := m\<rparr>)) \<Longrightarrow>
    wp (apic_read r) Q (s\<lparr>mach := m0\<rparr>)"
  by (rule wp_read) auto

lemma flat_write:
  "apic s = a \<Longrightarrow> device m0 \<and> trace m0 = T \<Longrightarrow> writable r \<Longrightarrow>
    (\<And>m. device m \<and> trace m = (r, v) # T \<Longrightarrow> Q () (s\<lparr>mach := m\<rparr>)) \<Longrightarrow>
    wp (apic_write r v) Q (s\<lparr>mach := m0\<rparr>)"
  by (rule wp_write) auto

lemma flat_silent:
  assumes "device m0 \<and> trace m0 = T"
    and "\<And>m. device m \<and> trace m = T \<Longrightarrow> Q () (s\<lparr>mach := m\<rparr>)"
  shows "wp (kcall f) Q (s\<lparr>mach := m0\<rparr>)" and "wp local_irq_save Q (s\<lparr>mach := m0\<rparr>)"
    and "wp local_irq_restore Q (s\<lparr>mach := m0\<rparr>)" and "wp local_irq_disable Q (s\<lparr>mach := m0\<rparr>)"
    and "wp local_irq_enable Q (s\<lparr>mach := m0\<rparr>)" and "wp (pr_info msg) Q (s\<lparr>mach := m0\<rparr>)"
    and "wp (apic_printk v msg) Q (s\<lparr>mach := m0\<rparr>)"
  using assms by (auto intro!: wp_silent wp_apic_printk)

lemma flat_guarded_write:
  "apic s = a \<Longrightarrow> device m0 \<and> trace m0 = T \<Longrightarrow> writable r \<Longrightarrow>
    (\<And>m. device m \<and> trace m = (if b then [(r, v)] else []) @ T \<Longrightarrow> Q () (s\<lparr>mach := m\<rparr>)) \<Longrightarrow>
    wp (whenM b (apic_write r v)) Q (s\<lparr>mach := m0\<rparr>)"
  by (rule wp_guarded_write) auto

lemma flat_guarded_update:
  "apic s = a \<Longrightarrow> device m0 \<and> trace m0 = T \<Longrightarrow> writable r \<Longrightarrow>
    (\<And>v m. device m \<and> trace m = (if b then [(r, f v)] else []) @ T \<Longrightarrow>
      (b \<Longrightarrow> plain r \<Longrightarrow> v = reg_val init T r) \<Longrightarrow> Q () (s\<lparr>mach := m\<rparr>)) \<Longrightarrow>
    wp (whenM b (do { v \<leftarrow> apic_read r; apic_write r (f v) })) Q (s\<lparr>mach := m0\<rparr>)"
  by (rule wp_guarded_update) auto

lemma flat_guarded_call:
  "device m0 \<and> trace m0 = T \<Longrightarrow> (\<And>m. device m \<and> trace m = T \<Longrightarrow> Q () (s\<lparr>mach := m\<rparr>)) \<Longrightarrow>
    wp (whenM b (kcall f)) Q (s\<lparr>mach := m0\<rparr>)"
  by (cases b) (auto simp: wp_return intro: wp_silent)

end

lemma flat_start: "wp p Q (s\<lparr>mach := mach s\<rparr>) \<Longrightarrow> wp p Q s"
  by simp

lemma flat_intros:
  "wp p (\<lambda>x. wp (f x) Q) s \<Longrightarrow> wp (State_Monad.bind p f) Q s"
  "R (h s) s \<Longrightarrow> wp (gets h) R s"
  "T x s \<Longrightarrow> wp (ret x) T s"
  by (simp_all add: wp)

text \<open>Behind the memory driver, accesses to model-specific registers and ports touch no register.\<close>

lemma mem_trace_other [simp]:
  "mem_trace K (m\<lparr>log := RdMsr n # l\<rparr>) = mem_writes K l"
  "mem_trace K (m\<lparr>log := WrMsr n v # l\<rparr>) = mem_writes K l"
  "mem_trace K (m\<lparr>log := Outb b p # l\<rparr>) = mem_writes K l"
  by (simp_all add: mem_trace_def mem_writes_def List.map_filter_simps mem_reg_write_def)

lemma wp_mem_rdmsr:
  assumes "mem_device K init plain (mach s)"
    and "\<And>v m. mem_device K init plain m \<Longrightarrow> mem_trace K m = mem_trace K (mach s) \<Longrightarrow> Q v (s\<lparr>mach := m\<rparr>)"
  shows "wp (on_mach (rdmsr n)) Q s"
  using assms by (simp add: wp_on_mach result_def exec_def machine_defs mem_device_def mem_trace_def)

lemma wp_mem_silent:
  assumes "mem_device K init plain (mach s)"
    and "\<And>m. mem_device K init plain m \<Longrightarrow> mem_trace K m = mem_trace K (mach s) \<Longrightarrow> Q () (s\<lparr>mach := m\<rparr>)"
  shows "wp (on_mach (wrmsrl n x)) Q s" and "wp (on_mach (wrmsr n l u)) Q s"
    and "wp (on_mach (outb b p)) Q s"
  using assms by (simp_all add: wp_on_mach result_def exec_def machine_defs mem_device_def mem_trace_def
      mem_writes_def List.map_filter_simps mem_reg_write_def)

section \<open>A concrete kernel state\<close>

text \<open>A kernel with registers in memory that hold \<open>init\<close>, for the witnesses.\<close>

definition demo_event :: clock_event_device where
  "demo_event = \<lparr>ce_name = ''lapic'', ce_periodic = True, ce_oneshot = True, ce_c3stop = True,
     ce_dummy = True, ce_shift = 32, ce_mult = 0x1000000, ce_max_delta_ns = 0,
     ce_max_delta_ticks = 0, ce_min_delta_ns = 0, ce_min_delta_ticks = 0,
     ce_set_next_event = lapic_next_event_fn, ce_event_handler = None, ce_rating = 100,
     ce_cpumask = {}\<rparr>"

definition demo_pm :: apic_pm_state_t where
  "demo_pm = \<lparr>pm_active = False, pm_apic_id = 0, pm_apic_taskpri = 0, pm_apic_ldr = 0, pm_apic_dfr = 0,
     pm_apic_spiv = 0, pm_apic_lvtt = 0, pm_apic_lvtpc = 0, pm_apic_lvt0 = 0, pm_apic_lvt1 = 0,
     pm_apic_lvterr = 0, pm_apic_tmict = 0, pm_apic_tdcr = 0, pm_apic_thmr = 0, pm_apic_cmci = 0\<rparr>"

definition demo_kernel :: "apic_drv \<Rightarrow> machine \<Rightarrow> kernel" where
  "demo_kernel a m = \<lparr>mach = m, apic = a, this_cpu = 0, boot_caps = (\<lambda>f. f = X86_FEATURE_APIC),
     this_caps = (\<lambda>f. f = X86_FEATURE_APIC), x86_vendor = X86_VENDOR_INTEL, x86 = 6, x86_model = 0x3C,
     x86_stepping = 3, microcode = 0x22, apic_extnmi = 0, enabled_via_apicbase = False,
     force_enable_local_apic = False, mp_lapic_addr = 0, disable_apic = False, apic_verbosity = 0,
     pic_mode = False, smp_found_config = True, acpi_lapic = True, skip_ioapic_setup = False,
     setup_max_cpus = 8, apic_phys = 0xFEE00000, apic_intr_mode = APIC_SYMMETRIC_IO,
     x2apic_mode = False, x2apic_phys = False, x2apic_state = X2APIC_OFF,
     num_processors = 0, disabled_cpus = 0, boot_cpu_physical_apicid = - 1, boot_cpu_apic_version = 0,
     max_physical_apicid = 0, phys_cpu_present_map = {}, disabled_cpu_apicid = 0xFFFF, nr_cpu_ids = 4,
     nr_logical_cpuids = 1, cpuid_to_apicid = (\<lambda>c. - 1), x86_cpu_to_apicid = (\<lambda>c. 0xFFFF),
     x86_bios_cpu_apicid = (\<lambda>c. 0xFFFF), x86_cpu_to_logical_apicid = (\<lambda>c. 0xFFFF),
     cpu_possible = {0}, cpu_present = {0}, smp_num_siblings = 2,
     apic_zzz_debug_flag = False, eilvt_offsets = (\<lambda>n. 0), tsc_khz = 1000000, cpu_khz = 1000000,
     lapic_timer_period = 1000, disable_apic_timer = False, local_apic_timer_c2_ok = False,
     lapic_clockevent = demo_event, lapic_events = demo_event, apic_pm_state = demo_pm,
     irq_err_count = 0, apic_calibrate_pmtmr = False, global_clock_event = True,
     lapic_cal_loops = - 1, lapic_cal_t1 = 0, lapic_cal_t2 = 0, lapic_cal_tsc1 = 0, lapic_cal_tsc2 = 0,
     lapic_cal_pm1 = 0, lapic_cal_pm2 = 0, lapic_cal_j1 = 0, lapic_cal_j2 = 0\<rparr>"

definition demo_mem :: "(u32 \<Rightarrow> u32) \<Rightarrow> kernel" where
  "demo_mem init = demo_kernel (demo_drv sdm) \<lparr>answer = mem_hw sdm init, log = []\<rparr>"

lemma demo_mem_simps [simp]:
  "apic (demo_mem init) = mem_driver sdm (demo_drv sdm)"
  "mach (demo_mem init) = \<lparr>answer = mem_hw sdm init, log = []\<rparr>"
  "eilvt_offsets (demo_mem init) n = 0" "x2apic_mode (demo_mem init) = False"
  "x2apic_state (demo_mem init) = X2APIC_OFF" "disable_apic (demo_mem init) = False"
  "boot_caps (demo_mem init) f \<longleftrightarrow> f = X86_FEATURE_APIC" "apic_phys (demo_mem init) = 0xFEE00000"
  "this_caps (demo_mem init) f \<longleftrightarrow> f = X86_FEATURE_APIC" "apic_pm_state (demo_mem init) = demo_pm"
  "lapic_events (demo_mem init) = demo_event" "lapic_clockevent (demo_mem init) = demo_event"
  "lapic_timer_period (demo_mem init) = 1000" "pic_mode (demo_mem init) = False"
  "this_cpu (demo_mem init) = 0" "enabled_via_apicbase (demo_mem init) = False"
  "x86_vendor (demo_mem init) = X86_VENDOR_INTEL" "x86 (demo_mem init) = 6" "x86_model (demo_mem init) = 0x3C"
  "x86_stepping (demo_mem init) = 3" "microcode (demo_mem init) = 0x22"
  by (simp_all add: demo_mem_def demo_kernel_def demo_drv_mem)

lemma demo_mem_read [simp]: "result (apic_read r) (demo_mem init) = init r"
  by (simp add: kernel_run run_apic_read mem_hw_def)

end
