(* ===== verification/NoLapic.thy ===== *)
theory NoLapic
  imports Kernel
begin

text \<open>
  The rest of \<^verbatim>\<open>asm/apic.h\<close>: the inquiry of a remote APIC, and what the operations of the interface are
  in a kernel that is built without a local APIC. There, no operation reaches the hardware.
\<close>

section \<open>Inline operations\<close>

text \<open>\<^verbatim>\<open>__inquire_remote_apic\<close>, in another file of the kernel, is a parameter.\<close>

definition default_inquire_remote_apic :: "(int \<Rightarrow> unit kprog) \<Rightarrow> int \<Rightarrow> unit kprog" where
  "default_inquire_remote_apic inquire apicid = do {
     verbosity \<leftarrow> gets apic_verbosity;
     whenM (verbosity \<ge> APIC_DEBUG) (inquire apicid) }"

definition x2apic_supported :: "bool kprog" where
  "x2apic_supported = boot_cpu_has X86_FEATURE_X2APIC"

text \<open>The 64-bit kernel never enables a local APIC that is disabled, and asks other code for clusters.\<close>

definition apic_force_enable_64 :: "u64 \<Rightarrow> int kprog" where
  "apic_force_enable_64 addr = ret (- 1)"

definition apic_is_clustered_box_32 :: int where
  "apic_is_clustered_box_32 = 0"

section \<open>Without a local APIC\<close>

text \<open>
  \<^verbatim>\<open>!CONFIG_X86_LOCAL_APIC\<close>: the accessors no longer call a driver. They are the accessors of a driver
  whose operations do nothing, whatever the other members of \<open>a\<close> are.
\<close>

definition without_lapic :: "apic_drv \<Rightarrow> apic_drv" where
  "without_lapic a = a\<lparr>drv_read := (\<lambda>reg. ret 0), drv_write := (\<lambda>reg val. ret ()),
     drv_eoi_write := (\<lambda>reg val. ret ()), drv_icr_read := ret 0, drv_icr_write := (\<lambda>low high. ret ()),
     drv_wait_icr_idle := ret (), drv_safe_wait_icr_idle := ret 0\<rparr>"

lemma without_lapic_sel [simp]:
  "drv_read (without_lapic a) r = ret 0" "drv_write (without_lapic a) r v = ret ()"
  "drv_eoi_write (without_lapic a) r v = ret ()"
  by (simp_all add: without_lapic_def)

lemma without_lapic_silent:
  assumes "apic s = without_lapic a"
  shows "wp (apic_read r) (\<lambda>v s'. v = 0 \<and> s' = s) s"
    and "wp (apic_write r v) (\<lambda>_ s'. s' = s) s"
    and "wp (ack_APIC_irq K) (\<lambda>_ s'. s' = s) s"
    and "wp (lapic_vector_set_in_irr K vec) (\<lambda>b s'. \<not> b \<and> s' = s) s"
  using assms by (simp_all add: ack_APIC_irq_def apic_eoi_def apic_read_def apic_write_def
      lapic_vector_set_in_irr_def wp wp_on_mach exec_result_ret)

end
