(* ===== verification/Polling.thy ===== *)
theory Polling
  imports Kernel
begin

text \<open>
  The loops of the kernel code that wait for the hardware: each polls, does the same step again
  while the poll says so, and ends with the first poll that says otherwise. Such a loop need not
  end, so it is a partial function. What the proofs use of it is the locale \<open>spin_loop\<close>: the
  unfolding of the loop, and the induction that says it is the least solution, from which follow
  when it ends and in what state. The locale \<open>poll_loop\<close> adds that a step does nothing but perform
  the accesses \<open>step\<close>, so that the state of each poll is known. The providers are the wait for the
  command register (\<open>Lapic\<close>), the wait for the clock of the calibration (\<open>Calibration\<close>) and
  the loops that wait to be released (\<open>Zzzloop\<close>).
\<close>

section \<open>Loops that may not end\<close>

locale spin_loop =
  fixes loop :: "'s \<Rightarrow> 'r option" and busy :: "'s \<Rightarrow> bool" and nxt :: "'s \<Rightarrow> 's"
    and final :: "'s \<Rightarrow> 'r"
  assumes loop_unfold: "loop s = (if busy s then loop (nxt s) else Some (final s))"
    and loop_least: "\<lbrakk>loop s = Some r; \<And>t. \<not> busy t \<Longrightarrow> P t; \<And>t. busy t \<Longrightarrow> P (nxt t) \<Longrightarrow> P t\<rbrakk> \<Longrightarrow> P s"
begin

lemma loop_steps: "\<forall>i<n. busy ((nxt ^^ i) s) \<Longrightarrow> loop s = loop ((nxt ^^ n) s)"
proof (induction n)
  case (Suc n)
  then show ?case using loop_unfold [of "(nxt ^^ n) s"] by simp
qed simp

lemma loop_first:
  assumes "\<forall>i<n. busy ((nxt ^^ i) s)" and "\<not> busy ((nxt ^^ n) s)"
  shows "loop s = Some (final ((nxt ^^ n) s))"
  using loop_steps [OF assms(1)] loop_unfold [of "(nxt ^^ n) s"] assms(2) by simp

lemma loop_idle: "\<not> busy ((nxt ^^ n) s) \<Longrightarrow>
    \<exists>k\<le>n. (\<forall>i<k. busy ((nxt ^^ i) s)) \<and> \<not> busy ((nxt ^^ k) s) \<and> loop s = Some (final ((nxt ^^ k) s))"
  using exists_first [of "\<lambda>i. busy ((nxt ^^ i) s)" n] loop_first by blast

lemma loop_ends: "loop s = Some r \<Longrightarrow> \<exists>n. \<not> busy ((nxt ^^ n) s)"
proof (erule loop_least)
  fix t assume "\<not> busy t"
  then have "\<not> busy ((nxt ^^ 0) t)" by simp
  then show "\<exists>n. \<not> busy ((nxt ^^ n) t)" ..
next
  fix t assume "\<exists>n. \<not> busy ((nxt ^^ n) (nxt t))"
  then obtain n where "\<not> busy ((nxt ^^ Suc n) t)" by (auto simp: funpow_swap1)
  then show "\<exists>n. \<not> busy ((nxt ^^ n) t)" ..
qed

lemma loop_iff: "(\<exists>r. loop s = Some r) \<longleftrightarrow> (\<exists>n. \<not> busy ((nxt ^^ n) s))"
  using loop_ends loop_idle by blast

end

section \<open>Loops that only poll\<close>

text \<open>The log after \<open>n\<close> unsuccessful polls, newest first, and a state whose log has grown.\<close>

fun polled :: "access list \<Rightarrow> nat \<Rightarrow> access list \<Rightarrow> access list" where
  "polled step 0 l = l"
| "polled step (Suc n) l = step @ polled step n l"

lemma polled_shift: "polled step n (step @ l) = polled step (Suc n) l"
  by (induction n) simp_all

definition with_log :: "access list \<Rightarrow> kernel \<Rightarrow> kernel" where
  "with_log l s = s\<lparr>mach := (mach s)\<lparr>log := l\<rparr>\<rparr>"

lemma with_log_simps [simp]:
  "log (mach (with_log l s)) = l" "answer (mach (with_log l s)) = answer (mach s)"
  "with_log k (with_log l s) = with_log k s" "with_log (log (mach s)) s = s"
  by (simp_all add: with_log_def)

locale poll_loop = spin_loop loop busy nxt final
  for loop :: "kernel \<Rightarrow> 'r option" and busy nxt final +
  fixes step :: "access list" and ok :: "kernel \<Rightarrow> bool"
  assumes step_polls: "ok s \<Longrightarrow> nxt s = with_log (step @ log (mach s)) s"
    and step_ok: "ok s \<Longrightarrow> ok (with_log l s)"
begin

lemma polls: "ok s \<Longrightarrow> (nxt ^^ n) s = with_log (polled step n (log (mach s))) s"
  by (induction n) (simp_all add: step_polls step_ok)

lemma poll_first:
  assumes "ok s" and "\<forall>i<n. busy (with_log (polled step i (log (mach s))) s)"
    and "\<not> busy (with_log (polled step n (log (mach s))) s)"
  shows "loop s = Some (final (with_log (polled step n (log (mach s))) s))"
  using loop_first [of n s] assms by (simp add: polls)

lemma poll_iff:
  "ok s \<Longrightarrow> (\<exists>r. loop s = Some r) \<longleftrightarrow> (\<exists>n. \<not> busy (with_log (polled step n (log (mach s))) s))"
  by (simp add: loop_iff polls)

lemma poll_idle:
  assumes "ok s" and "\<not> busy (with_log (polled step n (log (mach s))) s)"
  shows "\<exists>k\<le>n. loop s = Some (final (with_log (polled step k (log (mach s))) s))"
  using loop_idle [of n s] assms by (auto simp: polls)

end

end
