(* ===== verification/Lapic.thy ===== *)
theory Lapic
  imports Polling
begin

text \<open>
  The first part of \<^verbatim>\<open>apic.c\<close>: version and number of local vector table entries, and the interrupt
  command register: waiting until it is idle (without and with a time-out), writing and reading it.
  The unbounded wait is a partial function, \<open>None\<close> when the register never becomes idle.
\<close>

section \<open>Version of the APIC\<close>

definition lapic_get_version :: "platform \<Rightarrow> u32 kprog" where
  "lapic_get_version K = do { v \<leftarrow> apic_read (reg K APIC_LVR); ret (GET_APIC_VERSION K v) }"

definition lapic_is_integrated :: "platform \<Rightarrow> bool kprog" where
  "lapic_is_integrated K = do { v \<leftarrow> lapic_get_version K; ret (APIC_INTEGRATED K v) }"

definition modern_apic :: "platform \<Rightarrow> bool kprog" where
  "modern_apic K = do {
     vendor \<leftarrow> gets x86_vendor;
     family \<leftarrow> gets x86;
     (if vendor = X86_VENDOR_AMD \<and> family \<ge> 0xf then ret True
      else if vendor = X86_VENDOR_HYGON then ret True
      else do { v \<leftarrow> lapic_get_version K; ret (sint v \<ge> 0x14) }) }"

definition get_physical_broadcast :: "platform \<Rightarrow> u32 kprog" where
  "get_physical_broadcast K = do { m \<leftarrow> modern_apic K; ret (if m then 0xff else 0xf) }"

definition lapic_get_maxlvt :: "platform \<Rightarrow> int kprog" where
  "lapic_get_maxlvt K = do {
     integrated \<leftarrow> lapic_is_integrated K;
     (if integrated then do { v \<leftarrow> apic_read (reg K APIC_LVR); ret (sint (GET_APIC_MAXLVT K v)) }
      else ret 2) }"

text \<open>The values of a version register, and the rules for the operations over a device.\<close>

definition integrated_of :: "platform \<Rightarrow> u32 \<Rightarrow> bool" where
  "integrated_of K lvr = APIC_INTEGRATED K (GET_APIC_VERSION K lvr)"

definition maxlvt_of :: "platform \<Rightarrow> u32 \<Rightarrow> int" where
  "maxlvt_of K lvr = (if integrated_of K lvr then sint (GET_APIC_MAXLVT K lvr) else 2)"

context apic_device
begin

lemma wp_lapic_is_integrated:
  assumes "apic s = a" and "device (mach s)"
    and "\<And>v m. device m \<Longrightarrow> trace m = trace (mach s) \<Longrightarrow>
      (plain (reg K APIC_LVR) \<Longrightarrow> v = integrated_of K (reg_val init (trace (mach s)) (reg K APIC_LVR))) \<Longrightarrow>
      Q v (s\<lparr>mach := m\<rparr>)"
  shows "wp (lapic_is_integrated K) Q s"
  using assms
  by (auto simp: lapic_is_integrated_def lapic_get_version_def integrated_of_def wp intro!: wp_read)

lemma wp_lapic_get_maxlvt:
  assumes "apic s = a" and "device (mach s)"
    and "\<And>v m. device m \<Longrightarrow> trace m = trace (mach s) \<Longrightarrow>
      (plain (reg K APIC_LVR) \<Longrightarrow> v = maxlvt_of K (reg_val init (trace (mach s)) (reg K APIC_LVR))) \<Longrightarrow>
      Q v (s\<lparr>mach := m\<rparr>)"
  shows "wp (lapic_get_maxlvt K) Q s"
  using assms
  by (auto simp: lapic_get_maxlvt_def maxlvt_of_def wp intro!: wp_lapic_is_integrated wp_read)

lemma flat_is_integrated:
  "apic s = a \<Longrightarrow> device m0 \<and> trace m0 = T \<Longrightarrow>
    (\<And>v m. device m \<and> trace m = T \<Longrightarrow>
      (plain (reg K APIC_LVR) \<Longrightarrow> v = integrated_of K (reg_val init T (reg K APIC_LVR))) \<Longrightarrow> Q v (s\<lparr>mach := m\<rparr>)) \<Longrightarrow>
    wp (lapic_is_integrated K) Q (s\<lparr>mach := m0\<rparr>)"
  by (rule wp_lapic_is_integrated) auto

lemma flat_get_maxlvt:
  "apic s = a \<Longrightarrow> device m0 \<and> trace m0 = T \<Longrightarrow>
    (\<And>v m. device m \<and> trace m = T \<Longrightarrow>
      (plain (reg K APIC_LVR) \<Longrightarrow> v = maxlvt_of K (reg_val init T (reg K APIC_LVR))) \<Longrightarrow> Q v (s\<lparr>mach := m\<rparr>)) \<Longrightarrow>
    wp (lapic_get_maxlvt K) Q (s\<lparr>mach := m0\<rparr>)"
  by (rule wp_lapic_get_maxlvt) auto

end

section \<open>The interrupt command register\<close>

definition cpu_relax :: "unit kprog" where "cpu_relax = on_mach (do_access CpuRelax)"
definition udelay :: "nat \<Rightarrow> unit kprog" where "udelay us = on_mach (do_access (Udelay us))"
definition inc_irq_stat_k :: "string \<Rightarrow> unit kprog" where "inc_irq_stat_k c = kcall (inc_irq_stat c)"

definition icr_busy :: "platform \<Rightarrow> bool kprog" where
  "icr_busy K = do { v \<leftarrow> apic_read (reg K APIC_ICR); ret (c_true (v AND cst K APIC_ICR_BUSY)) }"

partial_function (option) native_apic_wait_icr_idle :: "platform \<Rightarrow> kernel \<Rightarrow> kernel option" where
  "native_apic_wait_icr_idle K s =
     (if result (icr_busy K) s
      then native_apic_wait_icr_idle K (exec cpu_relax (exec (icr_busy K) s))
      else Some (exec (icr_busy K) s))"

text \<open>The loop with the time-out, entered with the counter at \<open>timeout\<close>.\<close>

function safe_wait_loop :: "platform \<Rightarrow> nat \<Rightarrow> u32 kprog" where
  "safe_wait_loop K timeout = do {
     v \<leftarrow> apic_read (reg K APIC_ICR);
     let send_status = v AND cst K APIC_ICR_BUSY;
     (if \<not> c_true send_status then ret send_status
      else do {
        inc_irq_stat_k ''icr_read_retry_count'';
        udelay 100;
        (if timeout < 1000 then safe_wait_loop K (timeout + 1) else ret send_status) }) }"
  by pat_completeness auto
termination
  by (relation "measure (\<lambda>(K, timeout). 1000 - timeout)") auto

declare safe_wait_loop.simps [simp del]

definition native_safe_apic_wait_icr_idle :: "platform \<Rightarrow> u32 kprog" where
  "native_safe_apic_wait_icr_idle K = safe_wait_loop K 0"

definition native_apic_icr_write :: "platform \<Rightarrow> u32 \<Rightarrow> u32 \<Rightarrow> unit kprog" where
  "native_apic_icr_write K low dest = do {
     local_irq_save;
     apic_write (reg K APIC_ICR2) (SET_APIC_DEST_FIELD K dest);
     apic_write (reg K APIC_ICR) low;
     local_irq_restore }"

definition native_apic_icr_read :: "platform \<Rightarrow> u64 kprog" where
  "native_apic_icr_read K = do {
     icr2 \<leftarrow> apic_read (reg K APIC_ICR2);
     icr1 \<leftarrow> apic_read (reg K APIC_ICR);
     ret (ucast icr1 OR push_bit 32 (ucast icr2)) }"

lemmas wp_simple = cpu_relax_def udelay_def inc_irq_stat_k_def wp

section \<open>Runs of the memory driver, step by step\<close>

abbreviation reg_addr :: "platform \<Rightarrow> apic_reg \<Rightarrow> u64" where
  "reg_addr K r \<equiv> APIC_BASE K + ucast (reg K r)"

lemma wp_read_mem:
  "apic s = mem_driver K a \<Longrightarrow> wp (apic_read r) Q s =
     Q (ucast (answer (mach s) (log (mach s)) (MemRd (APIC_BASE K + ucast r))))
       (s\<lparr>mach := (mach s)\<lparr>log := MemRd (APIC_BASE K + ucast r) # log (mach s)\<rparr>\<rparr>)"
  by (simp add: wp_apic_read_drv)

lemma wp_write_mem:
  "apic s = mem_driver K a \<Longrightarrow> wp (apic_write r v) Q s =
     Q () (s\<lparr>mach := (mach s)\<lparr>log := MemWr (APIC_BASE K + ucast r) v # log (mach s)\<rparr>\<rparr>)"
  by (simp add: wp_apic_write_drv)

lemma run_wp: "wp p (\<lambda>a s'. a = x \<and> s' = t) s \<longleftrightarrow> result p s = x \<and> exec p s = t"
  by (simp add: wp_run)

lemma run_icr_busy:
  assumes "apic s = mem_driver K a"
  shows "run_state (icr_busy K) s =
    (ucast (answer (mach s) (log (mach s)) (MemRd (reg_addr K APIC_ICR))) AND cst K APIC_ICR_BUSY \<noteq> 0,
     s\<lparr>mach := (mach s)\<lparr>log := MemRd (reg_addr K APIC_ICR) # log (mach s)\<rparr>\<rparr>)"
  using assms by (simp add: icr_busy_def run_apic_read)

lemma icr_busy_mem:
  assumes "apic s = mem_driver K a"
  shows "exec (icr_busy K) s = s\<lparr>mach := (mach s)\<lparr>log := MemRd (reg_addr K APIC_ICR) # log (mach s)\<rparr>\<rparr>"
    and "result (icr_busy K) s \<longleftrightarrow>
      ucast (answer (mach s) (log (mach s)) (MemRd (reg_addr K APIC_ICR))) AND cst K APIC_ICR_BUSY \<noteq> 0"
  by (simp_all add: kernel_run run_icr_busy [OF assms])

text \<open>The value of the busy bit at the \<open>n\<close>-th poll of the two waits.\<close>

definition busy_at :: "platform \<Rightarrow> machine \<Rightarrow> access list \<Rightarrow> nat \<Rightarrow> bool" where
  "busy_at K m step n \<longleftrightarrow>
     (ucast (answer m (polled step n (log m)) (MemRd (reg_addr K APIC_ICR))) AND cst K APIC_ICR_BUSY)
       \<noteq> (0 :: u32)"

definition relax_step :: "platform \<Rightarrow> access list" where
  "relax_step K = [CpuRelax, MemRd (reg_addr K APIC_ICR)]"

definition retry_step :: "platform \<Rightarrow> access list" where
  "retry_step K = [Udelay 100, Call (inc_irq_stat ''icr_read_retry_count''),
     MemRd (reg_addr K APIC_ICR)]"

lemma busy_at_shift:
  "busy_at K (m\<lparr>log := step @ log m\<rparr>) step n = busy_at K m step (Suc n)"
  by (simp add: busy_at_def polled_shift del: polled.simps)

section \<open>The unbounded wait\<close>

lemma wait_icr_idle_least:
  assumes "native_apic_wait_icr_idle K s = Some r"
    and "\<And>t. \<not> result (icr_busy K) t \<Longrightarrow> P t"
    and "\<And>t. result (icr_busy K) t \<Longrightarrow> P (exec cpu_relax (exec (icr_busy K) t)) \<Longrightarrow> P t"
  shows "P s"
proof -
  have "K' = K \<longrightarrow> P t" if "native_apic_wait_icr_idle K' t = Some r" for K' t
    using that by (rule native_apic_wait_icr_idle.raw_induct [rotated])
      (use assms(2,3) in \<open>auto split: if_splits\<close>)
  with assms(1) show ?thesis by blast
qed

interpretation wait: poll_loop "native_apic_wait_icr_idle K" "result (icr_busy K)"
  "\<lambda>s. exec cpu_relax (exec (icr_busy K) s)" "exec (icr_busy K)" "relax_step K"
  "\<lambda>s. \<exists>a. apic s = mem_driver K a" for K
proof unfold_locales
  show "native_apic_wait_icr_idle K s = (if result (icr_busy K) s
      then native_apic_wait_icr_idle K (exec cpu_relax (exec (icr_busy K) s))
      else Some (exec (icr_busy K) s))" for s
    by (rule native_apic_wait_icr_idle.simps)
qed (auto simp: with_log_def relax_step_def run_icr_busy cpu_relax_def kernel_run run_access_k
    intro: wait_icr_idle_least)

lemma icr_busy_polled:
  assumes "apic s = mem_driver K a"
  shows "result (icr_busy K) (with_log (polled step n (log (mach s))) s) \<longleftrightarrow> busy_at K (mach s) step n"
    and "exec (icr_busy K) (with_log l s) = with_log (MemRd (reg_addr K APIC_ICR) # l) s"
  using assms icr_busy_mem [of "with_log _ s" K a] by (simp_all add: with_log_def busy_at_def)

section \<open>The wait with a time-out\<close>

lemma safe_wait_step:
  assumes "apic s = mem_driver K a"
  shows "run_state (safe_wait_loop K t) s =
    (let v = ucast (answer (mach s) (log (mach s)) (MemRd (reg_addr K APIC_ICR))) AND cst K APIC_ICR_BUSY;
         s1 = s\<lparr>mach := (mach s)\<lparr>log := MemRd (reg_addr K APIC_ICR) # log (mach s)\<rparr>\<rparr>;
         s2 = s\<lparr>mach := (mach s)\<lparr>log := retry_step K @ log (mach s)\<rparr>\<rparr>
     in if v = 0 then (v, s1)
        else if t < 1000 then run_state (safe_wait_loop K (t + 1)) s2 else (v, s2))"
  using assms
  by (simp add: safe_wait_loop.simps [of K t] run_apic_read run_access_k Let_def inc_irq_stat_k_def
      udelay_def kcall_def call_def retry_step_def)

lemma safe_wait_loop_run:
  assumes "apic s = mem_driver K a" and "t \<le> 1000" and "n \<le> 1000 - t"
    and "\<forall>i<n. busy_at K (mach s) (retry_step K) i" and "\<not> busy_at K (mach s) (retry_step K) n"
  shows "run_state (safe_wait_loop K t) s = (0, s\<lparr>mach := (mach s)\<lparr>log :=
    MemRd (reg_addr K APIC_ICR) # polled (retry_step K) n (log (mach s))\<rparr>\<rparr>)"
  using assms
proof (induction n arbitrary: s t)
  case 0
  then show ?case
    by (simp add: safe_wait_step [OF "0.prems"(1)] busy_at_def Let_def)
next
  case (Suc n)
  let ?t = "s\<lparr>mach := (mach s)\<lparr>log := retry_step K @ log (mach s)\<rparr>\<rparr>"
  have "busy_at K (mach s) (retry_step K) 0"
    using Suc.prems(4) by blast
  then have "run_state (safe_wait_loop K t) s = run_state (safe_wait_loop K (t + 1)) ?t"
    using Suc.prems(3) by (auto simp: safe_wait_step [OF Suc.prems(1)] busy_at_def Let_def)
  also have "\<dots> = (0, ?t\<lparr>mach := (mach ?t)\<lparr>log :=
      MemRd (reg_addr K APIC_ICR) # polled (retry_step K) n (log (mach ?t))\<rparr>\<rparr>)"
    using Suc.prems by (intro Suc.IH) (auto simp: busy_at_shift)
  finally show ?case
    by (simp add: polled_shift del: polled.simps)
qed

lemma safe_wait_loop_timeout:
  assumes "apic s = mem_driver K a" and "t + n = 1000"
    and "\<forall>i\<le>n. busy_at K (mach s) (retry_step K) i"
  shows "\<exists>v. v \<noteq> 0 \<and> run_state (safe_wait_loop K t) s =
    (v, s\<lparr>mach := (mach s)\<lparr>log := polled (retry_step K) (Suc n) (log (mach s))\<rparr>\<rparr>)"
  using assms
proof (induction n arbitrary: s t)
  case 0
  then show ?case
    by (simp add: safe_wait_step [OF "0.prems"(1)] busy_at_def Let_def)
next
  case (Suc n)
  let ?t = "s\<lparr>mach := (mach s)\<lparr>log := retry_step K @ log (mach s)\<rparr>\<rparr>"
  have "busy_at K (mach s) (retry_step K) 0"
    using Suc.prems(3) by blast
  then have "run_state (safe_wait_loop K t) s = run_state (safe_wait_loop K (t + 1)) ?t"
    using Suc.prems(2) by (simp add: safe_wait_step [OF Suc.prems(1)] busy_at_def Let_def)
  moreover have "\<exists>v. v \<noteq> 0 \<and> run_state (safe_wait_loop K (t + 1)) ?t =
      (v, ?t\<lparr>mach := (mach ?t)\<lparr>log := polled (retry_step K) (Suc n) (log (mach ?t))\<rparr>\<rparr>)"
    using Suc.prems by (intro Suc.IH) (auto simp: busy_at_shift)
  ultimately show ?case
    by (simp add: polled_shift del: polled.simps)
qed

lemma safe_wait_timeout:
  assumes "apic s = mem_driver K a" and "\<forall>i\<le>1000. busy_at K (mach s) (retry_step K) i"
  shows "\<exists>v. v \<noteq> 0 \<and> run_state (native_safe_apic_wait_icr_idle K) s =
    (v, s\<lparr>mach := (mach s)\<lparr>log := polled (retry_step K) 1001 (log (mach s))\<rparr>\<rparr>)"
proof -
  have "Suc 1000 = 1001" by (simp only: eval_nat_numeral BitM.simps)
  then show ?thesis
    using safe_wait_loop_timeout [OF assms(1) _ assms(2), of 0]
    unfolding native_safe_apic_wait_icr_idle_def by simp
qed

section \<open>Properties\<close>

text \<open>
  C19. The unbounded wait ends exactly when the command register is idle at some poll; it then has
  polled as often as the register was busy, and once more, and nothing else has happened.
\<close>

theorem native_apic_wait_icr_idle_returns:
  assumes "apic s = mem_driver K a"
  shows "((\<exists>s'. native_apic_wait_icr_idle K s = Some s') \<longleftrightarrow> (\<exists>n. \<not> busy_at K (mach s) (relax_step K) n))
    \<and> ((\<forall>i<n. busy_at K (mach s) (relax_step K) i) \<longrightarrow> \<not> busy_at K (mach s) (relax_step K) n \<longrightarrow> (native_apic_wait_icr_idle K s = Some (s\<lparr>mach := (mach s)\<lparr>log :=
        MemRd (reg_addr K APIC_ICR) # polled (relax_step K) n (log (mach s))\<rparr>\<rparr>)))"
  using wait.poll_iff [of s K] wait.poll_first [of s K n] assms
  by (auto simp: icr_busy_polled [OF assms] simp flip: with_log_def)

lemma demo_not_busy: "\<not> busy_at sdm (mach (demo_mem (\<lambda>r. 0))) step 0"
  by (simp add: busy_at_def mem_hw_def)

theorem native_apic_wait_icr_idle_returns_witness:
  "\<exists>s'. native_apic_wait_icr_idle sdm (demo_mem (\<lambda>r. 0)) = Some s'"
  using native_apic_wait_icr_idle_returns [OF demo_mem_simps(1) [of "\<lambda>r. 0"], of 0]
    demo_not_busy [of "relax_step sdm"] by blast

text \<open>
  C20. The wait with a time-out polls at most 1001 times and returns 0 exactly when one of these polls
  finds the command register idle; each unsuccessful poll counts a retry and delays 100 microseconds.
\<close>

theorem native_safe_apic_wait_icr_idle_bounded:
  assumes "apic s = mem_driver K a"
  shows "(result (native_safe_apic_wait_icr_idle K) s = 0 \<longleftrightarrow>
      (\<exists>n\<le>1000. \<not> busy_at K (mach s) (retry_step K) n))
    \<and> (n \<le> 1000 \<longrightarrow> (\<forall>i<n. busy_at K (mach s) (retry_step K) i) \<longrightarrow> \<not> busy_at K (mach s) (retry_step K) n \<longrightarrow> (exec (native_safe_apic_wait_icr_idle K) s = s\<lparr>mach := (mach s)\<lparr>log :=
        MemRd (reg_addr K APIC_ICR) # polled (retry_step K) n (log (mach s))\<rparr>\<rparr>))
    \<and> ((\<forall>i\<le>1000. busy_at K (mach s) (retry_step K) i) \<longrightarrow> (exec (native_safe_apic_wait_icr_idle K) s =
        s\<lparr>mach := (mach s)\<lparr>log := polled (retry_step K) 1001 (log (mach s))\<rparr>\<rparr>))"
proof (intro conjI impI)
  let ?b = "busy_at K (mach s) (retry_step K)"
  have idle: "result (native_safe_apic_wait_icr_idle K) s = 0" if "n \<le> 1000" "\<forall>i<n. ?b i" "\<not> ?b n" for n
    using safe_wait_loop_run [OF assms _ _ that(2,3), of 0] that(1)
    by (simp add: kernel_run native_safe_apic_wait_icr_idle_def)
  have late: "result (native_safe_apic_wait_icr_idle K) s \<noteq> 0" if "\<forall>i\<le>1000. ?b i"
    using safe_wait_timeout [OF assms that] run_result by metis
  have least: "\<exists>n\<le>1000. (\<forall>i<n. ?b i) \<and> \<not> ?b n" if "\<not> (\<forall>i\<le>1000. ?b i)"
    using that by (rule exists_first_le)
  show "result (native_safe_apic_wait_icr_idle K) s = 0 \<longleftrightarrow> (\<exists>n\<le>1000. \<not> ?b n)"
    using idle late least by blast
  show "exec (native_safe_apic_wait_icr_idle K) s = s\<lparr>mach := (mach s)\<lparr>log :=
      MemRd (reg_addr K APIC_ICR) # polled (retry_step K) n (log (mach s))\<rparr>\<rparr>"
    if "n \<le> 1000" "\<forall>i<n. ?b i" "\<not> ?b n"
    using safe_wait_loop_run [OF assms _ _ that(2,3), of 0] that(1)
    by (simp add: kernel_run native_safe_apic_wait_icr_idle_def)
  show "exec (native_safe_apic_wait_icr_idle K) s =
      s\<lparr>mach := (mach s)\<lparr>log := polled (retry_step K) 1001 (log (mach s))\<rparr>\<rparr>" if "\<forall>i\<le>1000. ?b i"
    using safe_wait_timeout [OF assms that] run_exec by metis
qed

theorem native_safe_apic_wait_icr_idle_bounded_witness:
  "result (native_safe_apic_wait_icr_idle sdm) (demo_mem (\<lambda>r. 0)) = 0"
  using native_safe_apic_wait_icr_idle_bounded [OF demo_mem_simps(1), of "\<lambda>r. 0"]
    demo_not_busy [of "retry_step sdm"] by blast

text \<open>
  C21. Sending an interrupt writes the destination before the command, between disabling and
  restoring interrupts, and nothing else; on a device that keeps both registers, reading the
  command back gives the command in the low and the destination field in the high half.
\<close>

theorem native_apic_icr_write_read:
  assumes "apic s = mem_driver K a"
  shows "(log (mach (exec (native_apic_icr_write K low dest) s)) =
      [IrqRestore, MemWr (reg_addr K APIC_ICR) low,
       MemWr (reg_addr K APIC_ICR2) (SET_APIC_DEST_FIELD K dest), IrqSave] @ log (mach s))
    \<and> (mem_device K init (\<lambda>r. r \<in> {reg K APIC_ICR, reg K APIC_ICR2}) (mach s) \<longrightarrow> regs_ok K \<longrightarrow> (result (native_apic_icr_read K) (exec (native_apic_icr_write K low dest) s) =
        ucast low OR push_bit 32 (ucast (SET_APIC_DEST_FIELD K dest))))"
proof (intro conjI impI)
  have *: "run_state (native_apic_icr_write K low dest) s = ((), s\<lparr>mach := (mach s)\<lparr>log :=
      [IrqRestore, MemWr (reg_addr K APIC_ICR) low,
       MemWr (reg_addr K APIC_ICR2) (SET_APIC_DEST_FIELD K dest), IrqSave] @ log (mach s)\<rparr>\<rparr>)"
    using assms by (simp add: native_apic_icr_write_def run_apic_write run_access_k
        local_irq_save_def local_irq_restore_def)
  then show "log (mach (exec (native_apic_icr_write K low dest) s)) =
      [IrqRestore, MemWr (reg_addr K APIC_ICR) low,
       MemWr (reg_addr K APIC_ICR2) (SET_APIC_DEST_FIELD K dest), IrqSave] @ log (mach s)"
    by (simp add: run_exec)
  assume "mem_device K init (\<lambda>r. r \<in> {reg K APIC_ICR, reg K APIC_ICR2}) (mach s)" and "regs_ok K"
  then show "result (native_apic_icr_read K) (exec (native_apic_icr_write K low dest) s) =
        ucast low OR push_bit 32 (ucast (SET_APIC_DEST_FIELD K dest))"
    using assms unfolding run_exec [OF *]
    by (simp add: kernel_run native_apic_icr_read_def run_apic_read mem_device_def regs_ok_def inj_eq)
qed

theorem native_apic_icr_write_read_witness:
  "result (native_apic_icr_read sdm) (exec (native_apic_icr_write sdm 0xC500 3) (demo_mem (\<lambda>r. 0))) =
    0x030000000000C500"
  using native_apic_icr_write_read [OF demo_mem_simps(1) [of "\<lambda>r. 0"], of "0xC500" 3 "\<lambda>r. 0"]
  by (simp add: sdm_regs_ok)

end
