(* ===== verification/Shutdown.thy ===== *)
theory Shutdown
  imports Lapic
begin

text \<open>
  Quiescing a local APIC: \<open>clear_local_APIC\<close>, the soft and hard disabling, the shutdown, and
  attaching the boot processor's APIC to the interrupt system and detaching it. The writes of
  \<open>clear_local_APIC\<close> are computed once, as a trace, for every driver that keeps the contract; the
  properties read off the trace.
\<close>

section \<open>The operations\<close>

definition clear_local_APIC :: "platform \<Rightarrow> unit kprog" where
  "clear_local_APIC K = do {
     x2 \<leftarrow> gets x2apic_mode;
     phys \<leftarrow> gets apic_phys;
     (if \<not> x2 \<and> \<not> c_true phys then ret ()
      else do {
        maxlvt \<leftarrow> lapic_get_maxlvt K;
        whenM (maxlvt \<ge> 3)
          (apic_write (reg K APIC_LVTERR) (cst K ERROR_APIC_VECTOR OR cst K APIC_LVT_MASKED));
        do { v \<leftarrow> apic_read (reg K APIC_LVTT); apic_write (reg K APIC_LVTT) (v OR cst K APIC_LVT_MASKED) };
        do { v \<leftarrow> apic_read (reg K APIC_LVT0); apic_write (reg K APIC_LVT0) (v OR cst K APIC_LVT_MASKED) };
        do { v \<leftarrow> apic_read (reg K APIC_LVT1); apic_write (reg K APIC_LVT1) (v OR cst K APIC_LVT_MASKED) };
        whenM (maxlvt \<ge> 4) (do { v \<leftarrow> apic_read (reg K APIC_LVTPC);
          apic_write (reg K APIC_LVTPC) (v OR cst K APIC_LVT_MASKED) });
        whenM (CONFIG_X86_THERMAL_VECTOR K \<and> maxlvt \<ge> 5) (do { v \<leftarrow> apic_read (reg K APIC_LVTTHMR);
          apic_write (reg K APIC_LVTTHMR) (v OR cst K APIC_LVT_MASKED) });
        whenM (CONFIG_X86_MCE_INTEL K \<and> maxlvt \<ge> 6) (do { v \<leftarrow> apic_read (reg K APIC_LVTCMCI);
          whenM (\<not> c_true (v AND cst K APIC_LVT_MASKED))
            (apic_write (reg K APIC_LVTCMCI) (v OR cst K APIC_LVT_MASKED)) });
        apic_write (reg K APIC_LVTT) (cst K APIC_LVT_MASKED);
        apic_write (reg K APIC_LVT0) (cst K APIC_LVT_MASKED);
        apic_write (reg K APIC_LVT1) (cst K APIC_LVT_MASKED);
        whenM (maxlvt \<ge> 3) (apic_write (reg K APIC_LVTERR) (cst K APIC_LVT_MASKED));
        whenM (maxlvt \<ge> 4) (apic_write (reg K APIC_LVTPC) (cst K APIC_LVT_MASKED));
        integrated \<leftarrow> lapic_is_integrated K;
        whenM integrated (do {
          whenM (maxlvt > 3) (apic_write (reg K APIC_ESR) 0);
          _ \<leftarrow> apic_read (reg K APIC_ESR);
          ret () }) }) }"

definition apic_soft_disable :: "platform \<Rightarrow> unit kprog" where
  "apic_soft_disable K = do {
     clear_local_APIC K;
     value \<leftarrow> apic_read (reg K APIC_SPIV);
     let value = value AND NOT (cst K APIC_SPIV_APIC_ENABLED);
     apic_write (reg K APIC_SPIV) value }"

definition disable_local_APIC :: "platform \<Rightarrow> unit kprog" where
  "disable_local_APIC K = do {
     x2 \<leftarrow> gets x2apic_mode;
     phys \<leftarrow> gets apic_phys;
     (if \<not> x2 \<and> \<not> c_true phys then ret ()
      else do {
        apic_soft_disable K;
        via \<leftarrow> gets enabled_via_apicbase;
        whenM (CONFIG_X86_32 K \<and> via) (do {
          (l, h) \<leftarrow> on_mach (rdmsr (cst K MSR_IA32_APICBASE));
          let l = l AND NOT (cst K MSR_IA32_APICBASE_ENABLE);
          on_mach (wrmsr (cst K MSR_IA32_APICBASE) l h) }) }) }"

definition lapic_shutdown :: "platform \<Rightarrow> unit kprog" where
  "lapic_shutdown K = do {
     has \<leftarrow> boot_cpu_has X86_FEATURE_APIC;
     smp \<leftarrow> apic_from_smp_config;
     (if \<not> has \<and> \<not> smp then ret ()
      else do {
        local_irq_save;
        via \<leftarrow> gets enabled_via_apicbase;
        (if CONFIG_X86_32 K \<and> \<not> via then clear_local_APIC K else disable_local_APIC K);
        local_irq_restore }) }"

definition imcr_pic_to_apic :: "unit kprog" where
  "imcr_pic_to_apic = do { on_mach (outb 0x70 0x22); on_mach (outb 0x01 0x23) }"

definition imcr_apic_to_pic :: "unit kprog" where
  "imcr_apic_to_pic = do { on_mach (outb 0x70 0x22); on_mach (outb 0x00 0x23) }"

definition connect_bsp_APIC :: "platform \<Rightarrow> unit kprog" where
  "connect_bsp_APIC K = do {
     pic \<leftarrow> gets pic_mode;
     whenM (CONFIG_X86_32 K \<and> pic) (do {
       clear_local_APIC K;
       apic_printk APIC_VERBOSE ''leaving PIC mode, enabling APIC mode.'';
       imcr_pic_to_apic }) }"

text \<open>The bits that \<open>disconnect_bsp_APIC\<close> clears in the entries of the two interrupt pins.\<close>

definition lvt_pin_bits :: "platform \<Rightarrow> u32" where
  "lvt_pin_bits K = cst K APIC_MODE_MASK OR cst K APIC_SEND_PENDING OR cst K APIC_INPUT_POLARITY
     OR cst K APIC_LVT_REMOTE_IRR OR cst K APIC_LVT_LEVEL_TRIGGER OR cst K APIC_LVT_MASKED"

definition disconnect_bsp_APIC :: "platform \<Rightarrow> int \<Rightarrow> unit kprog" where
  "disconnect_bsp_APIC K virt_wire_setup = do {
     pic \<leftarrow> gets pic_mode;
     (if CONFIG_X86_32 K \<and> pic then do {
        apic_printk APIC_VERBOSE ''disabling APIC mode, entering PIC mode.'';
        imcr_apic_to_pic }
      else do {
        do { v \<leftarrow> apic_read (reg K APIC_SPIV);
             apic_write (reg K APIC_SPIV)
               (((v AND NOT (cst K APIC_VECTOR_MASK)) OR cst K APIC_SPIV_APIC_ENABLED) OR 0xf) };
        (if virt_wire_setup = 0 then
           do { v \<leftarrow> apic_read (reg K APIC_LVT0);
                apic_write (reg K APIC_LVT0) (SET_APIC_DELIVERY_MODE K
                  ((v AND NOT (lvt_pin_bits K)) OR (cst K APIC_LVT_REMOTE_IRR OR cst K APIC_SEND_PENDING))
                  (cst K APIC_MODE_EXTINT)) }
         else apic_write (reg K APIC_LVT0) (cst K APIC_LVT_MASKED));
        do { v \<leftarrow> apic_read (reg K APIC_LVT1);
             apic_write (reg K APIC_LVT1) (SET_APIC_DELIVERY_MODE K
               ((v AND NOT (lvt_pin_bits K)) OR (cst K APIC_LVT_REMOTE_IRR OR cst K APIC_SEND_PENDING))
               (cst K APIC_MODE_NMI)) } }) }"

section \<open>The trace of clearing\<close>

text \<open>
  The writes of \<open>clear_local_APIC\<close>, newest first, for a largest entry number \<open>n\<close>, and the values
  \<open>t\<close>, \<open>l0\<close>, \<open>l1\<close>, \<open>pc\<close>, \<open>th\<close>, \<open>cm\<close> read from the entries; \<open>i\<close> says whether the chip is integrated.
\<close>

definition clear_writes :: "platform \<Rightarrow> int \<Rightarrow> bool \<Rightarrow> u32 \<Rightarrow> u32 \<Rightarrow> u32 \<Rightarrow> u32 \<Rightarrow> u32 \<Rightarrow> u32 \<Rightarrow> (u32 \<times> u32) list" where
  "clear_writes K n i t l0 l1 pc th cm = (let M = cst K APIC_LVT_MASKED in
     (if i \<and> n > 3 then [(reg K APIC_ESR, 0)] else [])
     @ (if n \<ge> 4 then [(reg K APIC_LVTPC, M)] else [])
     @ (if n \<ge> 3 then [(reg K APIC_LVTERR, M)] else [])
     @ [(reg K APIC_LVT1, M), (reg K APIC_LVT0, M), (reg K APIC_LVTT, M)]
     @ (if (CONFIG_X86_MCE_INTEL K \<and> n \<ge> 6) \<and> cm AND M = 0 then [(reg K APIC_LVTCMCI, cm OR M)] else [])
     @ (if CONFIG_X86_THERMAL_VECTOR K \<and> n \<ge> 5 then [(reg K APIC_LVTTHMR, th OR M)] else [])
     @ (if n \<ge> 4 then [(reg K APIC_LVTPC, pc OR M)] else [])
     @ [(reg K APIC_LVT1, l1 OR M), (reg K APIC_LVT0, l0 OR M), (reg K APIC_LVTT, t OR M)]
     @ (if n \<ge> 3 then [(reg K APIC_LVTERR, cst K ERROR_APIC_VECTOR OR M)] else []))"

definition lvt_regs :: "platform \<Rightarrow> u32 set" where
  "lvt_regs K = reg K ` {APIC_LVTT, APIC_LVT0, APIC_LVT1, APIC_LVTERR, APIC_LVTPC, APIC_LVTTHMR,
     APIC_LVTCMCI}"

definition shutdown_writable :: "platform \<Rightarrow> (u32 \<Rightarrow> bool) \<Rightarrow> bool" where
  "shutdown_writable K writable \<longleftrightarrow>
     (\<forall>r\<in>lvt_regs K \<union> {reg K APIC_ESR, reg K APIC_SPIV}. writable r)"

context apic_device
begin

lemma wp_clear_CMCI:
  assumes "apic s = a" and "device (mach s)" and "writable r"
    and "\<And>v m. device m \<Longrightarrow>
      trace m = (if b \<and> v AND M = 0 then [(r, v OR M)] else []) @ trace (mach s) \<Longrightarrow>
      (b \<Longrightarrow> plain r \<Longrightarrow> v = reg_val init (trace (mach s)) r) \<Longrightarrow> Q () (s\<lparr>mach := m\<rparr>)"
  shows "wp (whenM b (do { v \<leftarrow> apic_read r;
    whenM (\<not> c_true (v AND M)) (apic_write r (v OR M)) })) Q s"
proof (cases b)
  case True
  then have b: "b = True" by simp
  show ?thesis
    unfolding b whenM_simps wp_bind using assms
    by (intro wp_read wp_guarded_write) (simp_all add: b)
next
  case False
  then show ?thesis
    using assms(2) assms(4) [of "mach s"] by (simp add: wp_return)
qed

lemma wp_clear_ESR:
  assumes "apic s = a" and "device (mach s)" and "writable r"
    and "\<And>m. device m \<Longrightarrow> trace m = (if i \<and> b then [(r, 0)] else []) @ trace (mach s) \<Longrightarrow>
      Q () (s\<lparr>mach := m\<rparr>)"
  shows "wp (whenM i (do { whenM b (apic_write r 0); _ \<leftarrow> apic_read r; ret () })) Q s"
proof (cases i)
  case True
  then have i: "i = True" by simp
  show ?thesis
    unfolding i whenM_simps wp_bind wp_return using assms
    by (intro wp_read wp_guarded_write) (simp_all add: i)
next
  case False
  then show ?thesis
    using assms(2) assms(4) [of "mach s"] by (simp add: wp_return)
qed

lemma flat_clear_CMCI:
  "apic s = a \<Longrightarrow> device m0 \<and> trace m0 = T \<Longrightarrow> writable r \<Longrightarrow>
    (\<And>v m. device m \<and> trace m = (if b \<and> v AND M = 0 then [(r, v OR M)] else []) @ T \<Longrightarrow>
      (b \<Longrightarrow> plain r \<Longrightarrow> v = reg_val init T r) \<Longrightarrow> Q () (s\<lparr>mach := m\<rparr>)) \<Longrightarrow>
    wp (whenM b (do { v \<leftarrow> apic_read r; whenM (\<not> c_true (v AND M)) (apic_write r (v OR M)) })) Q (s\<lparr>mach := m0\<rparr>)"
  by (rule wp_clear_CMCI) auto

lemma flat_clear_ESR:
  "apic s = a \<Longrightarrow> device m0 \<and> trace m0 = T \<Longrightarrow> writable r \<Longrightarrow>
    (\<And>m. device m \<and> trace m = (if i \<and> b then [(r, 0)] else []) @ T \<Longrightarrow> Q () (s\<lparr>mach := m\<rparr>)) \<Longrightarrow>
    wp (whenM i (do { whenM b (apic_write r 0); _ \<leftarrow> apic_read r; ret () })) Q (s\<lparr>mach := m0\<rparr>)"
  by (rule wp_clear_ESR) auto

lemma wp_clear_local_APIC:
  assumes "apic s = a" and "device (mach s)" and "shutdown_writable K writable"
    and "x2apic_mode s \<or> apic_phys s \<noteq> 0" and "inj (reg K)"
    and "\<And>m n i t l0 l1 pc th cm. device m \<Longrightarrow>
      trace m = clear_writes K n i t l0 l1 pc th cm @ trace (mach s) \<Longrightarrow>
      (plain (reg K APIC_LVR) \<Longrightarrow> n = maxlvt_of K (reg_val init (trace (mach s)) (reg K APIC_LVR))) \<Longrightarrow>
      (plain (reg K APIC_LVTCMCI) \<Longrightarrow> n \<ge> 6 \<Longrightarrow> CONFIG_X86_MCE_INTEL K \<Longrightarrow>
        cm = reg_val init (trace (mach s)) (reg K APIC_LVTCMCI)) \<Longrightarrow>
      Q () (s\<lparr>mach := m\<rparr>)"
  shows "wp (clear_local_APIC K) Q s"
proof -
  have w: "writable (reg K APIC_LVTT)" "writable (reg K APIC_LVT0)" "writable (reg K APIC_LVT1)"
    "writable (reg K APIC_LVTERR)" "writable (reg K APIC_LVTPC)" "writable (reg K APIC_LVTTHMR)"
    "writable (reg K APIC_LVTCMCI)" "writable (reg K APIC_ESR)"
    using assms(3) by (simp_all add: shutdown_writable_def lvt_regs_def)
  have c: "\<not> (\<not> x2apic_mode s \<and> \<not> c_true (apic_phys s))"
    using assms(4) by simp
  have s0: "device (mach s) \<and> trace (mach s) = trace (mach s)"
    using assms(2) by simp
  show ?thesis
    unfolding clear_local_APIC_def wp_bind wp_gets if_not_P [OF c]
    by (rule flat_start, intro flat_get_maxlvt flat_guarded_write flat_read flat_guarded_update
        flat_clear_CMCI flat_write flat_is_integrated flat_clear_ESR w assms(1), rule s0, assumption+)
      (erule conjE, rule assms(6), assumption,
        simp add: clear_writes_def Let_def split del: if_split,
        simp_all add: inj_eq [OF assms(5)] split del: if_split)
qed

end

section \<open>Masked entries\<close>

text \<open>The entries of the local vector table that exist for a largest entry number \<open>n\<close>.\<close>

definition lvt_entries :: "platform \<Rightarrow> int \<Rightarrow> apic_reg set" where
  "lvt_entries K n = {APIC_LVTT, APIC_LVT0, APIC_LVT1}
     \<union> (if n \<ge> 3 then {APIC_LVTERR} else {}) \<union> (if n \<ge> 4 then {APIC_LVTPC} else {})
     \<union> (if CONFIG_X86_THERMAL_VECTOR K \<and> n \<ge> 5 then {APIC_LVTTHMR} else {})
     \<union> (if CONFIG_X86_MCE_INTEL K \<and> n \<ge> 6 then {APIC_LVTCMCI} else {})"

definition lvt_masked :: "platform \<Rightarrow> (u32 \<Rightarrow> u32) \<Rightarrow> int \<Rightarrow> bool" where
  "lvt_masked K val n \<longleftrightarrow>
     (\<forall>r\<in>lvt_entries K n. val (reg K r) AND cst K APIC_LVT_MASKED = cst K APIC_LVT_MASKED)"

lemma lvt_masked_other:
  "inj (reg K) \<Longrightarrow> r \<notin> {APIC_LVTT, APIC_LVT0, APIC_LVT1, APIC_LVTERR, APIC_LVTPC, APIC_LVTTHMR,
     APIC_LVTCMCI} \<Longrightarrow> lvt_masked K (reg_val init ((reg K r, v) # ws)) n = lvt_masked K (reg_val init ws) n"
  by (auto simp: lvt_masked_def lvt_entries_def inj_eq)

lemma and_same_word [simp]: "(w :: 'a::len word) AND w = w"
  by simp

lemma clear_writes_final:
  assumes "inj (reg K)" and "CONFIG_X86_MCE_INTEL K \<Longrightarrow> n \<ge> 6 \<Longrightarrow> cm = reg_val init ws (reg K APIC_LVTCMCI)"
    and "bits_ok K"
  shows "lvt_masked K (reg_val init (clear_writes K n i t l0 l1 pc th cm @ ws)) n"
  unfolding lvt_masked_def
proof
  fix r
  let ?M = "cst K APIC_LVT_MASKED"
  let ?v = "reg_val init (clear_writes K n i t l0 l1 pc th cm @ ws) (reg K r)"
  note d = clear_writes_def Let_def inj_eq [OF assms(1)]
  assume "r \<in> lvt_entries K n"
  then consider "r \<in> {APIC_LVTT, APIC_LVT0, APIC_LVT1}" | "r = APIC_LVTERR" "n \<ge> 3"
    | "r = APIC_LVTPC" "n \<ge> 4" | "r = APIC_LVTTHMR" "n \<ge> 5" "CONFIG_X86_THERMAL_VECTOR K"
    | "r = APIC_LVTCMCI" "n \<ge> 6" "CONFIG_X86_MCE_INTEL K"
    by (auto simp: lvt_entries_def split: if_splits)
  then show "?v AND ?M = ?M"
  proof cases
    case 1 then have "?v = ?M" by (auto simp: d split del: if_split)
    then show ?thesis by simp
  next
    case 2 then have "?v = ?M" by (auto simp: d split del: if_split)
    then show ?thesis by simp
  next
    case 3 then have "?v = ?M" by (auto simp: d split del: if_split)
    then show ?thesis by simp
  next
    case 4 then have "?v = th OR ?M" by (auto simp: d split del: if_split)
    then show ?thesis by simp
  next
    case 5 then have "?v = (if cm AND ?M = 0 then cm OR ?M else reg_val init ws (reg K APIC_LVTCMCI))"
      by (cases "cm AND ?M = 0") (simp_all add: d split del: if_split)
    then show ?thesis using bits_ok_masked [OF assms(3), of cm] assms(2) 5 by auto
  qed
qed

lemma clear_writes_masked:
  assumes "(r, v) \<in> set (clear_writes K n i t l0 l1 pc th cm)" and "r \<noteq> reg K APIC_ESR"
  shows "v AND cst K APIC_LVT_MASKED = cst K APIC_LVT_MASKED"
  using assms by (auto simp: clear_writes_def Let_def split: if_splits)

lemma clear_writes_last:
  "n \<ge> 3 \<Longrightarrow> last (clear_writes K n i t l0 l1 pc th cm) =
     (reg K APIC_LVTERR, cst K ERROR_APIC_VECTOR OR cst K APIC_LVT_MASKED)"
  by (simp add: clear_writes_def Let_def)

section \<open>Rules for the composed operations\<close>

text \<open>The writes \<open>ws\<close> made by clearing, and the registers afterwards, when \<open>ws0\<close> was written before.\<close>

definition cleared :: "platform \<Rightarrow> (u32 \<Rightarrow> u32) \<Rightarrow> (u32 \<times> u32) list \<Rightarrow> (u32 \<times> u32) list \<Rightarrow> bool" where
  "cleared K init ws0 ws \<longleftrightarrow>
     (let n = maxlvt_of K (reg_val init ws0 (reg K APIC_LVR))
      in lvt_masked K (reg_val init (ws @ ws0)) n
       \<and> (\<forall>(r, v)\<in>set ws. r \<noteq> reg K APIC_ESR \<longrightarrow> v AND cst K APIC_LVT_MASKED = cst K APIC_LVT_MASKED)
       \<and> (n \<ge> 3 \<longrightarrow> last ws = (reg K APIC_LVTERR, cst K ERROR_APIC_VECTOR OR cst K APIC_LVT_MASKED)))"

context apic_device
begin

lemma wp_clear_masks:
  assumes "apic s = a" and "device (mach s)" and "shutdown_writable K writable"
    and "x2apic_mode s \<or> apic_phys s \<noteq> 0" and "inj (reg K)" and "bits_ok K"
    and "plain (reg K APIC_LVR)" and "plain (reg K APIC_LVTCMCI)"
    and "\<And>m ws. device m \<Longrightarrow> trace m = ws @ trace (mach s) \<Longrightarrow> cleared K init (trace (mach s)) ws \<Longrightarrow>
      Q () (s\<lparr>mach := m\<rparr>)"
  shows "wp (clear_local_APIC K) Q s"
proof (rule wp_clear_local_APIC [OF assms(1-5)], rule assms(9), assumption, assumption)
  fix n i t l0 l1 pc th cm
  let ?tr = "trace (mach s)"
  assume n: "plain (reg K APIC_LVR) \<Longrightarrow> n = maxlvt_of K (reg_val init ?tr (reg K APIC_LVR))"
    and cm: "plain (reg K APIC_LVTCMCI) \<Longrightarrow> n \<ge> 6 \<Longrightarrow> CONFIG_X86_MCE_INTEL K \<Longrightarrow>
      cm = reg_val init ?tr (reg K APIC_LVTCMCI)"
  have "lvt_masked K (reg_val init (clear_writes K n i t l0 l1 pc th cm @ ?tr)) n"
    using cm assms(8) by (intro clear_writes_final [OF assms(5)] assms(6)) auto
  then show "cleared K init ?tr (clear_writes K n i t l0 l1 pc th cm)"
    using n [OF assms(7)] clear_writes_masked clear_writes_last by (auto simp: cleared_def Let_def)
qed

lemma wp_soft_disable:
  assumes "apic s = a" and "device (mach s)" and "shutdown_writable K writable"
    and "x2apic_mode s \<or> apic_phys s \<noteq> 0" and "inj (reg K)" and "bits_ok K"
    and "plain (reg K APIC_LVR)" and "plain (reg K APIC_LVTCMCI)"
    and "\<And>m ws v. device m \<Longrightarrow>
      trace m = (reg K APIC_SPIV, v AND NOT (cst K APIC_SPIV_APIC_ENABLED)) # ws @ trace (mach s) \<Longrightarrow>
      cleared K init (trace (mach s)) ws \<Longrightarrow> Q () (s\<lparr>mach := m\<rparr>)"
  shows "wp (apic_soft_disable K) Q s"
  unfolding apic_soft_disable_def Let_def wp_bind
  using assms(1-3)
  by (intro wp_clear_masks [OF assms(1-8)] wp_read wp_write, simp_all add: shutdown_writable_def)
    (rule assms(9), simp_all)

end

lemma mem_writable: "shutdown_writable K (\<lambda>_. True)"
  by (simp add: shutdown_writable_def)

lemma wp_mem_disable:
  assumes "apic s = mem_driver K a" and "mem_device K init plain (mach s)" and "inj (reg K)" and "bits_ok K"
    and "plain (reg K APIC_LVR)" and "plain (reg K APIC_LVTCMCI)" and "x2apic_mode s \<or> apic_phys s \<noteq> 0"
    and "\<And>m ws v. mem_device K init plain m \<Longrightarrow> mem_trace K m =
        (reg K APIC_SPIV, v AND NOT (cst K APIC_SPIV_APIC_ENABLED)) # ws @ mem_trace K (mach s) \<Longrightarrow>
      cleared K init (mem_trace K (mach s)) ws \<Longrightarrow> Q () (s\<lparr>mach := m\<rparr>)"
  shows "wp (disable_local_APIC K) Q s"
proof -
  have c: "\<not> (\<not> x2apic_mode s \<and> \<not> c_true (apic_phys s))"
    using assms(7) by simp
  have e: "wp (whenM b (do { (l, h) \<leftarrow> on_mach (rdmsr n); let l = f l; on_mach (wrmsr n l h) })) Q (s\<lparr>mach := m\<rparr>)"
    if "mem_device K init plain m" "mem_trace K m =
        (reg K APIC_SPIV, v AND NOT (cst K APIC_SPIV_APIC_ENABLED)) # ws @ mem_trace K (mach s)"
      "cleared K init (mem_trace K (mach s)) ws" for m v ws b f n
  proof (cases b)
    case True
    then show ?thesis
      unfolding Let_def using that
      by (auto simp: wp_bind split: prod.split intro!: wp_mem_rdmsr [of K init plain] wp_mem_silent(2) [of K init plain] assms(8))
  next
    case False
    then show ?thesis
      using assms(8) that by (simp add: wp_return)
  qed
  show ?thesis
    unfolding disable_local_APIC_def wp_bind wp_gets if_not_P [OF c]
    using assms e
    by (intro mem.wp_soft_disable [of s K a init plain]) (simp_all add: mem_writable)
qed

section \<open>Properties\<close>

text \<open>What the theorems ask of the platform and of the registers in memory.\<close>

definition mem_apic :: "platform \<Rightarrow> apic_drv \<Rightarrow> (u32 \<Rightarrow> u32) \<Rightarrow> (u32 \<Rightarrow> bool) \<Rightarrow> kernel \<Rightarrow> bool" where
  "mem_apic K a init plain s \<longleftrightarrow> apic s = mem_driver K a \<and> mem_device K init plain (mach s)
     \<and> regs_ok K \<and> bits_ok K \<and> plain (reg K APIC_LVR) \<and> plain (reg K APIC_LVTCMCI)"

definition held :: "platform \<Rightarrow> (u32 \<Rightarrow> u32) \<Rightarrow> kernel \<Rightarrow> apic_reg \<Rightarrow> u32" where
  "held K init s r = reg_val init (mem_trace K (mach s)) (reg K r)"

lemma demo_mem_apic: "mem_apic sdm (demo_drv sdm) init (\<lambda>_. True) (demo_mem init)"
  by (simp add: mem_apic_def sdm_regs_ok sdm_bits_ok)

text \<open>
  C24. Clearing a mapped local APIC leaves every table entry that exists masked, and on the way
  never writes an entry without its mask bit; where there is an error entry it is the first one
  to be masked, with a vector that is not zero. An unmapped APIC is not touched.
\<close>

theorem clear_local_APIC_masks:
  assumes "mem_apic K a init plain s"
  shows "(x2apic_mode s \<or> apic_phys s \<noteq> 0 \<longrightarrow> (\<exists>m ws. exec (clear_local_APIC K) s = s\<lparr>mach := m\<rparr> \<and> mem_trace K m = ws @ mem_trace K (mach s)
        \<and> (let n = maxlvt_of K (held K init s APIC_LVR); M = cst K APIC_LVT_MASKED
            in lvt_masked K (reg_val init (mem_trace K m)) n
             \<and> (\<forall>(r, v)\<in>set ws. r \<noteq> reg K APIC_ESR \<longrightarrow> v AND M = M)
             \<and> (n \<ge> 3 \<longrightarrow> last ws = (reg K APIC_LVTERR, cst K ERROR_APIC_VECTOR OR M)))))
    \<and> (\<not> x2apic_mode s \<longrightarrow> apic_phys s = 0 \<longrightarrow> (exec (clear_local_APIC K) s = s))"
proof (intro conjI impI)
  note a = assms [unfolded mem_apic_def regs_ok_def]
  show "\<exists>m ws. exec (clear_local_APIC K) s = s\<lparr>mach := m\<rparr> \<and> mem_trace K m = ws @ mem_trace K (mach s)
        \<and> (let n = maxlvt_of K (held K init s APIC_LVR); M = cst K APIC_LVT_MASKED
            in lvt_masked K (reg_val init (mem_trace K m)) n
             \<and> (\<forall>(r, v)\<in>set ws. r \<noteq> reg K APIC_ESR \<longrightarrow> v AND M = M)
             \<and> (n \<ge> 3 \<longrightarrow> last ws = (reg K APIC_LVTERR, cst K ERROR_APIC_VECTOR OR M)))"
    if mapped: "x2apic_mode s \<or> apic_phys s \<noteq> 0"
    by (rule wp_exec, rule mem.wp_clear_masks [OF _ _ mem_writable mapped, of K a init plain])
      (use a in \<open>auto simp: cleared_def Let_def held_def\<close>)
  show "exec (clear_local_APIC K) s = s" if "\<not> x2apic_mode s" "apic_phys s = 0"
    using that by (simp add: clear_local_APIC_def kernel_run)
qed

theorem clear_local_APIC_masks_witness:
  "\<exists>m. exec (clear_local_APIC sdm) (demo_mem (\<lambda>r. 0x50014)) = (demo_mem (\<lambda>r. 0x50014))\<lparr>mach := m\<rparr>
     \<and> reg_val (\<lambda>r. 0x50014) (mem_trace sdm m) 0x320 AND 0x10000 = 0x10000"
  using clear_local_APIC_masks [OF demo_mem_apic, of "\<lambda>r. 0x50014"]
  by (auto simp: Let_def lvt_masked_def lvt_entries_def)



text \<open>
  Setting the delivery mode of a table entry leaves its mask bit alone, and the fields that
  \<open>disconnect_bsp_APIC\<close> combines do not overlap.
\<close>

definition delivery_ok :: "platform \<Rightarrow> bool" where
  "delivery_ok K \<longleftrightarrow> (\<forall>v. \<forall>m\<in>{cst K APIC_MODE_EXTINT, cst K APIC_MODE_NMI}.
       SET_APIC_DELIVERY_MODE K v m AND cst K APIC_LVT_MASKED = v AND cst K APIC_LVT_MASKED)
     \<and> cst K APIC_VECTOR_MASK AND 0xf = 0xf \<and> cst K APIC_SPIV_APIC_ENABLED AND 0xf = 0
     \<and> cst K APIC_LVT_MASKED AND (cst K APIC_LVT_REMOTE_IRR OR cst K APIC_SEND_PENDING) = 0"

lemma sdm_delivery_ok: "delivery_ok sdm"
  by (simp add: delivery_ok_def) (simp add: sdm_def or_and_absorb and.assoc)

lemma pin_bits_masked: "cst K APIC_LVT_MASKED AND NOT (lvt_pin_bits K) = 0"
  by (auto simp: lvt_pin_bits_def bit_eq_iff bit_simps)

lemma pin_enabled:
  assumes "delivery_ok K" and "m \<in> {cst K APIC_MODE_EXTINT, cst K APIC_MODE_NMI}"
  shows "SET_APIC_DELIVERY_MODE K ((v AND NOT (lvt_pin_bits K)) OR (cst K APIC_LVT_REMOTE_IRR OR cst K APIC_SEND_PENDING)) m
    AND cst K APIC_LVT_MASKED = 0"
proof -
  have "SET_APIC_DELIVERY_MODE K ((v AND NOT (lvt_pin_bits K)) OR (cst K APIC_LVT_REMOTE_IRR OR cst K APIC_SEND_PENDING)) m
    AND cst K APIC_LVT_MASKED = (v AND NOT (lvt_pin_bits K)) AND cst K APIC_LVT_MASKED"
    using assms by (auto simp: delivery_ok_def or_and_absorb)
  also have "\<dots> = v AND (cst K APIC_LVT_MASKED AND NOT (lvt_pin_bits K))"
    by (simp add: ac_simps)
  finally show ?thesis
    by (simp add: pin_bits_masked)
qed

lemma spurious_value:
  assumes "delivery_ok K" and "bits_ok K"
  shows "(((v AND NOT (cst K APIC_VECTOR_MASK)) OR cst K APIC_SPIV_APIC_ENABLED) OR 0xf)
      AND cst K APIC_SPIV_APIC_ENABLED = cst K APIC_SPIV_APIC_ENABLED"
    and "(((v AND NOT (cst K APIC_VECTOR_MASK)) OR cst K APIC_SPIV_APIC_ENABLED) OR 0xf)
      AND cst K APIC_VECTOR_MASK = 0xf"
proof -
  show "(((v AND NOT (cst K APIC_VECTOR_MASK)) OR cst K APIC_SPIV_APIC_ENABLED) OR 0xf)
      AND cst K APIC_SPIV_APIC_ENABLED = cst K APIC_SPIV_APIC_ENABLED"
    using assms(1) by (simp add: delivery_ok_def or_and_absorb)
  have "cst K APIC_SPIV_APIC_ENABLED AND cst K APIC_VECTOR_MASK = 0" "0xf AND cst K APIC_VECTOR_MASK = 0xf"
    using assms unfolding bits_ok_def delivery_ok_def by (metis and.commute)+
  then show "(((v AND NOT (cst K APIC_VECTOR_MASK)) OR cst K APIC_SPIV_APIC_ENABLED) OR 0xf)
      AND cst K APIC_VECTOR_MASK = 0xf"
    by (simp add: bit.conj_disj_distrib2)
qed



end
