(* ===== verification/Setup.thy ===== *)
theory Setup
  imports Shutdown
begin

text \<open>
  Bringing a local APIC up: the early virtual wire mode (\<open>init_bsp_APIC\<close>), the error status register,
  clearing stale in-service and request bits, \<open>setup_local_APIC\<close>, and the setup of the boot
  processor and of application processors.
\<close>

section \<open>Virtual wire mode and the error status register\<close>

definition init_bsp_APIC :: "platform \<Rightarrow> unit kprog" where
  "init_bsp_APIC K = do {
     found \<leftarrow> gets smp_found_config;
     has \<leftarrow> boot_cpu_has X86_FEATURE_APIC;
     (if found \<or> \<not> has then ret ()
      else do {
        clear_local_APIC K;
        value \<leftarrow> apic_read (reg K APIC_SPIV);
        let value = value AND NOT (cst K APIC_VECTOR_MASK);
        let value = value OR cst K APIC_SPIV_APIC_ENABLED;
        vendor \<leftarrow> gets x86_vendor;
        family \<leftarrow> gets x86;
        let value = (if CONFIG_X86_32 K \<and> vendor = X86_VENDOR_INTEL \<and> family = 15
                     then value AND NOT (cst K APIC_SPIV_FOCUS_DISABLED)
                     else value OR cst K APIC_SPIV_FOCUS_DISABLED);
        let value = value OR cst K SPURIOUS_APIC_VECTOR;
        apic_write (reg K APIC_SPIV) value;
        apic_write (reg K APIC_LVT0) (cst K APIC_DM_EXTINT);
        let value = cst K APIC_DM_NMI;
        integrated \<leftarrow> lapic_is_integrated K;
        let value = (if \<not> integrated then value OR cst K APIC_LVT_LEVEL_TRIGGER else value);
        extnmi \<leftarrow> gets apic_extnmi;
        let value = (if extnmi = APIC_EXTNMI_NONE then value OR cst K APIC_LVT_MASKED else value);
        apic_write (reg K APIC_LVT1) value }) }"

definition lapic_setup_esr :: "platform \<Rightarrow> unit kprog" where
  "lapic_setup_esr K = do {
     integrated \<leftarrow> lapic_is_integrated K;
     (if \<not> integrated then pr_info ''No ESR for 82489DX.''
      else do {
        a \<leftarrow> gets apic;
        (if c_true (drv_disable_esr a) then pr_info ''Leaving ESR disabled.''
         else do {
           n \<leftarrow> lapic_get_maxlvt K;
           let maxlvt = (word_of_int n :: u32);
           whenM (maxlvt > 3) (apic_write (reg K APIC_ESR) 0);
           oldvalue \<leftarrow> apic_read (reg K APIC_ESR);
           apic_write (reg K APIC_LVTERR) (cst K ERROR_APIC_VECTOR);
           whenM (maxlvt > 3) (apic_write (reg K APIC_ESR) 0);
           value \<leftarrow> apic_read (reg K APIC_ESR);
           whenM (value \<noteq> oldvalue)
             (apic_printk APIC_VERBOSE ''ESR value before enabling vector: 0x%08x  after: 0x%08x'') }) }) }"

section \<open>Stale interrupts\<close>

text \<open>The bit maps of the request and in-service registers, as the lists of their registers.\<close>

definition APIC_IR_REGS :: nat where "APIC_IR_REGS = 8"

primrec read_ir :: "u32 \<Rightarrow> nat \<Rightarrow> u32 list kprog" where
  "read_ir base 0 = ret []"
| "read_ir base (Suc i) = do {
     regs \<leftarrow> read_ir base i;
     v \<leftarrow> apic_read (base + of_nat i * 0x10);
     ret (regs @ [v]) }"

definition set_bits_of :: "u32 list \<Rightarrow> nat list" where
  "set_bits_of regs = filter (\<lambda>b. bit (regs ! (b div 32)) (b mod 32)) [0..<32 * length regs]"

definition bitmap_empty :: "u32 list \<Rightarrow> bool" where
  "bitmap_empty regs = list_all (\<lambda>v. v = 0) regs"

primrec for_each :: "'b list \<Rightarrow> unit kprog \<Rightarrow> unit kprog" where
  "for_each [] p = ret ()"
| "for_each (b # bs) p = do { p; for_each bs p }"

definition apic_check_and_ack :: "platform \<Rightarrow> bool kprog" where
  "apic_check_and_ack K = do {
     irr \<leftarrow> read_ir (reg K APIC_IRR) APIC_IR_REGS;
     isr \<leftarrow> read_ir (reg K APIC_ISR) APIC_IR_REGS;
     (if \<not> bitmap_empty isr then do {
        for_each (set_bits_of isr) (ack_APIC_irq K);
        ret True }
      else ret (\<not> bitmap_empty irr)) }"

primrec pending_clear_loop :: "platform \<Rightarrow> nat \<Rightarrow> unit kprog" where
  "pending_clear_loop K 0 = pr_info ''APIC: Stale IRR: %256pb ISR: %256pb''"
| "pending_clear_loop K (Suc n) = do {
     again \<leftarrow> apic_check_and_ack K;
     (if \<not> again then ret () else pending_clear_loop K n) }"

definition apic_pending_intr_clear :: "platform \<Rightarrow> unit kprog" where
  "apic_pending_intr_clear K = pending_clear_loop K 512"

section \<open>Setting up a local APIC\<close>

definition setup_local_APIC :: "platform \<Rightarrow> unit kresult" where
  "setup_local_APIC K = do {
     cpu \<leftarrow> gets this_cpu;
     disabled \<leftarrow> gets disable_apic;
     (if disabled then fine (kcall disable_ioapic_support)
      else do {
        value \<leftarrow> apic_read (reg K APIC_SPIV);
        let value = value AND NOT (cst K APIC_SPIV_APIC_ENABLED);
        apic_write (reg K APIC_SPIV) value;
        a \<leftarrow> gets apic;
        integrated \<leftarrow> (if CONFIG_X86_32 K then lapic_is_integrated K else ret False);
        whenM (integrated \<and> c_true (drv_disable_esr a)) (do {
          apic_write (reg K APIC_ESR) 0;
          apic_write (reg K APIC_ESR) 0;
          apic_write (reg K APIC_ESR) 0;
          apic_write (reg K APIC_ESR) 0 });
        registered \<leftarrow> on_mach (drv_apic_id_registered a);
        (if \<not> c_true registered then panic ''BUG_ON(!apic->apic_id_registered())''
         else fine (do {
           on_mach (drv_init_apic_ldr a);
           whenM (CONFIG_X86_32 K \<and> c_true (drv_dest_logical a)) (do {
             logical_apicid \<leftarrow> gets (\<lambda>s. x86_cpu_to_logical_apicid s cpu);
             ldr \<leftarrow> apic_read (reg K APIC_LDR);
             let ldr_apicid = GET_APIC_LOGICAL_ID K ldr;
             whenM (logical_apicid \<noteq> cst K BAD_APICID \<and> logical_apicid \<noteq> ldr_apicid)
               (pr_info ''WARN_ON(logical_apicid != ldr_apicid)'');
             modify (\<lambda>s. s\<lparr>x86_cpu_to_logical_apicid := (x86_cpu_to_logical_apicid s)(cpu := ldr_apicid)\<rparr>) });
           value \<leftarrow> apic_read (reg K APIC_TASKPRI);
           let value = value AND NOT (cst K APIC_TPRI_MASK);
           let value = value OR 0x10;
           apic_write (reg K APIC_TASKPRI) value;
           apic_pending_intr_clear K;
           value \<leftarrow> apic_read (reg K APIC_SPIV);
           let value = value AND NOT (cst K APIC_VECTOR_MASK);
           let value = value OR cst K APIC_SPIV_APIC_ENABLED;
           let value = (if CONFIG_X86_32 K then value AND NOT (cst K APIC_SPIV_FOCUS_DISABLED) else value);
           let value = value OR cst K SPURIOUS_APIC_VECTOR;
           apic_write (reg K APIC_SPIV) value;
           kcall perf_events_lapic_init;
           lvt0 \<leftarrow> apic_read (reg K APIC_LVT0);
           let value = lvt0 AND cst K APIC_LVT_MASKED;
           pic \<leftarrow> gets pic_mode;
           skip \<leftarrow> gets skip_ioapic_setup;
           let extint = (cpu = 0 \<and> (pic \<or> \<not> c_true value \<or> skip));
           apic_printk APIC_VERBOSE (if extint then ''enabled ExtINT on CPU#%d'' else ''masked ExtINT on CPU#%d'');
           apic_write (reg K APIC_LVT0)
             (if extint then cst K APIC_DM_EXTINT else cst K APIC_DM_EXTINT OR cst K APIC_LVT_MASKED);
           extnmi \<leftarrow> gets apic_extnmi;
           let value = (if (cpu = 0 \<and> extnmi \<noteq> APIC_EXTNMI_NONE) \<or> extnmi = APIC_EXTNMI_ALL
                        then cst K APIC_DM_NMI else cst K APIC_DM_NMI OR cst K APIC_LVT_MASKED);
           integrated \<leftarrow> lapic_is_integrated K;
           let value = (if \<not> integrated then value OR cst K APIC_LVT_LEVEL_TRIGGER else value);
           apic_write (reg K APIC_LVT1) value;
           whenM (CONFIG_X86_MCE_INTEL K \<and> cpu = 0) (kcall cmci_recheck) })) }) }"

definition apic_pm_activate :: "unit kprog" where
  "apic_pm_activate = modify (\<lambda>s. s\<lparr>apic_pm_state := (apic_pm_state s)\<lparr>pm_active := True\<rparr>\<rparr>)"

definition end_local_APIC_setup :: "platform \<Rightarrow> unit kprog" where
  "end_local_APIC_setup K = do {
     lapic_setup_esr K;
     whenM (CONFIG_X86_32 K) (do {
       v \<leftarrow> apic_read (reg K APIC_LVTT);
       apic_write (reg K APIC_LVTT) (v OR (cst K APIC_LVT_MASKED OR cst K LOCAL_TIMER_VECTOR)) });
     apic_pm_activate }"

definition apic_ap_setup :: "platform \<Rightarrow> unit kresult" where
  "apic_ap_setup K = andthen (setup_local_APIC K) (\<lambda>_. fine (end_local_APIC_setup K))"

definition apic_bsp_up_setup :: "platform \<Rightarrow> unit kprog" where
  "apic_bsp_up_setup K = do {
     (if CONFIG_X86_64 K then do {
        a \<leftarrow> gets apic;
        boot \<leftarrow> gets boot_cpu_physical_apicid;
        apic_write (reg K APIC_ID) (drv_set_apic_id a boot) }
      else whenM (CONFIG_CRASH_DUMP K) (do {
        boot \<leftarrow> read_apic_id K;
        modify (\<lambda>s. s\<lparr>boot_cpu_physical_apicid := boot\<rparr>) }));
     modify (\<lambda>s. s\<lparr>phys_cpu_present_map := {boot_cpu_physical_apicid s}\<rparr>) }"

definition apic_bsp_setup :: "platform \<Rightarrow> bool \<Rightarrow> unit kresult" where
  "apic_bsp_setup K upmode = do {
     connect_bsp_APIC K;
     whenM upmode (apic_bsp_up_setup K);
     andthen (setup_local_APIC K) (\<lambda>_. fine (do {
       kcall enable_IO_APIC;
       end_local_APIC_setup K;
       kcall irq_remap_enable_fault_handling;
       kcall setup_IO_APIC })) }"

definition up_late_init :: "unit kprog" where
  "up_late_init = do {
     mode \<leftarrow> gets apic_intr_mode;
     whenM (mode \<noteq> APIC_PIC) (kcall setup_percpu_clockev) }"

section \<open>Reading the bit maps, and acknowledging\<close>

fun ir_log :: "platform \<Rightarrow> u32 \<Rightarrow> nat \<Rightarrow> access list \<Rightarrow> access list" where
  "ir_log K base 0 l = l"
| "ir_log K base (Suc i) l = MemRd (APIC_BASE K + ucast (base + of_nat i * 0x10)) # ir_log K base i l"

definition ir_val :: "platform \<Rightarrow> machine \<Rightarrow> u32 \<Rightarrow> access list \<Rightarrow> nat \<Rightarrow> u32" where
  "ir_val K m base l i = ucast (answer m (ir_log K base i l) (MemRd (APIC_BASE K + ucast (base + of_nat i * 0x10))))"

lemma run_read_ir:
  assumes "apic s = mem_driver K a"
  shows "run_state (read_ir base n) s = (map (ir_val K (mach s) base (log (mach s))) [0..<n],
    s\<lparr>mach := (mach s)\<lparr>log := ir_log K base n (log (mach s))\<rparr>\<rparr>)"
  using assms by (induction n) (simp_all add: run_apic_read ir_val_def)

lemma run_ack:
  assumes "apic s = mem_driver K a"
  shows "run_state (ack_APIC_irq K) s = ((), s\<lparr>mach := (mach s)\<lparr>log :=
    MemWr (reg_addr K APIC_EOI) (cst K APIC_EOI_ACK) # log (mach s)\<rparr>\<rparr>)"
  using assms by (simp add: ack_APIC_irq_def apic_eoi_def run_on_mach mem_driver_def)

lemma run_acks:
  assumes "apic s = mem_driver K a"
  shows "run_state (for_each bs (ack_APIC_irq K)) s = ((), s\<lparr>mach := (mach s)\<lparr>log :=
    replicate (length bs) (MemWr (reg_addr K APIC_EOI) (cst K APIC_EOI_ACK)) @ log (mach s)\<rparr>\<rparr>)"
  using assms by (induction bs arbitrary: s) (simp_all add: run_ack replicate_app_Cons_same)

lemma mem_writes_ir_log [simp]: "mem_writes K (ir_log K base n l) = mem_writes K l"
  by (induction n) simp_all

lemma mem_writes_acks [simp]:
  "mem_writes K (replicate n (MemWr (reg_addr K r) v) @ l) = replicate n (reg K r, v) @ mem_writes K l"
  by (induction n) simp_all

definition ack_log :: "platform \<Rightarrow> machine \<Rightarrow> access list" where
  "ack_log K m = ir_log K (reg K APIC_ISR) APIC_IR_REGS (ir_log K (reg K APIC_IRR) APIC_IR_REGS (log m))"

definition isr_of :: "platform \<Rightarrow> machine \<Rightarrow> u32 list" where
  "isr_of K m = map (ir_val K m (reg K APIC_ISR) (ir_log K (reg K APIC_IRR) APIC_IR_REGS (log m))) [0..<APIC_IR_REGS]"

definition irr_of :: "platform \<Rightarrow> machine \<Rightarrow> u32 list" where
  "irr_of K m = map (ir_val K m (reg K APIC_IRR) (log m)) [0..<APIC_IR_REGS]"

lemma ir_val_log [simp]: "ir_val K (m\<lparr>log := l'\<rparr>) base l i = ir_val K m base l i"
  by (simp add: ir_val_def)

lemma run_check_and_ack:
  assumes "apic s = mem_driver K a"
  shows "run_state (apic_check_and_ack K) s =
    (let isr = isr_of K (mach s); irr = irr_of K (mach s) in
     (\<not> bitmap_empty isr \<or> \<not> bitmap_empty irr, s\<lparr>mach := (mach s)\<lparr>log :=
        replicate (if bitmap_empty isr then 0 else length (set_bits_of isr))
          (MemWr (reg_addr K APIC_EOI) (cst K APIC_EOI_ACK)) @ ack_log K (mach s)\<rparr>\<rparr>))"
  using assms
  by (simp add: apic_check_and_ack_def run_read_ir run_acks isr_of_def irr_of_def ack_log_def Let_def
      cong: map_cong)

lemma set_bits_empty: "bitmap_empty regs \<Longrightarrow> set_bits_of regs = []"
proof -
  assume e: "bitmap_empty regs"
  have "regs ! (x div 32) = 0" if "x < 32 * length regs" for x
    using e that nth_mem [of "x div 32" regs]
    by (auto simp: bitmap_empty_def list_all_iff less_mult_imp_div_less mult.commute)
  then show "set_bits_of regs = []"
    by (auto simp: set_bits_of_def filter_empty_conv)
qed

section \<open>In-service bits that the acknowledgements clear\<close>

text \<open>
  Hardware with the vectors of \<open>S\<close> in service and nothing requested: each write to the EOI register
  retires the next vector, as documented for the local APIC.
\<close>

definition eois :: "platform \<Rightarrow> access list \<Rightarrow> nat" where
  "eois K l = length (filter (\<lambda>(r, v). r = reg K APIC_EOI) (mem_writes K l))"

definition isr_device :: "platform \<Rightarrow> nat list \<Rightarrow> machine \<Rightarrow> bool" where
  "isr_device K S m \<longleftrightarrow> (\<forall>l. \<forall>i<APIC_IR_REGS.
     (\<forall>b<32. bit (ucast (answer m l (MemRd (APIC_BASE K + ucast (reg K APIC_ISR + of_nat i * 0x10)))) :: u32) b
        \<longleftrightarrow> 32 * i + b \<in> set (drop (eois K l) S))
     \<and> (ucast (answer m l (MemRd (APIC_BASE K + ucast (reg K APIC_IRR + of_nat i * 0x10)))) :: u32) = 0)"

lemma eois_simps [simp]:
  "eois K (ir_log K base n l) = eois K l"
  "eois K (replicate n (MemWr (reg_addr K APIC_EOI) v) @ l) = n + eois K l"
  by (simp_all add: eois_def)

lemma isr_device_log [simp]: "isr_device K S (m\<lparr>log := l\<rparr>) = isr_device K S m"
  by (simp add: isr_device_def)

lemma isr_device_values:
  assumes "isr_device K S m"
  shows "irr_of K m = replicate APIC_IR_REGS 0"
    and "i < APIC_IR_REGS \<Longrightarrow> b < 32 \<Longrightarrow> bit (isr_of K m ! i) b \<longleftrightarrow> 32 * i + b \<in> set (drop (eois K (log m)) S)"
  using assms
  by (auto simp: irr_of_def isr_of_def ir_val_def isr_device_def intro!: nth_equalityI)

lemma isr_device_bits:
  assumes "isr_device K S m" and "set S \<subseteq> {..<256}" and "distinct S"
  shows "length (set_bits_of (isr_of K m)) = length S - eois K (log m)"
    and "bitmap_empty (isr_of K m) \<longleftrightarrow> length S \<le> eois K (log m)"
proof -
  let ?D = "drop (eois K (log m)) S"
  have len: "length (isr_of K m) = 8"
    by (simp add: isr_of_def APIC_IR_REGS_def)
  have "bit (isr_of K m ! (b div 32)) (b mod 32) \<longleftrightarrow> b \<in> set ?D" if "b < 256" for b
    using that isr_device_values(2) [OF assms(1), of "b div 32" "b mod 32"]
    by (simp add: APIC_IR_REGS_def less_mult_imp_div_less)
  then have "set_bits_of (isr_of K m) = filter (\<lambda>b. b \<in> set ?D) [0..<256]"
    by (auto simp: set_bits_of_def len intro!: filter_cong)
  then have "set (set_bits_of (isr_of K m)) = set ?D" "distinct (set_bits_of (isr_of K m))"
    using assms(2) set_drop_subset [of "eois K (log m)" S] by auto
  then show bits: "length (set_bits_of (isr_of K m)) = length S - eois K (log m)"
    using assms(3) distinct_card [of ?D] distinct_card [of "set_bits_of (isr_of K m)"] by simp
  show "bitmap_empty (isr_of K m) \<longleftrightarrow> length S \<le> eois K (log m)"
  proof
    assume "bitmap_empty (isr_of K m)"
    then show "length S \<le> eois K (log m)" using set_bits_empty bits by force
  next
    assume "length S \<le> eois K (log m)"
    then have "isr_of K m ! i = 0" if "i < 8" for i
      using that isr_device_values(2) [OF assms(1), of i]
      by (intro bit_word_eqI) (simp add: APIC_IR_REGS_def)
    then show "bitmap_empty (isr_of K m)"
      by (simp add: bitmap_empty_def list_all_length len)
  qed
qed

lemma pending_two_rounds:
  assumes "apic s = mem_driver K a" and "isr_device K S (mach s)" and "set S \<subseteq> {..<256}" and "distinct S"
    and "eois K (log (mach s)) = 0"
  shows "run_state (pending_clear_loop K (Suc (Suc n))) s = ((), s\<lparr>mach := (mach s)\<lparr>log :=
    (if S = [] then ack_log K (mach s)
     else ack_log K ((mach s)\<lparr>log := replicate (length S) (MemWr (reg_addr K APIC_EOI) (cst K APIC_EOI_ACK))
            @ ack_log K (mach s)\<rparr>))\<rparr>\<rparr>)"
proof -
  let ?e = "replicate (length S) (MemWr (reg_addr K APIC_EOI) (cst K APIC_EOI_ACK))"
  let ?t = "s\<lparr>mach := (mach s)\<lparr>log := ?e @ ack_log K (mach s)\<rparr>\<rparr>"
  have irr: "bitmap_empty (irr_of K m)" if "isr_device K S m" for m
    using that by (simp add: isr_device_values(1) bitmap_empty_def list_all_iff)
  have bits: "bitmap_empty (isr_of K (mach s)) \<longleftrightarrow> S = []"
    "\<not> bitmap_empty (isr_of K (mach s)) \<Longrightarrow> length (set_bits_of (isr_of K (mach s))) = length S"
    using isr_device_bits [OF assms(2-4)] assms(5) by simp_all
  have "eois K (log (mach ?t)) = length S" "isr_device K S (mach ?t)"
    using assms(2,5) by (simp_all add: ack_log_def)
  then have t: "bitmap_empty (isr_of K (mach ?t))" "bitmap_empty (irr_of K (mach ?t))"
    using isr_device_bits(2) [of K S "mach ?t"] assms(3,4) irr by simp_all
  show ?thesis
  proof (cases "S = []")
    case True
    then show ?thesis
      using bits irr [OF assms(2)] by (simp add: run_check_and_ack [OF assms(1)] Let_def)
  next
    case False
    then have "run_state (pending_clear_loop K (Suc (Suc n))) s = run_state (pending_clear_loop K (Suc n)) ?t"
      using bits by (simp add: run_check_and_ack [OF assms(1)] Let_def)
    moreover have "apic ?t = mem_driver K a" using assms(1) by simp
    ultimately show ?thesis
      using t False by (simp add: run_check_and_ack [of ?t K a] Let_def)
  qed
qed

section \<open>Properties\<close>

text \<open>
  One round over the bit maps asks for another round exactly when a request or an in-service bit
  is set, and acknowledges once for every in-service bit it read, writing no other register.
\<close>

theorem apic_check_and_ack_round:
  assumes "apic s = mem_driver K a"
  shows "(result (apic_check_and_ack K) s \<longleftrightarrow>
      \<not> bitmap_empty (isr_of K (mach s)) \<or> \<not> bitmap_empty (irr_of K (mach s)))
    \<and> (mem_trace K (mach (exec (apic_check_and_ack K) s)) =
      replicate (card {b. b < 32 * APIC_IR_REGS \<and> bit (isr_of K (mach s) ! (b div 32)) (b mod 32)})
        (reg K APIC_EOI, cst K APIC_EOI_ACK) @ mem_trace K (mach s))"
proof (intro conjI impI)
  let ?B = "{b. b < 32 * APIC_IR_REGS \<and> bit (isr_of K (mach s) ! (b div 32)) (b mod 32)}"
  have "set (set_bits_of (isr_of K (mach s))) = ?B" "distinct (set_bits_of (isr_of K (mach s)))"
    by (auto simp: set_bits_of_def isr_of_def)
  then have "card ?B = length (set_bits_of (isr_of K (mach s)))"
    using distinct_card by metis
  then show "mem_trace K (mach (exec (apic_check_and_ack K) s)) =
      replicate (card ?B) (reg K APIC_EOI, cst K APIC_EOI_ACK) @ mem_trace K (mach s)"
    by (simp add: kernel_run run_check_and_ack [OF assms] Let_def mem_trace_def ack_log_def set_bits_empty)
  show "result (apic_check_and_ack K) s \<longleftrightarrow>
      \<not> bitmap_empty (isr_of K (mach s)) \<or> \<not> bitmap_empty (irr_of K (mach s))"
    by (simp add: kernel_run run_check_and_ack [OF assms] Let_def)
qed

text \<open>Vectors 0x31 and 0x80 in service, retired by acknowledgements.\<close>

definition demo_isr :: "nat list \<Rightarrow> access list \<Rightarrow> access \<Rightarrow> u64" where
  "demo_isr S l c = (case c of MemRd p \<Rightarrow>
     (let r = (ucast (p - APIC_BASE sdm) :: u32) in
      if 0x100 \<le> r \<and> r < 0x180
      then horner_sum of_bool 2 (map (\<lambda>b. unat ((r - 0x100) div 0x10) * 32 + b \<in> set (drop (eois sdm l) S)) [0..<32])
      else 0) | _ \<Rightarrow> 0)"

definition demo_stale :: kernel where
  "demo_stale = demo_kernel (mem_driver sdm (demo_drv sdm)) \<lparr>answer = demo_isr [0x80, 0x31], log = []\<rparr>"

lemma demo_stale_simps [simp]:
  "apic demo_stale = mem_driver sdm (demo_drv sdm)"
  "mach demo_stale = \<lparr>answer = demo_isr [0x80, 0x31], log = []\<rparr>"
  by (simp_all add: demo_stale_def demo_kernel_def)

lemma demo_stale_device: "isr_device sdm [0x80, 0x31] (mach demo_stale)"
  unfolding isr_device_def
proof (intro allI impI conjI)
  fix l i assume "i < APIC_IR_REGS"
  then have i: "i < 8" by (simp add: APIC_IR_REGS_def)
  then have "i \<in> {0, 1, 2, 3, 4, 5, 6, 7}" by auto
  then have r: "unat ((0x10 * of_nat i :: u32) div 0x10) = i"
    "0x100 \<le> (0x100 + of_nat i * 0x10 :: u32)" "(0x100 + of_nat i * 0x10 :: u32) < 0x180"
    "\<not> (0x100 \<le> (0x200 + of_nat i * 0x10 :: u32) \<and> (0x200 + of_nat i * 0x10 :: u32) < 0x180)"
    by auto
  show "(ucast (answer (mach demo_stale) l (MemRd (APIC_BASE sdm + ucast (reg sdm APIC_IRR + of_nat i * 0x10)))) :: u32) = 0"
    using r(4) by (auto simp: demo_isr_def Let_def)
  fix b :: nat assume "b < 32"
  then show "bit (ucast (answer (mach demo_stale) l (MemRd (APIC_BASE sdm + ucast (reg sdm APIC_ISR + of_nat i * 0x10)))) :: u32) b
      \<longleftrightarrow> 32 * i + b \<in> set (drop (eois sdm l) [0x80, 0x31])"
    using r(1-3) by (simp add: demo_isr_def Let_def bit_ucast_iff bit_horner_sum_bit_word_iff mult.commute)
qed

text \<open>
  C27. Stale in-service bits are cleared: with the vectors of \<open>S\<close> in service and no request pending,
  the boot code acknowledges exactly once for each of them, after which none is in service, and
  returns after at most two rounds without the warning about stale bits.
\<close>

theorem apic_pending_intr_clear_retires:
  assumes "apic s = mem_driver K a" and "isr_device K S (mach s)" and "set S \<subseteq> {..<256}" and "distinct S"
    and "eois K (log (mach s)) = 0"
  shows "(mem_trace K (mach (exec (apic_pending_intr_clear K) s)) =
      replicate (length S) (reg K APIC_EOI, cst K APIC_EOI_ACK) @ mem_trace K (mach s))
    \<and> (bitmap_empty (isr_of K (mach (exec (apic_pending_intr_clear K) s))))
    \<and> (\<exists>l. log (mach (exec (apic_pending_intr_clear K) s)) = l @ log (mach s) \<and> (\<forall>f. Call f \<notin> set l))"
proof (intro conjI impI)
  have n: "512 = Suc (Suc 510)" by simp
  let ?e = "replicate (length S) (MemWr (reg_addr K APIC_EOI) (cst K APIC_EOI_ACK))"
  let ?l = "if S = [] then ack_log K (mach s) else ack_log K ((mach s)\<lparr>log := ?e @ ack_log K (mach s)\<rparr>)"
  have run: "run_state (apic_pending_intr_clear K) s = ((), s\<lparr>mach := (mach s)\<lparr>log := ?l\<rparr>\<rparr>)"
    unfolding apic_pending_intr_clear_def n by (rule pending_two_rounds [OF assms])
  then show "mem_trace K (mach (exec (apic_pending_intr_clear K) s)) =
      replicate (length S) (reg K APIC_EOI, cst K APIC_EOI_ACK) @ mem_trace K (mach s)"
    by (simp add: run_exec mem_trace_def ack_log_def)
  show "bitmap_empty (isr_of K (mach (exec (apic_pending_intr_clear K) s)))"
    using assms(2,5) isr_device_bits(2) [OF _ assms(3,4), where m = "(mach s)\<lparr>log := ?l\<rparr>"]
    by (simp add: run_exec [OF run] ack_log_def)
  have ir: "\<exists>l'. ir_log K base k l = l' @ l \<and> (\<forall>f. Call f \<notin> set l')" for base k l
    by (induction k) auto
  have ack: "\<exists>l. ack_log K m = l @ log m \<and> (\<forall>f. Call f \<notin> set l)" for m
    using ir [of "reg K APIC_IRR" APIC_IR_REGS "log m"]
      ir [of "reg K APIC_ISR" APIC_IR_REGS "ir_log K (reg K APIC_IRR) APIC_IR_REGS (log m)"]
    by (auto simp: ack_log_def)
  obtain l1 where l1: "ack_log K (mach s) = l1 @ log (mach s)" "\<forall>f. Call f \<notin> set l1"
    using ack by blast
  obtain l2 where l2: "ack_log K ((mach s)\<lparr>log := ?e @ ack_log K (mach s)\<rparr>) = l2 @ ?e @ ack_log K (mach s)"
    "\<forall>f. Call f \<notin> set l2"
    using ack [of "(mach s)\<lparr>log := ?e @ ack_log K (mach s)\<rparr>"] by auto
  show "\<exists>l. log (mach (exec (apic_pending_intr_clear K) s)) = l @ log (mach s) \<and> (\<forall>f. Call f \<notin> set l)"
  proof (cases "S = []")
    case True
    then show ?thesis using l1 by (auto simp: run_exec [OF run])
  next
    case False
    then show ?thesis
      using l1 l2 by (intro exI [of _ "l2 @ ?e @ l1"]) (auto simp: run_exec [OF run])
  qed
qed

theorem apic_pending_intr_clear_retires_witness:
  "mem_trace sdm (mach (exec (apic_pending_intr_clear sdm) demo_stale)) = [(0xB0, 0), (0xB0, 0)]"
  using apic_pending_intr_clear_retires [OF demo_stale_simps(1) demo_stale_device]
  by (simp add: mem_trace_def eois_def)

theorem apic_check_and_ack_round_witness:
  "result (apic_check_and_ack sdm) demo_stale"
  using apic_check_and_ack_round [OF demo_stale_simps(1)] isr_device_bits(2) [OF demo_stale_device]
  by (simp add: eois_def)

section \<open>The state after the setup\<close>

lemma wp_mem_eoi:
  assumes "apic s = mem_driver K a" and "mem_device K init plain (mach s)"
    and "\<And>m. mem_device K init plain m \<Longrightarrow>
      mem_trace K m = (reg K APIC_EOI, cst K APIC_EOI_ACK) # mem_trace K (mach s) \<Longrightarrow> Q () (s\<lparr>mach := m\<rparr>)"
  shows "wp (ack_APIC_irq K) Q s"
  using assms by (simp add: wp_def run_ack mem_trace_def mem_device_def)

lemma wp_mem_pending:
  assumes "apic s = mem_driver K a" and "mem_device K init plain (mach s)"
    and "\<And>m k. mem_device K init plain m \<Longrightarrow>
      mem_trace K m = replicate k (reg K APIC_EOI, cst K APIC_EOI_ACK) @ mem_trace K (mach s) \<Longrightarrow> Q () (s\<lparr>mach := m\<rparr>)"
  shows "wp (pending_clear_loop K n) Q s"
  using assms
proof (induction n arbitrary: s)
  case 0
  show ?case
    using "0.prems"(2) by (auto simp: wp_pr_info mem_device_def mem_trace_def intro!: "0.prems"(3) [of _ 0])
next
  case (Suc n)
  let ?k = "if bitmap_empty (isr_of K (mach s)) then 0 else length (set_bits_of (isr_of K (mach s)))"
  let ?m = "(mach s)\<lparr>log := replicate ?k (MemWr (reg_addr K APIC_EOI) (cst K APIC_EOI_ACK)) @ ack_log K (mach s)\<rparr>"
  have m: "mem_device K init plain ?m"
    "mem_trace K ?m = replicate ?k (reg K APIC_EOI, cst K APIC_EOI_ACK) @ mem_trace K (mach s)"
    using Suc.prems(2) by (simp_all add: mem_device_def mem_trace_def ack_log_def)
  have "wp (pending_clear_loop K n) Q (s\<lparr>mach := ?m\<rparr>)"
  proof (rule Suc.IH)
    fix m' k
    assume "mem_device K init plain m'" and
      "mem_trace K m' = replicate k (reg K APIC_EOI, cst K APIC_EOI_ACK) @ mem_trace K (mach (s\<lparr>mach := ?m\<rparr>))"
    then show "Q () (s\<lparr>mach := ?m, mach := m'\<rparr>)"
      using m(2) Suc.prems(3) [of m' "k + ?k"] by (simp add: replicate_add)
  qed (use Suc.prems m in simp_all)
  moreover have "Q () (s\<lparr>mach := ?m\<rparr>)"
    using Suc.prems(3) m by blast
  ultimately show ?case
    by (auto simp: wp_bind) (auto simp: wp_def run_check_and_ack [OF Suc.prems(1)] Let_def)
qed

text \<open>
  What the setup expects of the driver's other operations: this processor's APIC is registered, and
  initialising the logical destination writes the destination registers only.
\<close>

definition callbacks_ok :: "platform \<Rightarrow> apic_drv \<Rightarrow> (u32 \<Rightarrow> u32) \<Rightarrow> (u32 \<Rightarrow> bool) \<Rightarrow> bool" where
  "callbacks_ok K a init plain \<longleftrightarrow> (\<forall>m. mem_device K init plain m \<longrightarrow>
     result (drv_apic_id_registered a) m \<noteq> 0
     \<and> mem_device K init plain (exec (drv_apic_id_registered a) m)
     \<and> mem_trace K (exec (drv_apic_id_registered a) m) = mem_trace K m
     \<and> mem_device K init plain (exec (drv_init_apic_ldr a) m)
     \<and> (\<exists>ws. mem_trace K (exec (drv_init_apic_ldr a) m) = ws @ mem_trace K m
            \<and> fst ` set ws \<subseteq> {reg K APIC_DFR, reg K APIC_LDR}))"

lemma wp_registered:
  assumes "callbacks_ok K a init plain" and "apic t = mem_driver K a" and "mem_device K init plain (mach s)"
    and "\<And>v m. mem_device K init plain m \<Longrightarrow> mem_trace K m = mem_trace K (mach s) \<Longrightarrow> v \<noteq> 0 \<Longrightarrow> Q v (s\<lparr>mach := m\<rparr>)"
  shows "wp (on_mach (drv_apic_id_registered (apic t))) Q s"
  using assms by (simp add: wp_on_mach callbacks_ok_def mem_driver_def)

lemma wp_init_ldr:
  assumes "callbacks_ok K a init plain" and "apic t = mem_driver K a" and "mem_device K init plain (mach s)"
    and "\<And>ws m. mem_device K init plain m \<Longrightarrow> mem_trace K m = ws @ mem_trace K (mach s) \<Longrightarrow>
      fst ` set ws \<subseteq> {reg K APIC_DFR, reg K APIC_LDR} \<Longrightarrow> Q () (s\<lparr>mach := m\<rparr>)"
  shows "wp (on_mach (drv_init_apic_ldr (apic t))) Q s"
proof -
  have "drv_init_apic_ldr (apic t) = drv_init_apic_ldr a"
    using assms(2) by (simp add: mem_driver_def)
  then show ?thesis
    using assms unfolding wp_on_mach callbacks_ok_def by (metis old.unit.exhaust)
qed

lemma reg_val_skip: "r \<notin> fst ` set ws \<Longrightarrow> reg_val init (ws @ ws') r = reg_val init ws' r"
  by (induction ws) auto

lemma reg_val_replicate: "r' \<noteq> r \<Longrightarrow> reg_val init (replicate k (r', v) @ ws) r = reg_val init ws r"
  by (induction k) simp_all

text \<open>The writes of the setup, newest first, over the values it reads and the writes of the callbacks.\<close>

definition setup_writes :: "platform \<Rightarrow> u32 \<Rightarrow> u32 \<Rightarrow> u32 \<Rightarrow> u32 \<Rightarrow> u32 \<Rightarrow> nat \<Rightarrow> (u32 \<times> u32) list \<Rightarrow> (u32 \<times> u32) list" where
  "setup_writes K sp0 tp sp lvt0 lvt1 k ldr =
     [(reg K APIC_LVT1, lvt1), (reg K APIC_LVT0, lvt0),
      (reg K APIC_SPIV, ((sp AND NOT (cst K APIC_VECTOR_MASK)) OR cst K APIC_SPIV_APIC_ENABLED)
                          OR cst K SPURIOUS_APIC_VECTOR)]
     @ replicate k (reg K APIC_EOI, cst K APIC_EOI_ACK)
     @ [(reg K APIC_TASKPRI, (tp AND NOT (cst K APIC_TPRI_MASK)) OR 0x10)]
     @ ldr
     @ [(reg K APIC_SPIV, sp0 AND NOT (cst K APIC_SPIV_APIC_ENABLED))]"

definition setup_lvt0 :: "platform \<Rightarrow> kernel \<Rightarrow> u32 \<Rightarrow> u32" where
  "setup_lvt0 K s old = (if this_cpu s = 0 \<and> (pic_mode s \<or> old AND cst K APIC_LVT_MASKED = 0 \<or> skip_ioapic_setup s)
     then cst K APIC_DM_EXTINT else cst K APIC_DM_EXTINT OR cst K APIC_LVT_MASKED)"

definition setup_lvt1 :: "platform \<Rightarrow> kernel \<Rightarrow> bool \<Rightarrow> u32" where
  "setup_lvt1 K s integrated =
     (let v = (if this_cpu s = 0 \<and> apic_extnmi s \<noteq> APIC_EXTNMI_NONE \<or> apic_extnmi s = APIC_EXTNMI_ALL
               then cst K APIC_DM_NMI else cst K APIC_DM_NMI OR cst K APIC_LVT_MASKED)
      in if \<not> integrated then v OR cst K APIC_LVT_LEVEL_TRIGGER else v)"

lemma wp_unless_panic:
  "v \<noteq> 0 \<Longrightarrow> wp p (\<lambda>x. Q (Inr x)) s \<Longrightarrow> wp (if \<not> c_true v then panic e else fine p) Q s"
  by (simp add: wp_fine)

lemma flat_registered:
  assumes "callbacks_ok K a init plain" and "apic t = mem_driver K a"
    and "mem_device K init plain m0 \<and> mem_trace K m0 = T"
    and "\<And>v m. mem_device K init plain m \<and> mem_trace K m = T \<Longrightarrow> v \<noteq> 0 \<Longrightarrow> Q v (s\<lparr>mach := m\<rparr>)"
  shows "wp (on_mach (drv_apic_id_registered (apic t))) Q (s\<lparr>mach := m0\<rparr>)"
  by (rule wp_registered [OF assms(1,2)]) (use assms(3,4) in auto)

lemma flat_init_ldr:
  assumes "callbacks_ok K a init plain" and "apic t = mem_driver K a"
    and "mem_device K init plain m0 \<and> mem_trace K m0 = T"
    and "\<And>ws m. mem_device K init plain m \<and> mem_trace K m = ws @ T \<Longrightarrow>
      fst ` set ws \<subseteq> {reg K APIC_DFR, reg K APIC_LDR} \<Longrightarrow> Q () (s\<lparr>mach := m\<rparr>)"
  shows "wp (on_mach (drv_init_apic_ldr (apic t))) Q (s\<lparr>mach := m0\<rparr>)"
  by (rule wp_init_ldr [OF assms(1,2)]) (use assms(3,4) in auto)

lemma flat_pending:
  assumes "apic s = mem_driver K a" and "mem_device K init plain m0 \<and> mem_trace K m0 = T"
    and "\<And>m k. mem_device K init plain m \<and>
      mem_trace K m = replicate k (reg K APIC_EOI, cst K APIC_EOI_ACK) @ T \<Longrightarrow> Q () (s\<lparr>mach := m\<rparr>)"
  shows "wp (apic_pending_intr_clear K) Q (s\<lparr>mach := m0\<rparr>)"
  using assms by (auto simp: apic_pending_intr_clear_def intro!: wp_mem_pending)

lemma wp_mem_setup:
  assumes "apic s = mem_driver K a" and "mem_device K init plain (mach s)" and "callbacks_ok K a init plain"
    and "\<not> disable_apic s" and "\<not> CONFIG_X86_32 K" and "inj (reg K)"
    and "\<And>m sp0 tp sp old i k ldr. mem_device K init plain m \<Longrightarrow>
      mem_trace K m = setup_writes K sp0 tp sp (setup_lvt0 K s old) (setup_lvt1 K s i) k ldr @ mem_trace K (mach s) \<Longrightarrow>
      (plain (reg K APIC_LVT0) \<Longrightarrow> old = reg_val init (mem_trace K (mach s)) (reg K APIC_LVT0)) \<Longrightarrow>
      fst ` set ldr \<subseteq> {reg K APIC_DFR, reg K APIC_LDR} \<Longrightarrow> Q (Inr ()) (s\<lparr>mach := m\<rparr>)"
  shows "wp (setup_local_APIC K) Q s"
proof -
  have x: "CONFIG_X86_32 K = False" "disable_apic s = False" using assms(4,5) by simp_all
  have s0: "mem_device K init plain (mach s) \<and> mem_trace K (mach s) = mem_trace K (mach s)"
    using assms(2) by simp
  have skip: "reg_val init (ws @ ws') (reg K APIC_LVT0) = reg_val init ws' (reg K APIC_LVT0)"
    if "fst ` set ws \<subseteq> {reg K APIC_DFR, reg K APIC_LDR}" for ws ws'
    using that by (intro reg_val_skip) (auto simp: inj_eq [OF assms(6)])
  show ?thesis
    unfolding setup_local_APIC_def wp_bind wp_gets x if_False whenM_simps simp_thms wp_return Let_def
    by (rule flat_start, intro mem.flat_read [of _ K a init plain] mem.flat_write [of _ K a init plain]
        flat_registered [OF assms(3)] wp_unless_panic flat_intros flat_init_ldr [OF assms(3)]
        flat_pending [of _ K a init plain] mem.flat_silent(1,7) [of K init plain]
        mem.flat_is_integrated [of _ K a init plain] mem.flat_guarded_call [of K init plain]
        apic_mach_update assms(1) TrueI, rule s0, assumption+)
      (erule conjE, rule assms(7), assumption, erule trans,
        simp (no_asm) add: setup_writes_def setup_lvt0_def setup_lvt1_def Let_def cong: if_cong split del: if_split,
        simp (no_asm_simp) add: inj_eq [OF assms(6)] reg_val_replicate,
        subst skip, assumption, simp (no_asm) add: inj_eq [OF assms(6)], assumption)
qed

text \<open>What the theorem below asks of the constants of the platform.\<close>

definition setup_ok :: "platform \<Rightarrow> bool" where
  "setup_ok K \<longleftrightarrow> bits_ok K \<and> regs_ok K \<and> \<not> CONFIG_X86_32 K \<and> 0x10 AND cst K APIC_TPRI_MASK = 0x10"

lemma setup_spiv:
  assumes "bits_ok K"
  shows "(((v AND NOT (cst K APIC_VECTOR_MASK)) OR cst K APIC_SPIV_APIC_ENABLED) OR cst K SPURIOUS_APIC_VECTOR)
      AND cst K APIC_SPIV_APIC_ENABLED = cst K APIC_SPIV_APIC_ENABLED"
    and "(((v AND NOT (cst K APIC_VECTOR_MASK)) OR cst K APIC_SPIV_APIC_ENABLED) OR cst K SPURIOUS_APIC_VECTOR)
      AND cst K APIC_VECTOR_MASK = cst K SPURIOUS_APIC_VECTOR"
proof -
  have d: "cst K APIC_SPIV_APIC_ENABLED AND cst K APIC_VECTOR_MASK = 0"
    "cst K SPURIOUS_APIC_VECTOR AND cst K APIC_VECTOR_MASK = cst K SPURIOUS_APIC_VECTOR"
    "cst K SPURIOUS_APIC_VECTOR AND cst K APIC_SPIV_APIC_ENABLED = 0"
    using assms unfolding bits_ok_def by (metis and.commute)+
  then show "(((v AND NOT (cst K APIC_VECTOR_MASK)) OR cst K APIC_SPIV_APIC_ENABLED) OR cst K SPURIOUS_APIC_VECTOR)
      AND cst K APIC_VECTOR_MASK = cst K SPURIOUS_APIC_VECTOR"
    by (simp add: bit.conj_disj_distrib2)
  show "(((v AND NOT (cst K APIC_VECTOR_MASK)) OR cst K APIC_SPIV_APIC_ENABLED) OR cst K SPURIOUS_APIC_VECTOR)
      AND cst K APIC_SPIV_APIC_ENABLED = cst K APIC_SPIV_APIC_ENABLED"
    using d by (simp add: bit.conj_disj_distrib2 [of _ "cst K SPURIOUS_APIC_VECTOR"])
qed

lemma setup_lvt_mask:
  assumes "bits_ok K"
  shows "setup_lvt0 K s old AND cst K APIC_LVT_MASKED = (if this_cpu s = 0 \<and> (pic_mode s
      \<or> skip_ioapic_setup s \<or> old AND cst K APIC_LVT_MASKED = 0) then 0 else cst K APIC_LVT_MASKED)"
    and "setup_lvt1 K s i AND cst K APIC_LVT_MASKED = (if this_cpu s = 0 \<and> apic_extnmi s \<noteq> APIC_EXTNMI_NONE
      \<or> apic_extnmi s = APIC_EXTNMI_ALL then 0 else cst K APIC_LVT_MASKED)"
proof -
  have d: "cst K APIC_DM_EXTINT AND cst K APIC_LVT_MASKED = 0" "cst K APIC_DM_NMI AND cst K APIC_LVT_MASKED = 0"
    "cst K APIC_LVT_LEVEL_TRIGGER AND cst K APIC_LVT_MASKED = 0"
    using assms unfolding bits_ok_def by blast+
  show "setup_lvt0 K s old AND cst K APIC_LVT_MASKED = (if this_cpu s = 0 \<and> (pic_mode s
      \<or> skip_ioapic_setup s \<or> old AND cst K APIC_LVT_MASKED = 0) then 0 else cst K APIC_LVT_MASKED)"
    using d by (auto simp: setup_lvt0_def)
  show "setup_lvt1 K s i AND cst K APIC_LVT_MASKED = (if this_cpu s = 0 \<and> apic_extnmi s \<noteq> APIC_EXTNMI_NONE
      \<or> apic_extnmi s = APIC_EXTNMI_ALL then 0 else cst K APIC_LVT_MASKED)"
    using d by (simp add: setup_lvt1_def Let_def bit.conj_disj_distrib2)
qed


lemma demo_callbacks: "callbacks_ok K (demo_drv K) init plain"
  unfolding callbacks_ok_def
proof (intro allI impI conjI)
  fix m assume d: "mem_device K init plain m"
  have *: "exec (drv_init_apic_ldr (demo_drv K)) m =
    m\<lparr>log := MemWr (reg_addr K APIC_LDR) 0x01000000 # MemWr (reg_addr K APIC_DFR) (- 1) # log m\<rparr>"
    by (simp add: demo_drv_def exec_def native_apic_mem_write_def mem_write32_def)
  show "\<exists>ws. mem_trace K (exec (drv_init_apic_ldr (demo_drv K)) m) = ws @ mem_trace K m
      \<and> fst ` set ws \<subseteq> {reg K APIC_DFR, reg K APIC_LDR}"
    by (intro exI [of _ "[(reg K APIC_LDR, 0x01000000), (reg K APIC_DFR, - 1)]"]) (simp add: * mem_trace_def)
  show "mem_device K init plain (exec (drv_init_apic_ldr (demo_drv K)) m)"
    using d by (simp add: * mem_device_def)
qed (simp_all add: demo_drv_def result_def exec_def)


end
