(* ===== verification/Timer.thy ===== *)
theory Timer
  imports Setup
begin

text \<open>
  The local APIC timer: programming the timer entry and the next event, the states of the clock event
  device, the check for processors whose deadline timer is broken, registering the device, the
  decision whether the legacy timer is needed, and the timer interrupt. The clock event device of a
  processor is the record \<open>lapic_events\<close>; the one it is copied from is \<open>lapic_clockevent\<close>.
\<close>

section \<open>Programming the timer\<close>

definition APIC_DIVISOR :: u32 where "APIC_DIVISOR = 16"
definition TSC_DIVISOR :: u64 where "TSC_DIVISOR = 8"

definition rdtsc :: "u64 kprog" where "rdtsc = on_mach (access Rdtsc)"
definition mfence :: "unit kprog" where "mfence = on_mach (do_access Mfence)"

definition lvtt_value :: "platform \<Rightarrow> bool \<Rightarrow> bool \<Rightarrow> bool \<Rightarrow> bool \<Rightarrow> u32" where
  "lvtt_value K oneshot deadline integrated irqen =
     (let v = cst K LOCAL_TIMER_VECTOR;
          v = (if \<not> oneshot then v OR cst K APIC_LVT_TIMER_PERIODIC
               else if deadline then v OR cst K APIC_LVT_TIMER_TSCDEADLINE else v);
          v = (if \<not> integrated then v OR SET_APIC_TIMER_BASE K (cst K APIC_TIMER_BASE_DIV) else v)
      in if \<not> irqen then v OR cst K APIC_LVT_MASKED else v)"

definition setup_APIC_LVTT :: "platform \<Rightarrow> u32 \<Rightarrow> bool \<Rightarrow> bool \<Rightarrow> unit kprog" where
  "setup_APIC_LVTT K clocks oneshot irqen = do {
     deadline \<leftarrow> (if oneshot then boot_cpu_has X86_FEATURE_TSC_DEADLINE_TIMER else ret False);
     integrated \<leftarrow> lapic_is_integrated K;
     let lvtt = lvtt_value K oneshot deadline integrated irqen;
     apic_write (reg K APIC_LVTT) lvtt;
     (if c_true (lvtt AND cst K APIC_LVT_TIMER_TSCDEADLINE) then mfence
      else do {
        tmp \<leftarrow> apic_read (reg K APIC_TDCR);
        apic_write (reg K APIC_TDCR)
          ((tmp AND NOT (cst K APIC_TDR_DIV_1 OR cst K APIC_TDR_DIV_TMBASE)) OR cst K APIC_TDR_DIV_16);
        whenM (\<not> oneshot) (apic_write (reg K APIC_TMICT) (clocks div APIC_DIVISOR)) }) }"

text \<open>The two ways to program the next event; both always succeed.\<close>

definition lapic_next_event :: "platform \<Rightarrow> u64 \<Rightarrow> int kprog" where
  "lapic_next_event K delta = do { apic_write (reg K APIC_TMICT) (ucast delta); ret 0 }"

definition lapic_next_deadline :: "platform \<Rightarrow> u64 \<Rightarrow> int kprog" where
  "lapic_next_deadline K delta = do {
     tsc \<leftarrow> rdtsc;
     on_mach (wrmsrl (cst K MSR_IA32_TSC_DEADLINE) (tsc + delta * TSC_DIVISOR));
     ret 0 }"

definition lapic_timer_shutdown :: "platform \<Rightarrow> clock_event_device \<Rightarrow> int kprog" where
  "lapic_timer_shutdown K evt =
     (if ce_dummy evt then ret 0
      else do {
        v \<leftarrow> apic_read (reg K APIC_LVTT);
        apic_write (reg K APIC_LVTT) (v OR (cst K APIC_LVT_MASKED OR cst K LOCAL_TIMER_VECTOR));
        apic_write (reg K APIC_TMICT) 0;
        ret 0 })"

definition lapic_timer_set_periodic_oneshot :: "platform \<Rightarrow> clock_event_device \<Rightarrow> bool \<Rightarrow> int kprog" where
  "lapic_timer_set_periodic_oneshot K evt oneshot =
     (if ce_dummy evt then ret 0
      else do {
        period \<leftarrow> gets lapic_timer_period;
        setup_APIC_LVTT K period oneshot True;
        ret 0 })"

definition lapic_timer_set_periodic :: "platform \<Rightarrow> clock_event_device \<Rightarrow> int kprog" where
  "lapic_timer_set_periodic K evt = lapic_timer_set_periodic_oneshot K evt False"

definition lapic_timer_set_oneshot :: "platform \<Rightarrow> clock_event_device \<Rightarrow> int kprog" where
  "lapic_timer_set_oneshot K evt = lapic_timer_set_periodic_oneshot K evt True"

definition lapic_timer_broadcast :: "platform \<Rightarrow> cpumask \<Rightarrow> unit kprog" where
  "lapic_timer_broadcast K cpus = whenM (CONFIG_SMP K)
     (do { a \<leftarrow> gets apic; on_mach (drv_send_IPI_mask a cpus (cst K LOCAL_TIMER_VECTOR)) })"

section \<open>The device and its registration\<close>

definition lapic_clockevent_init :: clock_event_device where
  "lapic_clockevent_init = \<lparr>ce_name = ''lapic'', ce_periodic = True, ce_oneshot = True, ce_c3stop = True,
     ce_dummy = True, ce_shift = 32, ce_mult = 0, ce_max_delta_ns = 0, ce_max_delta_ticks = 0,
     ce_min_delta_ns = 0, ce_min_delta_ticks = 0, ce_set_next_event = lapic_next_event_fn,
     ce_event_handler = None, ce_rating = 100, ce_cpumask = {}\<rparr>"

text \<open>Processors with a broken deadline timer: model, range of steppings, first good microcode.\<close>

definition deadline_match :: "(intel_model \<times> (nat \<times> nat) option \<times> u32) list" where
  "deadline_match = [
     (HASWELL_X, Some (0x2, 0x2), 0x3a), (HASWELL_X, Some (0x4, 0x4), 0x0f),
     (BROADWELL_X, None, 0x0b000020),
     (BROADWELL_D, Some (0x2, 0x2), 0x00000011), (BROADWELL_D, Some (0x3, 0x3), 0x0700000e),
     (BROADWELL_D, Some (0x4, 0x4), 0x0f00000c), (BROADWELL_D, Some (0x5, 0x5), 0x0e000003),
     (SKYLAKE_X, Some (0x3, 0x3), 0x01000136), (SKYLAKE_X, Some (0x4, 0x4), 0x02000014),
     (SKYLAKE_X, Some (0x5, 0xf), 0),
     (HASWELL, None, 0x22), (HASWELL_L, None, 0x20), (HASWELL_G, None, 0x17),
     (BROADWELL, None, 0x25), (BROADWELL_G, None, 0x17),
     (SKYLAKE_L, None, 0xb2), (SKYLAKE, None, 0xb2), (KABYLAKE_L, None, 0x52), (KABYLAKE, None, 0x52)]"

text \<open>The first entry that matches the boot processor; all entries are for Intel family 6.\<close>

definition x86_match_cpu :: "platform \<Rightarrow> kernel \<Rightarrow> (intel_model \<times> (nat \<times> nat) option \<times> u32) list \<Rightarrow> u32 option" where
  "x86_match_cpu K s table = map_option (\<lambda>(m, st, rv). rv)
     (find (\<lambda>(m, st, rv). x86_vendor s = X86_VENDOR_INTEL \<and> x86 s = 6 \<and> x86_model s = INTEL_FAM6 K m
        \<and> (case st of None \<Rightarrow> True | Some (lo, hi) \<Rightarrow> lo \<le> x86_stepping s \<and> x86_stepping s \<le> hi)) table)"

definition setup_clear_cpu_cap :: "cpu_feature \<Rightarrow> unit kprog" where
  "setup_clear_cpu_cap f = modify (\<lambda>s. s\<lparr>boot_caps := (boot_caps s)(f := False)\<rparr>)"

definition apic_validate_deadline_timer :: "platform \<Rightarrow> bool kprog" where
  "apic_validate_deadline_timer K = do {
     deadline \<leftarrow> boot_cpu_has X86_FEATURE_TSC_DEADLINE_TIMER;
     (if \<not> deadline then ret False
      else do {
        hypervisor \<leftarrow> boot_cpu_has X86_FEATURE_HYPERVISOR;
        (if hypervisor then ret True
         else do {
           m \<leftarrow> gets (\<lambda>s. x86_match_cpu K s deadline_match);
           (case m of None \<Rightarrow> ret True
            | Some rv \<Rightarrow> do {
                ucode \<leftarrow> gets microcode;
                (if ucode \<ge> rv then ret True
                 else do {
                   setup_clear_cpu_cap X86_FEATURE_TSC_DEADLINE_TIMER;
                   pr_info ''TSC_DEADLINE disabled due to Errata; please update microcode'';
                   ret False }) }) }) }) }"

definition setup_APIC_timer :: "unit kprog" where
  "setup_APIC_timer = do {
     arat \<leftarrow> this_cpu_has X86_FEATURE_ARAT;
     whenM arat (modify (\<lambda>s. s\<lparr>lapic_clockevent := (lapic_clockevent s)\<lparr>ce_c3stop := False, ce_rating := 150\<rparr>\<rparr>));
     modify (\<lambda>s. s\<lparr>lapic_events := (lapic_clockevent s)\<lparr>ce_cpumask := {this_cpu s}\<rparr>\<rparr>);
     deadline \<leftarrow> this_cpu_has X86_FEATURE_TSC_DEADLINE_TIMER;
     (if deadline then do {
        modify (\<lambda>s. s\<lparr>lapic_events := (lapic_events s)\<lparr>ce_name := ''lapic-deadline'', ce_periodic := False,
          ce_dummy := False, ce_set_next_event := lapic_next_deadline_fn\<rparr>\<rparr>);
        khz \<leftarrow> gets tsc_khz;
        kcall (clockevents_config_and_register (khz * ucast (1000 div TSC_DIVISOR))) }
      else kcall clockevents_register_device) }"

definition lapic_update_tsc_freq_here :: "unit kprog" where
  "lapic_update_tsc_freq_here = do {
     deadline \<leftarrow> this_cpu_has X86_FEATURE_TSC_DEADLINE_TIMER;
     whenM deadline (do {
       khz \<leftarrow> gets tsc_khz;
       kcall (clockevents_update_freq (khz * ucast (1000 div TSC_DIVISOR))) }) }"

text \<open>The cross-call of the kernel, \<^verbatim>\<open>on_each_cpu\<close>, is a parameter.\<close>

definition lapic_update_tsc_freq :: "(unit kprog \<Rightarrow> unit kprog) \<Rightarrow> unit kprog" where
  "lapic_update_tsc_freq on_each_cpu = on_each_cpu lapic_update_tsc_freq_here"

definition setup_secondary_APIC_clock :: "unit kprog" where
  "setup_secondary_APIC_clock = do { setup_APIC_timer; kcall amd_e400_c1e_apic_setup }"

definition apic_needs_pit :: "kernel \<Rightarrow> bool" where
  "apic_needs_pit s =
     (if tsc_khz s = 0 \<or> cpu_khz s = 0 then True
      else if \<not> boot_caps s X86_FEATURE_APIC \<or> disable_apic s then True
      else if apic_intr_mode s = APIC_PIC \<or> apic_intr_mode s = APIC_VIRTUAL_WIRE_NO_CONFIG then True
      else if \<not> boot_caps s X86_FEATURE_ARAT then True
      else if boot_caps s X86_FEATURE_TSC_DEADLINE_TIMER then False
      else if disable_apic_timer s then True
      else lapic_timer_period s = 0)"

section \<open>The timer interrupt\<close>

definition jiffies :: "u64 kprog" where "jiffies = on_mach (access Jiffies)"

text \<open>
  The event handlers of the clock event framework are not in the repository; calling one is a call
  of the kernel. \<open>lapic_cal_handler\<close> is in the calibration code, and passed as \<open>cal\<close>.
\<close>

definition local_apic_timer_interrupt :: "platform \<Rightarrow> unit kprog \<Rightarrow> unit kprog" where
  "local_apic_timer_interrupt K cal = do {
     evt \<leftarrow> gets lapic_events;
     zzz \<leftarrow> gets apic_zzz_debug_flag;
     whenM zzz (do {
       j \<leftarrow> jiffies;
       (if j mod 125 = 0 then do { j2 \<leftarrow> jiffies; pr_info ''local_apic_timer_interrupt: jiffies=%lu'' }
        else ret ()) });
     (case ce_event_handler evt of
        None \<Rightarrow> do {
          pr_info ''Spurious LAPIC timer interrupt on cpu %d'';
          _ \<leftarrow> lapic_timer_shutdown K evt;
          ret () }
      | Some h \<Rightarrow> do {
          kcall (inc_irq_stat ''apic_timer_irqs'');
          (case h of lapic_cal_handler_fn \<Rightarrow> cal | other_event_handler \<Rightarrow> kcall event_handler) }) }"

definition sysvec_apic_timer_interrupt :: "platform \<Rightarrow> unit kprog \<Rightarrow> unit kprog" where
  "sysvec_apic_timer_interrupt K cal = do {
     ack_APIC_irq K;
     local_apic_timer_interrupt K cal }"

definition setup_profiling_timer :: "u32 \<Rightarrow> int" where
  "setup_profiling_timer multiplier = - EINVAL"

section \<open>Properties\<close>

text \<open>The fields of the timer entry do not overlap with its deadline and mask bits.\<close>

definition timer_ok :: "platform \<Rightarrow> bool" where
  "timer_ok K \<longleftrightarrow> cst K APIC_LVT_TIMER_TSCDEADLINE \<noteq> 0 \<and> cst K APIC_LVT_MASKED \<noteq> 0
     \<and> (\<forall>f\<in>{cst K LOCAL_TIMER_VECTOR, cst K APIC_LVT_TIMER_PERIODIC,
              SET_APIC_TIMER_BASE K (cst K APIC_TIMER_BASE_DIV)}.
          f AND cst K APIC_LVT_TIMER_TSCDEADLINE = 0 \<and> f AND cst K APIC_LVT_MASKED = 0)
     \<and> cst K APIC_LVT_TIMER_TSCDEADLINE AND cst K APIC_LVT_MASKED = 0
     \<and> cst K APIC_LVT_MASKED AND cst K APIC_LVT_TIMER_TSCDEADLINE = 0"

lemma sdm_timer_ok: "timer_ok sdm"
  by (simp add: timer_ok_def) (simp add: sdm_def)

lemma lvtt_value_bits:
  assumes "timer_ok K"
  shows "lvtt_value K oneshot deadline i irqen AND cst K APIC_LVT_TIMER_TSCDEADLINE =
      (if oneshot \<and> deadline then cst K APIC_LVT_TIMER_TSCDEADLINE else 0)"
    and "lvtt_value K oneshot deadline i irqen AND cst K APIC_LVT_MASKED =
      (if irqen then 0 else cst K APIC_LVT_MASKED)"
  using assms by (simp_all add: timer_ok_def lvtt_value_def Let_def bit.conj_disj_distrib2)



text \<open>
  Arming the deadline writes the deadline register once, with the time stamp counter plus eight
  times the delta; the sum wraps at 64 bits, so the deadline is in the future exactly when it fits.
\<close>

theorem lapic_next_deadline_programs:
  "\<exists>tsc s'. run_state (lapic_next_deadline K delta) s = (0, s')
     \<and> s' = s\<lparr>mach := (mach s)\<lparr>log := WrMsr (cst K MSR_IA32_TSC_DEADLINE) (tsc + 8 * delta)
          # Rdtsc # log (mach s)\<rparr>\<rparr>
     \<and> tsc = answer (mach s) (log (mach s)) Rdtsc
     \<and> unat (tsc + 8 * delta) = (unat tsc + 8 * unat delta) mod 2 ^ 64"
proof -
  have "unat (8 * delta) = (8 * unat delta) mod 2 ^ 64"
    using unat_word_ariths(2) [of 8 delta] by simp
  then have "unat (answer (mach s) (log (mach s)) Rdtsc + 8 * delta) =
      (unat (answer (mach s) (log (mach s)) Rdtsc) + 8 * unat delta) mod 2 ^ 64"
    by (simp add: unat_word_ariths(1) mod_add_right_eq)
  then show ?thesis
    by (simp add: lapic_next_deadline_def rdtsc_def on_mach_def machine_defs TSC_DIVISOR_def mult.commute)
qed

text \<open>
  The deadline timer is accepted exactly on a processor that has it and that is virtual, not in
  the table of broken processors, or runs new enough microcode; rejecting it on a processor that has
  it takes the feature away, and nothing else of the features changes.
\<close>

theorem apic_validate_deadline_timer_spec:
  "let s' = exec (apic_validate_deadline_timer K) s; ok = result (apic_validate_deadline_timer K) s;
       has = boot_caps s X86_FEATURE_TSC_DEADLINE_TIMER
   in (ok \<longleftrightarrow> has \<and> (boot_caps s X86_FEATURE_HYPERVISOR \<or> x86_match_cpu K s deadline_match = None
           \<or> the (x86_match_cpu K s deadline_match) \<le> microcode s))
    \<and> boot_caps s' = (boot_caps s)(X86_FEATURE_TSC_DEADLINE_TIMER := ok)"
  by (cases "boot_caps s X86_FEATURE_TSC_DEADLINE_TIMER"; cases "boot_caps s X86_FEATURE_HYPERVISOR";
      cases "x86_match_cpu K s deadline_match")
    (auto simp: apic_validate_deadline_timer_def kernel_run boot_cpu_has_def setup_clear_cpu_cap_def
      pr_info_def kcall_def call_def run_access_k fun_eq_iff)

text \<open>
  C30. A timer interrupt is acknowledged first. Without an event handler it is not counted: the timer
  is stopped, masked and with a zero count, unless it is a dummy. With one it is counted once and
  the handler is called once, and no register is written after the acknowledgement.
\<close>

theorem sysvec_apic_timer_interrupt_handles:
  assumes "apic s = mem_driver K a" and "\<not> apic_zzz_debug_flag s"
  shows "let s' = exec (sysvec_apic_timer_interrupt K cal) s; evt = lapic_events s;
             eoi = MemWr (reg_addr K APIC_EOI) (cst K APIC_EOI_ACK)
    in (ce_event_handler evt = None \<longrightarrow> (\<exists>v. mem_trace K (mach s') =
            (if ce_dummy evt then [] else [(reg K APIC_TMICT, 0),
               (reg K APIC_LVTT, v OR (cst K APIC_LVT_MASKED OR cst K LOCAL_TIMER_VECTOR))])
            @ (reg K APIC_EOI, cst K APIC_EOI_ACK) # mem_trace K (mach s))
          \<and> Call (inc_irq_stat ''apic_timer_irqs'') \<notin> set (take (length (log (mach s')) - length (log (mach s))) (log (mach s'))))
     \<and> (ce_event_handler evt = Some other_event_handler \<longrightarrow> log (mach s') =
            Call event_handler # Call (inc_irq_stat ''apic_timer_irqs'') # eoi # log (mach s))"
  using assms
  by (cases "ce_event_handler (lapic_events s)"; cases "ce_dummy (lapic_events s)")
    (simp_all add: Let_def sysvec_apic_timer_interrupt_def local_apic_timer_interrupt_def kernel_run run_ack
      lapic_timer_shutdown_def run_apic_read run_apic_write pr_info_def kcall_def call_def run_access_k mem_trace_def exI)

theorem sysvec_apic_timer_interrupt_handles_witness:
  "\<exists>ws. mem_trace sdm (mach (exec (sysvec_apic_timer_interrupt sdm (ret ())) (demo_mem (\<lambda>r. 0)))) = ws @ [(0xB0, 0)]"
  using sysvec_apic_timer_interrupt_handles [OF demo_mem_simps(1) [of "\<lambda>r. 0"], of "ret ()"]
  by (simp add: Let_def demo_event_def demo_mem_def demo_kernel_def mem_trace_def)

end
