(* ===== verification/X2apic.thy ===== *)
theory X2apic
  imports Timer
begin

text \<open>
  Switching between xAPIC and x2APIC mode: the base register (\<open>x2apic_hw_enable\<close> and
  \<open>x2apic_hw_disable\<close> are \<^verbatim>\<open>__x2apic_enable\<close> and \<^verbatim>\<open>__x2apic_disable\<close>), the state
  \<open>x2apic_state\<close> of the kernel with the flag \<open>x2apic_mode\<close>, the boot parameter, and the enabling together
  with interrupt remapping. The operations form a state machine whose runs are the inductive relation
  \<open>x2apic_reach\<close>. A panic is the value \<open>Inl\<close>. Only the messages' first occurrences would be printed by
  \<^verbatim>\<open>printk_once\<close>; the model logs every call.
\<close>

section \<open>The operations\<close>

definition x2apic_hw_disable :: "platform \<Rightarrow> unit kprog" where
  "x2apic_hw_disable K = do {
     has \<leftarrow> boot_cpu_has X86_FEATURE_APIC;
     (if \<not> has then ret ()
      else do {
        msr \<leftarrow> on_mach (rdmsrl (cst K MSR_IA32_APICBASE));
        (if \<not> c_true (msr AND ucast (cst K X2APIC_ENABLE)) then ret ()
         else do {
           on_mach (wrmsrl (cst K MSR_IA32_APICBASE)
             (msr AND NOT (ucast (cst K X2APIC_ENABLE) OR ucast (cst K XAPIC_ENABLE))));
           on_mach (wrmsrl (cst K MSR_IA32_APICBASE) (msr AND NOT (ucast (cst K X2APIC_ENABLE))));
           pr_info ''x2apic disabled'' }) }) }"

definition x2apic_hw_enable :: "platform \<Rightarrow> unit kprog" where
  "x2apic_hw_enable K = do {
     msr \<leftarrow> on_mach (rdmsrl (cst K MSR_IA32_APICBASE));
     (if c_true (msr AND ucast (cst K X2APIC_ENABLE)) then ret ()
      else do {
        on_mach (wrmsrl (cst K MSR_IA32_APICBASE) (msr OR ucast (cst K X2APIC_ENABLE)));
        pr_info ''x2apic enabled'' }) }"

definition setup_nox2apic :: "platform \<Rightarrow> int kprog" where
  "setup_nox2apic K = do {
     enabled \<leftarrow> x2apic_enabled K;
     refused \<leftarrow> (if enabled then do {
         v \<leftarrow> on_mach (native_apic_msr_read K (reg K APIC_ID));
         let apicid = sint v;
         (if apicid \<ge> 255 then do {
            pr_info ''Apicid: %08x, cannot enforce nox2apic'';
            ret True }
          else do {
            pr_info ''x2apic already enabled.'';
            x2apic_hw_disable K;
            ret False }) }
       else ret False);
     (if refused then ret 0
      else do {
        setup_clear_cpu_cap X86_FEATURE_X2APIC;
        modify (\<lambda>s. s\<lparr>x2apic_state := X2APIC_DISABLED\<rparr>);
        modify (\<lambda>s. s\<lparr>x2apic_mode := False\<rparr>);
        ret 0 }) }"

definition x2apic_setup :: "platform \<Rightarrow> unit kprog" where
  "x2apic_setup K = do {
     st \<leftarrow> gets x2apic_state;
     (if st \<noteq> X2APIC_ON then x2apic_hw_disable K else x2apic_hw_enable K) }"

definition register_lapic_address :: "platform \<Rightarrow> u64 \<Rightarrow> unit kprog" where
  "register_lapic_address K address = do {
     modify (\<lambda>s. s\<lparr>mp_lapic_addr := address\<rparr>);
     x2 \<leftarrow> gets x2apic_mode;
     whenM (\<not> x2) (do {
       kcall (set_fixmap_nocache address);
       apic_printk APIC_VERBOSE ''mapped APIC to %16lx (%16lx)'' });
     boot \<leftarrow> gets boot_cpu_physical_apicid;
     whenM (boot = - 1) (do {
       i \<leftarrow> read_apic_id K;
       modify (\<lambda>s. s\<lparr>boot_cpu_physical_apicid := i\<rparr>);
       v \<leftarrow> apic_read (reg K APIC_LVR);
       modify (\<lambda>s. s\<lparr>boot_cpu_apic_version := ucast (GET_APIC_VERSION K v)\<rparr>) }) }"

definition x2apic_disable :: "platform \<Rightarrow> unit kresult" where
  "x2apic_disable K = do {
     st \<leftarrow> gets x2apic_state;
     modify (\<lambda>s. s\<lparr>x2apic_mode := False\<rparr>);
     modify (\<lambda>s. s\<lparr>x2apic_state := X2APIC_DISABLED\<rparr>);
     (if st \<noteq> X2APIC_ON then fine (ret ())
      else do {
        x2apic_id \<leftarrow> read_apic_id K;
        (if x2apic_id \<ge> 255 then panic ''Cannot disable x2apic, id: %08x''
         else fine (do {
           x2apic_hw_disable K;
           address \<leftarrow> gets mp_lapic_addr;
           register_lapic_address K address })) }) }"

definition x2apic_enable :: "platform \<Rightarrow> unit kprog" where
  "x2apic_enable K = do {
     st \<leftarrow> gets x2apic_state;
     (if st \<noteq> X2APIC_OFF then ret ()
      else do {
        modify (\<lambda>s. s\<lparr>x2apic_mode := True\<rparr>);
        modify (\<lambda>s. s\<lparr>x2apic_state := X2APIC_ON\<rparr>);
        x2apic_hw_enable K }) }"

definition try_to_enable_x2apic :: "platform \<Rightarrow> int \<Rightarrow> unit kresult" where
  "try_to_enable_x2apic K remap_mode = do {
     st \<leftarrow> gets x2apic_state;
     (if st = X2APIC_DISABLED then fine (ret ())
      else if remap_mode \<noteq> IRQ_REMAP_X2APIC_MODE K then do {
        highest \<leftarrow> gets max_physical_apicid;
        available \<leftarrow> (if highest > 255 then ret 0 else kcall_int x2apic_available);
        (if \<not> c_true available then do {
           pr_info ''x2apic: IRQ remapping doesn't support X2APIC mode'';
           x2apic_disable K }
         else do {
           modify (\<lambda>s. s\<lparr>x2apic_phys := True\<rparr>);
           fine (x2apic_enable K) }) }
      else fine (x2apic_enable K)) }"

definition check_x2apic :: "platform \<Rightarrow> unit kprog" where
  "check_x2apic K = do {
     enabled \<leftarrow> x2apic_enabled K;
     (if enabled then do {
        pr_info ''x2apic: enabled by BIOS, switching to x2apic ops'';
        modify (\<lambda>s. s\<lparr>x2apic_mode := True\<rparr>);
        modify (\<lambda>s. s\<lparr>x2apic_state := X2APIC_ON\<rparr>) }
      else do {
        has \<leftarrow> boot_cpu_has X86_FEATURE_X2APIC;
        (if \<not> has then modify (\<lambda>s. s\<lparr>x2apic_state := X2APIC_DISABLED\<rparr>) else ret ()) }) }"

text \<open>The check of a kernel without x2APIC support.\<close>

definition validate_x2apic :: "platform \<Rightarrow> int kresult" where
  "validate_x2apic K = do {
     enabled \<leftarrow> on_mach (apic_is_x2apic_enabled K);
     (if \<not> enabled then fine (ret 0)
      else panic ''BIOS has enabled x2apic but kernel doesn't support x2apic'') }"

definition enable_IR_x2apic :: "platform \<Rightarrow> unit kresult" where
  "enable_IR_x2apic K = do {
     skip \<leftarrow> gets skip_ioapic_setup;
     (if skip then fine (pr_info ''Not enabling interrupt remapping due to skipped IO-APIC setup'')
      else do {
        prepared \<leftarrow> kcall_int irq_remapping_prepare;
        let ir_stat = sint prepared;
        supported \<leftarrow> boot_cpu_has X86_FEATURE_X2APIC;
        (if ir_stat < 0 \<and> \<not> supported then fine (ret ())
         else do {
           saved \<leftarrow> kcall_int save_ioapic_entries;
           (if c_true saved then fine (pr_info ''Saving IO-APIC state failed: %d'')
            else do {
              local_irq_save;
              kcall legacy_pic_mask_all;
              kcall mask_ioapic_entries;
              ir_stat \<leftarrow> (if ir_stat \<ge> 0 then do { v \<leftarrow> kcall_int irq_remapping_enable; ret (sint v) }
                         else ret ir_stat);
              andthen (try_to_enable_x2apic K ir_stat) (\<lambda>_. fine (do {
                whenM (ir_stat < 0) (kcall restore_ioapic_entries);
                kcall legacy_pic_restore_mask;
                local_irq_restore })) }) }) }) }"

section \<open>The state machine\<close>

text \<open>What of the state the switching is about; the hardware operations leave it alone.\<close>

definition x2s :: "kernel \<Rightarrow> bool \<times> x2apic_state_t" where
  "x2s s = (x2apic_mode s, x2apic_state s)"

lemma x2s_update [simp]:
  "x2s (s\<lparr>mach := m\<rparr>) = x2s s" "x2s (s\<lparr>mp_lapic_addr := a\<rparr>) = x2s s"
  "x2s (s\<lparr>boot_cpu_physical_apicid := i\<rparr>) = x2s s" "x2s (s\<lparr>boot_cpu_apic_version := v\<rparr>) = x2s s"
  "x2s (s\<lparr>boot_caps := c\<rparr>) = x2s s" "x2s (s\<lparr>x2apic_phys := b\<rparr>) = x2s s"
  by (simp_all add: x2s_def)

lemma wp_printk_once [wp]: "wp (apic_printk v msg) Q s = (if v \<le> apic_verbosity s
    then Q () (s\<lparr>mach := (mach s)\<lparr>log := Call (printk msg) # log (mach s)\<rparr>\<rparr>) else Q () s)"
  by (simp add: apic_printk_def wp)

lemma wp_x2apic_enabled [wp]: "wp (x2apic_enabled K) Q s =
    (if boot_caps s X86_FEATURE_X2APIC then wp (on_mach (apic_is_x2apic_enabled K)) Q s else Q False s)"
  by (simp add: x2apic_enabled_def wp)

lemma wp_read_apic_id [wp]: "wp (read_apic_id K) Q s =
    wp (apic_read (reg K APIC_ID)) (\<lambda>v s'. Q (drv_get_apic_id (apic s') (ucast v)) s') s"
  by (simp add: read_apic_id_def wp_def split: prod.splits)

lemmas x2_wp = wp wp_if wp_on_mach wp_apic_read_drv Let_def

lemma hw_keeps:
  "wp (x2apic_hw_disable K) (\<lambda>_ t. x2s t = x2s s) s"
  "wp (x2apic_hw_enable K) (\<lambda>_ t. x2s t = x2s s) s"
  "wp (register_lapic_address K addr) (\<lambda>_ t. x2s t = x2s s) s"
  by (simp_all add: x2apic_hw_disable_def x2apic_hw_enable_def register_lapic_address_def x2_wp)

lemma hw_stays:
  "x2s s = c \<Longrightarrow> wp (x2apic_hw_disable K) (\<lambda>_ t. x2s t = c) s"
  "x2s s = c \<Longrightarrow> wp (x2apic_hw_enable K) (\<lambda>_ t. x2s t = c) s"
  "x2s s = c \<Longrightarrow> wp (register_lapic_address K addr) (\<lambda>_ t. x2s t = c) s"
  using hw_keeps by blast+

lemma hw_disable_remap: "x2s s = c \<Longrightarrow> wp (x2apic_hw_disable K)
    (\<lambda>_. wp (gets mp_lapic_addr \<bind> register_lapic_address K) (\<lambda>_ t. x2s t = c)) s"
  by (erule wp_mono [OF hw_stays(1)]) (simp add: wp hw_stays(3))

lemma x2_disable: "wp (x2apic_disable K) (\<lambda>_ t. x2s t = (False, X2APIC_DISABLED)) s"
proof -
  have d: "wp (x2apic_hw_disable K) (\<lambda>_. wp (gets mp_lapic_addr \<bind> register_lapic_address K)
      (\<lambda>_ t. x2s t = (False, X2APIC_DISABLED)))
      (s\<lparr>x2apic_mode := False, x2apic_state := X2APIC_DISABLED, mach := m\<rparr>)" for m
    by (rule hw_disable_remap) (simp add: x2s_def)
  show ?thesis
    using d unfolding x2s_def prod.inject by (simp add: x2apic_disable_def wp wp_apic_read_drv)
qed

lemma x2_enable: "wp (x2apic_enable K) (\<lambda>_ t. x2s t =
    (if x2apic_state s = X2APIC_OFF then (True, X2APIC_ON) else x2s s)) s"
proof -
  have "wp (x2apic_hw_enable K) (\<lambda>_ t. x2s t = (True, X2APIC_ON)) (s\<lparr>x2apic_mode := True, x2apic_state := X2APIC_ON\<rparr>)"
    by (rule wp_mono [OF hw_keeps(2)]) (simp add: x2s_def)
  then show ?thesis
    by (simp add: x2apic_enable_def x2_wp)
qed

lemma x2_try: "wp (try_to_enable_x2apic K r) (\<lambda>_ t. x2s t = x2s s
    \<or> x2apic_state s \<noteq> X2APIC_DISABLED \<and> x2s t = (False, X2APIC_DISABLED)
    \<or> x2apic_state s = X2APIC_OFF \<and> x2s t = (True, X2APIC_ON)) s"
proof (cases "x2apic_state s = X2APIC_DISABLED")
  case True
  then show ?thesis by (simp add: try_to_enable_x2apic_def wp)
next
  case False
  let ?Q = "\<lambda>t. x2s t = x2s s \<or> x2s t = (False, X2APIC_DISABLED)
    \<or> x2apic_state s = X2APIC_OFF \<and> x2s t = (True, X2APIC_ON)"
  have e: "wp (x2apic_enable K) (\<lambda>_. ?Q) u" if "x2s u = x2s s" for u
    by (rule wp_mono [OF x2_enable]) (use that in \<open>auto simp: x2s_def split: if_splits\<close>)
  have d: "wp (x2apic_disable K) (\<lambda>_. ?Q) u" for u
    by (rule wp_mono [OF x2_disable]) simp
  from False show ?thesis
    by (simp add: try_to_enable_x2apic_def wp e d)
qed

lemma x2_remap: "wp (enable_IR_x2apic K) (\<lambda>_ t. x2s t = x2s s
    \<or> x2apic_state s \<noteq> X2APIC_DISABLED \<and> x2s t = (False, X2APIC_DISABLED)
    \<or> x2apic_state s = X2APIC_OFF \<and> x2s t = (True, X2APIC_ON)) s"
  by (simp add: enable_IR_x2apic_def wp Let_def)
    (intro conjI impI; (rule wp_mono [OF x2_try])?; auto simp: wp split: sum.split)

section \<open>Runs\<close>

text \<open>
  The order in which the boot uses the operations: the parameter while the command line is parsed,
  then the check of what the BIOS left, then enabling with interrupt remapping, and the setup of
  each processor. All other code leaves the two variables alone. A panic ends a run.
\<close>

datatype boot_phase = Early | Late

inductive x2apic_step :: "platform \<Rightarrow> boot_phase \<times> kernel \<Rightarrow> boot_phase \<times> kernel \<Rightarrow> bool" for K where
  nox2apic: "x2apic_step K (Early, s) (Early, exec (setup_nox2apic K) s)"
| check: "x2apic_step K (Early, s) (Late, exec (check_x2apic K) s)"
| remap: "result (enable_IR_x2apic K) s = Inr () \<Longrightarrow>
    x2apic_step K (Late, s) (Late, exec (enable_IR_x2apic K) s)"
| cpu: "x2apic_step K (Late, s) (Late, exec (x2apic_setup K) s)"
| other: "x2apic_mode t = x2apic_mode s \<Longrightarrow> x2apic_state t = x2apic_state s \<Longrightarrow>
    x2apic_step K (p, s) (p, t)"

inductive_cases x2apic_stepE: "x2apic_step K (p, s) (q, t)"

lemma wp_True [simp]: "wp p (\<lambda>_ _. True) s"
  by (simp add: wp_def split: prod.split)

text \<open>The structural rules as equations of predicates, for what follows an abstract operation.\<close>

lemma wp_fun:
  "wp (ret a) Q = Q a" "wp (modify f) R = (\<lambda>s. R () (f s))" "wp (gets g) Q = (\<lambda>s. Q (g s) s)"
  "wp (State_Monad.bind p h) T = wp p (\<lambda>a. wp (h a) T)"
  by (simp_all add: fun_eq_iff wp)

lemma x2_param: "wp (setup_nox2apic K) (\<lambda>_ t. x2s t = x2s s \<or> x2s t = (False, X2APIC_DISABLED)) s"
  by (simp add: setup_nox2apic_def setup_clear_cpu_cap_def wp wp_fun wp_on_mach Let_def x2s_def)

lemma x2_check: "wp (check_x2apic K) (\<lambda>_ t. x2s t = (True, X2APIC_ON)
    \<or> x2s t = (x2apic_mode s, X2APIC_DISABLED) \<or> x2s t = x2s s) s"
  by (simp add: check_x2apic_def wp wp_on_mach) (simp add: x2s_def)

lemma x2_setup: "wp (x2apic_setup K) (\<lambda>_ t. x2s t = x2s s) s"
  by (simp add: x2apic_setup_def wp hw_keeps)

lemma exec_x2s: "wp p (\<lambda>_ t. Q (x2s t)) s \<Longrightarrow> Q (x2s (exec p s))"
  by (rule wp_exec)

text \<open>Before the check x2APIC is not on; afterwards the flag is set exactly in the state \<open>X2APIC_ON\<close>.\<close>

definition x2apic_inv :: "boot_phase \<times> kernel \<Rightarrow> bool" where
  "x2apic_inv = (\<lambda>(p, s). x2apic_mode s = (x2apic_state s = X2APIC_ON)
     \<and> (p = Early \<longrightarrow> x2apic_state s \<noteq> X2APIC_ON))"

lemma x2apic_step_cases:
  assumes "x2apic_step K (p, s) (q, t)"
  shows "x2s t = x2s s \<or> x2s t = (False, X2APIC_DISABLED) \<or> x2s t = (x2apic_mode s, X2APIC_DISABLED) \<and> p = Early
    \<or> x2s t = (True, X2APIC_ON) \<and> q = Late \<and> (p = Early \<or> x2apic_state s = X2APIC_OFF)"
  using assms
proof (cases rule: x2apic_step.cases)
  case nox2apic
  then show ?thesis using exec_x2s [OF x2_param, of K s] by auto
next
  case check
  then show ?thesis using exec_x2s [OF x2_check, of K s] by auto
next
  case remap
  then show ?thesis using exec_x2s [OF x2_remap, of K s] by auto
next
  case cpu
  then show ?thesis using exec_x2s [OF x2_setup, of K s] by simp
next
  case other
  then show ?thesis by (simp add: x2s_def)
qed

lemma x2apic_step_phase: "x2apic_step K (p, s) (q, t) \<Longrightarrow> p = Late \<Longrightarrow> q = Late"
  by (erule x2apic_stepE) simp_all

lemma x2apic_inv_step:
  assumes "x2apic_step K x y" and "x2apic_inv x"
  shows "x2apic_inv y"
proof -
  obtain p s q t where xy: "x = (p, s)" "y = (q, t)" by fastforce
  show ?thesis
    using x2apic_step_cases [of K p s q t] x2apic_step_phase [of K p s q t] assms
    unfolding xy by (cases p; cases q) (auto simp: x2apic_inv_def x2s_def)
qed

lemma x2apic_inv_reach: "(x2apic_step K)\<^sup>*\<^sup>* x y \<Longrightarrow> x2apic_inv x \<Longrightarrow> x2apic_inv y"
  by (induction rule: rtranclp_induct) (simp_all add: x2apic_inv_step)

text \<open>Once the boot is past the check, a disabled x2APIC stays disabled.\<close>

lemma x2apic_disabled_reach:
  assumes "(x2apic_step K)\<^sup>*\<^sup>* x y" and "x = (Late, s)" and "x2s s = (False, X2APIC_DISABLED)"
  shows "fst y = Late \<and> x2s (snd y) = (False, X2APIC_DISABLED)"
  using assms
proof (induction rule: rtranclp_induct)
  case base
  then show ?case by simp
next
  case (step y z)
  then have "fst y = Late" "x2s (snd y) = (False, X2APIC_DISABLED)" by simp_all
  then show ?case
    using x2apic_step_cases [of K Late "snd y" "fst z" "snd z"] x2apic_step_phase [of K Late "snd y" "fst z" "snd z"]
      step.hyps(2) by (cases y; cases z) (auto simp: x2s_def)
qed

text \<open>
  C32. In every run of the boot that starts with x2APIC off, the flag \<open>x2apic_mode\<close> is set exactly when the
  state is \<open>X2APIC_ON\<close>; before the BIOS setting is checked it is not set; and a kernel that has
  passed the check with x2APIC disabled never enables it again.
\<close>

theorem x2apic_runs:
  assumes "(x2apic_step K)\<^sup>*\<^sup>* (Early, s0) (p, s)"
    and "x2apic_state s0 = X2APIC_OFF" and "\<not> x2apic_mode s0"
  shows "(x2apic_mode s = (x2apic_state s = X2APIC_ON)) \<and> (p = Early \<longrightarrow> \<not> x2apic_mode s)
    \<and> (p = Late \<and> x2apic_state s = X2APIC_DISABLED \<longrightarrow>
        (\<forall>q t. (x2apic_step K)\<^sup>*\<^sup>* (p, s) (q, t) \<longrightarrow> x2apic_state t = X2APIC_DISABLED \<and> \<not> x2apic_mode t))"
proof -
  have i: "x2apic_inv (p, s)"
    using x2apic_inv_reach [OF assms(1)] assms(2,3) by (simp add: x2apic_inv_def)
  show ?thesis
    using i x2apic_disabled_reach [of K "(p, s)" _ s] by (auto simp: x2apic_inv_def x2s_def)
qed

theorem x2apic_runs_witness:
  "x2apic_mode (exec (check_x2apic sdm) (demo_mem (\<lambda>r. 0))) =
    (x2apic_state (exec (check_x2apic sdm) (demo_mem (\<lambda>r. 0))) = X2APIC_ON)"
  using x2apic_runs [of sdm "demo_mem (\<lambda>r. 0)" Late "exec (check_x2apic sdm) (demo_mem (\<lambda>r. 0))"]
    r_into_rtranclp [of "x2apic_step sdm", OF check] by simp

section \<open>The base register\<close>

text \<open>The values written to the base register, newest first, and the transitions the processor allows.\<close>

definition base_write :: "platform \<Rightarrow> access \<Rightarrow> u64 option" where
  "base_write K c = (case c of WrMsr n v \<Rightarrow> if n = cst K MSR_IA32_APICBASE then Some v else None | _ \<Rightarrow> None)"

definition base_writes :: "platform \<Rightarrow> access list \<Rightarrow> u64 list" where
  "base_writes K = List.map_filter (base_write K)"

lemma base_writes_simps [simp]:
  "base_writes K [] = []"
  "base_writes K (WrMsr (cst K MSR_IA32_APICBASE) v # l) = v # base_writes K l"
  "base_writes K (RdMsr n # l) = base_writes K l" "base_writes K (RdMsrFaults n # l) = base_writes K l"
  "base_writes K (Call f # l) = base_writes K l"
  by (simp_all add: base_writes_def base_write_def List.map_filter_simps)

datatype apic_state = Apic_off | Xapic | X2apic_on | Apic_invalid

definition base_state :: "u64 \<Rightarrow> apic_state" where
  "base_state v = (if bit v 11 then if bit v 10 then X2apic_on else Xapic
     else if bit v 10 then Apic_invalid else Apic_off)"

fun legal :: "apic_state \<Rightarrow> apic_state \<Rightarrow> bool" where
  "legal Apic_off t = (t = Apic_off \<or> t = Xapic)"
| "legal Xapic t = (t \<noteq> Apic_invalid)"
| "legal X2apic_on t = (t = X2apic_on \<or> t = Apic_off)"
| "legal Apic_invalid t = False"

text \<open>A history of values of the base register, newest first.\<close>

fun legal_history :: "u64 list \<Rightarrow> bool" where
  "legal_history (v # u # l) = (legal (base_state u) (base_state v) \<and> legal_history (u # l))"
| "legal_history l = True"

definition x2apic_bits_ok :: "platform \<Rightarrow> bool" where
  "x2apic_bits_ok K \<longleftrightarrow> cst K X2APIC_ENABLE = BIT 10 \<and> cst K XAPIC_ENABLE = BIT 11"

lemma sdm_x2apic_bits_ok: "x2apic_bits_ok sdm"
  by (simp add: x2apic_bits_ok_def)

lemma ucast_BIT:
  "x2apic_bits_ok K \<Longrightarrow> (ucast (cst K X2APIC_ENABLE) :: u64) = BIT 10"
  "x2apic_bits_ok K \<Longrightarrow> (ucast (cst K XAPIC_ENABLE) :: u64) = BIT 11"
  by (simp_all add: x2apic_bits_ok_def)

lemma and_BIT_bit: "n < LENGTH('a) \<Longrightarrow> w AND BIT n \<noteq> 0 \<longleftrightarrow> bit (w :: 'a::len word) n"
  by (simp add: bit_iff_and_push_bit_not_eq_0 del: push_bit_of_1)

lemma bit_BIT: "bit (BIT n :: u64) k \<longleftrightarrow> k = n \<and> n < 64"
  by (auto simp: bit_exp_iff)

lemma wp_msr:
  "wp (on_mach (rdmsrl n)) Q s = Q (answer (mach s) (log (mach s)) (RdMsr n))
    (s\<lparr>mach := (mach s)\<lparr>log := RdMsr n # log (mach s)\<rparr>\<rparr>)"
  "wp (on_mach (wrmsrl n v)) R s = R () (s\<lparr>mach := (mach s)\<lparr>log := WrMsr n v # log (mach s)\<rparr>\<rparr>)"
  by (simp_all add: rdmsrl_def wrmsrl_def wp)

lemma hw_base_writes:
  assumes "x2apic_bits_ok K"
  shows "wp (x2apic_hw_disable K) (\<lambda>_ t. base_writes K (log (mach t)) =
      (let v = answer (mach s) (log (mach s)) (RdMsr (cst K MSR_IA32_APICBASE))
       in if boot_caps s X86_FEATURE_APIC \<and> bit v 10
          then [v AND NOT (BIT 10), v AND NOT (BIT 10 OR BIT 11)] else []) @ base_writes K (log (mach s))) s"
    and "wp (x2apic_hw_enable K) (\<lambda>_ t. base_writes K (log (mach t)) =
      (let v = answer (mach s) (log (mach s)) (RdMsr (cst K MSR_IA32_APICBASE))
       in if bit v 10 then [] else [v OR BIT 10]) @ base_writes K (log (mach s))) s"
  using assms
  by (simp_all add: x2apic_hw_disable_def x2apic_hw_enable_def wp wp_msr ucast_BIT and_BIT_bit Let_def
      del: push_bit_of_1)

text \<open>
  C33. Setting up a processor changes its base register only along the transitions the processor
  allows, from a register that is in xAPIC or x2APIC mode: never from x2APIC to xAPIC at once. It
  ends in x2APIC mode exactly when the kernel's state is \<open>X2APIC_ON\<close>, with all other bits as found.
\<close>

theorem x2apic_setup_legal:
  assumes "x2apic_bits_ok K" and "boot_caps s X86_FEATURE_APIC"
    and "v = answer (mach s) (log (mach s)) (RdMsr (cst K MSR_IA32_APICBASE))" and "bit v 11"
  shows "\<exists>ws. base_writes K (log (mach (exec (x2apic_setup K) s))) = ws @ base_writes K (log (mach s))
    \<and> legal_history (ws @ [v])
    \<and> base_state (hd (ws @ [v])) = (if x2apic_state s = X2APIC_ON then X2apic_on else Xapic)
    \<and> (\<forall>n. n \<noteq> 10 \<longrightarrow> bit (hd (ws @ [v])) n = bit v n)"
proof (cases "x2apic_state s = X2APIC_ON")
  case True
  have "wp (x2apic_setup K) (\<lambda>_ t. base_writes K (log (mach t)) =
      (if bit v 10 then [] else [v OR BIT 10]) @ base_writes K (log (mach s))) s"
    using True hw_base_writes(2) [OF assms(1), of s]
    by (simp add: x2apic_setup_def wp Let_def assms(3) del: push_bit_of_1 split del: if_split cong: if_cong)
  from wp_exec [OF this] show ?thesis
    using True assms(4) by (intro exI [of _ "if bit v 10 then [] else [v OR BIT 10]"])
      (simp add: base_state_def bit_or_iff bit_BIT del: push_bit_of_1)
next
  case False
  have "wp (x2apic_setup K) (\<lambda>_ t. base_writes K (log (mach t)) =
      (if bit v 10 then [v AND NOT (BIT 10), v AND NOT (BIT 10 OR BIT 11)] else []) @ base_writes K (log (mach s))) s"
    using False assms(2) hw_base_writes(1) [OF assms(1), of s]
    by (simp add: x2apic_setup_def wp Let_def assms(3) del: push_bit_of_1 split del: if_split cong: if_cong)
  from wp_exec [OF this] show ?thesis
    using False assms(4)
    by (intro exI [of _ "if bit v 10 then [v AND NOT (BIT 10), v AND NOT (BIT 10 OR BIT 11)] else []"])
      (auto simp add: base_state_def bit_and_iff bit_or_iff bit_not_iff bit_BIT simp del: push_bit_of_1
        dest: bit_imp_le_length)
qed

text \<open>A kernel whose hardware answers every read with \<open>v\<close>.\<close>

definition demo_const :: "u64 \<Rightarrow> kernel" where
  "demo_const v = (demo_mem (\<lambda>r. 0))\<lparr>mach := \<lparr>answer = (\<lambda>l c. v), log = []\<rparr>\<rparr>"

theorem x2apic_setup_legal_witness:
  "\<exists>ws. base_writes sdm (log (mach (exec (x2apic_setup sdm) (demo_const 0xC00)))) = ws
    \<and> legal_history (ws @ [0xC00]) \<and> base_state (hd (ws @ [0xC00])) = Xapic"
  using x2apic_setup_legal [OF sdm_x2apic_bits_ok, of "demo_const 0xC00" "0xC00"]
  by (auto simp: demo_const_def)

section \<open>Refusing and disabling\<close>

text \<open>
  Disabling always leaves the kernel in the state \<open>X2APIC_DISABLED\<close>. It panics exactly when x2APIC
  was on and this processor's identifier cannot be addressed in xAPIC mode (255 or more), and then
  the hardware has not been touched.
\<close>

theorem x2apic_disable_panics:
  "x2apic_state (exec (x2apic_disable K) s) = X2APIC_DISABLED \<and> \<not> x2apic_mode (exec (x2apic_disable K) s)
   \<and> ((\<exists>e. result (x2apic_disable K) s = Inl e) \<longleftrightarrow> x2apic_state s = X2APIC_ON \<and> 255 \<le> result (read_apic_id K) s)
   \<and> (x2apic_state s \<noteq> X2APIC_ON \<longrightarrow> mach (exec (x2apic_disable K) s) = mach s)
   \<and> (\<forall>e. result (x2apic_disable K) s = Inl e \<longrightarrow> mach (exec (x2apic_disable K) s) = mach (exec (read_apic_id K) s))"
proof -
  let ?P = "\<lambda>r t. (\<exists>e. r = Inl e) = (x2apic_state s = X2APIC_ON \<and> 255 \<le> result (read_apic_id K) s)
      \<and> (x2apic_state s \<noteq> X2APIC_ON \<longrightarrow> mach t = mach s)
      \<and> (\<forall>e. r = Inl e \<longrightarrow> mach t = mach (exec (read_apic_id K) s))"
  have "wp (x2apic_disable K) ?P s"
    by (simp add: x2apic_disable_def wp wp_fun wp_apic_read_drv read_apic_id_def kernel_run run_apic_read)
  then show ?thesis
    using wp_exec [OF x2_disable, of K s] by (simp add: wp_run x2s_def)
qed

theorem x2apic_disable_panics_witness:
  "mach (exec (x2apic_disable sdm) (demo_const 0)) = mach (demo_const 0)"
  using x2apic_disable_panics [of sdm "demo_const 0"] by (simp add: demo_const_def)

lemma sint_u32: "sint (w :: u32) = (if uint w < 2 ^ 31 then uint w else uint w - 2 ^ 32)"
proof -
  have u: "uint w < 2 ^ 32" "0 \<le> uint w" using uint_bounded [of w] by simp_all
  have "sint w = (uint w + 2 ^ 31) mod 2 ^ 32 - 2 ^ 31"
    by (simp add: sint_uint signed_take_bit_eq_take_bit_shift take_bit_eq_mod)
  moreover have "(uint w + 2 ^ 31) mod 2 ^ 32 = uint w - 2 ^ 31" if "\<not> uint w < 2 ^ 31"
  proof -
    have "(uint w + 2 ^ 31) mod 2 ^ 32 = (uint w - 2 ^ 31 + 2 ^ 32) mod 2 ^ 32" by (simp add: add.commute)
    also have "\<dots> = (uint w - 2 ^ 31) mod 2 ^ 32" by (rule mod_add_self2)
    also have "\<dots> = uint w - 2 ^ 31" using u that by (intro mod_pos_pos_trivial) simp_all
    finally show ?thesis .
  qed
  moreover have "(uint w + 2 ^ 31) mod 2 ^ 32 = uint w + 2 ^ 31" if "uint w < 2 ^ 31"
    using u that by (intro mod_pos_pos_trivial) simp_all
  ultimately show ?thesis by simp
qed

lemma sint_at_least: "255 \<le> sint (w :: u32) \<longleftrightarrow> 255 \<le> unat w \<and> unat w < 2 ^ 31"
proof -
  have "255 \<le> unat w \<longleftrightarrow> 255 \<le> uint w" and "unat w < 2 ^ 31 \<longleftrightarrow> uint w < 2 ^ 31"
    by (simp_all flip: nat_uint_eq add: nat_less_iff le_nat_iff)
  then show ?thesis using uint_bounded [of w] by (simp add: sint_u32)
qed

lemma hw_disable_caps: "boot_caps s = c \<Longrightarrow> wp (x2apic_hw_disable K) (\<lambda>_ t. f (boot_caps t) = f c) s"
  by (simp add: x2apic_hw_disable_def wp wp_on_mach Let_def)

lemma x2apic_id_run:
  "regs_ok K \<Longrightarrow> result (native_apic_msr_read K (reg K APIC_ID)) m =
    ucast (answer m (log m) (RdMsr (cst K APIC_BASE_MSR + drop_bit 4 (reg K APIC_ID))))"
  by (rule native_apic_msr_runs) (simp add: regs_ok_def inj_eq)



end
