(* ===== verification/Calibration.thy ===== *)
theory Calibration
  imports X2apic "HOL-Library.Signed_Division"
begin

text \<open>
  Calibrating the local APIC timer against the time stamp counter or the tick, checking the result
  against the PM timer, and the setup of the timer on the boot processor. The loops that wait for
  time to pass are partial functions into \<open>option\<close>: that they return is proved from the progress of
  the clock. While the code spins, interrupts arrive as the hardware pleases (the access \<open>TimerIrq\<close>).
  \<open>unsigned long\<close> and \<open>long\<close> are 64 bits wide; the base of \<^verbatim>\<open>do_div\<close> is 32 bits wide. Values that are
  only printed are left out.
\<close>

section \<open>The operations\<close>

definition LAPIC_CAL_LOOPS :: "platform \<Rightarrow> nat" where
  "LAPIC_CAL_LOOPS K = HZ K div 10"

text \<open>Without the PM timer the kernel's reader is a stub that gives 0.\<close>

definition acpi_pm_read_early :: "platform \<Rightarrow> u64 kprog" where
  "acpi_pm_read_early K = (if CONFIG_X86_PM_TIMER K then on_mach (access PmTimer) else ret 0)"

definition lapic_cal_handler :: "platform \<Rightarrow> unit kprog" where
  "lapic_cal_handler K = do {
     v \<leftarrow> apic_read (reg K APIC_TMCCT);
     let tapic = (ucast v :: u64);
     pm \<leftarrow> acpi_pm_read_early K;
     has \<leftarrow> boot_cpu_has X86_FEATURE_TSC;
     tsc \<leftarrow> (if has then rdtsc else ret 0);
     n \<leftarrow> gets lapic_cal_loops;
     modify (\<lambda>s. s\<lparr>lapic_cal_loops := n + 1\<rparr>);
     (if n = 0 then do {
        modify (\<lambda>s. s\<lparr>lapic_cal_t1 := tapic, lapic_cal_tsc1 := tsc, lapic_cal_pm1 := pm\<rparr>);
        j \<leftarrow> jiffies;
        modify (\<lambda>s. s\<lparr>lapic_cal_j1 := j\<rparr>) }
      else if n = int (LAPIC_CAL_LOOPS K) then do {
        pm1 \<leftarrow> gets lapic_cal_pm1;
        let pm = (if pm < pm1 then pm + ACPI_PM_OVRRUN K else pm);
        modify (\<lambda>s. s\<lparr>lapic_cal_t2 := tapic, lapic_cal_tsc2 := tsc, lapic_cal_pm2 := pm\<rparr>);
        j \<leftarrow> jiffies;
        modify (\<lambda>s. s\<lparr>lapic_cal_j2 := j\<rparr>) }
      else ret ()) }"

text \<open>The result, with the corrected \<open>delta\<close> and \<open>deltatsc\<close>.\<close>

definition calibrate_by_pmtimer :: "platform \<Rightarrow> u64 \<Rightarrow> u64 \<Rightarrow> u64 \<Rightarrow> (int \<times> u64 \<times> u64) kprog" where
  "calibrate_by_pmtimer K deltapm delta deltatsc = (
     let pm_100ms = PMTMR_TICKS_PER_SEC K div 10; pm_thresh = pm_100ms div 100 in
     if \<not> CONFIG_X86_PM_TIMER K then ret (- 1, delta, deltatsc)
     else do {
       apic_printk APIC_VERBOSE ''... PM-Timer delta = %ld'';
       (if deltapm = 0 then ret (- 1, delta, deltatsc)
        else if pm_100ms - pm_thresh <s deltapm \<and> deltapm <s pm_100ms + pm_thresh then do {
          apic_printk APIC_VERBOSE ''... PM-Timer result ok'';
          ret (0, delta, deltatsc) }
        else do {
          pr_info ''APIC calibration not consistent with PM-Timer: %ldms instead of 100ms'';
          let base = (ucast (ucast deltapm :: u32) :: u64);
          pr_info ''APIC delta adjusted to PM-Timer: %lu (%ld)'';
          let delta' = (delta * pm_100ms) div base;
          has \<leftarrow> boot_cpu_has X86_FEATURE_TSC;
          (if has then do {
             apic_printk APIC_VERBOSE ''TSC delta adjusted to PM-Timer: %lu (%ld)'';
             ret (0, delta', (deltatsc * pm_100ms) div base) }
           else ret (0, delta', deltatsc)) }) })"

definition lapic_init_clockevent :: "platform \<Rightarrow> int kprog" where
  "lapic_init_clockevent K = do {
     period \<leftarrow> gets lapic_timer_period;
     (if period = 0 then ret (- 1)
      else do {
        modify (\<lambda>s. s\<lparr>lapic_clockevent := (lapic_clockevent s)\<lparr>ce_mult :=
          ucast (div_sc K (ucast (period div APIC_DIVISOR)) (TICK_NSEC K) (ce_shift (lapic_clockevent s)))\<rparr>\<rparr>);
        modify (\<lambda>s. s\<lparr>lapic_clockevent := (lapic_clockevent s)\<lparr>ce_max_delta_ns :=
          clockevent_delta2ns K 0x7FFFFFFF (ce_mult (lapic_clockevent s)) (ce_shift (lapic_clockevent s))\<rparr>\<rparr>);
        modify (\<lambda>s. s\<lparr>lapic_clockevent := (lapic_clockevent s)\<lparr>ce_max_delta_ticks := 0x7FFFFFFF\<rparr>\<rparr>);
        modify (\<lambda>s. s\<lparr>lapic_clockevent := (lapic_clockevent s)\<lparr>ce_min_delta_ns :=
          clockevent_delta2ns K 0xF (ce_mult (lapic_clockevent s)) (ce_shift (lapic_clockevent s))\<rparr>\<rparr>);
        modify (\<lambda>s. s\<lparr>lapic_clockevent := (lapic_clockevent s)\<lparr>ce_min_delta_ticks := 0xF\<rparr>\<rparr>);
        ret 0 }) }"

text \<open>Where the waiting for the next tick stands.\<close>

record cal_clock =
  tsc_perj :: u64
  tsc_start :: u64
  jif_start :: u64

definition cal_poll :: "cal_clock \<Rightarrow> (cal_clock option) kprog" where
  "cal_poll c = do {
     khz \<leftarrow> gets tsc_khz;
     (if c_true khz then do {
        tsc_now \<leftarrow> rdtsc;
        ret (if tsc_now - tsc_start c \<ge> tsc_perj c
             then Some (c\<lparr>tsc_start := tsc_start c + tsc_perj c\<rparr>) else None) }
      else do {
        jif_now \<leftarrow> jiffies;
        ret (if jif_start c - jif_now <s 0 then Some (c\<lparr>jif_start := jif_now\<rparr>) else None) }) }"

partial_function (option) cal_wait :: "cal_clock \<Rightarrow> kernel \<Rightarrow> (cal_clock \<times> kernel) option" where
  "cal_wait c s = (case run_state (cal_poll c) s of
     (Some c', s') \<Rightarrow> Some (c', s')
   | (None, s') \<Rightarrow> cal_wait c (exec cpu_relax s'))"

definition cal_sample :: "platform \<Rightarrow> unit kprog" where
  "cal_sample K = do { local_irq_disable; lapic_cal_handler K; local_irq_enable }"

partial_function (option) cal_loop :: "platform \<Rightarrow> cal_clock \<Rightarrow> kernel \<Rightarrow> kernel option" where
  "cal_loop K c s =
     (if lapic_cal_loops s \<le> int (LAPIC_CAL_LOOPS K)
      then Option.bind (cal_wait c s) (\<lambda>(c', s'). cal_loop K c' (exec (cal_sample K) s'))
      else Some s)"

text \<open>The second loop only spins; the timer interrupt calls the handler.\<close>

definition verify_step :: "platform \<Rightarrow> unit kprog" where
  "verify_step K = do {
     cpu_relax;
     irq \<leftarrow> on_mach (access TimerIrq);
     whenM (c_true irq) (sysvec_apic_timer_interrupt K (lapic_cal_handler K)) }"

partial_function (option) verify_loop :: "platform \<Rightarrow> kernel \<Rightarrow> kernel option" where
  "verify_loop K s =
     (if lapic_cal_loops s \<le> int (LAPIC_CAL_LOOPS K) then verify_loop K (exec (verify_step K) s) else Some s)"

definition set_dummy :: "bool \<Rightarrow> unit kprog" where
  "set_dummy d = modify (\<lambda>s. s\<lparr>lapic_events := (lapic_events s)\<lparr>ce_dummy := d\<rparr>\<rparr>)"

definition clear_template_dummy :: "unit kprog" where
  "clear_template_dummy = modify (\<lambda>s. s\<lparr>lapic_clockevent := (lapic_clockevent s)\<lparr>ce_dummy := False\<rparr>\<rparr>)"

text \<open>Up to the first loop, from its end to the frequency check, and the verification.\<close>

definition cal_begin :: "platform \<Rightarrow> cal_clock kprog" where
  "cal_begin K = do {
     apic_printk APIC_VERBOSE ''Using local APIC timer interrupts. calibrating APIC timer ...'';
     local_irq_disable;
     setup_APIC_LVTT K 0xffffffff False False;
     j \<leftarrow> jiffies;
     khz \<leftarrow> gets tsc_khz;
     c \<leftarrow> (if c_true khz then do {
         t \<leftarrow> rdtsc;
         ret \<lparr>tsc_perj = (ucast khz * 1000) div of_nat (HZ K), tsc_start = t, jif_start = j\<rparr> }
       else ret \<lparr>tsc_perj = 0, tsc_start = 0, jif_start = j\<rparr>);
     local_irq_enable;
     ret c }"

definition cal_end :: "platform \<Rightarrow> bool kprog" where
  "cal_end K = do {
     local_irq_disable;
     t1 \<leftarrow> gets lapic_cal_t1;
     t2 \<leftarrow> gets lapic_cal_t2;
     apic_printk APIC_VERBOSE ''... lapic delta = %ld'';
     tsc1 \<leftarrow> gets lapic_cal_tsc1;
     tsc2 \<leftarrow> gets lapic_cal_tsc2;
     pm1 \<leftarrow> gets lapic_cal_pm1;
     pm2 \<leftarrow> gets lapic_cal_pm2;
     (r, delta, deltatsc) \<leftarrow> calibrate_by_pmtimer K (pm2 - pm1) (t1 - t2) (tsc2 - tsc1);
     let pm_referenced = (r = 0);
     modify (\<lambda>s. s\<lparr>lapic_timer_period :=
       word_of_int (sint (delta * ucast APIC_DIVISOR) sdiv int (LAPIC_CAL_LOOPS K))\<rparr>);
     _ \<leftarrow> lapic_init_clockevent K;
     apic_printk APIC_VERBOSE ''..... delta %ld'';
     apic_printk APIC_VERBOSE ''..... mult: %u'';
     apic_printk APIC_VERBOSE ''..... calibration result: %u'';
     has \<leftarrow> boot_cpu_has X86_FEATURE_TSC;
     whenM has (apic_printk APIC_VERBOSE ''..... CPU clock speed is %ld.%04ld MHz.'');
     apic_printk APIC_VERBOSE ''..... host bus clock speed is %u.%04u MHz.'';
     ret pm_referenced }"

definition verify_begin :: "platform \<Rightarrow> unit kprog" where
  "verify_begin K = do {
     apic_printk APIC_VERBOSE ''... verify APIC timer'';
     modify (\<lambda>s. s\<lparr>lapic_events := (lapic_events s)\<lparr>ce_event_handler := Some lapic_cal_handler_fn\<rparr>\<rparr>);
     levt \<leftarrow> gets lapic_events;
     _ \<leftarrow> lapic_timer_set_periodic K levt;
     modify (\<lambda>s. s\<lparr>lapic_cal_loops := - 1\<rparr>);
     local_irq_enable }"

definition verify_end :: "platform \<Rightarrow> unit kprog" where
  "verify_end K = do {
     local_irq_disable;
     levt \<leftarrow> gets lapic_events;
     _ \<leftarrow> lapic_timer_shutdown K levt;
     j1 \<leftarrow> gets lapic_cal_j1;
     j2 \<leftarrow> gets lapic_cal_j2;
     let deltaj = j2 - j1;
     apic_printk APIC_VERBOSE ''... jiffies delta = %lu'';
     (if deltaj \<ge> of_int (int (LAPIC_CAL_LOOPS K) - 2) \<and> deltaj \<le> of_nat (LAPIC_CAL_LOOPS K + 2)
      then apic_printk APIC_VERBOSE ''... jiffies result ok''
      else set_dummy True) }"

definition cal_finish :: "int kprog" where
  "cal_finish = do {
     local_irq_enable;
     levt \<leftarrow> gets lapic_events;
     (if ce_dummy levt then do {
        pr_info ''APIC timer disabled due to verification failure'';
        ret (- 1) }
      else ret 0) }"

text \<open>What follows the first loop: the sanity check and the verification.\<close>

definition cal_check :: "platform \<Rightarrow> kernel \<Rightarrow> (int \<times> kernel) option" where
  "cal_check K s = (case run_state (cal_end K) s of (pm_referenced, s) \<Rightarrow>
      if unat (lapic_timer_period s) < 1000000 div HZ K then Some (- 1, exec (do {
        local_irq_enable;
        pr_info ''APIC frequency too slow, disabling apic timer'' }) s)
      else let s = exec (set_dummy False) s in
      if \<not> pm_referenced \<and> global_clock_event s
      then Option.bind (verify_loop K (exec (verify_begin K) s)) (\<lambda>s.
        Some (run_state cal_finish (exec (verify_end K) s)))
      else Some (run_state cal_finish s))"

definition calibrate_APIC_clock :: "platform \<Rightarrow> kernel \<Rightarrow> (int \<times> kernel) option" where
  "calibrate_APIC_clock K s =
     (if boot_caps s X86_FEATURE_TSC_DEADLINE_TIMER then Some (0, s)
      else case run_state (lapic_init_clockevent K) s of (r, s) \<Rightarrow>
      if r = 0 then Some (0, exec (do {
        apic_printk APIC_VERBOSE ''lapic timer already calibrated %d'';
        clear_template_dummy }) s)
      else case run_state (cal_begin K) s of (c, s) \<Rightarrow> Option.bind (cal_loop K c s) (cal_check K))"

definition setup_boot_APIC_clock :: "platform \<Rightarrow> kernel \<Rightarrow> kernel option" where
  "setup_boot_APIC_clock K s =
     (if disable_apic_timer s
      then Some (exec (do {
        pr_info ''Disabling APIC timer'';
        possible \<leftarrow> gets cpu_possible;
        whenM (card possible > 1) (do {
          modify (\<lambda>s. s\<lparr>lapic_clockevent := (lapic_clockevent s)\<lparr>ce_mult := 1\<rparr>\<rparr>);
          setup_APIC_timer }) }) s)
      else Option.bind (calibrate_APIC_clock K s) (\<lambda>(r, s).
        if r \<noteq> 0 then Some (exec (do {
          possible \<leftarrow> gets cpu_possible;
          whenM (card possible > 1) setup_APIC_timer }) s)
        else Some (exec (do {
          clear_template_dummy;
          setup_APIC_timer;
          kcall amd_e400_c1e_apic_setup }) s)))"

section \<open>The first loop\<close>

text \<open>The log after \<open>n\<close> polls of the time stamp counter in vain.\<close>

abbreviation tsc_polls :: "nat \<Rightarrow> access list \<Rightarrow> access list" where
  "tsc_polls \<equiv> polled [CpuRelax, Rdtsc]"

text \<open>The time stamp counter gets past every point in time, if it is polled long enough.\<close>

definition tsc_advances :: "machine \<Rightarrow> u64 \<Rightarrow> bool" where
  "tsc_advances m perj \<longleftrightarrow> (\<forall>l start. \<exists>n. perj \<le> answer m (tsc_polls n l) Rdtsc - start)"

lemma cal_wait_unfold:
  "cal_wait c s = (if result (cal_poll c) s = None then cal_wait c (exec cpu_relax (exec (cal_poll c) s))
     else Some (the (result (cal_poll c) s), exec (cal_poll c) s))"
  by (subst cal_wait.simps) (auto simp: exec_def result_def split: prod.split option.split)

lemma cal_wait_least:
  assumes "cal_wait c s = Some r"
    and "\<And>t. result (cal_poll c) t \<noteq> None \<Longrightarrow> P t"
    and "\<And>t. result (cal_poll c) t = None \<Longrightarrow> P (exec cpu_relax (exec (cal_poll c) t)) \<Longrightarrow> P t"
  shows "P s"
proof -
  have "d = c \<longrightarrow> P t" if "cal_wait d t = Some r" for d t
    using that by (rule cal_wait.raw_induct [rotated])
      (use assms(2,3) in \<open>auto simp: exec_def result_def split: prod.splits option.splits\<close>)
  with assms(1) show ?thesis by blast
qed

lemma cal_poll_tsc:
  assumes "tsc_khz s \<noteq> 0"
  shows "result (cal_poll c) (with_log l s) = (if tsc_perj c \<le> answer (mach s) l Rdtsc - tsc_start c
      then Some (c\<lparr>tsc_start := tsc_start c + tsc_perj c\<rparr>) else None)"
    and "exec (cal_poll c) (with_log l s) = with_log (Rdtsc # l) s"
  using assms by (simp_all add: cal_poll_def rdtsc_def on_mach_def kernel_run with_log_def)

interpretation cal: poll_loop "cal_wait c" "\<lambda>s. result (cal_poll c) s = None"
  "\<lambda>s. exec cpu_relax (exec (cal_poll c) s)" "\<lambda>s. (the (result (cal_poll c) s), exec (cal_poll c) s)"
  "[CpuRelax, Rdtsc]" "\<lambda>s. tsc_khz s \<noteq> 0" for c
proof unfold_locales
  show "cal_wait c s = (if result (cal_poll c) s = None
      then cal_wait c (exec cpu_relax (exec (cal_poll c) s))
      else Some (the (result (cal_poll c) s), exec (cal_poll c) s))" for s
    by (rule cal_wait_unfold)
  show "exec cpu_relax (exec (cal_poll c) s) = with_log ([CpuRelax, Rdtsc] @ log (mach s)) s"
    if "tsc_khz s \<noteq> 0" for s
    using cal_poll_tsc(2) [OF that, of c "log (mach s)"]
    by (simp add: cpu_relax_def kernel_run on_mach_def with_log_def)
qed (auto simp: with_log_def intro: cal_wait_least)

lemma cal_wait_returns:
  assumes "tsc_khz s \<noteq> 0" and "tsc_advances (mach s) (tsc_perj c)"
  obtains n where "cal_wait c s = Some (c\<lparr>tsc_start := tsc_start c + tsc_perj c\<rparr>,
    s\<lparr>mach := (mach s)\<lparr>log := Rdtsc # tsc_polls n (log (mach s))\<rparr>\<rparr>)"
proof -
  let ?w = "\<lambda>n. with_log (tsc_polls n (log (mach s))) s"
  obtain n where "tsc_perj c \<le> answer (mach s) (tsc_polls n (log (mach s))) Rdtsc - tsc_start c"
    using assms(2) unfolding tsc_advances_def by blast
  then have "result (cal_poll c) (?w n) \<noteq> None"
    by (simp add: cal_poll_tsc [OF assms(1)])
  with cal.loop_idle [where c = c and s = s and n = n] obtain k where "result (cal_poll c) (?w k) \<noteq> None"
    and "cal_wait c s = Some (the (result (cal_poll c) (?w k)), exec (cal_poll c) (?w k))"
    by (auto simp: cal.polls [where c = c, OF assms(1)])
  then show thesis
    using that by (auto simp: cal_poll_tsc [OF assms(1)] split: if_splits simp flip: with_log_def)
qed

text \<open>The reads of the current count, and the value the \<open>k\<close>-th of them gave.\<close>

definition samples :: "platform \<Rightarrow> access list \<Rightarrow> nat" where
  "samples K l = length (filter (\<lambda>c. c = MemRd (reg_addr K APIC_TMCCT)) l)"

definition sampled :: "platform \<Rightarrow> machine \<Rightarrow> nat \<Rightarrow> u64 \<Rightarrow> bool" where
  "sampled K m k v \<longleftrightarrow>
     (\<exists>l. samples K l = k \<and> v = ucast (ucast (answer m l (MemRd (reg_addr K APIC_TMCCT))) :: u32))"

lemma samples_simps [simp]:
  "samples K (MemRd (reg_addr K APIC_TMCCT) # l) = Suc (samples K l)"
  "samples K (Rdtsc # l) = samples K l" "samples K (CpuRelax # l) = samples K l"
  "samples K (PmTimer # l) = samples K l" "samples K (Jiffies # l) = samples K l"
  "samples K (IrqDisable # l) = samples K l" "samples K (IrqEnable # l) = samples K l"
  by (simp_all add: samples_def)

lemma samples_polls [simp]: "samples K (tsc_polls n l) = samples K l"
  by (induction n) simp_all

lemma sampled_log [simp]: "sampled K (m\<lparr>log := l\<rparr>) k v = sampled K m k v"
  by (simp add: sampled_def)

lemma sampledI: "samples K l = k \<Longrightarrow>
    sampled K m k (ucast (ucast (answer m l (MemRd (reg_addr K APIC_TMCCT))) :: u32))"
  unfolding sampled_def by blast

text \<open>What the calibration never changes.\<close>

definition cal_env :: "kernel \<Rightarrow> (access list \<Rightarrow> access \<Rightarrow> u64) \<times> apic_drv \<times> u32 \<times> bool \<times> bool
    \<times> (cpu_feature \<Rightarrow> bool) \<times> nat set" where
  "cal_env s = (answer (mach s), apic s, tsc_khz s, global_clock_event s, ce_dummy (lapic_clockevent s),
     this_caps s, cpu_possible s)"

text \<open>One call of the handler.\<close>

lemma wp_cal_handler:
  assumes "apic s = mem_driver K a"
  shows "wp (lapic_cal_handler K) (\<lambda>_ t. cal_env t = cal_env s
    \<and> lapic_events t = lapic_events s \<and> lapic_timer_period t = lapic_timer_period s
    \<and> samples K (log (mach t)) = Suc (samples K (log (mach s))) \<and> lapic_cal_loops t = lapic_cal_loops s + 1
    \<and> (if lapic_cal_loops s = 0 then sampled K (mach s) (samples K (log (mach s))) (lapic_cal_t1 t)
       else lapic_cal_t1 t = lapic_cal_t1 s)
    \<and> (lapic_cal_loops s = int (LAPIC_CAL_LOOPS K) \<longrightarrow> lapic_cal_loops s \<noteq> 0 \<longrightarrow>
         sampled K (mach s) (samples K (log (mach s))) (lapic_cal_t2 t))) s"
  using assms
  by (simp add: cal_env_def lapic_cal_handler_def acpi_pm_read_early_def rdtsc_def jiffies_def wp wp_read_mem
      Let_def sampledI)

lemma wp_cal_sample:
  assumes "apic s = mem_driver K a"
  shows "wp (cal_sample K) (\<lambda>_ t. cal_env t = cal_env s
    \<and> lapic_events t = lapic_events s \<and> lapic_timer_period t = lapic_timer_period s
    \<and> samples K (log (mach t)) = Suc (samples K (log (mach s))) \<and> lapic_cal_loops t = lapic_cal_loops s + 1
    \<and> (if lapic_cal_loops s = 0 then sampled K (mach s) (samples K (log (mach s))) (lapic_cal_t1 t)
       else lapic_cal_t1 t = lapic_cal_t1 s)
    \<and> (lapic_cal_loops s = int (LAPIC_CAL_LOOPS K) \<longrightarrow> lapic_cal_loops s \<noteq> 0 \<longrightarrow>
         sampled K (mach s) (samples K (log (mach s))) (lapic_cal_t2 t))) s"
proof -
  let ?s = "s\<lparr>mach := (mach s)\<lparr>log := IrqDisable # log (mach s)\<rparr>\<rparr>"
  have "apic ?s = mem_driver K a" using assms by simp
  from wp_cal_handler [OF this] show ?thesis
    by (auto simp: cal_sample_def wp elim!: wp_mono) (auto simp: cal_env_def)
qed

text \<open>The state of the loop after \<open>k\<close> samples, when it started in \<open>s0\<close>.\<close>

definition cal_inv :: "platform \<Rightarrow> apic_drv \<Rightarrow> u64 \<Rightarrow> kernel \<Rightarrow> nat \<Rightarrow> kernel \<Rightarrow> bool" where
  "cal_inv K a perj s0 k s \<longleftrightarrow> cal_env s = cal_env s0 \<and> apic s = mem_driver K a \<and> tsc_khz s \<noteq> 0
     \<and> tsc_advances (mach s) perj \<and> 0 < LAPIC_CAL_LOOPS K
     \<and> lapic_cal_loops s = int k - 1 \<and> samples K (log (mach s)) = samples K (log (mach s0)) + k
     \<and> (2 \<le> k \<longrightarrow> sampled K (mach s0) (samples K (log (mach s0)) + 1) (lapic_cal_t1 s))
     \<and> (k = LAPIC_CAL_LOOPS K + 2 \<longrightarrow>
          sampled K (mach s0) (samples K (log (mach s0)) + LAPIC_CAL_LOOPS K + 1) (lapic_cal_t2 s))"

text \<open>These notions depend on the answers of the machine only.\<close>

lemma same_answers:
  "answer m' = answer m \<Longrightarrow> sampled K m' k v = sampled K m k v"
  "answer m' = answer m \<Longrightarrow> tsc_advances m' p = tsc_advances m p"
  by (simp_all add: sampled_def tsc_advances_def)

lemma cal_env_answers: "cal_env t = cal_env s \<Longrightarrow>
    sampled K (mach t) k v = sampled K (mach s) k v \<and> tsc_advances (mach t) p = tsc_advances (mach s) p
      \<and> apic t = apic s \<and> tsc_khz t = tsc_khz s"
  by (simp add: cal_env_def same_answers [of "mach t" "mach s"])

lemma cal_env_log [simp]: "cal_env (s\<lparr>mach := (mach s)\<lparr>log := l\<rparr>\<rparr>) = cal_env s"
  by (simp add: cal_env_def)

lemma cal_inv_sample:
  assumes "cal_inv K a perj s0 k s" and "k < LAPIC_CAL_LOOPS K + 2"
  shows "cal_inv K a perj s0 (Suc k) (exec (cal_sample K) (s\<lparr>mach := (mach s)\<lparr>log := Rdtsc # tsc_polls n (log (mach s))\<rparr>\<rparr>))"
proof -
  let ?s = "s\<lparr>mach := (mach s)\<lparr>log := Rdtsc # tsc_polls n (log (mach s))\<rparr>\<rparr>"
  have "apic ?s = mem_driver K a" using assms(1) by (simp add: cal_inv_def)
  from wp_cal_sample [OF this] show ?thesis
    using assms cal_env_answers [of s s0 K] cal_env_answers [of "exec (cal_sample K) ?s" s0]
    by (auto simp: wp_run cal_inv_def split: if_splits)
qed

lemma cal_loop_returns:
  "cal_inv K a (tsc_perj c) s0 k s \<Longrightarrow> k \<le> LAPIC_CAL_LOOPS K + 2 \<Longrightarrow>
    \<exists>t. cal_loop K c s = Some t \<and> cal_inv K a (tsc_perj c) s0 (LAPIC_CAL_LOOPS K + 2) t"
proof (induction "LAPIC_CAL_LOOPS K + 2 - k" arbitrary: k c s)
  case 0
  then have "k = LAPIC_CAL_LOOPS K + 2" by simp
  then show ?case
    using 0 by (subst cal_loop.simps) (simp add: cal_inv_def)
next
  case (Suc d)
  then have k: "k < LAPIC_CAL_LOOPS K + 2" by simp
  have "tsc_khz s \<noteq> 0" "tsc_advances (mach s) (tsc_perj c)"
    using Suc.prems(1) by (auto simp: cal_inv_def)
  then obtain n where w: "cal_wait c s = Some (c\<lparr>tsc_start := tsc_start c + tsc_perj c\<rparr>,
      s\<lparr>mach := (mach s)\<lparr>log := Rdtsc # tsc_polls n (log (mach s))\<rparr>\<rparr>)"
    by (rule cal_wait_returns)
  have "lapic_cal_loops s \<le> int (LAPIC_CAL_LOOPS K)" using Suc.prems(1) k by (simp add: cal_inv_def)
  then have "cal_loop K c s = cal_loop K (c\<lparr>tsc_start := tsc_start c + tsc_perj c\<rparr>)
      (exec (cal_sample K) (s\<lparr>mach := (mach s)\<lparr>log := Rdtsc # tsc_polls n (log (mach s))\<rparr>\<rparr>))"
    by (subst cal_loop.simps) (simp add: w)
  then show ?case
    using Suc.hyps(1) [of "Suc k" "c\<lparr>tsc_start := tsc_start c + tsc_perj c\<rparr>"] cal_inv_sample [OF Suc.prems(1) k, of n]
      Suc.hyps(2) k by simp
qed

section \<open>Properties\<close>

text \<open>
  With a known frequency and a time stamp counter that advances, the calibration loop returns.
  It has then taken one sample before the measurement, one at its start and one after each of
  \<open>LAPIC_CAL_LOOPS\<close> ticks, and the two values kept are the second and the last sample.
\<close>

theorem cal_loop_samples:
  assumes "apic s = mem_driver K a" and "tsc_khz s \<noteq> 0" and "tsc_advances (mach s) (tsc_perj c)"
    and "0 < LAPIC_CAL_LOOPS K" and "lapic_cal_loops s = - 1"
  shows "\<exists>t. cal_loop K c s = Some t
    \<and> samples K (log (mach t)) = samples K (log (mach s)) + LAPIC_CAL_LOOPS K + 2
    \<and> sampled K (mach s) (samples K (log (mach s)) + 1) (lapic_cal_t1 t)
    \<and> sampled K (mach s) (samples K (log (mach s)) + LAPIC_CAL_LOOPS K + 1) (lapic_cal_t2 t)"
proof -
  have "cal_inv K a (tsc_perj c) s 0 s"
    using assms by (simp add: cal_inv_def)
  from cal_loop_returns [OF this] show ?thesis by (auto simp: cal_inv_def)
qed

text \<open>A machine whose time stamp counter counts the accesses, in steps of 1000.\<close>

definition demo_clock :: kernel where
  "demo_clock = (demo_mem (\<lambda>r. 0))\<lparr>mach := \<lparr>answer = (\<lambda>l c. if c = Rdtsc then 1000 * of_nat (length l) else 0), log = []\<rparr>\<rparr>"

theorem cal_loop_samples_witness:
  "\<exists>t. cal_loop sdm \<lparr>tsc_perj = 0, tsc_start = 0, jif_start = 0\<rparr> demo_clock = Some t
    \<and> samples sdm (log (mach t)) = 102"
  using cal_loop_samples [of demo_clock sdm "demo_drv sdm" "\<lparr>tsc_perj = 0, tsc_start = 0, jif_start = 0\<rparr>"]
  by (auto simp: demo_clock_def tsc_advances_def LAPIC_CAL_LOOPS_def demo_mem_def demo_kernel_def samples_def demo_drv_mem)

text \<open>
  The correction by the PM timer. Without a PM timer, or one that did not count, the measured
  values are not referenced. When 100 milliseconds were measured up to one per cent they are taken as
  they are; otherwise both are scaled by the ratio of what should and what did elapse, rounded
  down. Nothing but messages is emitted.
\<close>

theorem calibrate_by_pmtimer_scales:
  "let ms100 = PMTMR_TICKS_PER_SEC K div 10; out = result (calibrate_by_pmtimer K deltapm delta deltatsc) s;
       within = ms100 - ms100 div 100 <s deltapm \<and> deltapm <s ms100 + ms100 div 100;
       scale = (\<lambda>x. x * ms100 div ucast (ucast deltapm :: u32))
   in (fst out = 0 \<or> fst out = - 1)
    \<and> (fst out = - 1 \<longleftrightarrow> \<not> CONFIG_X86_PM_TIMER K \<or> deltapm = 0)
    \<and> (fst out = - 1 \<or> within \<longrightarrow> snd out = (delta, deltatsc))
    \<and> (fst out = 0 \<and> \<not> within \<longrightarrow> fst (snd out) = scale delta
         \<and> snd (snd out) = (if boot_caps s X86_FEATURE_TSC then scale deltatsc else deltatsc))
    \<and> (let t = exec (calibrate_by_pmtimer K deltapm delta deltatsc) s in t = s\<lparr>mach := mach t\<rparr>)"
proof -
  have "wp (calibrate_by_pmtimer K deltapm delta deltatsc) (\<lambda>out t.
     (let ms100 = PMTMR_TICKS_PER_SEC K div 10;
       within = ms100 - ms100 div 100 <s deltapm \<and> deltapm <s ms100 + ms100 div 100;
       scale = (\<lambda>x. x * ms100 div ucast (ucast deltapm :: u32))
   in (fst out = 0 \<or> fst out = - 1)
    \<and> (fst out = - 1 \<longleftrightarrow> \<not> CONFIG_X86_PM_TIMER K \<or> deltapm = 0)
    \<and> (fst out = - 1 \<or> within \<longrightarrow> snd out = (delta, deltatsc))
    \<and> (fst out = 0 \<and> \<not> within \<longrightarrow> fst (snd out) = scale delta
         \<and> snd (snd out) = (if boot_caps s X86_FEATURE_TSC then scale deltatsc else deltatsc))
    \<and> t = s\<lparr>mach := mach t\<rparr>)) s"
    by (cases "PMTMR_TICKS_PER_SEC K div 10 - PMTMR_TICKS_PER_SEC K div 10 div 100 <s deltapm
          \<and> deltapm <s PMTMR_TICKS_PER_SEC K div 10 + PMTMR_TICKS_PER_SEC K div 10 div 100")
      (auto simp add: calibrate_by_pmtimer_def wp wp_fun Let_def)
  then show ?thesis unfolding wp_run Let_def .
qed

theorem calibrate_by_pmtimer_scales_witness:
  "result (calibrate_by_pmtimer sdm 0 7 9) demo_clock = (- 1, 7, 9)"
  using calibrate_by_pmtimer_scales [of sdm 0 7 9 demo_clock]
  by (auto simp: Let_def prod_eq_iff)

end
