(* ===== verification/CalibrationProps.thy ===== *)
theory CalibrationProps
  imports Calibration
begin

text \<open>
  The whole calibration and what the boot makes of its outcome. The verification loop is a spin loop:
  it waits for \<open>LAPIC_CAL_LOOPS\<close> timer interrupts, so it returns when the hardware keeps raising them.
\<close>

section \<open>The verification loop\<close>

lemma verify_loop_least:
  assumes "verify_loop K s = Some r"
    and "\<And>t. \<not> lapic_cal_loops t \<le> int (LAPIC_CAL_LOOPS K) \<Longrightarrow> P t"
    and "\<And>t. lapic_cal_loops t \<le> int (LAPIC_CAL_LOOPS K) \<Longrightarrow> P (exec (verify_step K) t) \<Longrightarrow> P t"
  shows "P s"
proof -
  have "J = K \<longrightarrow> P t" if "verify_loop J t = Some r" for J t
    using that by (rule verify_loop.raw_induct [rotated]) (use assms(2,3) in \<open>auto split: if_splits\<close>)
  with assms(1) show ?thesis by blast
qed

interpretation verify: spin_loop "verify_loop K" "\<lambda>s. lapic_cal_loops s \<le> int (LAPIC_CAL_LOOPS K)"
  "exec (verify_step K)" "\<lambda>s. s" for K
proof
  show "verify_loop K s = (if lapic_cal_loops s \<le> int (LAPIC_CAL_LOOPS K)
      then verify_loop K (exec (verify_step K) s) else Some s)" for s
    by (subst verify_loop.simps) simp
qed (blast intro: verify_loop_least)

text \<open>From every point on, a timer interrupt arrives at some time while the processor spins.\<close>

abbreviation idle_polls :: "nat \<Rightarrow> access list \<Rightarrow> access list" where
  "idle_polls \<equiv> polled [TimerIrq, CpuRelax]"

definition timer_irqs :: "machine \<Rightarrow> bool" where
  "timer_irqs m \<longleftrightarrow> (\<forall>l. \<exists>n. answer m (CpuRelax # idle_polls n l) TimerIrq \<noteq> 0)"

text \<open>The state while the interrupts run: the handler of the calibration is installed.\<close>

definition verify_inv :: "platform \<Rightarrow> apic_drv \<Rightarrow> kernel \<Rightarrow> kernel \<Rightarrow> bool" where
  "verify_inv K a s0 s \<longleftrightarrow> cal_env s = cal_env s0 \<and> apic s = mem_driver K a \<and> timer_irqs (mach s)
     \<and> lapic_events s = lapic_events s0 \<and> ce_event_handler (lapic_events s) = Some lapic_cal_handler_fn
     \<and> lapic_timer_period s = lapic_timer_period s0"

lemma timer_irqs_answers: "answer m' = answer m \<Longrightarrow> timer_irqs m' = timer_irqs m"
  by (simp add: timer_irqs_def)

lemma verify_step_idle:
  assumes "answer (mach s) (CpuRelax # log (mach s)) TimerIrq = 0"
  shows "exec (verify_step K) s = with_log ([TimerIrq, CpuRelax] @ log (mach s)) s"
  using assms by (simp add: verify_step_def cpu_relax_def kernel_run on_mach_def with_log_def)

lemma wp_ack_mem: "apic s = mem_driver K a \<Longrightarrow> wp (ack_APIC_irq K) Q s =
    Q () (s\<lparr>mach := (mach s)\<lparr>log := MemWr (reg_addr K APIC_EOI) (cst K APIC_EOI_ACK) # log (mach s)\<rparr>\<rparr>)"
  by (simp add: ack_APIC_irq_def apic_eoi_def wp wp_on_mach mem_driver_def)

lemma wp_timer_interrupt:
  assumes "apic s = mem_driver K a" and "ce_event_handler (lapic_events s) = Some lapic_cal_handler_fn"
    and "\<And>l. wp cal Q (s\<lparr>mach := (mach s)\<lparr>log := l\<rparr>\<rparr>)"
  shows "wp (sysvec_apic_timer_interrupt K cal) Q s"
  using assms
  by (simp add: sysvec_apic_timer_interrupt_def local_apic_timer_interrupt_def jiffies_def wp wp_ack_mem)

text \<open>An interrupt in a state whose log has grown runs the handler of the calibration.\<close>

lemma wp_cal_interrupt:
  assumes "apic s = mem_driver K a" and "ce_event_handler (lapic_events s) = Some lapic_cal_handler_fn"
  shows "wp (sysvec_apic_timer_interrupt K (lapic_cal_handler K)) (\<lambda>_ t. cal_env t = cal_env s
    \<and> lapic_events t = lapic_events s \<and> lapic_timer_period t = lapic_timer_period s
    \<and> lapic_cal_loops t = lapic_cal_loops s + 1) (with_log l s)"
proof (rule wp_timer_interrupt)
  fix k
  let ?s = "s\<lparr>mach := (mach s)\<lparr>log := k\<rparr>\<rparr>"
  have "apic ?s = mem_driver K a" using assms(1) by simp
  from wp_mono [OF wp_cal_handler [OF this]]
  show "wp (lapic_cal_handler K) (\<lambda>_ t. cal_env t = cal_env s
      \<and> lapic_events t = lapic_events s \<and> lapic_timer_period t = lapic_timer_period s
      \<and> lapic_cal_loops t = lapic_cal_loops s + 1)
    (with_log l s\<lparr>mach := (mach (with_log l s))\<lparr>log := k\<rparr>\<rparr>)"
    by (simp add: with_log_def)
qed (use assms in \<open>simp_all add: with_log_def\<close>)

lemma verify_step_irq:
  assumes "verify_inv K a s0 s" and "answer (mach s) (CpuRelax # log (mach s)) TimerIrq \<noteq> 0"
  shows "verify_inv K a s0 (exec (verify_step K) s)
    \<and> lapic_cal_loops (exec (verify_step K) s) = lapic_cal_loops s + 1"
proof -
  let ?i = "sysvec_apic_timer_interrupt K (lapic_cal_handler K)"
  have "exec (verify_step K) s = exec ?i (with_log ([TimerIrq, CpuRelax] @ log (mach s)) s)"
    using assms(2) by (simp add: verify_step_def cpu_relax_def kernel_run on_mach_def with_log_def split: prod.split)
  moreover have "apic s = mem_driver K a" "ce_event_handler (lapic_events s) = Some lapic_cal_handler_fn"
    using assms(1) by (auto simp: verify_inv_def)
  note wp_cal_interrupt [OF this, of "[TimerIrq, CpuRelax] @ log (mach s)", unfolded wp_run]
  ultimately show ?thesis
    using assms(1) timer_irqs_answers [of "mach (exec (verify_step K) s)" "mach s"]
    by (auto simp: verify_inv_def cal_env_def)
qed

lemma verify_inv_log [simp]: "verify_inv K a s0 (with_log l s) = verify_inv K a s0 s"
    "lapic_cal_loops (with_log l s) = lapic_cal_loops s"
  by (simp_all add: verify_inv_def with_log_def timer_irqs_def)

text \<open>Every state in the loop has a later one with one more interrupt counted.\<close>

lemma verify_progress:
  assumes "verify_inv K a s0 s"
  obtains n where "verify_inv K a s0 ((exec (verify_step K) ^^ n) s)"
    and "lapic_cal_loops ((exec (verify_step K) ^^ n) s) = lapic_cal_loops s + 1"
proof -
  let ?irq = "\<lambda>n. answer (mach s) (CpuRelax # idle_polls n (log (mach s))) TimerIrq \<noteq> 0"
  obtain m where "?irq m" using assms by (auto simp: verify_inv_def timer_irqs_def)
  then obtain n where n: "?irq n" "\<forall>i<n. \<not> ?irq i"
    using exists_first [of "\<lambda>n. \<not> ?irq n" m] by auto
  have idle: "(exec (verify_step K) ^^ i) s = with_log (idle_polls i (log (mach s))) s" if "i \<le> n" for i
    using that
  proof (induction i)
    case (Suc i)
    then show ?case
      using n(2) verify_step_idle [of "with_log (idle_polls i (log (mach s))) s" K] by simp
  qed simp
  have "verify_inv K a s0 ((exec (verify_step K) ^^ Suc n) s)
      \<and> lapic_cal_loops ((exec (verify_step K) ^^ Suc n) s) = lapic_cal_loops s + 1"
    using verify_step_irq [of K a s0 "with_log (idle_polls n (log (mach s))) s"] assms n(1) idle [of n]
    by simp
  then show thesis using that by blast
qed

lemma verify_leaves:
  assumes "verify_inv K a s0 s"
  shows "\<exists>n. \<not> lapic_cal_loops ((exec (verify_step K) ^^ n) s) \<le> int (LAPIC_CAL_LOOPS K)"
  using assms
proof (induction "nat (int (LAPIC_CAL_LOOPS K) + 1 - lapic_cal_loops s)" arbitrary: s)
  case 0
  then have "\<not> lapic_cal_loops ((exec (verify_step K) ^^ 0) s) \<le> int (LAPIC_CAL_LOOPS K)" by simp
  then show ?case by blast
next
  case (Suc d)
  obtain n where n: "verify_inv K a s0 ((exec (verify_step K) ^^ n) s)"
      "lapic_cal_loops ((exec (verify_step K) ^^ n) s) = lapic_cal_loops s + 1"
    using verify_progress [OF Suc.prems] by blast
  with Suc.hyps obtain k where "\<not> lapic_cal_loops ((exec (verify_step K) ^^ k) ((exec (verify_step K) ^^ n) s))
      \<le> int (LAPIC_CAL_LOOPS K)" by fastforce
  then have "\<not> lapic_cal_loops ((exec (verify_step K) ^^ (k + n)) s) \<le> int (LAPIC_CAL_LOOPS K)"
    by (simp add: funpow_add)
  then show ?case by blast
qed

lemma verify_inv_step: "verify_inv K a s0 s \<Longrightarrow> verify_inv K a s0 (exec (verify_step K) s)"
  using verify_step_irq [of K a s0 s] verify_step_idle [of s K]
  by (cases "answer (mach s) (CpuRelax # log (mach s)) TimerIrq = 0") auto

lemma verify_inv_steps: "verify_inv K a s0 s \<Longrightarrow> verify_inv K a s0 ((exec (verify_step K) ^^ n) s)"
  by (induction n) (simp_all add: verify_inv_step)

lemma verify_loop_returns:
  "verify_inv K a s0 s \<Longrightarrow> \<exists>t. verify_loop K s = Some t \<and> verify_inv K a s0 t"
  using verify_leaves [of K a s0 s] verify.loop_idle [where K = K and s = s] verify_inv_steps [of K a s0 s]
  by blast

section \<open>The parts of the calibration\<close>

text \<open>Whether the last change of the interrupt flag enabled interrupts.\<close>

fun irqs_on :: "access list \<Rightarrow> bool" where
  "irqs_on (IrqEnable # l) = True"
| "irqs_on (IrqDisable # l) = False"
| "irqs_on (c # l) = irqs_on l"
| "irqs_on [] = False"

lemma wp_setup_LVTT:
  assumes "apic s = mem_driver K a"
    and "\<And>l. Q () (s\<lparr>mach := (mach s)\<lparr>log := l\<rparr>\<rparr>)"
  shows "wp (setup_APIC_LVTT K clocks False irqen) Q s"
  using assms
  by (simp add: setup_APIC_LVTT_def lapic_is_integrated_def lapic_get_version_def mfence_def Let_def wp wp_fun
      wp_read_mem wp_write_mem)

lemma wp_cal_begin:
  assumes "apic s = mem_driver K a"
  shows "wp (cal_begin K) (\<lambda>c t. cal_env t = cal_env s \<and> lapic_cal_loops t = lapic_cal_loops s
    \<and> tsc_perj c = (if tsc_khz s = 0 then 0 else ucast (tsc_khz s) * 1000 div of_nat (HZ K))) s"
proof -
  have "wp (do { j \<leftarrow> jiffies;
     khz \<leftarrow> gets tsc_khz;
     c \<leftarrow> (if c_true khz then do {
         t \<leftarrow> rdtsc;
         ret \<lparr>tsc_perj = (ucast khz * 1000) div of_nat (HZ K), tsc_start = t, jif_start = j\<rparr> }
       else ret \<lparr>tsc_perj = 0, tsc_start = 0, jif_start = j\<rparr>);
     local_irq_enable;
     ret c }) (\<lambda>c t. cal_env t = cal_env s \<and> lapic_cal_loops t = lapic_cal_loops s
    \<and> tsc_perj c = (if tsc_khz s = 0 then 0 else ucast (tsc_khz s) * 1000 div of_nat (HZ K)))
    (s\<lparr>mach := (mach s)\<lparr>log := l\<rparr>\<rparr>)" for l
    by (auto simp: jiffies_def rdtsc_def wp)
  then show ?thesis
    using assms by (auto simp: cal_begin_def apic_printk_def wp intro!: wp_setup_LVTT)
qed

text \<open>The difference that counts: measured, or scaled by the PM timer.\<close>

definition delta_of :: "platform \<Rightarrow> u64 \<Rightarrow> u64 \<Rightarrow> u64 \<Rightarrow> bool" where
  "delta_of K pm delta d \<longleftrightarrow> d = delta
     \<or> CONFIG_X86_PM_TIMER K \<and> pm \<noteq> 0 \<and> d = delta * (PMTMR_TICKS_PER_SEC K div 10) div ucast (ucast pm :: u32)"

lemma wp_pmtimer:
  "wp (calibrate_by_pmtimer K pm delta dtsc) (\<lambda>r t. (\<exists>l. t = s\<lparr>mach := (mach s)\<lparr>log := l\<rparr>\<rparr>)
     \<and> delta_of K pm delta (fst (snd r)) \<and> (fst r = 0 \<longleftrightarrow> CONFIG_X86_PM_TIMER K \<and> pm \<noteq> 0)) s"
proof -
  let ?ms = "PMTMR_TICKS_PER_SEC K div 10"
  have log: "\<exists>k. s\<lparr>mach := (mach s)\<lparr>log := l\<rparr>\<rparr> = s\<lparr>mach := (mach s)\<lparr>log := k\<rparr>\<rparr>"
    "\<exists>k. s = s\<lparr>mach := (mach s)\<lparr>log := k\<rparr>\<rparr>" for l
    by (blast, rule exI [of _ "log (mach s)"], simp)
  show ?thesis
    by (cases "?ms - ?ms div 100 <s pm \<and> pm <s ?ms + ?ms div 100")
      (auto simp add: calibrate_by_pmtimer_def apic_printk_def wp Let_def delta_of_def log)
qed

lemma wp_init_clockevent:
  "wp (lapic_init_clockevent K) (\<lambda>r t. cal_env t = cal_env s \<and> log (mach t) = log (mach s)
    \<and> lapic_events t = lapic_events s \<and> lapic_timer_period t = lapic_timer_period s
    \<and> lapic_cal_loops t = lapic_cal_loops s
    \<and> r = (if lapic_timer_period s = 0 then - 1 else 0)) s"
  by (simp add: lapic_init_clockevent_def wp cal_env_def)

definition period_of :: "platform \<Rightarrow> u64 \<Rightarrow> u32" where
  "period_of K d = word_of_int (sint (d * 16) sdiv int (LAPIC_CAL_LOOPS K))"

lemma wp_any_printk:
  assumes "\<And>l. Q () (s\<lparr>mach := (mach s)\<lparr>log := l\<rparr>\<rparr>)"
  shows "wp (apic_printk v msg) Q s"
  using assms [of "log (mach s)"] assms by (simp add: apic_printk_def wp)

lemma ucast_divisor: "(ucast APIC_DIVISOR :: u64) = 16"
  by (simp add: APIC_DIVISOR_def)

lemma cal_env_period [simp]: "cal_env (s\<lparr>lapic_timer_period := p\<rparr>) = cal_env s"
  by (simp add: cal_env_def)

lemma wp_cal_end:
  "wp (cal_end K) (\<lambda>r t. cal_env t = cal_env s \<and> lapic_events t = lapic_events s
    \<and> r = (CONFIG_X86_PM_TIMER K \<and> lapic_cal_pm2 s \<noteq> lapic_cal_pm1 s)
    \<and> (\<exists>d. delta_of K (lapic_cal_pm2 s - lapic_cal_pm1 s) (lapic_cal_t1 s - lapic_cal_t2 s) d
          \<and> lapic_timer_period t = period_of K d)) s"
  unfolding cal_end_def
  by (auto simp: wp Let_def ucast_divisor simp flip: period_of_def
      intro!: wp_any_printk wp_mono [OF wp_pmtimer] wp_mono [OF wp_init_clockevent]) blast+

lemma wp_verify_begin:
  assumes "apic s = mem_driver K a"
  shows "wp (verify_begin K) (\<lambda>_ t. cal_env t = cal_env s \<and> lapic_timer_period t = lapic_timer_period s
    \<and> lapic_events t = (lapic_events s)\<lparr>ce_event_handler := Some lapic_cal_handler_fn\<rparr>
    \<and> lapic_cal_loops t = - 1) s"
  using assms unfolding verify_begin_def apic_printk_def lapic_timer_set_periodic_def lapic_timer_set_periodic_oneshot_def
  by (auto simp: wp cal_env_def intro!: wp_setup_LVTT)

lemma wp_verify_end:
  assumes "apic s = mem_driver K a"
  shows "wp (verify_end K) (\<lambda>_ t. cal_env t = cal_env s \<and> lapic_timer_period t = lapic_timer_period s) s"
  using assms unfolding verify_end_def apic_printk_def lapic_timer_shutdown_def
  by (auto simp: wp wp_read_mem wp_write_mem Let_def set_dummy_def cal_env_def)

lemma wp_cal_finish:
  "wp cal_finish (\<lambda>r t. cal_env t = cal_env s \<and> lapic_timer_period t = lapic_timer_period s
    \<and> irqs_on (log (mach t)) \<and> lapic_events t = lapic_events s
    \<and> r = (if ce_dummy (lapic_events s) then - 1 else 0)) s"
  by (simp add: cal_finish_def wp)

section \<open>The whole calibration\<close>

lemma run_obtain:
  assumes "wp p Q s"
  obtains r t where "run_state p s = (r, t)" and "Q r t" and "exec p s = t" and "result p s = r"
  using assms by (cases "run_state p s") (auto simp: wp_def exec_def result_def)

text \<open>What the calibration reports, given the measured difference \<open>delta\<close>.\<close>

definition cal_outcome :: "platform \<Rightarrow> bool \<Rightarrow> bool \<Rightarrow> int \<Rightarrow> kernel \<Rightarrow> bool" where
  "cal_outcome K clock referenced r t \<longleftrightarrow> (let slow = unat (lapic_timer_period t) < 1000000 div HZ K
     in irqs_on (log (mach t)) \<and> (r = 0 \<or> r = - 1)
      \<and> (r = 0 \<longrightarrow> \<not> slow \<and> \<not> ce_dummy (lapic_events t))
      \<and> (r = - 1 \<longrightarrow> slow \<or> ce_dummy (lapic_events t) \<and> clock \<and> \<not> referenced))"

lemma cal_check_returns:
  assumes "apic s = mem_driver K a" and "timer_irqs (mach s)"
  shows "\<exists>r t d. cal_check K s = Some (r, t) \<and> cal_env t = cal_env s
    \<and> delta_of K (lapic_cal_pm2 s - lapic_cal_pm1 s) (lapic_cal_t1 s - lapic_cal_t2 s) d
    \<and> lapic_timer_period t = period_of K d
    \<and> cal_outcome K (global_clock_event s) (CONFIG_X86_PM_TIMER K \<and> lapic_cal_pm2 s \<noteq> lapic_cal_pm1 s) r t"
proof -
  obtain ref s1 d where end_: "run_state (cal_end K) s = (ref, s1)" "cal_env s1 = cal_env s"
      "ref = (CONFIG_X86_PM_TIMER K \<and> lapic_cal_pm2 s \<noteq> lapic_cal_pm1 s)"
      "delta_of K (lapic_cal_pm2 s - lapic_cal_pm1 s) (lapic_cal_t1 s - lapic_cal_t2 s) d"
      "lapic_timer_period s1 = period_of K d"
    by (rule run_obtain [OF wp_cal_end]) blast
  let ?s2 = "exec (set_dummy False) s1"
  have s2: "cal_env ?s2 = cal_env s" "lapic_timer_period ?s2 = period_of K d" "\<not> ce_dummy (lapic_events ?s2)"
    using end_(2,5) by (simp_all add: set_dummy_def kernel_run cal_env_def)
  then have g: "global_clock_event ?s2 = global_clock_event s" by (simp add: cal_env_def)
  consider (slow) "unat (period_of K d) < 1000000 div HZ K"
    | (plain) "\<not> unat (period_of K d) < 1000000 div HZ K" "ref \<or> \<not> global_clock_event s"
    | (verify) "\<not> unat (period_of K d) < 1000000 div HZ K" "\<not> ref" "global_clock_event s"
    by blast
  then show ?thesis
  proof cases
    case slow
    let ?t = "exec (do { local_irq_enable; pr_info ''APIC frequency too slow, disabling apic timer'' }) s1"
    have "cal_env ?t = cal_env s1 \<and> lapic_timer_period ?t = lapic_timer_period s1 \<and> irqs_on (log (mach ?t))"
      by (rule wp_exec) (simp add: wp)
    with slow end_ show ?thesis
      by (intro exI [of _ "- 1"] exI [of _ ?t] exI [of _ d]) (simp add: cal_check_def cal_outcome_def Let_def)
  next
    case plain
    obtain r t where "run_state cal_finish ?s2 = (r, t)" "cal_env t = cal_env ?s2" "r = 0"
        "lapic_timer_period t = lapic_timer_period ?s2" "irqs_on (log (mach t))" "lapic_events t = lapic_events ?s2"
      by (rule run_obtain [OF wp_cal_finish [of "exec (set_dummy False) s1"]]) (use s2(3) in auto)
    with plain end_ s2 g show ?thesis
      by (intro exI [of _ 0] exI [of _ t] exI [of _ d]) (auto simp: cal_check_def cal_outcome_def Let_def)
  next
    case verify
    have a2: "apic ?s2 = mem_driver K a" using assms(1) s2(1) by (simp add: cal_env_def)
    let ?s3 = "exec (verify_begin K) ?s2"
    have s3: "cal_env ?s3 = cal_env ?s2 \<and> lapic_timer_period ?s3 = lapic_timer_period ?s2
        \<and> ce_event_handler (lapic_events ?s3) = Some lapic_cal_handler_fn"
      by (rule wp_exec, rule wp_mono [OF wp_verify_begin [OF a2]]) simp
    then have "verify_inv K a ?s3 ?s3"
      using assms s2(1) timer_irqs_answers [of "mach ?s3" "mach s"] by (simp add: verify_inv_def cal_env_def)
    then obtain s4 where s4: "verify_loop K ?s3 = Some s4" "verify_inv K a ?s3 s4"
      using verify_loop_returns by blast
    then have a4: "apic s4 = mem_driver K a" by (simp add: verify_inv_def)
    let ?s5 = "exec (verify_end K) s4"
    have s5: "cal_env ?s5 = cal_env s4 \<and> lapic_timer_period ?s5 = lapic_timer_period s4"
      by (rule wp_exec) (rule wp_verify_end [OF a4])
    obtain r t where t: "run_state cal_finish ?s5 = (r, t)" "cal_env t = cal_env ?s5"
        "r = (if ce_dummy (lapic_events ?s5) then - 1 else 0)"
        "lapic_timer_period t = lapic_timer_period ?s5" "irqs_on (log (mach t))" "lapic_events t = lapic_events ?s5"
      by (rule run_obtain [OF wp_cal_finish]) auto
    have "cal_check K s = Some (r, t)"
      using verify end_(1,5) s2(2) g s4(1) t(1) by (simp add: cal_check_def Let_def)
    moreover have "cal_env t = cal_env s" "lapic_timer_period t = period_of K d"
      using s2 s3 s4(2) s5 t(2,4) by (simp_all add: verify_inv_def)
    ultimately show ?thesis
      using verify end_(3,4) t(3,5,6) by (intro exI [of _ r] exI [of _ t] exI [of _ d])
        (auto simp: cal_outcome_def Let_def)
  qed
qed

text \<open>
  What the calibration leaves, when it had to measure: \<open>m\<close> is the machine at the start of the loop.
\<close>

definition cal_measured :: "platform \<Rightarrow> machine \<Rightarrow> bool \<Rightarrow> int \<Rightarrow> kernel \<Rightarrow> bool" where
  "cal_measured K m clock r t \<longleftrightarrow> (\<exists>k t1 t2 pm d. sampled K m k t1 \<and> sampled K m (k + LAPIC_CAL_LOOPS K) t2
     \<and> delta_of K pm (t1 - t2) d \<and> lapic_timer_period t = period_of K d
     \<and> cal_outcome K clock (CONFIG_X86_PM_TIMER K \<and> pm \<noteq> 0) r t)"

lemma calibrate_APIC_clock_returns:
  assumes "apic s = mem_driver K a" and "tsc_khz s \<noteq> 0"
    and "tsc_advances (mach s) (ucast (tsc_khz s) * 1000 div of_nat (HZ K))" and "timer_irqs (mach s)"
    and "0 < LAPIC_CAL_LOOPS K" and "lapic_cal_loops s = - 1"
    and "\<not> boot_caps s X86_FEATURE_TSC_DEADLINE_TIMER" and "lapic_timer_period s = 0"
  shows "\<exists>r t. calibrate_APIC_clock K s = Some (r, t) \<and> cal_env t = cal_env s
    \<and> cal_measured K (mach s) (global_clock_event s) r t"
proof -
  obtain r1 s1 where i: "run_state (lapic_init_clockevent K) s = (r1, s1)" "r1 \<noteq> 0" "cal_env s1 = cal_env s"
      "lapic_cal_loops s1 = - 1"
    by (rule run_obtain [OF wp_init_clockevent [of K s]]) (use assms(6,8) in auto)
  have "apic s1 = mem_driver K a" using assms(1) i(3) by (simp add: cal_env_def)
  from wp_cal_begin [OF this] obtain c s2 where b: "run_state (cal_begin K) s1 = (c, s2)" "cal_env s2 = cal_env s"
      "lapic_cal_loops s2 = - 1" "tsc_perj c = ucast (tsc_khz s) * 1000 div of_nat (HZ K)"
    by (rule run_obtain) (use assms(2) i in \<open>auto simp: cal_env_def\<close>)
  have e2: "apic s2 = mem_driver K a" "tsc_khz s2 \<noteq> 0" "tsc_advances (mach s2) (tsc_perj c)"
    using assms(1-3) cal_env_answers [OF b(2)] b(4) by auto
  then have "cal_inv K a (tsc_perj c) s2 0 s2"
    using assms(5) b(3) by (simp add: cal_inv_def)
  from cal_loop_returns [OF this] obtain s3 where l: "cal_loop K c s2 = Some s3"
      and inv: "cal_inv K a (tsc_perj c) s2 (LAPIC_CAL_LOOPS K + 2) s3" by auto
  let ?k = "samples K (log (mach s2)) + 1"
  have e3: "cal_env s3 = cal_env s" "apic s3 = mem_driver K a"
      "sampled K (mach s) ?k (lapic_cal_t1 s3)" "sampled K (mach s) (?k + LAPIC_CAL_LOOPS K) (lapic_cal_t2 s3)"
    using inv b(2) cal_env_answers [OF b(2)] by (auto simp: cal_inv_def)
  moreover have "timer_irqs (mach s3)" "global_clock_event s3 = global_clock_event s"
    using assms(4) e3(1) timer_irqs_answers [of "mach s3" "mach s"] by (simp_all add: cal_env_def)
  ultimately obtain r t d where "cal_check K s3 = Some (r, t)" "cal_env t = cal_env s"
      "delta_of K (lapic_cal_pm2 s3 - lapic_cal_pm1 s3) (lapic_cal_t1 s3 - lapic_cal_t2 s3) d"
      "lapic_timer_period t = period_of K d"
      "cal_outcome K (global_clock_event s) (CONFIG_X86_PM_TIMER K \<and> lapic_cal_pm2 s3 - lapic_cal_pm1 s3 \<noteq> 0) r t"
    using cal_check_returns [of s3 K a] by auto
  moreover from this have "cal_measured K (mach s) (global_clock_event s) r t"
    unfolding cal_measured_def using e3(3,4) by blast
  ultimately show ?thesis
    using assms(7) i(1,2) b(1) l by (simp add: calibrate_APIC_clock_def)
qed

text \<open>With a known period only the template of the device is filled in.\<close>

lemma calibrate_APIC_clock_known:
  assumes "\<not> boot_caps s X86_FEATURE_TSC_DEADLINE_TIMER" and "lapic_timer_period s \<noteq> 0"
  shows "\<exists>t. calibrate_APIC_clock K s = Some (0, t) \<and> lapic_timer_period t = lapic_timer_period s
    \<and> lapic_events t = lapic_events s \<and> \<not> ce_dummy (lapic_clockevent t)
    \<and> this_caps t = this_caps s \<and> cpu_possible t = cpu_possible s"
proof -
  obtain s1 where i: "run_state (lapic_init_clockevent K) s = (0, s1)" "cal_env s1 = cal_env s"
      "lapic_events s1 = lapic_events s" "lapic_timer_period s1 = lapic_timer_period s"
    by (rule run_obtain [OF wp_init_clockevent [of K s]]) (use assms(2) in auto)
  let ?p = "do { apic_printk APIC_VERBOSE ''lapic timer already calibrated %d''; clear_template_dummy }"
  have "wp ?p (\<lambda>_ t. lapic_timer_period t = lapic_timer_period s1
    \<and> lapic_events t = lapic_events s1 \<and> \<not> ce_dummy (lapic_clockevent t)
    \<and> this_caps t = this_caps s1 \<and> cpu_possible t = cpu_possible s1) s1"
    by (auto simp: wp clear_template_dummy_def intro!: wp_any_printk)
  from wp_exec [OF this] show ?thesis
    using assms(1) i by (simp add: calibrate_APIC_clock_def cal_env_def)
qed

section \<open>Properties\<close>


text \<open>A machine in which every other access advances the counter, and the timer always interrupts.\<close>

definition demo_tick :: kernel where
  "demo_tick = (demo_mem (\<lambda>r. 0))\<lparr>lapic_timer_period := 0, mach := \<lparr>answer = (\<lambda>l c.
     if c = Rdtsc then of_nat (length l div 2) else if c = TimerIrq then 1 else 0), log = []\<rparr>\<rparr>"

lemma length_tsc_polls: "length (tsc_polls n l) = 2 * n + length l"
  by (induction n) simp_all

lemma demo_tick_ok: "tsc_advances (mach demo_tick) p" "timer_irqs (mach demo_tick)"
proof -
  have "\<exists>n. p \<le> of_nat (length (tsc_polls n l) div 2) - start" for l start
    by (rule exI [of _ "unat (p + start - of_nat (length l div 2))"]) (simp add: length_tsc_polls)
  then show "tsc_advances (mach demo_tick) p" by (simp add: tsc_advances_def demo_tick_def)
qed (simp add: timer_irqs_def demo_tick_def)


text \<open>Registering the device on a processor without a deadline timer.\<close>

lemma exec_setup_APIC_timer:
  assumes "\<not> this_caps s X86_FEATURE_TSC_DEADLINE_TIMER"
  shows "ce_dummy (lapic_events (exec setup_APIC_timer s)) = ce_dummy (lapic_clockevent s)
    \<and> log (mach (exec setup_APIC_timer s)) = Call clockevents_register_device # log (mach s)"
  by (rule wp_exec) (use assms in \<open>simp add: setup_APIC_timer_def wp\<close>)

lemma calibrate_APIC_clock_env:
  assumes "apic s = mem_driver K a" and "tsc_khz s \<noteq> 0"
    and "tsc_advances (mach s) (ucast (tsc_khz s) * 1000 div of_nat (HZ K))" and "timer_irqs (mach s)"
    and "0 < LAPIC_CAL_LOOPS K" and "lapic_cal_loops s = - 1"
  obtains r t where "calibrate_APIC_clock K s = Some (r, t)" and "r = 0 \<or> r = - 1 \<and> cal_env t = cal_env s"
    and "this_caps t = this_caps s" and "cpu_possible t = cpu_possible s"
proof (cases "boot_caps s X86_FEATURE_TSC_DEADLINE_TIMER")
  case True
  then show thesis using that [of 0 s] by (simp add: calibrate_APIC_clock_def)
next
  case deadline: False
  show thesis
  proof (cases "lapic_timer_period s = 0")
    case True
    then show thesis
      using calibrate_APIC_clock_returns [OF assms deadline] that
      by (auto simp: cal_measured_def cal_outcome_def Let_def cal_env_def)
  next
    case False
    then show thesis using calibrate_APIC_clock_known [OF deadline, of K] that by blast
  qed
qed

text \<open>
  C17. What the boot registers, on a processor without a deadline timer. When the timer is not disabled
  and the calibration succeeds, a usable device; otherwise, with several possible processors, a dummy,
  so that the broadcast is used; and on a single processor nothing.
\<close>

theorem setup_boot_APIC_clock_registers:
  assumes "apic s = mem_driver K a" and "tsc_khz s \<noteq> 0"
    and "tsc_advances (mach s) (ucast (tsc_khz s) * 1000 div of_nat (HZ K))" and "timer_irqs (mach s)"
    and "0 < LAPIC_CAL_LOOPS K" and "lapic_cal_loops s = - 1"
    and "\<not> this_caps s X86_FEATURE_TSC_DEADLINE_TIMER" and "ce_dummy (lapic_clockevent s)"
  shows "\<exists>t. setup_boot_APIC_clock K s = Some t \<and>
    (if \<not> disable_apic_timer s \<and> (\<exists>u. calibrate_APIC_clock K s = Some (0, u))
     then \<not> ce_dummy (lapic_events t)
       \<and> (\<exists>l. log (mach t) = Call amd_e400_c1e_apic_setup # Call clockevents_register_device # l)
     else if 1 < card (cpu_possible s)
     then ce_dummy (lapic_events t) \<and> (\<exists>l. log (mach t) = Call clockevents_register_device # l)
     else if disable_apic_timer s then t = exec (pr_info ''Disabling APIC timer'') s
     else calibrate_APIC_clock K s = Some (- 1, t))"
proof (cases "disable_apic_timer s")
  case True
  let ?p = "do {
    pr_info ''Disabling APIC timer'';
    possible \<leftarrow> gets cpu_possible;
    whenM (card possible > 1) (do {
      modify (\<lambda>s. s\<lparr>lapic_clockevent := (lapic_clockevent s)\<lparr>ce_mult := 1\<rparr>\<rparr>);
      setup_APIC_timer }) }"
  have "wp ?p (\<lambda>_ t. if 1 < card (cpu_possible s)
      then ce_dummy (lapic_events t) \<and> (\<exists>l. log (mach t) = Call clockevents_register_device # l)
      else t = exec (pr_info ''Disabling APIC timer'') s) s"
    using assms(7,8) by (simp add: wp wp_run [of setup_APIC_timer] exec_setup_APIC_timer)
      (simp add: pr_info_def kcall_def call_def kernel_run run_access_k)
  then obtain t where "exec ?p s = t" and "if 1 < card (cpu_possible s)
      then ce_dummy (lapic_events t) \<and> (\<exists>l. log (mach t) = Call clockevents_register_device # l)
      else t = exec (pr_info ''Disabling APIC timer'') s"
    by (rule run_obtain)
  then show ?thesis
    using True by (simp add: setup_boot_APIC_clock_def)
next
  case False
  obtain r u where u: "calibrate_APIC_clock K s = Some (r, u)" "r = 0 \<or> r = - 1 \<and> cal_env u = cal_env s"
      "this_caps u = this_caps s" "cpu_possible u = cpu_possible s"
    by (rule calibrate_APIC_clock_env [OF assms(1-6)])
  let ?c = "do { clear_template_dummy; setup_APIC_timer; kcall amd_e400_c1e_apic_setup }"
  have ok: "wp ?c (\<lambda>_ t. \<not> ce_dummy (lapic_events t)
      \<and> (\<exists>l. log (mach t) = Call amd_e400_c1e_apic_setup # Call clockevents_register_device # l)) u"
    using assms(7) u(3) by (simp add: wp clear_template_dummy_def wp_run [of setup_APIC_timer] exec_setup_APIC_timer)
  have fail: "wp (do { possible \<leftarrow> gets cpu_possible; whenM (card possible > 1) setup_APIC_timer })
      (\<lambda>_ t. if 1 < card (cpu_possible s)
        then ce_dummy (lapic_events t) \<and> (\<exists>l. log (mach t) = Call clockevents_register_device # l)
        else t = u) u" if "r \<noteq> 0"
    using that assms(7,8) u by (auto simp: wp wp_run [of setup_APIC_timer] exec_setup_APIC_timer cal_env_def)
  show ?thesis
  proof (cases "r = 0")
    case True
    obtain t where "exec ?c u = t" and "\<not> ce_dummy (lapic_events t)
        \<and> (\<exists>l. log (mach t) = Call amd_e400_c1e_apic_setup # Call clockevents_register_device # l)"
      by (rule run_obtain [OF ok])
    then show ?thesis using False u(1) True by (simp add: setup_boot_APIC_clock_def)
  next
    case failed: False
    obtain t where "exec (do { possible \<leftarrow> gets cpu_possible; whenM (card possible > 1) setup_APIC_timer }) u = t"
        and "if 1 < card (cpu_possible s)
          then ce_dummy (lapic_events t) \<and> (\<exists>l. log (mach t) = Call clockevents_register_device # l) else t = u"
      by (rule run_obtain [OF fail [OF failed]])
    then show ?thesis using False u(1,2) failed by (auto simp: setup_boot_APIC_clock_def)
  qed
qed

theorem setup_boot_APIC_clock_registers_witness:
  "\<exists>t. setup_boot_APIC_clock sdm (demo_tick\<lparr>lapic_timer_period := 1000\<rparr>) = Some t \<and> \<not> ce_dummy (lapic_events t)"
  using setup_boot_APIC_clock_registers [of "demo_tick\<lparr>lapic_timer_period := 1000\<rparr>" sdm "demo_drv sdm"]
    calibrate_APIC_clock_known [of "demo_tick\<lparr>lapic_timer_period := 1000\<rparr>" sdm] demo_tick_ok
  by (auto simp: demo_tick_def demo_mem_def demo_kernel_def demo_drv_mem demo_event_def LAPIC_CAL_LOOPS_def)


end
