(* ===== verification/Eilvt.thy ===== *)
theory Eilvt
  imports Lapic
begin

text \<open>
  The extended local vector table of AMD processors: reserving an offset for a vector
  (\<open>reserve_eilvt_offset\<close>, a compare-and-exchange loop on a cell shared by all processors) and
  programming the register. Other processors act on the cell between two atomic operations: their
  \<open>i\<close>-th action is \<open>env i\<close>, any function of the cell, so the theorems hold under every interleaving.
  The loop is a partial function, \<open>None\<close> when it does not end.
\<close>

section \<open>Reservation\<close>

definition eilvt_entry_is_changeable :: "platform \<Rightarrow> u32 \<Rightarrow> u32 \<Rightarrow> bool" where
  "eilvt_entry_is_changeable K old new \<longleftrightarrow>
     c_true (old AND cst K APIC_EILVT_MASKED)
     \<or> new = cst K APIC_EILVT_MASKED
     \<or> (new AND NOT (cst K APIC_EILVT_MASKED)) = old"

text \<open>The value found in the cell, and the cell after the exchange.\<close>

definition atomic_cmpxchg :: "u32 \<Rightarrow> u32 \<Rightarrow> u32 \<Rightarrow> u32 \<times> u32" where
  "atomic_cmpxchg cell old new = (cell, if cell = old then new else cell)"

text \<open>\<open>Inl rsvd\<close>: return early with \<open>rsvd\<close>; \<open>Inr vector\<close>: the loop ends with this \<open>vector\<close>.\<close>

partial_function (option) reserve_eilvt_loop ::
  "platform \<Rightarrow> (nat \<Rightarrow> u32 \<Rightarrow> u32) \<Rightarrow> nat \<Rightarrow> u32 \<Rightarrow> u32 \<Rightarrow> u32 \<Rightarrow> ((u32 + u32) \<times> u32) option" where
  "reserve_eilvt_loop K env i new rsvd cell =
     (let vector = rsvd AND NOT (cst K APIC_EILVT_MASKED) in
      if c_true vector \<and> \<not> eilvt_entry_is_changeable K vector new then Some (Inl rsvd, cell)
      else case atomic_cmpxchg (env i cell) rsvd new of (rsvd', cell') \<Rightarrow>
        (if rsvd' \<noteq> new then reserve_eilvt_loop K env (Suc i) new rsvd' cell'
         else Some (Inr vector, cell')))"

definition reserve_eilvt_offset ::
  "platform \<Rightarrow> (nat \<Rightarrow> u32 \<Rightarrow> u32) \<Rightarrow> nat \<Rightarrow> u32 \<Rightarrow> kernel \<Rightarrow> (u32 \<times> kernel) option" where
  "reserve_eilvt_offset K env offset new s =
     (if offset \<ge> APIC_EILVT_NR_MAX K then Some (NOT 0, s)
      else case reserve_eilvt_loop K env 0 new (eilvt_offsets s offset) (eilvt_offsets s offset) of
        None \<Rightarrow> None
      | Some (Inl rsvd, cell) \<Rightarrow> Some (rsvd, s\<lparr>eilvt_offsets := (eilvt_offsets s)(offset := cell)\<rparr>)
      | Some (Inr vector, cell) \<Rightarrow>
          (let s1 = s\<lparr>eilvt_offsets := (eilvt_offsets s)(offset := cell)\<rparr>;
               rsvd = new AND NOT (cst K APIC_EILVT_MASKED)
           in Some (new, if c_true rsvd \<and> rsvd \<noteq> vector
                         then exec (kcall (printk ''LVT offset %d assigned for vector 0x%02x'')) s1
                         else s1)))"

abbreviation eilvt_value :: "u8 \<Rightarrow> u8 \<Rightarrow> u8 \<Rightarrow> u32" where
  "eilvt_value vector msg_type msk \<equiv>
     push_bit 16 (ucast msk) OR push_bit 8 (ucast msg_type) OR ucast vector"

definition setup_APIC_eilvt ::
  "platform \<Rightarrow> (nat \<Rightarrow> u32 \<Rightarrow> u32) \<Rightarrow> u8 \<Rightarrow> u8 \<Rightarrow> u8 \<Rightarrow> u8 \<Rightarrow> kernel \<Rightarrow> (int \<times> kernel) option" where
  "setup_APIC_eilvt K env offset vector msg_type msk s =
     (let reg = APIC_EILVTn K (unat offset);
          new = eilvt_value vector msg_type msk
      in case run_state (apic_read reg) s of (old, s1) \<Rightarrow>
        (case reserve_eilvt_offset K env (unat offset) new s1 of
           None \<Rightarrow> None
         | Some (reserved, s2) \<Rightarrow>
             (if reserved \<noteq> new then
                Some (- EINVAL, exec (kcall (printk ''already in use on another cpu'')) s2)
              else if \<not> eilvt_entry_is_changeable K old new then
                Some (- EBUSY, exec (kcall (printk ''already in use on this cpu'')) s2)
              else Some (0, exec (apic_write reg new) s2))))"

lemma eilvt_value_neq: "eilvt_value vector msg_type msk \<noteq> NOT 0"
proof
  assume "eilvt_value vector msg_type msk = NOT 0"
  then have "bit (eilvt_value vector msg_type msk) 31 = bit (NOT 0 :: u32) 31" by simp
  then show False by (auto simp: bit_simps dest: bit_imp_le_length)
qed

section \<open>The loop under interference\<close>

definition eilvt_conflict :: "platform \<Rightarrow> u32 \<Rightarrow> u32 \<Rightarrow> bool" where
  "eilvt_conflict K cell new \<longleftrightarrow> cell AND NOT (cst K APIC_EILVT_MASKED) \<noteq> 0
     \<and> \<not> eilvt_entry_is_changeable K (cell AND NOT (cst K APIC_EILVT_MASKED)) new"

lemma eilvt_conflict_not_new: "eilvt_conflict K r new \<Longrightarrow> r \<noteq> new"
  by (auto simp: eilvt_conflict_def eilvt_entry_is_changeable_def)

lemma reserve_eilvt_step:
  "reserve_eilvt_loop K env i new rsvd cell =
     (if eilvt_conflict K rsvd new then Some (Inl rsvd, cell)
      else if env i cell = new then Some (Inr (rsvd AND NOT (cst K APIC_EILVT_MASKED)), new)
      else reserve_eilvt_loop K env (Suc i) new (env i cell)
             (if env i cell = rsvd then new else env i cell))"
  by (subst reserve_eilvt_loop.simps) (simp add: Let_def eilvt_conflict_def atomic_cmpxchg_def)

definition loop_outcome :: "platform \<Rightarrow> u32 \<Rightarrow> (u32 + u32) \<times> u32 \<Rightarrow> bool" where
  "loop_outcome K new r \<longleftrightarrow> (case r of
     (Inl rsvd, cell) \<Rightarrow> eilvt_conflict K rsvd new
   | (Inr vector, cell) \<Rightarrow> cell = new \<and> (vector = 0 \<or> eilvt_entry_is_changeable K vector new))"

lemma reserve_eilvt_loop_outcome:
  assumes "reserve_eilvt_loop K env i new rsvd cell = Some r"
  shows "loop_outcome K new r"
proof (rule reserve_eilvt_loop.raw_induct [OF _ assms])
  fix f K env i new rsvd cell r
  assume IH: "\<And>K env i new rsvd cell r. f K env i new rsvd cell = Some r \<Longrightarrow> loop_outcome K new r"
    and run: "(let vector = rsvd AND NOT (cst K APIC_EILVT_MASKED) in
      if c_true vector \<and> \<not> eilvt_entry_is_changeable K vector new then Some (Inl rsvd, cell)
      else case atomic_cmpxchg (env i cell) rsvd new of (rsvd', cell') \<Rightarrow>
        (if rsvd' \<noteq> new then f K env (Suc i) new rsvd' cell' else Some (Inr vector, cell'))) = Some r"
  then show "loop_outcome K new r"
    by (auto simp: Let_def atomic_cmpxchg_def loop_outcome_def eilvt_conflict_def
        split: if_splits dest!: IH)
qed

lemma reserve_eilvt_loop_quiet:
  assumes "\<And>j c. j \<ge> i \<Longrightarrow> env j c = c"
  shows "\<exists>r. reserve_eilvt_loop K env i new rsvd cell = Some r"
  using assms
  by (simp add: reserve_eilvt_step [of K env i] reserve_eilvt_step [of K env "Suc i"]
      reserve_eilvt_step [of K env "Suc (Suc i)"])

lemma reserve_eilvt_loop_returns:
  assumes "\<And>j c. j \<ge> n \<Longrightarrow> env j c = c" and "i \<le> n"
  shows "\<exists>r. reserve_eilvt_loop K env i new rsvd cell = Some r"
  using assms(2)
proof (induction i arbitrary: rsvd cell rule: inc_induct)
  case base
  show ?case
    using assms(1) by (intro reserve_eilvt_loop_quiet)
next
  case (step i)
  then show ?case
    by (simp add: reserve_eilvt_step [of K env i])
qed

lemma reserve_eilvt_loop_alone:
  assumes "\<And>j c. env j c = c"
  shows "reserve_eilvt_loop K env i new cell cell =
    (if eilvt_conflict K cell new then Some (Inl cell, cell)
     else Some (Inr (cell AND NOT (cst K APIC_EILVT_MASKED)), new))"
  using assms
  by (simp add: reserve_eilvt_step [of K env i] reserve_eilvt_step [of K env "Suc i"])

section \<open>Properties\<close>

text \<open>
  C22. Whatever other processors do to the cell between the atomic operations, a reservation that
  reports success leaves the new entry in the cell, and one that reports a conflict returns the
  entry of a different vector; once the other processors are quiet the loop ends.
\<close>

theorem reserve_eilvt_offset_interleaved:
  assumes "offset < APIC_EILVT_NR_MAX K"
  shows "(reserve_eilvt_offset K env offset new s = Some (r, s') \<longrightarrow> (r = new \<and> eilvt_offsets s' offset = new \<or> r \<noteq> new \<and> eilvt_conflict K r new))
    \<and> ((\<forall>j c. j \<ge> n \<longrightarrow> env j c = c) \<longrightarrow> (\<exists>r s'. reserve_eilvt_offset K env offset new s = Some (r, s')))"
proof (intro conjI impI)
  let ?c = "eilvt_offsets s offset"
  have k: "eilvt_offsets (exec (kcall f) t) = eilvt_offsets t" for f t
    by (simp add: kernel_run kcall_def call_def run_access_k)
  show "r = new \<and> eilvt_offsets s' offset = new \<or> r \<noteq> new \<and> eilvt_conflict K r new"
    if "reserve_eilvt_offset K env offset new s = Some (r, s')"
    using that assms reserve_eilvt_loop_outcome [of K env 0 new ?c ?c] eilvt_conflict_not_new [of K r new]
    by (auto simp: reserve_eilvt_offset_def loop_outcome_def Let_def k
        split: option.splits sum.splits if_splits)
  show "\<exists>r s'. reserve_eilvt_offset K env offset new s = Some (r, s')"
    if "\<forall>j c. j \<ge> n \<longrightarrow> env j c = c"
    using reserve_eilvt_loop_returns [of n env 0 K new ?c ?c] that
    by (auto simp: reserve_eilvt_offset_def Let_def split: sum.splits)
qed

theorem reserve_eilvt_offset_interleaved_witness:
  "\<exists>r s'. reserve_eilvt_offset sdm (\<lambda>j c. if j < 3 then c + 1 else c) 1 0xF0 (demo_mem (\<lambda>r. 0)) = Some (r, s')"
  using reserve_eilvt_offset_interleaved [of 1 sdm "\<lambda>j c. if j < 3 then c + 1 else c" "0xF0" "demo_mem (\<lambda>r. 0)" _ _ 3]
  by simp

text \<open>
  C23. Without interference, programming an extended entry has three outcomes: it fails with
  \<open>EINVAL\<close> and changes nothing when the offset is reserved for another vector or out of range; it
  fails with \<open>EBUSY\<close> without touching the register, but keeps the reservation, when this
  processor's register is in use; otherwise it reserves the offset and writes the entry.
\<close>

theorem setup_APIC_eilvt_outcomes:
  assumes "apic s = mem_driver K a" and "\<And>j c. env j c = c"
  shows "\<exists>s' rc. setup_APIC_eilvt K env offset vector msg_type msk s = Some (rc, s')
    \<and> (let new = eilvt_value vector msg_type msk;
            r = APIC_EILVTn K (unat offset);
            old = result (apic_read r) s;
            cells = eilvt_offsets s;
            taken = (unat offset \<ge> APIC_EILVT_NR_MAX K \<or> eilvt_conflict K (cells (unat offset)) new)
        in rc = (if taken then - EINVAL else if \<not> eilvt_entry_is_changeable K old new then - EBUSY else 0)
         \<and> eilvt_offsets s' = (if taken then cells else cells(unat offset := new))
         \<and> mem_trace K (mach s') = (if rc = 0 then (r, new) # mem_trace K (mach s) else mem_trace K (mach s)))"
proof -
  let ?r = "APIC_EILVTn K (unat offset)" and ?new = "eilvt_value vector msg_type msk"
  have k: "mem_trace K (mach (exec (kcall f) t)) = mem_trace K (mach t)"
    "eilvt_offsets (exec (kcall f) t) = eilvt_offsets t"
    "apic (exec (kcall f) t) = apic t" for f t
    by (simp_all add: kernel_run kcall_def call_def run_access_k mem_trace_def)
  have w: "mem_trace K (mach (exec (apic_write r v) t)) = (r, v) # mem_trace K (mach t)"
    if "apic t = mem_driver K a" for r v t
    using that by (simp add: kernel_run run_apic_write mem_trace_def)
  have e: "eilvt_offsets (exec (apic_write r v) t) = eilvt_offsets t" for r v t
    by (simp add: kernel_run run_apic_write)
  obtain m where rd: "run_state (apic_read ?r) s = (result (apic_read ?r) s, s\<lparr>mach := m\<rparr>)"
    and tr: "mem_trace K m = mem_trace K (mach s)"
    using assms(1) by (simp add: kernel_run run_apic_read mem_trace_def)
  have neq: "?new \<noteq> - 1" "- 1 \<noteq> ?new"
    using eilvt_value_neq [of msk msg_type vector] by auto
  note loop = reserve_eilvt_loop_alone [of env, OF assms(2)]
  show ?thesis
  proof (cases "unat offset \<ge> APIC_EILVT_NR_MAX K \<or> eilvt_conflict K (eilvt_offsets s (unat offset)) ?new")
    case True
    then show ?thesis
      using eilvt_conflict_not_new [of K "eilvt_offsets s (unat offset)" ?new] neq
      by (auto simp: setup_APIC_eilvt_def Let_def rd reserve_eilvt_offset_def loop k tr EINVAL_def)
  next
    case False
    then show ?thesis
      using assms(1)
      by (simp add: setup_APIC_eilvt_def Let_def rd reserve_eilvt_offset_def loop k w e tr EBUSY_def)
  qed
qed

theorem setup_APIC_eilvt_outcomes_witness:
  "\<exists>s'. setup_APIC_eilvt sdm (\<lambda>j c. c) 0 0xF9 0 0 (demo_mem (\<lambda>r. 0x10000)) = Some (0, s')
    \<and> eilvt_offsets s' 0 = 0xF9"
  using setup_APIC_eilvt_outcomes [OF demo_mem_simps(1) [of "\<lambda>r. 0x10000"], of "\<lambda>j c. c" 0 "0xF9" 0 0]
  by (auto simp: eilvt_conflict_def eilvt_entry_is_changeable_def Let_def split: if_splits)

end
