(* ===== verification/IntrMode.thy ===== *)
theory IntrMode
  imports X2apic
begin

text \<open>
  The choice of the interrupt delivery mode of the boot processor (\<open>intr_mode_select\<close> is
  \<^verbatim>\<open>__apic_intr_mode_select\<close>), its initialisation, and the synchronisation of the arbitration
  identifiers of old APIC buses.
\<close>

section \<open>The operations\<close>

definition sync_Arb_IDs :: "platform \<Rightarrow> unit kprog" where
  "sync_Arb_IDs K = do {
     modern \<leftarrow> modern_apic K;
     vendor \<leftarrow> gets x86_vendor;
     (if modern \<or> vendor = X86_VENDOR_AMD then ret ()
      else do {
        apic_wait_icr_idle;
        apic_printk APIC_DEBUG ''Synchronizing Arb IDs.'';
        apic_write (reg K APIC_ICR)
          (cst K APIC_DEST_ALLINC OR cst K APIC_INT_LEVELTRIG OR cst K APIC_DM_INIT) }) }"

definition disable_apic_flag :: "unit kprog" where
  "disable_apic_flag = modify (\<lambda>s. s\<lparr>disable_apic := True\<rparr>)"

definition intr_mode_select :: "platform \<Rightarrow> apic_intr_mode_id kresult" where
  "intr_mode_select K = do {
     disabled \<leftarrow> gets disable_apic;
     has \<leftarrow> boot_cpu_has X86_FEATURE_APIC;
     found \<leftarrow> gets smp_found_config;
     boot_version \<leftarrow> gets boot_cpu_apic_version;
     lapic \<leftarrow> gets acpi_lapic;
     cpus \<leftarrow> gets setup_max_cpus;
     (if disabled then fine (do {
        pr_info ''APIC disabled via kernel command line'';
        ret APIC_PIC })
      else if CONFIG_X86_64 K \<and> \<not> has then fine (do {
        disable_apic_flag;
        pr_info ''APIC disabled by BIOS'';
        ret APIC_PIC })
      else if \<not> CONFIG_X86_64 K \<and> \<not> has \<and> \<not> found then fine (do {
        disable_apic_flag;
        ret APIC_PIC })
      else if \<not> CONFIG_X86_64 K \<and> \<not> has \<and> APIC_INTEGRATED K (ucast boot_version) then fine (do {
        disable_apic_flag;
        pr_info ''Local APIC %d not detected, force emulation'';
        ret APIC_PIC })
      else if \<not> found then fine (do {
        kcall disable_ioapic_support;
        (if \<not> lapic then do {
           pr_info ''APIC: ACPI MADT or MP tables are not detected'';
           ret APIC_VIRTUAL_WIRE_NO_CONFIG }
         else ret APIC_VIRTUAL_WIRE) })
      else if CONFIG_SMP K \<and> cpus = 0 then fine (do {
        pr_info ''APIC: SMP mode deactivated'';
        ret APIC_SYMMETRIC_IO_NO_ROUTING })
      else if CONFIG_SMP K then do {
        i \<leftarrow> read_apic_id K;
        boot \<leftarrow> gets boot_cpu_physical_apicid;
        (if i \<noteq> boot then do {
           _ \<leftarrow> read_apic_id K;
           panic ''Boot APIC ID in local APIC unexpected (%d vs %d)'' }
         else fine (ret APIC_SYMMETRIC_IO)) }
      else fine (ret APIC_SYMMETRIC_IO)) }"

definition apic_intr_mode_select :: "platform \<Rightarrow> unit kresult" where
  "apic_intr_mode_select K =
     andthen (intr_mode_select K) (\<lambda>m. fine (modify (\<lambda>s. s\<lparr>apic_intr_mode := m\<rparr>)))"

definition apic_intr_mode_init :: "platform \<Rightarrow> unit kresult" where
  "apic_intr_mode_init K = do {
     let upmode = CONFIG_UP_LATE_INIT K;
     mode \<leftarrow> gets apic_intr_mode;
     (case mode of
        APIC_PIC \<Rightarrow> fine (pr_info ''APIC: Keep in PIC mode(8259)'')
      | APIC_VIRTUAL_WIRE \<Rightarrow> do {
          pr_info ''APIC: Switch to virtual wire mode setup'';
          kcall default_setup_apic_routing;
          apic_bsp_setup K upmode }
      | APIC_VIRTUAL_WIRE_NO_CONFIG \<Rightarrow> do {
          pr_info ''APIC: Switch to virtual wire mode setup with no configuration'';
          let upmode = True;
          kcall default_setup_apic_routing;
          apic_bsp_setup K upmode }
      | APIC_SYMMETRIC_IO \<Rightarrow> do {
          pr_info ''APIC: Switch to symmetric I/O mode setup'';
          kcall default_setup_apic_routing;
          apic_bsp_setup K upmode }
      | APIC_SYMMETRIC_IO_NO_ROUTING \<Rightarrow> do {
          pr_info ''APIC: Switch to symmetric I/O mode setup in no SMP routine'';
          apic_bsp_setup K upmode }) }"

section \<open>The choice\<close>

text \<open>What the choice depends on: is there a usable local APIC, and a configuration table?\<close>

definition apic_usable :: "platform \<Rightarrow> kernel \<Rightarrow> bool" where
  "apic_usable K s \<longleftrightarrow> \<not> disable_apic s \<and> (boot_caps s X86_FEATURE_APIC
     \<or> \<not> CONFIG_X86_64 K \<and> smp_found_config s \<and> \<not> APIC_INTEGRATED K (ucast (boot_cpu_apic_version s)))"

text \<open>
  C35. The selected mode: PIC exactly without a usable local APIC, and then the APIC is recorded as
  disabled; virtual wire exactly with an APIC but no processor table; symmetric mode otherwise, with
  a panic exactly when this processor is not the recorded boot processor of a multiprocessor
  kernel. The I/O APICs are disabled exactly in the virtual wire modes, and no register is written.
\<close>

theorem apic_intr_mode_select_table:
  assumes "apic s = mem_driver K a"
  shows "let t = exec (apic_intr_mode_select K) s; r = result (apic_intr_mode_select K) s;
             panics = apic_usable K s \<and> smp_found_config s \<and> CONFIG_SMP K \<and> setup_max_cpus s \<noteq> 0
                \<and> result (read_apic_id K) s \<noteq> boot_cpu_physical_apicid s
    in ((\<exists>e. r = Inl e) \<longleftrightarrow> panics)
     \<and> (if panics then apic_intr_mode t = apic_intr_mode s
        else apic_intr_mode t =
         (if \<not> apic_usable K s then APIC_PIC
          else if \<not> smp_found_config s then (if acpi_lapic s then APIC_VIRTUAL_WIRE else APIC_VIRTUAL_WIRE_NO_CONFIG)
          else if CONFIG_SMP K \<and> setup_max_cpus s = 0 then APIC_SYMMETRIC_IO_NO_ROUTING else APIC_SYMMETRIC_IO))
     \<and> (disable_apic t \<longleftrightarrow> \<not> apic_usable K s)
     \<and> (Call disable_ioapic_support \<in> set (log (mach t)) \<longleftrightarrow>
          Call disable_ioapic_support \<in> set (log (mach s)) \<or> apic_usable K s \<and> \<not> smp_found_config s)
     \<and> mem_trace K (mach t) = mem_trace K (mach s)"
proof -
  let ?panics = "apic_usable K s \<and> smp_found_config s \<and> CONFIG_SMP K \<and> setup_max_cpus s \<noteq> 0
                \<and> result (read_apic_id K) s \<noteq> boot_cpu_physical_apicid s"
  let ?P = "\<lambda>r t. ((\<exists>e. r = Inl e) \<longleftrightarrow> ?panics)
     \<and> (if ?panics then apic_intr_mode t = apic_intr_mode s
        else apic_intr_mode t =
         (if \<not> apic_usable K s then APIC_PIC
          else if \<not> smp_found_config s then (if acpi_lapic s then APIC_VIRTUAL_WIRE else APIC_VIRTUAL_WIRE_NO_CONFIG)
          else if CONFIG_SMP K \<and> setup_max_cpus s = 0 then APIC_SYMMETRIC_IO_NO_ROUTING else APIC_SYMMETRIC_IO))
     \<and> (disable_apic t \<longleftrightarrow> \<not> apic_usable K s)
     \<and> (Call disable_ioapic_support \<in> set (log (mach t)) \<longleftrightarrow>
          Call disable_ioapic_support \<in> set (log (mach s)) \<or> apic_usable K s \<and> \<not> smp_found_config s)
     \<and> mem_trace K (mach t) = mem_trace K (mach s)"
  have rd: "wp (read_apic_id K) Q u = Q (result (read_apic_id K) u)
      (u\<lparr>mach := (mach u)\<lparr>log := MemRd (APIC_BASE K + ucast (reg K APIC_ID)) # log (mach u)\<rparr>\<rparr>)"
    if "apic u = mem_driver K a" for Q :: "u32 \<Rightarrow> kernel \<Rightarrow> bool" and u
    using that by (simp add: wp_def read_apic_id_def run_apic_read kernel_run)
  have "wp (apic_intr_mode_select K) ?P s"
    using assms
    by (simp add: apic_intr_mode_select_def intr_mode_select_def disable_apic_flag_def wp rd apic_usable_def
        mem_trace_def del: wp_read_apic_id)
  then show ?thesis by (simp add: wp_run Let_def)
qed

theorem apic_intr_mode_select_table_witness:
  "apic_intr_mode (exec (apic_intr_mode_select sdm) ((demo_mem (\<lambda>r. 0))\<lparr>disable_apic := True\<rparr>)) = APIC_PIC"
  using apic_intr_mode_select_table [of "(demo_mem (\<lambda>r. 0))\<lparr>disable_apic := True\<rparr>" sdm "demo_drv sdm"]
  by (simp add: Let_def apic_usable_def)

end
