(* ===== verification/CpuMap.thy ===== *)
theory CpuMap
  imports Setup
begin

text \<open>
  The enumeration of processors: the persistent map from logical processor numbers to APIC
  identifiers, and \<open>generic_processor_info\<close>, called once for each processor a firmware table lists.
  APIC identifiers are 32 bits wide, as in every comparison of the code; arrays indexed by processor
  are functions. The set \<open>phys_cpu_present_map\<close> stands for the bit map of the same name.
\<close>

section \<open>The operations\<close>

definition apic_id_is_primary_thread :: "platform \<Rightarrow> kernel \<Rightarrow> u32 \<Rightarrow> bool" where
  "apic_id_is_primary_thread K s apicid =
     (if smp_num_siblings s = 1 then True
      else let m = push_bit (fls K (smp_num_siblings s) - 1) 1 - 1 in \<not> c_true (apicid AND m))"

text \<open>The loop of the search, from \<open>i\<close> on, with \<open>n\<close> entries left.\<close>

fun find_cpuid :: "(nat \<Rightarrow> u32) \<Rightarrow> u32 \<Rightarrow> nat \<Rightarrow> nat \<Rightarrow> nat option" where
  "find_cpuid table apicid i 0 = None"
| "find_cpuid table apicid i (Suc n) =
     (if table i = apicid then Some i else find_cpuid table apicid (Suc i) n)"

definition allocate_logical_cpuid :: "u32 \<Rightarrow> int kprog" where
  "allocate_logical_cpuid apicid = do {
     table \<leftarrow> gets cpuid_to_apicid;
     nr \<leftarrow> gets nr_logical_cpuids;
     limit \<leftarrow> gets nr_cpu_ids;
     (case find_cpuid table apicid 0 nr of
        Some i \<Rightarrow> ret (int i)
      | None \<Rightarrow>
          if nr \<ge> unat limit then do {
            pr_info ''APIC: NR_CPUS/possible_cpus limit of %u reached. Processor %d/0x%x and the rest are ignored.'';
            ret (- EINVAL) }
          else do {
            modify (\<lambda>s. s\<lparr>cpuid_to_apicid := (cpuid_to_apicid s)(nr := apicid)\<rparr>);
            modify (\<lambda>s. s\<lparr>nr_logical_cpuids := Suc nr\<rparr>);
            ret (int nr) }) }"

definition count_disabled :: "unit kprog" where
  "count_disabled = modify (\<lambda>s. s\<lparr>disabled_cpus := disabled_cpus s + 1\<rparr>)"

text \<open>What follows the choice of the logical number.\<close>

definition register_processor :: "platform \<Rightarrow> u32 \<Rightarrow> int \<Rightarrow> nat \<Rightarrow> int kprog" where
  "register_processor K apicid version cpu = do {
     version \<leftarrow> (if version = 0 then do {
         pr_info ''BIOS bug: APIC version is 0 for CPU %d/0x%x, fixing up to 0x10'';
         ret 0x10 }
       else ret version);
     boot_version \<leftarrow> gets boot_cpu_apic_version;
     whenM (version \<noteq> uint boot_version)
       (pr_info ''BIOS bug: APIC version mismatch, boot CPU: %x, CPU %d: version %x'');
     highest \<leftarrow> gets max_physical_apicid;
     whenM (apicid > highest) (modify (\<lambda>s. s\<lparr>max_physical_apicid := apicid\<rparr>));
     whenM (CONFIG_SMP K \<or> CONFIG_X86_64 K) (do {
       modify (\<lambda>s. s\<lparr>x86_cpu_to_apicid := (x86_cpu_to_apicid s)(cpu := ucast apicid)\<rparr>);
       modify (\<lambda>s. s\<lparr>x86_bios_cpu_apicid := (x86_bios_cpu_apicid s)(cpu := ucast apicid)\<rparr>) });
     whenM (CONFIG_X86_32 K) (modify (\<lambda>s. s\<lparr>x86_cpu_to_logical_apicid :=
       (x86_cpu_to_logical_apicid s)(cpu := drv_x86_32_early_logical_apicid (apic s) cpu)\<rparr>));
     modify (\<lambda>s. s\<lparr>cpu_possible := insert cpu (cpu_possible s)\<rparr>);
     modify (\<lambda>s. s\<lparr>phys_cpu_present_map := insert apicid (phys_cpu_present_map s)\<rparr>);
     modify (\<lambda>s. s\<lparr>cpu_present := insert cpu (cpu_present s)\<rparr>);
     modify (\<lambda>s. s\<lparr>num_processors := num_processors s + 1\<rparr>);
     ret (int cpu) }"

definition generic_processor_info :: "platform \<Rightarrow> u32 \<Rightarrow> int \<Rightarrow> int kprog" where
  "generic_processor_info K apicid version = do {
     boot \<leftarrow> gets boot_cpu_physical_apicid;
     present \<leftarrow> gets phys_cpu_present_map;
     let boot_cpu_detected = boot \<in> present;
     disabled \<leftarrow> gets disabled_cpu_apicid;
     refused \<leftarrow> (if disabled \<noteq> cst K BAD_APICID
       then do { i \<leftarrow> read_apic_id K; ret (disabled \<noteq> i \<and> disabled = apicid) }
       else ret False);
     n \<leftarrow> gets num_processors;
     limit \<leftarrow> gets nr_cpu_ids;
     (if refused then do {
        pr_info ''APIC: Disabling requested cpu. Processor %d/0x%x ignored.'';
        count_disabled;
        ret (- ENODEV) }
      else if \<not> boot_cpu_detected \<and> n \<ge> limit - 1 \<and> apicid \<noteq> boot then do {
        pr_info ''APIC: NR_CPUS/possible_cpus limit of %i almost reached. Keeping one slot for boot cpu.  Processor %d/0x%x ignored.'';
        count_disabled;
        ret (- ENODEV) }
      else if n \<ge> limit then do {
        pr_info ''APIC: NR_CPUS/possible_cpus limit of %i reached. Processor %d/0x%x ignored.'';
        count_disabled;
        ret (- EINVAL) }
      else if apicid = boot then do {
        modify (\<lambda>s. s\<lparr>cpuid_to_apicid := (cpuid_to_apicid s)(0 := apicid)\<rparr>);
        register_processor K apicid version 0 }
      else do {
        cpu \<leftarrow> allocate_logical_cpuid apicid;
        (if cpu < 0 then do { count_disabled; ret (- EINVAL) }
         else register_processor K apicid version (nat cpu)) }) }"

definition hard_smp_processor_id :: "platform \<Rightarrow> int kprog" where
  "hard_smp_processor_id K = do { i \<leftarrow> read_apic_id K; ret (sint i) }"

text \<open>
  Installing an optimised acknowledgement in every driver; the warning about a driver that already
  has it is left out, since functions cannot be compared.
\<close>

definition apic_set_eoi_write :: "(u32 \<Rightarrow> u32 \<Rightarrow> (machine, unit) state) \<Rightarrow> apic_drv list \<Rightarrow> apic_drv list" where
  "apic_set_eoi_write eoi_write drivers =
     map (\<lambda>drv. drv\<lparr>drv_native_eoi_write := drv_eoi_write drv, drv_eoi_write := eoi_write\<rparr>) drivers"

section \<open>The search and the allocation\<close>

lemma find_cpuid_Some: "find_cpuid table a i n = Some j \<Longrightarrow> i \<le> j \<and> j < i + n \<and> table j = a"
  by (induction n arbitrary: i) (fastforce split: if_splits)+

lemma find_cpuid_None: "find_cpuid table a i n = None \<longleftrightarrow> (\<forall>j. i \<le> j \<and> j < i + n \<longrightarrow> table j \<noteq> a)"
proof (induction n arbitrary: i)
  case (Suc n)
  have "(i \<le> j \<and> j < i + Suc n) = (j = i \<or> Suc i \<le> j \<and> j < Suc i + n)" for j by auto
  then show ?case using Suc by auto
qed auto

text \<open>What enumerating a processor may change, and how the state looks when it was accepted.\<close>

definition accepted :: "platform \<Rightarrow> u32 \<Rightarrow> nat \<Rightarrow> kernel \<Rightarrow> kernel \<Rightarrow> bool" where
  "accepted K apicid cpu s t \<longleftrightarrow>
     num_processors t = num_processors s + 1 \<and> disabled_cpus t = disabled_cpus s
     \<and> phys_cpu_present_map t = insert apicid (phys_cpu_present_map s)
     \<and> cpu_possible t = insert cpu (cpu_possible s) \<and> cpu_present t = insert cpu (cpu_present s)
     \<and> (CONFIG_SMP K \<or> CONFIG_X86_64 K \<longrightarrow> x86_cpu_to_apicid t = (x86_cpu_to_apicid s)(cpu := ucast apicid)
          \<and> x86_bios_cpu_apicid t = (x86_bios_cpu_apicid s)(cpu := ucast apicid))
     \<and> max_physical_apicid t = max apicid (max_physical_apicid s)"

text \<open>The part of the state the enumeration never changes.\<close>

definition fixed_cpus :: "kernel \<Rightarrow> u32 \<times> u32 \<times> u32 \<times> apic_drv" where
  "fixed_cpus s = (boot_cpu_physical_apicid s, nr_cpu_ids s, disabled_cpu_apicid s, apic s)"

lemma fixed_cpus_mach [simp]: "fixed_cpus (s\<lparr>mach := m\<rparr>) = fixed_cpus s"
  by (simp add: fixed_cpus_def)

lemma guarded_updates:
  "whenM b (modify (\<lambda>s. s\<lparr>max_physical_apicid := x\<rparr>)) =
     modify (\<lambda>s. s\<lparr>max_physical_apicid := if b then x else max_physical_apicid s\<rparr>)"
  "whenM b (modify (\<lambda>s. s\<lparr>x86_cpu_to_logical_apicid := g s\<rparr>)) =
     modify (\<lambda>s. s\<lparr>x86_cpu_to_logical_apicid := if b then g s else x86_cpu_to_logical_apicid s\<rparr>)"
  "whenM b (do { modify (\<lambda>s. s\<lparr>x86_cpu_to_apicid := h s\<rparr>); modify (\<lambda>s. s\<lparr>x86_bios_cpu_apicid := k s\<rparr>) }) =
     do { modify (\<lambda>s. s\<lparr>x86_cpu_to_apicid := if b then h s else x86_cpu_to_apicid s\<rparr>);
          modify (\<lambda>s. s\<lparr>x86_bios_cpu_apicid := if b then k s else x86_bios_cpu_apicid s\<rparr>) }"
  for s :: kernel
  by (auto simp: whenM_def modify_def State_Monad.bind_def State_Monad.return_def)

lemma wp_message:
  "(\<And>m. Q () (s\<lparr>mach := m\<rparr>)) \<Longrightarrow> wp (whenM b (pr_info msg)) Q s"
  "(\<And>x m. R x (s\<lparr>mach := m\<rparr>)) \<Longrightarrow> wp (if b then do { pr_info msg; ret v } else ret w) R s"
proof -
  assume q: "\<And>m. Q () (s\<lparr>mach := m\<rparr>)"
  show "wp (whenM b (pr_info msg)) Q s" using q q [of "mach s"] by (simp add: wp)
next
  assume r: "\<And>x m. R x (s\<lparr>mach := m\<rparr>)"
  show "wp (if b then do { pr_info msg; ret v } else ret w) R s" using r r [of w "mach s"] by (simp add: wp)
qed

lemma accepted_update [simp]:
  "accepted K a c (s\<lparr>mach := m\<rparr>) t = accepted K a c s t"
  "accepted K a c (s\<lparr>cpuid_to_apicid := f\<rparr>) t = accepted K a c s t"
  "accepted K a c (s\<lparr>nr_logical_cpuids := n\<rparr>) t = accepted K a c s t"
  by (simp_all add: accepted_def)

lemma wp_register:
  assumes "\<And>t. accepted K apicid cpu s t \<Longrightarrow> cpuid_to_apicid t = cpuid_to_apicid s \<Longrightarrow>
      nr_logical_cpuids t = nr_logical_cpuids s \<Longrightarrow> fixed_cpus t = fixed_cpus s \<Longrightarrow> Q (int cpu) t"
  shows "wp (register_processor K apicid version cpu) Q s"
  unfolding register_processor_def guarded_updates
  apply (rule flat_intros(1), rule wp_message(2), rule flat_intros(1), rule flat_intros(2), rule flat_intros(1), rule wp_message(1))
  by (simp add: wp split del: if_split)
    (rule assms, auto simp: accepted_def fixed_cpus_def max_def)

text \<open>Is the processor the one the kernel was told not to use, and is there room for it?\<close>

definition refused_cpu :: "platform \<Rightarrow> u32 \<Rightarrow> kernel \<Rightarrow> bool" where
  "refused_cpu K apicid s \<longleftrightarrow> disabled_cpu_apicid s \<noteq> cst K BAD_APICID
     \<and> disabled_cpu_apicid s \<noteq> result (read_apic_id K) s \<and> disabled_cpu_apicid s = apicid"

definition no_slot :: "u32 \<Rightarrow> kernel \<Rightarrow> bool" where
  "no_slot apicid s \<longleftrightarrow> apicid \<noteq> boot_cpu_physical_apicid s
     \<and> boot_cpu_physical_apicid s \<notin> phys_cpu_present_map s \<and> nr_cpu_ids s - 1 \<le> num_processors s"

definition no_cpuid :: "u32 \<Rightarrow> kernel \<Rightarrow> bool" where
  "no_cpuid apicid s \<longleftrightarrow> apicid \<noteq> boot_cpu_physical_apicid s
     \<and> find_cpuid (cpuid_to_apicid s) apicid 0 (nr_logical_cpuids s) = None
     \<and> unat (nr_cpu_ids s) \<le> nr_logical_cpuids s"

text \<open>The number and the table a processor that is accepted gets.\<close>

definition number_of :: "u32 \<Rightarrow> kernel \<Rightarrow> nat" where
  "number_of apicid s = (if apicid = boot_cpu_physical_apicid s then 0
     else case find_cpuid (cpuid_to_apicid s) apicid 0 (nr_logical_cpuids s) of
       Some i \<Rightarrow> i | None \<Rightarrow> nr_logical_cpuids s)"

lemma info_run:
  "wp (generic_processor_info K apicid version) (\<lambda>r t. fixed_cpus t = fixed_cpus s
    \<and> (if refused_cpu K apicid s \<or> no_slot apicid s \<or> nr_cpu_ids s \<le> num_processors s \<or> no_cpuid apicid s
       then r = (if refused_cpu K apicid s \<or> no_slot apicid s then - ENODEV else - EINVAL)
          \<and> t = s\<lparr>disabled_cpus := disabled_cpus s + 1, mach := mach t\<rparr>
       else r = int (number_of apicid s) \<and> accepted K apicid (number_of apicid s) s t
          \<and> cpuid_to_apicid t = (cpuid_to_apicid s)(number_of apicid s := apicid)
          \<and> nr_logical_cpuids t = max (nr_logical_cpuids s)
              (if apicid = boot_cpu_physical_apicid s then 0 else Suc (number_of apicid s)))) s"
proof -
  let ?b = "refused_cpu K apicid s"
  have ref: "wp (if disabled_cpu_apicid s \<noteq> cst K BAD_APICID
      then do { i \<leftarrow> read_apic_id K; ret (disabled_cpu_apicid s \<noteq> i \<and> disabled_cpu_apicid s = apicid) }
      else ret False) Q s" if "\<And>m. Q ?b (s\<lparr>mach := m\<rparr>)" for Q :: "bool \<Rightarrow> kernel \<Rightarrow> bool"
    using that that [of "mach s"] by (cases "disabled_cpu_apicid s = cst K BAD_APICID") (simp_all add: wp_def refused_cpu_def read_apic_id_def run_apic_read kernel_run)
  show ?thesis
    unfolding generic_processor_info_def Let_def
  proof ((rule flat_intros(1), rule flat_intros(2))+, rule flat_intros(1), rule ref, (rule flat_intros(1), rule flat_intros(2))+, goal_cases)
    case (1 m)
    let ?u = "s\<lparr>mach := m\<rparr>"
    let ?full = "no_slot apicid s \<or> nr_cpu_ids s \<le> num_processors s"
    consider (no) "?b \<or> ?full" | (boot) "\<not> ?b" "\<not> ?full" "apicid = boot_cpu_physical_apicid s"
      | (old) i where "\<not> ?b" "\<not> ?full" "apicid \<noteq> boot_cpu_physical_apicid s"
          "find_cpuid (cpuid_to_apicid s) apicid 0 (nr_logical_cpuids s) = Some i"
      | (new) "\<not> ?b" "\<not> ?full" "apicid \<noteq> boot_cpu_physical_apicid s"
          "find_cpuid (cpuid_to_apicid s) apicid 0 (nr_logical_cpuids s) = None"
      by (cases "find_cpuid (cpuid_to_apicid s) apicid 0 (nr_logical_cpuids s)") blast+
    then show ?case
    proof cases
      case no
      then show ?thesis
        by (auto simp: wp count_disabled_def no_slot_def fixed_cpus_def)
    next
      case boot
      then show ?thesis
        by (auto simp: wp no_slot_def no_cpuid_def number_of_def fixed_cpus_def intro!: wp_register)
    next
      case old
      have "i < nr_logical_cpuids s" "cpuid_to_apicid s i = apicid"
        using find_cpuid_Some [OF old(4)] by simp_all
      then show ?thesis using old
        by (auto simp: wp allocate_logical_cpuid_def no_slot_def no_cpuid_def number_of_def fixed_cpus_def
            fun_upd_idem intro!: wp_register)
    next
      case new
      then show ?thesis
        by (auto simp: wp allocate_logical_cpuid_def count_disabled_def no_slot_def no_cpuid_def number_of_def
            EINVAL_def fixed_cpus_def intro!: wp_register)
    qed
  qed
qed

section \<open>Enumerating all processors\<close>

definition enumerate_cpus :: "platform \<Rightarrow> (u32 \<times> int) list \<Rightarrow> kernel \<Rightarrow> kernel" where
  "enumerate_cpus K = fold (\<lambda>(apicid, version). exec (generic_processor_info K apicid version))"

text \<open>
  No identifier has two numbers, number 0 is the boot processor's, every present processor has a
  number below the limit, and while the boot processor is missing there is room for it.
\<close>

definition table_ok :: "(nat \<Rightarrow> u32) \<Rightarrow> nat \<Rightarrow> u32 \<Rightarrow> u32 set \<Rightarrow> nat set \<Rightarrow> bool" where
  "table_ok table nr boot present cpus \<longleftrightarrow> inj_on table {..<nr} \<and> 0 < nr \<and> table 0 \<in> {- 1, boot}
     \<and> (\<forall>i. 0 < i \<and> i < nr \<longrightarrow> table i \<noteq> boot)
     \<and> - 1 \<notin> present \<and> present \<subseteq> table ` {..<nr} \<and> cpus \<subseteq> {..<nr}"

definition cpus_inv :: "kernel \<Rightarrow> bool" where
  "cpus_inv s \<longleftrightarrow> table_ok (cpuid_to_apicid s) (nr_logical_cpuids s) (boot_cpu_physical_apicid s)
       (phys_cpu_present_map s) (cpu_present s)
     \<and> nr_logical_cpuids s \<le> unat (nr_cpu_ids s) \<and> num_processors s \<le> nr_cpu_ids s
     \<and> (boot_cpu_physical_apicid s \<notin> phys_cpu_present_map s \<longrightarrow> num_processors s < nr_cpu_ids s)"

lemma table_ok_boot:
  assumes t: "table_ok T n b P C" and b: "b \<noteq> - 1"
  shows "table_ok (T(0 := b)) n b (insert b P) (insert 0 C)"
proof -
  have "T 0 = - 1 \<or> T 0 = b" and "\<forall>i. 0 < i \<and> i < n \<longrightarrow> T i \<noteq> b" and inj: "inj_on T {..<n}" and "- 1 \<notin> P"
    and sub: "P \<subseteq> T ` {..<n}" and "0 < n"
    using t by (auto simp: table_ok_def)
  moreover have "inj_on (T(0 := b)) {..<n}"
    using calculation by (auto simp: inj_on_def)
  moreover have "P \<subseteq> (T(0 := b)) ` {..<n}"
  proof
    fix x assume x: "x \<in> P"
    with sub obtain i where i: "i < n" "x = T i" by blast
    show "x \<in> (T(0 := b)) ` {..<n}"
    proof (cases "i = 0")
      case True
      with i x calculation have "x = (T(0 := b)) 0" by auto
      then show ?thesis using \<open>0 < n\<close> by blast
    next
      case False
      then have "x = (T(0 := b)) i" using i by simp
      then show ?thesis using i by blast
    qed
  qed
  ultimately show ?thesis using t b by (auto simp: table_ok_def)
qed

lemma table_ok_old:
  "table_ok T n b P C \<Longrightarrow> i < n \<Longrightarrow> T i \<noteq> - 1 \<Longrightarrow> table_ok T n b (insert (T i) P) (insert i C)"
  by (auto simp: table_ok_def)

lemma table_ok_new:
  assumes "table_ok T n b P C" and "\<forall>j<n. T j \<noteq> a" and "a \<noteq> b" and "a \<noteq> - 1"
  shows "table_ok (T(n := a)) (Suc n) b (insert a P) (insert n C)"
proof -
  have "inj_on (T(n := a)) {..<Suc n}"
    using assms by (auto simp: table_ok_def inj_on_def lessThan_Suc)
  moreover have "P \<subseteq> (T(n := a)) ` {..<Suc n}"
    using assms(1) by (auto simp: table_ok_def lessThan_Suc)
  ultimately show ?thesis
    using assms by (auto simp: table_ok_def less_Suc_eq)
qed

definition numbers_kept :: "kernel \<Rightarrow> kernel \<Rightarrow> bool" where
  "numbers_kept s t \<longleftrightarrow> fixed_cpus t = fixed_cpus s \<and> nr_logical_cpuids s \<le> nr_logical_cpuids t
     \<and> (\<forall>i. 0 < i \<and> i < nr_logical_cpuids s \<longrightarrow> cpuid_to_apicid t i = cpuid_to_apicid s i)"

lemma info_cases:
  obtains (rejected) "exec (generic_processor_info K apicid version) s =
        s\<lparr>disabled_cpus := disabled_cpus s + 1, mach := mach (exec (generic_processor_info K apicid version) s)\<rparr>"
      "result (generic_processor_info K apicid version) s < 0"
      "refused_cpu K apicid s \<or> no_slot apicid s \<or> nr_cpu_ids s \<le> num_processors s \<or> no_cpuid apicid s"
  | (taken) t where "exec (generic_processor_info K apicid version) s = t"
      "result (generic_processor_info K apicid version) s = int (number_of apicid s)"
      "accepted K apicid (number_of apicid s) s t" "fixed_cpus t = fixed_cpus s"
      "cpuid_to_apicid t = (cpuid_to_apicid s)(number_of apicid s := apicid)"
      "nr_logical_cpuids t = max (nr_logical_cpuids s)
        (if apicid = boot_cpu_physical_apicid s then 0 else Suc (number_of apicid s))"
      "\<not> no_slot apicid s" "num_processors s < nr_cpu_ids s" "\<not> no_cpuid apicid s"
  using info_run [of K apicid version s] unfolding wp_run
  by (auto simp: EINVAL_def ENODEV_def not_le split: if_splits)

lemma number_of_cases:
  assumes "\<not> no_cpuid apicid s"
  obtains (boot) "apicid = boot_cpu_physical_apicid s" "number_of apicid s = 0"
    | (old) "apicid \<noteq> boot_cpu_physical_apicid s" "number_of apicid s < nr_logical_cpuids s"
        "cpuid_to_apicid s (number_of apicid s) = apicid"
    | (new) "apicid \<noteq> boot_cpu_physical_apicid s" "number_of apicid s = nr_logical_cpuids s"
        "\<forall>j<nr_logical_cpuids s. cpuid_to_apicid s j \<noteq> apicid" "nr_logical_cpuids s < unat (nr_cpu_ids s)"
  using assms find_cpuid_Some [of "cpuid_to_apicid s" apicid 0 "nr_logical_cpuids s"]
    find_cpuid_None [of "cpuid_to_apicid s" apicid 0 "nr_logical_cpuids s"]
  by (cases "apicid = boot_cpu_physical_apicid s"; cases "find_cpuid (cpuid_to_apicid s) apicid 0 (nr_logical_cpuids s)")
    (auto simp: number_of_def no_cpuid_def)

lemma u32_inc:
  "n < l \<Longrightarrow> n + 1 \<le> (l :: u32)"
  "n < l - 1 \<Longrightarrow> n < l \<Longrightarrow> n + 1 < (l :: u32)"
  by unat_arith+

lemma insert_range: "A \<subseteq> f ` {..<n} \<Longrightarrow> i < n \<Longrightarrow> insert (f i) A \<subseteq> f ` {..<(n :: nat)}"
  by auto

lemma cpus_inv_step:
  assumes inv: "cpus_inv s" and "apicid \<noteq> - 1"
    and t: "t = exec (generic_processor_info K apicid version) s"
  shows "cpus_inv t \<and> numbers_kept s t"
proof (rule info_cases [of K apicid version s], goal_cases)
  case 1
  then obtain m where "t = s\<lparr>disabled_cpus := disabled_cpus s + 1, mach := m\<rparr>"
    using t by metis
  then show ?thesis using inv by (simp add: cpus_inv_def numbers_kept_def fixed_cpus_def)
next
  case (2 u)
  then have tu: "u = t" by (simp add: t)
  note acc = 2(3) [unfolded tu] and fixed = 2(4) [unfolded tu] and table = 2(5) [unfolded tu] and nr = 2(6) [unfolded tu]
  have f: "boot_cpu_physical_apicid t = boot_cpu_physical_apicid s" "nr_cpu_ids t = nr_cpu_ids s"
    using fixed by (simp_all add: fixed_cpus_def)
  have num: "num_processors t \<le> nr_cpu_ids t
      \<and> (boot_cpu_physical_apicid t \<notin> phys_cpu_present_map t \<longrightarrow> num_processors t < nr_cpu_ids t)"
    using acc inv 2(7,8) by (auto simp: f accepted_def no_slot_def cpus_inv_def not_le intro: u32_inc)
  show ?thesis
  proof (rule number_of_cases [OF 2(9)], goal_cases)
    case 1
    then have "table_ok (cpuid_to_apicid t) (nr_logical_cpuids t) (boot_cpu_physical_apicid t)
        (phys_cpu_present_map t) (cpu_present t)"
      using acc table nr inv assms(2) table_ok_boot
      by (simp add: f cpus_inv_def accepted_def)
    then show ?case
      using 1 fixed table nr inv num by (simp add: cpus_inv_def numbers_kept_def fixed_cpus_def)
  next
    case 2
    then have e: "cpuid_to_apicid t = cpuid_to_apicid s" using table by (simp add: fun_upd_idem)
    then have "table_ok (cpuid_to_apicid t) (nr_logical_cpuids t) (boot_cpu_physical_apicid t)
        (phys_cpu_present_map t) (cpu_present t)"
      using acc nr inv assms(2) table_ok_old [of "cpuid_to_apicid s" _ _ _ _ "number_of apicid s"] 2
      by (simp add: f cpus_inv_def accepted_def)
    then show ?case
      using 2 e fixed nr inv num by (simp add: cpus_inv_def numbers_kept_def fixed_cpus_def)
  next
    case 3
    then have "table_ok (cpuid_to_apicid t) (nr_logical_cpuids t) (boot_cpu_physical_apicid t)
        (phys_cpu_present_map t) (cpu_present t)"
      using acc table nr inv assms(2) table_ok_new
      by (simp add: f cpus_inv_def accepted_def)
    then show ?case
      using 3 fixed table nr inv num by (simp add: cpus_inv_def numbers_kept_def fixed_cpus_def)
  qed
qed

lemma enumerate_inv:
  "cpus_inv s \<Longrightarrow> - 1 \<notin> fst ` set calls \<Longrightarrow>
    cpus_inv (enumerate_cpus K calls s) \<and> numbers_kept s (enumerate_cpus K calls s)"
proof (induction calls arbitrary: s)
  case Nil
  then show ?case by (simp add: enumerate_cpus_def numbers_kept_def)
next
  case (Cons c calls)
  obtain a v where c: "c = (a, v)" by fastforce
  have "cpus_inv (exec (generic_processor_info K a v) s) \<and> numbers_kept s (exec (generic_processor_info K a v) s)"
    using Cons.prems c by (intro cpus_inv_step [OF Cons.prems(1) _ refl]) auto
  then show ?case
    using Cons.IH [of "exec (generic_processor_info K a v) s"] Cons.prems(2)
    by (auto simp: enumerate_cpus_def c numbers_kept_def)
qed

text \<open>
  C36. However a firmware table lists the processors, with any repetitions, the invariant of the
  enumeration holds afterwards, and no number changes its identifier: a processor that is listed
  again gets the number it had.
\<close>

theorem enumerate_cpus_invariant:
  assumes "cpus_inv s" and "- 1 \<notin> fst ` set calls"
  shows "let t = enumerate_cpus K calls s in
    inj_on (cpuid_to_apicid t) {..<nr_logical_cpuids t} \<and> nr_logical_cpuids t \<le> unat (nr_cpu_ids s)
    \<and> phys_cpu_present_map t \<subseteq> cpuid_to_apicid t ` {..<nr_logical_cpuids t}
    \<and> cpu_present t \<subseteq> {..<nr_logical_cpuids t} \<and> num_processors t \<le> nr_cpu_ids s
    \<and> (\<forall>i. 0 < i \<and> i < nr_logical_cpuids s \<longrightarrow> cpuid_to_apicid t i = cpuid_to_apicid s i)"
  using enumerate_inv [OF assms, of K]
  by (auto simp: Let_def cpus_inv_def table_ok_def numbers_kept_def fixed_cpus_def)

text \<open>The state of a kernel before any processor is enumerated.\<close>

definition demo_cpus :: kernel where
  "demo_cpus = (demo_mem (\<lambda>r. 0))\<lparr>nr_cpu_ids := 2, nr_logical_cpuids := 1, cpuid_to_apicid := (\<lambda>c. - 1),
     boot_cpu_physical_apicid := 5, phys_cpu_present_map := {}, cpu_present := {0}, num_processors := 0,
     disabled_cpu_apicid := 0xFFFF\<rparr>"

lemma demo_cpus_inv: "cpus_inv demo_cpus"
  by (simp add: cpus_inv_def table_ok_def demo_cpus_def inj_on_def)

theorem enumerate_cpus_invariant_witness:
  "num_processors (enumerate_cpus sdm [(7, 0x14), (7, 0x14), (9, 0x14)] demo_cpus) \<le> nr_cpu_ids demo_cpus"
  using enumerate_cpus_invariant [OF demo_cpus_inv, of "[(7, 0x14), (7, 0x14), (9, 0x14)]" sdm]
  by (simp add: Let_def)



text \<open>
  The answer for one processor. A refusal is negative and changes only the count of disabled
  processors; it is \<open>-ENODEV\<close> for the processor that was asked to be left out and for the slot of the
  boot processor, \<open>-EINVAL\<close> otherwise. An accepted processor gets a number below the number of
  allocated ones, under which its identifier is found again; the identifier is stored in the 16 bits
  wide tables modulo \<open>2^16\<close>.
\<close>

theorem generic_processor_info_outcomes:
  assumes "cpus_inv s" and "apicid \<noteq> - 1"
  shows "let r = result (generic_processor_info K apicid version) s; t = exec (generic_processor_info K apicid version) s
    in (r < 0 \<longrightarrow> t = s\<lparr>disabled_cpus := disabled_cpus s + 1, mach := mach t\<rparr>
          \<and> r = (if refused_cpu K apicid s \<or> no_slot apicid s then - ENODEV else - EINVAL))
     \<and> (0 \<le> r \<longrightarrow> nat r < nr_logical_cpuids t \<and> cpuid_to_apicid t (nat r) = apicid
          \<and> (r = 0 \<longleftrightarrow> apicid = boot_cpu_physical_apicid s)
          \<and> nat r \<in> cpu_present t \<and> apicid \<in> phys_cpu_present_map t \<and> num_processors t = num_processors s + 1
          \<and> (CONFIG_SMP K \<longrightarrow> unat (x86_cpu_to_apicid t (nat r)) = unat apicid mod 2 ^ 16)
          \<and> apicid \<le> max_physical_apicid t)"
proof (cases "result (generic_processor_info K apicid version) s < 0")
  case True
  then show ?thesis
    using info_run [of K apicid version s] by (auto simp: wp_run Let_def split: if_splits)
next
  case False
  have inv: "cpus_inv (exec (generic_processor_info K apicid version) s)"
    using cpus_inv_step [OF assms refl] by simp
  show ?thesis
  proof (rule info_cases [of K apicid version s], goal_cases)
    case 1
    with False show ?case by simp
  next
    case (2 t)
    have "number_of apicid s < nr_logical_cpuids t"
      using 2(6) inv 2(1) by (auto simp: number_of_def cpus_inv_def table_ok_def)
    moreover have "number_of apicid s = 0 \<longleftrightarrow> apicid = boot_cpu_physical_apicid s"
      using number_of_cases [OF 2(9)] assms by (metis cpus_inv_def table_ok_def insertE neq0_conv singletonD)
    moreover have "unat (ucast apicid :: u16) = unat apicid mod 2 ^ 16"
      by (simp add: unsigned_ucast_eq take_bit_eq_mod)
    ultimately show ?case
      using 2(1-5) False by (simp add: Let_def accepted_def)
  qed
qed

theorem generic_processor_info_outcomes_witness:
  "result (generic_processor_info sdm 7 0x14) demo_cpus < 0
    \<or> 7 \<in> phys_cpu_present_map (exec (generic_processor_info sdm 7 0x14) demo_cpus)"
  using generic_processor_info_outcomes [OF demo_cpus_inv, of 7 sdm "0x14"]
  by (auto simp: Let_def)

end
