(* ===== verification/PowerMgmt.thy ===== *)
theory PowerMgmt
  imports X2apic
begin

text \<open>
  Power management: \<open>lapic_suspend\<close> saves the registers in \<open>apic_pm_state\<close> and disables the local APIC,
  \<open>lapic_resume\<close> restores them.
\<close>

section \<open>The operations\<close>

text \<open>Saving a register in a field, and restoring it.\<close>

definition save_reg :: "u32 \<Rightarrow> (u32 \<Rightarrow> apic_pm_state_t \<Rightarrow> apic_pm_state_t) \<Rightarrow> unit kprog" where
  "save_reg r f = do { v \<leftarrow> apic_read r; modify (\<lambda>s. s\<lparr>apic_pm_state := f v (apic_pm_state s)\<rparr>) }"

definition restore_reg :: "u32 \<Rightarrow> (apic_pm_state_t \<Rightarrow> u32) \<Rightarrow> unit kprog" where
  "restore_reg r f = do { p \<leftarrow> gets apic_pm_state; apic_write r (f p) }"

definition lapic_suspend :: "platform \<Rightarrow> int kprog" where
  "lapic_suspend K = do {
     p \<leftarrow> gets apic_pm_state;
     (if \<not> pm_active p then ret 0
      else do {
        maxlvt \<leftarrow> lapic_get_maxlvt K;
        save_reg (reg K APIC_ID) (\<lambda>v p. p\<lparr>pm_apic_id := v\<rparr>);
        save_reg (reg K APIC_TASKPRI) (\<lambda>v p. p\<lparr>pm_apic_taskpri := v\<rparr>);
        save_reg (reg K APIC_LDR) (\<lambda>v p. p\<lparr>pm_apic_ldr := v\<rparr>);
        save_reg (reg K APIC_DFR) (\<lambda>v p. p\<lparr>pm_apic_dfr := v\<rparr>);
        save_reg (reg K APIC_SPIV) (\<lambda>v p. p\<lparr>pm_apic_spiv := v\<rparr>);
        save_reg (reg K APIC_LVTT) (\<lambda>v p. p\<lparr>pm_apic_lvtt := v\<rparr>);
        whenM (maxlvt \<ge> 4) (save_reg (reg K APIC_LVTPC) (\<lambda>v p. p\<lparr>pm_apic_lvtpc := v\<rparr>));
        save_reg (reg K APIC_LVT0) (\<lambda>v p. p\<lparr>pm_apic_lvt0 := v\<rparr>);
        save_reg (reg K APIC_LVT1) (\<lambda>v p. p\<lparr>pm_apic_lvt1 := v\<rparr>);
        save_reg (reg K APIC_LVTERR) (\<lambda>v p. p\<lparr>pm_apic_lvterr := v\<rparr>);
        save_reg (reg K APIC_TMICT) (\<lambda>v p. p\<lparr>pm_apic_tmict := v\<rparr>);
        save_reg (reg K APIC_TDCR) (\<lambda>v p. p\<lparr>pm_apic_tdcr := v\<rparr>);
        whenM (CONFIG_X86_THERMAL_VECTOR K \<and> maxlvt \<ge> 5)
          (save_reg (reg K APIC_LVTTHMR) (\<lambda>v p. p\<lparr>pm_apic_thmr := v\<rparr>));
        whenM (CONFIG_X86_MCE_INTEL K \<and> maxlvt \<ge> 6)
          (save_reg (reg K APIC_LVTCMCI) (\<lambda>v p. p\<lparr>pm_apic_cmci := v\<rparr>));
        local_irq_save;
        kcall mask_ioapic_entries;
        disable_local_APIC K;
        kcall irq_remapping_disable;
        local_irq_restore;
        ret 0 }) }"

definition lapic_resume :: "platform \<Rightarrow> unit kprog" where
  "lapic_resume K = do {
     p \<leftarrow> gets apic_pm_state;
     (if \<not> pm_active p then ret ()
      else do {
        local_irq_save;
        kcall mask_ioapic_entries;
        kcall legacy_pic_mask_all;
        x2 \<leftarrow> gets x2apic_mode;
        family \<leftarrow> gets x86;
        addr \<leftarrow> gets mp_lapic_addr;
        (if x2 then x2apic_hw_enable K
         else whenM (family \<ge> 6) (do {
           (l, h) \<leftarrow> on_mach (rdmsr (cst K MSR_IA32_APICBASE));
           let l = l AND NOT (cst K MSR_IA32_APICBASE_BASE);
           let l = ucast (ucast l OR (ucast (cst K MSR_IA32_APICBASE_ENABLE) OR addr));
           on_mach (wrmsr (cst K MSR_IA32_APICBASE) l h) }));
        maxlvt \<leftarrow> lapic_get_maxlvt K;
        apic_write (reg K APIC_LVTERR) (cst K ERROR_APIC_VECTOR OR cst K APIC_LVT_MASKED);
        restore_reg (reg K APIC_ID) pm_apic_id;
        restore_reg (reg K APIC_DFR) pm_apic_dfr;
        restore_reg (reg K APIC_LDR) pm_apic_ldr;
        restore_reg (reg K APIC_TASKPRI) pm_apic_taskpri;
        restore_reg (reg K APIC_SPIV) pm_apic_spiv;
        restore_reg (reg K APIC_LVT0) pm_apic_lvt0;
        restore_reg (reg K APIC_LVT1) pm_apic_lvt1;
        whenM (CONFIG_X86_THERMAL_VECTOR K \<and> maxlvt \<ge> 5) (restore_reg (reg K APIC_LVTTHMR) pm_apic_thmr);
        whenM (CONFIG_X86_MCE_INTEL K \<and> maxlvt \<ge> 6) (restore_reg (reg K APIC_LVTCMCI) pm_apic_cmci);
        whenM (maxlvt \<ge> 4) (restore_reg (reg K APIC_LVTPC) pm_apic_lvtpc);
        restore_reg (reg K APIC_LVTT) pm_apic_lvtt;
        restore_reg (reg K APIC_TDCR) pm_apic_tdcr;
        restore_reg (reg K APIC_TMICT) pm_apic_tmict;
        apic_write (reg K APIC_ESR) 0;
        _ \<leftarrow> apic_read (reg K APIC_ESR);
        restore_reg (reg K APIC_LVTERR) pm_apic_lvterr;
        apic_write (reg K APIC_ESR) 0;
        _ \<leftarrow> apic_read (reg K APIC_ESR);
        kcall (irq_remapping_reenable x2);
        local_irq_restore }) }"

definition init_lapic_sysfs :: "int kprog" where
  "init_lapic_sysfs = do {
     has \<leftarrow> boot_cpu_has X86_FEATURE_APIC;
     whenM has (kcall register_syscore_ops);
     ret 0 }"

section \<open>What is saved\<close>

text \<open>The registers that are saved for a largest entry number \<open>n\<close>, and where.\<close>

definition saved_regs :: "platform \<Rightarrow> int \<Rightarrow> apic_reg set" where
  "saved_regs K n = {APIC_ID, APIC_TASKPRI, APIC_LDR, APIC_DFR, APIC_SPIV, APIC_LVTT, APIC_LVT0, APIC_LVT1,
       APIC_LVTERR, APIC_TMICT, APIC_TDCR}
     \<union> (if n \<ge> 4 then {APIC_LVTPC} else {})
     \<union> (if CONFIG_X86_THERMAL_VECTOR K \<and> n \<ge> 5 then {APIC_LVTTHMR} else {})
     \<union> (if CONFIG_X86_MCE_INTEL K \<and> n \<ge> 6 then {APIC_LVTCMCI} else {})"

fun pm_field :: "apic_reg \<Rightarrow> apic_pm_state_t \<Rightarrow> u32" where
  "pm_field APIC_ID p = pm_apic_id p" | "pm_field APIC_TASKPRI p = pm_apic_taskpri p"
| "pm_field APIC_LDR p = pm_apic_ldr p" | "pm_field APIC_DFR p = pm_apic_dfr p"
| "pm_field APIC_SPIV p = pm_apic_spiv p" | "pm_field APIC_LVTT p = pm_apic_lvtt p"
| "pm_field APIC_LVT0 p = pm_apic_lvt0 p" | "pm_field APIC_LVT1 p = pm_apic_lvt1 p"
| "pm_field APIC_LVTERR p = pm_apic_lvterr p" | "pm_field APIC_TMICT p = pm_apic_tmict p"
| "pm_field APIC_TDCR p = pm_apic_tdcr p" | "pm_field APIC_LVTPC p = pm_apic_lvtpc p"
| "pm_field APIC_LVTTHMR p = pm_apic_thmr p" | "pm_field APIC_LVTCMCI p = pm_apic_cmci p"
| "pm_field _ p = 0"

lemma pm_mach: "s\<lparr>mach := m, apic_pm_state := q\<rparr> = (s\<lparr>apic_pm_state := q, mach := m\<rparr> :: kernel)"
  by simp

context apic_device
begin

lemma flat_save:
  assumes "apic s = a" and "device m0 \<and> trace m0 = T"
    and "\<And>v m. device m \<and> trace m = T \<Longrightarrow> (plain r \<Longrightarrow> v = reg_val init T r) \<Longrightarrow>
      Q () (s\<lparr>apic_pm_state := f v p\<rparr>\<lparr>mach := m\<rparr>)"
  shows "wp (save_reg r f) Q (s\<lparr>apic_pm_state := p\<rparr>\<lparr>mach := m0\<rparr>)"
  unfolding save_reg_def wp_bind
  by (rule flat_read [OF _ assms(2)]) (use assms(1,3) in \<open>auto simp: wp pm_mach\<close>)

lemma flat_guarded_save:
  assumes "apic s = a" and "device m0 \<and> trace m0 = T"
    and "\<And>v m. device m \<and> trace m = T \<Longrightarrow> (plain r \<Longrightarrow> v = reg_val init T r) \<Longrightarrow>
      Q () (s\<lparr>apic_pm_state := if b then f v p else p\<rparr>\<lparr>mach := m\<rparr>)"
  shows "wp (whenM b (save_reg r f)) Q (s\<lparr>apic_pm_state := p\<rparr>\<lparr>mach := m0\<rparr>)"
  using assms(2) assms(3) [of m0 "reg_val init T r"] flat_save [OF assms(1,2), of r Q f p] assms(3)
  by (cases b) (auto simp: wp)

lemma flat_restore:
  assumes "apic s = a" and "device m0 \<and> trace m0 = T" and "writable r"
    and "\<And>m. device m \<and> trace m = (if b then [(r, f (apic_pm_state s))] else []) @ T \<Longrightarrow> Q () (s\<lparr>mach := m\<rparr>)"
  shows "wp (whenM b (restore_reg r f)) Q (s\<lparr>mach := m0\<rparr>)"
proof (cases b)
  case True
  then show ?thesis using assms
    by (auto simp: restore_reg_def wp_bind wp_gets intro!: flat_write [of s m0 T])
next
  case False
  then show ?thesis using assms(2) assms(4) [of m0] by (simp add: wp)
qed

lemmas flat_restore_always = flat_restore [where b = True, unfolded whenM_simps if_True]

end

text \<open>Enabling the APIC in its base register leaves the registers in memory alone.\<close>

lemma flat_mem_base:
  assumes "mem_device K init plain m0 \<and> mem_trace K m0 = T"
    and "\<And>m. mem_device K init plain m \<and> mem_trace K m = T \<Longrightarrow> Q () (s\<lparr>mach := m\<rparr>)"
  shows "wp (whenM b (do { (l, h) \<leftarrow> on_mach (rdmsr n); on_mach (wrmsr n (f l) h) })) Q (s\<lparr>mach := m0\<rparr>)"
proof (cases b)
  case True
  then show ?thesis
    using assms by (auto simp: wp_bind split: prod.split
        intro!: wp_mem_rdmsr [of K init plain] wp_mem_silent(2) [of K init plain])
next
  case False
  then show ?thesis using assms by (simp add: wp)
qed

lemma flat_xapic:
  "\<not> x2apic_mode s \<Longrightarrow> wp q Q (s\<lparr>mach := m0\<rparr>) \<Longrightarrow>
    wp (if x2apic_mode (s\<lparr>mach := m0\<rparr>) then p else q) Q (s\<lparr>mach := m0\<rparr>)"
  by simp

lemma flat_mem_disable:
  assumes "apic s = mem_driver K a" and "mem_device K init plain m0 \<and> mem_trace K m0 = T"
    and "inj (reg K) \<and> bits_ok K \<and> plain (reg K APIC_LVR) \<and> plain (reg K APIC_LVTCMCI)"
    and "x2apic_mode s \<or> apic_phys s \<noteq> 0"
    and "\<And>m. mem_device K init plain m \<and> mem_trace K m = mem_trace K m \<Longrightarrow> Q () (s\<lparr>mach := m\<rparr>)"
  shows "wp (disable_local_APIC K) Q (s\<lparr>mach := m0\<rparr>)"
  by (rule wp_mem_disable [of _ K a init plain]) (use assms in auto)

lemma flat_pm_start: "wp q Q (s\<lparr>apic_pm_state := apic_pm_state s\<rparr>\<lparr>mach := mach s\<rparr>) \<Longrightarrow> wp q Q s"
  for s :: kernel
  by simp

text \<open>Suspending saves what the plain registers hold.\<close>

lemma wp_lapic_suspend:
  assumes "mem_apic K a init plain s" and "pm_active (apic_pm_state s)" and "x2apic_mode s \<or> apic_phys s \<noteq> 0"
    and n: "n = maxlvt_of K (reg_val init (mem_trace K (mach s)) (reg K APIC_LVR))"
  shows "wp (lapic_suspend K) (\<lambda>r t. r = 0 \<and> (\<exists>p m. t = s\<lparr>apic_pm_state := p\<rparr>\<lparr>mach := m\<rparr> \<and> pm_active p
    \<and> (\<forall>x\<in>saved_regs K n. plain (reg K x) \<longrightarrow>
        pm_field x p = reg_val init (mem_trace K (mach s)) (reg K x)))) s"
proof -
  note a = assms(1) [unfolded mem_apic_def regs_ok_def]
  have s0: "mem_device K init plain (mach s) \<and> mem_trace K (mach s) = mem_trace K (mach s)"
    using a by simp
  have app: "apic (s\<lparr>apic_pm_state := p\<rparr>) = mem_driver K a"
    and mapped: "x2apic_mode (s\<lparr>apic_pm_state := p\<rparr>) \<or> apic_phys (s\<lparr>apic_pm_state := p\<rparr>) \<noteq> 0" for p
    using a assms(3) by simp_all
  have lvr: "plain (reg K APIC_LVR)"
    and ok: "inj (reg K) \<and> bits_ok K \<and> plain (reg K APIC_LVR) \<and> plain (reg K APIC_LVTCMCI)"
    using a by simp_all
  have act: "\<not> (\<not> pm_active (apic_pm_state s))" using assms(2) by simp
  show ?thesis
    unfolding lapic_suspend_def wp_bind wp_gets if_not_P [OF act]
    by (rule flat_pm_start, intro mem.flat_silent [of K init plain]
        mem.flat_save [of _ K a init plain] mem.flat_guarded_save [of _ K a init plain]
        mem.flat_get_maxlvt [of _ K a init plain] flat_mem_disable [of _ K a init plain]
        flat_intros app app [of "apic_pm_state s", simplified] mapped ok, rule s0, assumption+)
      (rule conjI, rule refl, rule exI, rule exI, rule conjI, rule refl, use n lvr assms(2) in
        \<open>cases "4 \<le> n"; cases "CONFIG_X86_THERMAL_VECTOR K \<and> 5 \<le> n"; cases "CONFIG_X86_MCE_INTEL K \<and> 6 \<le> n";
         auto simp: saved_regs_def\<close>)
qed

lemma wp_lapic_resume:
  assumes "mem_apic K a init plain s" and "pm_active (apic_pm_state s)" and "\<not> x2apic_mode s"
    and n: "n = maxlvt_of K (reg_val init (mem_trace K (mach s)) (reg K APIC_LVR))"
  shows "wp (lapic_resume K) (\<lambda>_ t. \<exists>m. t = s\<lparr>mach := m\<rparr> \<and> mem_device K init plain m
    \<and> (\<forall>x\<in>saved_regs K n. reg_val init (mem_trace K m) (reg K x) = pm_field x (apic_pm_state s))) s"
proof -
  note a = assms(1) [unfolded mem_apic_def regs_ok_def]
  have s0: "mem_device K init plain (mach s) \<and> mem_trace K (mach s) = mem_trace K (mach s)"
    using a by simp
  have app: "apic s = mem_driver K a" and inj: "inj (reg K)" and lvr: "plain (reg K APIC_LVR)"
    using a by simp_all
  have act: "\<not> (\<not> pm_active (apic_pm_state s))" and x2: "\<not> x2apic_mode s" using assms(2,3) by simp_all
  show ?thesis
    unfolding lapic_resume_def wp_bind wp_gets if_not_P [OF act] Let_def
    by (rule flat_start, intro mem.flat_silent [of K init plain]
        mem.flat_restore [of _ K a init plain] mem.flat_restore_always [of _ K a init plain]
        mem.flat_write [of _ K a init plain] mem.flat_read [of _ K a init plain]
        mem.flat_get_maxlvt [of _ K a init plain]
        flat_mem_base flat_xapic [OF x2] flat_intros app TrueI, rule s0, assumption+)
      (erule conjE, rule exI, rule conjI, rule refl, rule conjI, assumption,
        use n lvr in \<open>auto simp: saved_regs_def inj_eq [OF inj] simp del: if_split\<close>)
qed

text \<open>
  C38. Suspend and resume are a round trip: when the local APIC was saved before the power went off
  and is restored on hardware that came back with any register contents, every saved register
  reads as it did before, the disabling in between notwithstanding. This needs the same version
  register, since it says which table entries exist.
\<close>

theorem lapic_suspend_resume:
  assumes "mem_apic K a init plain s" and "pm_active (apic_pm_state s)" and "x2apic_mode s \<or> apic_phys s \<noteq> 0"
    and "mem_apic K a init' plain u" and "apic_pm_state u = apic_pm_state (exec (lapic_suspend K) s)" and "\<not> x2apic_mode u"
    and "held K init' u APIC_LVR = held K init s APIC_LVR"
    and "x \<in> saved_regs K (maxlvt_of K (held K init s APIC_LVR))" and "plain (reg K x)"
  shows "held K init' (exec (lapic_resume K) u) x = held K init s x"
proof -
  have s: "pm_active (apic_pm_state u)" "pm_field x (apic_pm_state u) = held K init s x"
    using wp_lapic_suspend [OF assms(1-3) refl] assms(5,8,9) by (auto simp: wp_run held_def)
  show ?thesis
    using wp_lapic_resume [OF assms(4) s(1) assms(6) refl] assms(7,8) s(2) by (auto simp: wp_run held_def)
qed

theorem lapic_suspend_resume_witness:
  "held sdm (\<lambda>r. 0x60014)
     (exec (lapic_resume sdm) ((demo_mem (\<lambda>r. 0x60014))\<lparr>apic_pm_state :=
        apic_pm_state (exec (lapic_suspend sdm) ((demo_mem (\<lambda>r. 0x60014))\<lparr>apic_pm_state := demo_pm\<lparr>pm_active := True\<rparr>\<rparr>))\<rparr>))
     APIC_SPIV = 0x60014"
proof -
  let ?s = "(demo_mem (\<lambda>r. 0x60014))\<lparr>apic_pm_state := demo_pm\<lparr>pm_active := True\<rparr>\<rparr>"
  have m: "mem_apic sdm (demo_drv sdm) (\<lambda>r. 0x60014) (\<lambda>_. True) ((demo_mem (\<lambda>r. 0x60014))\<lparr>apic_pm_state := p\<rparr>)" for p
    using demo_mem_apic [of "\<lambda>r. 0x60014"] by (simp add: mem_apic_def)
  show ?thesis
    using lapic_suspend_resume [OF m _ _ m, of "demo_pm\<lparr>pm_active := True\<rparr>" _ APIC_SPIV]
    by (simp add: held_def saved_regs_def mem_trace_def)
qed

end
