(* ===== verification/Interrupts.thy ===== *)
theory Interrupts
  imports Setup
begin

text \<open>
  The spurious and the error interrupt of the local APIC. The spurious interrupt finds the in-service
  bit of its vector with shifts; the error interrupt walks over the bits of the error status and
  indexes a table of eight texts. Reading past the end of that table is an error value, so the
  theorem shows that it does not happen.
\<close>

section \<open>The spurious interrupt\<close>

definition spurious_interrupt :: "platform \<Rightarrow> u32 \<Rightarrow> unit kprog" where
  "spurious_interrupt K vector = do {
     kcall (inc_irq_stat ''irq_spurious_count'');
     (if vector = cst K SPURIOUS_APIC_VECTOR then
        pr_info ''Spurious APIC interrupt (vector 0xFF) on CPU#%d, should never happen.''
      else do {
        v \<leftarrow> apic_read (reg K APIC_ISR + drop_bit 1 (vector AND NOT 0x1f));
        (if c_true (v AND push_bit (unat (vector AND 0x1f)) 1) then do {
           pr_info ''Spurious interrupt (vector 0x%02x) on CPU#%d. Acked'';
           ack_APIC_irq K }
         else pr_info ''Spurious interrupt (vector 0x%02x) on CPU#%d. Not pending!'') }) }"

definition sysvec_spurious_apic_interrupt :: "platform \<Rightarrow> unit kprog" where
  "sysvec_spurious_apic_interrupt K = spurious_interrupt K (cst K SPURIOUS_APIC_VECTOR)"

section \<open>The error interrupt\<close>

definition error_interrupt_reason :: "string list" where
  "error_interrupt_reason = [''Send CS error'', ''Receive CS error'', ''Send accept error'',
     ''Receive accept error'', ''Redirectable IPI'', ''Send illegal vector'',
     ''Received illegal vector'', ''Illegal register address'']"

definition reason_at :: "nat \<Rightarrow> string kresult" where
  "reason_at i = (if i < length error_interrupt_reason then fine (ret (error_interrupt_reason ! i))
     else panic ''out of bounds'')"

lemma unat_drop_1: "unat (drop_bit 1 v) = unat (v :: u32) div 2"
  using unat_drop_bit_eq [of 1 v] drop_bit_eq_div [of 1 "unat v"] by simp

lemma unat_half: "v \<noteq> 0 \<Longrightarrow> unat (drop_bit 1 v) < unat (v :: u32)"
  unfolding unat_drop_1 using unat_gt_0 [of v] by linarith

function error_loop :: "u32 \<Rightarrow> nat \<Rightarrow> unit kresult" where
  "error_loop v i =
     (if \<not> c_true v then fine (ret ())
      else andthen (if c_true (v AND 0x1)
                    then andthen (reason_at i) (\<lambda>r. fine (apic_printk APIC_DEBUG ('' : '' @ r)))
                    else fine (ret ()))
             (\<lambda>_. error_loop (drop_bit 1 v) (i + 1)))"
  by pat_completeness auto

termination
  by (relation "measure (\<lambda>(v, i). unat v)") (auto simp: unat_half [simplified])

declare error_loop.simps [simp del]

definition sysvec_error_interrupt :: "platform \<Rightarrow> unit kresult" where
  "sysvec_error_interrupt K = do {
     maxlvt \<leftarrow> lapic_get_maxlvt K;
     whenM (maxlvt > 3) (apic_write (reg K APIC_ESR) 0);
     v \<leftarrow> apic_read (reg K APIC_ESR);
     ack_APIC_irq K;
     modify (\<lambda>s. s\<lparr>irq_err_count := irq_err_count s + 1\<rparr>);
     apic_printk APIC_DEBUG ''APIC error on CPU%d: %02x'';
     andthen (error_loop (v AND 0xff) 0) (\<lambda>_. fine (apic_printk APIC_DEBUG ''newline'')) }"

section \<open>Shifts and registers\<close>

text \<open>The offset of the in-service register of a vector, as \<open>lapic_vector_set_in_irr\<close> computes it.\<close>

lemma isr_offset: "drop_bit 1 (vector AND NOT 0x1f) = vector div 32 * (0x10 :: u32)"
proof -
  have "drop_bit 1 (vector AND NOT (mask 5)) = push_bit 4 (drop_bit 5 vector)"
    by (rule bit_word_eqI) (auto simp: bit_simps dest: bit_imp_le_length)
  moreover have "(mask 5 :: u32) = 0x1f"
    by (simp add: mask_eq_exp_minus_1)
  moreover have "drop_bit 5 vector = vector div 32"
    by (simp add: drop_bit_eq_div)
  ultimately show ?thesis
    by (simp add: push_bit_eq_mult)
qed

lemma isr_bit: "unat (vector AND 0x1f) = unat (vector mod (32 :: u32))"
proof -
  have "vector AND 0x1f = take_bit 5 vector"
    by (simp add: take_bit_eq_mask mask_eq_exp_minus_1)
  then show ?thesis
    by (simp add: take_bit_eq_mod)
qed

lemma test_bit_and: "n < 32 \<Longrightarrow> (v AND push_bit n 1 \<noteq> 0) = bit (v :: u32) n"
  using and_BIT_cases [of v n] bit_and_iff [of v "push_bit n 1" n] bit_push_bit_iff [of n "1 :: u32" n]
  by (auto simp: bit_1_iff)

lemma run_lapic_get_maxlvt:
  assumes "apic s = mem_driver K a"
  shows "\<exists>n l. run_state (lapic_get_maxlvt K) s = (n, s\<lparr>mach := (mach s)\<lparr>log := l\<rparr>\<rparr>)
    \<and> mem_writes K l = mem_writes K (log (mach s))"
proof -
  let ?i = "integrated_of K (ucast (answer (mach s) (log (mach s)) (MemRd (reg_addr K APIC_LVR))))"
  have "run_state (lapic_is_integrated K) s =
      (?i, s\<lparr>mach := (mach s)\<lparr>log := MemRd (reg_addr K APIC_LVR) # log (mach s)\<rparr>\<rparr>)"
    using assms by (simp add: lapic_is_integrated_def lapic_get_version_def run_apic_read integrated_of_def)
  then show ?thesis
    using assms
    by (cases ?i) (simp_all add: lapic_get_maxlvt_def run_apic_read, (rule exI, rule conjI [OF refl], simp)+)
qed

section \<open>The loop over the error bits\<close>

definition reasons :: "u32 \<Rightarrow> string list" where
  "reasons v = map (\<lambda>i. error_interrupt_reason ! i) (filter (bit v) [0..<8])"

definition say :: "string \<Rightarrow> access" where
  "say msg = Call (printk msg)"

lemma run_debug: "run_state (apic_printk APIC_DEBUG msg) s = ((), s\<lparr>mach := (mach s)\<lparr>log :=
    (if apic_verbosity s \<ge> 2 then [say msg] else []) @ log (mach s)\<rparr>\<rparr>)"
  by (simp add: apic_printk_def pr_info_def kcall_def call_def run_access_k run_whenM APIC_DEBUG_def say_def)

lemma run_andthen: "run_state (andthen p f) s =
    (case run_state p s of (Inl e, s') \<Rightarrow> (Inl e, s') | (Inr x, s') \<Rightarrow> run_state (f x) s')"
  by (simp add: andthen_def split: prod.split sum.split)

lemma run_fine: "run_state (fine p) s = (case run_state p s of (x, s') \<Rightarrow> (Inr x, s'))"
  by (simp add: fine_def split: prod.split)

lemma run_error_loop:
  assumes "i + k = 8" and "unat v < 2 ^ k"
  shows "run_state (error_loop v i) s = (Inr (), s\<lparr>mach := (mach s)\<lparr>log :=
    (if apic_verbosity s \<ge> 2 then rev (map (\<lambda>j. say ('' : '' @ error_interrupt_reason ! j))
        (filter (\<lambda>j. bit v (j - i)) [i..<8])) else []) @ log (mach s)\<rparr>\<rparr>)"
  using assms
proof (induction k arbitrary: v i s)
  case 0
  then show ?case
    by (simp add: error_loop.simps [of 0 8] run_fine unat_eq_0)
next
  case (Suc k)
  show ?case
  proof (cases "v = 0")
    case True
    then show ?thesis
      by (simp add: error_loop.simps [of 0 i] run_fine)
  next
    case False
    let ?say = "\<lambda>j. say ('' : '' @ error_interrupt_reason ! j)"
    let ?t = "s\<lparr>mach := (mach s)\<lparr>log := (if bit v 0 \<and> apic_verbosity s \<ge> 2 then [?say i] else []) @ log (mach s)\<rparr>\<rparr>"
    have i: "i < 8" and k: "Suc i + k = 8" using Suc.prems(1) by simp_all
    have len: "length error_interrupt_reason = 8" by (simp add: error_interrupt_reason_def)
    have v0: "(v AND 1 \<noteq> 0) = bit v 0"
      by (simp add: bit_0 and_one_eq odd_iff_mod_2_eq_one)
    have "run_state (error_loop v i) s = run_state (error_loop (drop_bit 1 v) (Suc i)) ?t"
      using False i by (simp add: error_loop.simps [of v] run_andthen run_fine reason_at_def len v0 run_debug)
    also have "\<dots> = (Inr (), ?t\<lparr>mach := (mach ?t)\<lparr>log := (if apic_verbosity ?t \<ge> 2
        then rev (map ?say (filter (\<lambda>j. bit (drop_bit 1 v) (j - Suc i)) [Suc i..<8])) else []) @ log (mach ?t)\<rparr>\<rparr>)"
      using Suc.prems(2) by (intro Suc.IH [OF k]) (simp add: unat_drop_1 less_mult_imp_div_less del: One_nat_def)
    also have "filter (\<lambda>j. bit (drop_bit 1 v) (j - Suc i)) [Suc i..<8] = filter (\<lambda>j. bit v (j - i)) [Suc i..<8]"
      by (rule filter_cong) (auto simp: bit_drop_bit_eq Suc_diff_Suc)
    finally show ?thesis
      using i by (simp add: upt_conv_Cons)
  qed
qed

section \<open>Properties\<close>

text \<open>
  A spurious interrupt is acknowledged exactly when it is not on the spurious vector and the
  in-service bit of its vector is set: the shifts of the code pick the register and the bit by
  quotient and remainder, as the request register is read elsewhere. No other register is written.
\<close>

theorem spurious_interrupt_acks_in_service:
  assumes "apic s = mem_driver K a"
  shows "let isr = result (apic_read (reg K APIC_ISR + vector div 32 * 0x10))
               (exec (kcall (inc_irq_stat ''irq_spurious_count'')) s)
    in mem_trace K (mach (exec (spurious_interrupt K vector) s)) =
      (if vector \<noteq> cst K SPURIOUS_APIC_VECTOR \<and> bit isr (unat (vector mod 32))
       then [(reg K APIC_EOI, cst K APIC_EOI_ACK)] else []) @ mem_trace K (mach s)"
proof -
  have "unat (vector mod 32) < 32"
    using word_mod_less_divisor [of "32 :: u32" vector] by (simp add: word_less_nat_alt)
  then have bit: "(v AND push_bit (unat (vector mod 32)) 1 \<noteq> 0) = bit v (unat (vector mod 32))" for v :: u32
    by (rule test_bit_and)
  show ?thesis
    unfolding spurious_interrupt_def isr_offset isr_bit c_true_def bit
    using assms
    by (simp add: Let_def kernel_run run_apic_read run_ack pr_info_def kcall_def call_def run_access_k mem_trace_def)
qed

theorem spurious_interrupt_acks_in_service_witness:
  "mem_trace sdm (mach (exec (spurious_interrupt sdm 0x31) (demo_mem (\<lambda>r. if r = 0x110 then 0x20000 else 0)))) =
     [(0xB0, 0)]"
  using spurious_interrupt_acks_in_service [OF demo_mem_simps(1) [of "\<lambda>r. if r = 0x110 then 0x20000 else 0"], of "0x31"]
  by (simp add: Let_def kcall_def call_def kernel_run run_access_k run_apic_read mem_hw_def mem_trace_def
      bit_numeral_rec)

text \<open>
  C31. The error interrupt never reads past its table of texts and always ends: it clears the status
  where the chip asks for it, acknowledges once, counts one error, and with debugging on reports
  exactly the texts of the bits set in the low byte of the status, in order.
\<close>

theorem sysvec_error_interrupt_reports:
  assumes "apic s = mem_driver K a"
  shows "\<exists>m n v. run_state (sysvec_error_interrupt K) s = (Inr (), s\<lparr>mach := m, irq_err_count := irq_err_count s + 1\<rparr>)
    \<and> mem_trace K m = (reg K APIC_EOI, cst K APIC_EOI_ACK)
        # (if n > (3 :: int) then [(reg K APIC_ESR, 0)] else []) @ mem_trace K (mach s)
    \<and> n = result (lapic_get_maxlvt K) s
    \<and> (\<exists>l. log m = (if apic_verbosity s \<ge> 2
            then say ''newline'' # rev (map (\<lambda>r. say ('' : '' @ r)) (reasons v)) @ [say ''APIC error on CPU%d: %02x'']
            else []) @ MemWr (reg_addr K APIC_EOI) (cst K APIC_EOI_ACK) # MemRd (reg_addr K APIC_ESR) # l
          \<and> v = ucast (answer (mach s) l (MemRd (reg_addr K APIC_ESR))))"
proof -
  obtain n l0 where n: "run_state (lapic_get_maxlvt K) s = (n, s\<lparr>mach := (mach s)\<lparr>log := l0\<rparr>\<rparr>)"
    and l0: "mem_writes K l0 = mem_writes K (log (mach s))"
    using run_lapic_get_maxlvt [OF assms] by blast
  let ?l = "(if n > 3 then [MemWr (reg_addr K APIC_ESR) 0] else []) @ l0"
  let ?v = "ucast (answer (mach s) ?l (MemRd (reg_addr K APIC_ESR))) :: u32"
  have "?v AND 0xff = take_bit 8 ?v"
    by (simp add: take_bit_eq_mask mask_eq_exp_minus_1)
  then have small: "unat (?v AND 0xff) < 2 ^ 8"
    using take_bit_nat_less_exp [of 8 "unat ?v"] by (simp only: unsigned_take_bit_eq)
  have "filter (bit (?v AND 0xff)) [0..<8] = filter (bit ?v) [0..<8]"
    using \<open>?v AND 0xff = take_bit 8 ?v\<close> by (intro filter_cong) (auto simp: bit_take_bit_iff)
  then have same: "map (\<lambda>j. say ('' : '' @ error_interrupt_reason ! j)) (filter (\<lambda>j. bit (?v AND 0xff) (j - 0)) [0..<8]) =
      map (\<lambda>r. say ('' : '' @ r)) (reasons ?v)"
    by (simp add: reasons_def comp_def)
  note loop = run_error_loop [OF _ small, of 0, unfolded same]
  let ?m = "(mach s)\<lparr>log := (if apic_verbosity s \<ge> 2
     then say ''newline'' # rev (map (\<lambda>r. say ('' : '' @ r)) (reasons ?v)) @ [say ''APIC error on CPU%d: %02x'']
     else []) @ MemWr (reg_addr K APIC_EOI) (cst K APIC_EOI_ACK) # MemRd (reg_addr K APIC_ESR) # ?l\<rparr>"
  have "run_state (sysvec_error_interrupt K) s = (Inr (), s\<lparr>mach := ?m, irq_err_count := irq_err_count s + 1\<rparr>)"
    using assms loop
    by (cases "n > 3"; cases "apic_verbosity s \<ge> 2")
      (simp_all add: sysvec_error_interrupt_def n run_apic_read run_apic_write run_whenM run_ack run_debug
        run_andthen run_fine)
  moreover have "mem_trace K ?m = (reg K APIC_EOI, cst K APIC_EOI_ACK)
        # (if n > 3 then [(reg K APIC_ESR, 0)] else []) @ mem_trace K (mach s)"
  proof -
    have "mem_writes K (map (\<lambda>x. say (f x)) xs @ k) = mem_writes K k" for f and xs :: "string list" and k
      by (induction xs) (simp_all add: say_def)
    then show ?thesis
      by (simp add: mem_trace_def l0 rev_map say_def)
  qed
  ultimately show ?thesis
    using n by (intro exI [of _ ?m] exI [of _ n] exI [of _ ?v]) (simp add: kernel_run)
qed

theorem sysvec_error_interrupt_reports_witness:
  "\<exists>m. run_state (sysvec_error_interrupt sdm) (demo_mem (\<lambda>r. 0x50014)) =
     (Inr (), (demo_mem (\<lambda>r. 0x50014))\<lparr>mach := m, irq_err_count := 1\<rparr>)"
  using sysvec_error_interrupt_reports [OF demo_mem_simps(1) [of "\<lambda>r. 0x50014"]]
  by (auto simp: demo_mem_def demo_kernel_def)

end
