(* ===== verification/CmdLine.thy ===== *)
theory CmdLine
  imports X2apic
begin

text \<open>
  The kernel parameters of the local APIC. A parameter's argument is \<open>None\<close> where the C code gets a
  null pointer, else the characters of the C string. The table \<open>early_params\<close> lists what the file
  registers with \<^verbatim>\<open>early_param\<close>; that the parser calls the handler registered for each name, in the
  order of the command line, is the contract of \<^verbatim>\<open>init/main.c\<close>. The number parser \<^verbatim>\<open>get_option\<close> is a
  parameter: it gives its return value and the number it stored, if it stored one.
\<close>

section \<open>Comparing C strings\<close>

definition strcmp_eq :: "string \<Rightarrow> string \<Rightarrow> bool" where
  "strcmp_eq a b \<longleftrightarrow> a = b"

text \<open>Equality up to \<open>n\<close> characters or the end of both strings.\<close>

fun strncmp_eq :: "string \<Rightarrow> string \<Rightarrow> nat \<Rightarrow> bool" where
  "strncmp_eq a b 0 = True"
| "strncmp_eq [] [] (Suc n) = True"
| "strncmp_eq [] (y # b) (Suc n) = False"
| "strncmp_eq (x # a) [] (Suc n) = False"
| "strncmp_eq (x # a) (y # b) (Suc n) = (x = y \<and> strncmp_eq a b n)"

lemma strncmp_eq_take: "strncmp_eq a b n \<longleftrightarrow> take n a = take n b"
  by (induction a b n rule: strncmp_eq.induct) simp_all

section \<open>The handlers\<close>

type_synonym param_handler = "string option \<Rightarrow> int kprog"

definition parse_lapic :: "platform \<Rightarrow> param_handler" where
  "parse_lapic K arg = do {
     (if CONFIG_X86_32 K \<and> arg = None then modify (\<lambda>s. s\<lparr>force_enable_local_apic := True\<rparr>)
      else case arg of None \<Rightarrow> ret ()
        | Some a \<Rightarrow> whenM (strncmp_eq a ''notscdeadline'' 13) (setup_clear_cpu_cap X86_FEATURE_TSC_DEADLINE_TIMER));
     ret 0 }"

definition setup_apicpmtimer :: param_handler where
  "setup_apicpmtimer s = do {
     modify (\<lambda>s. s\<lparr>apic_calibrate_pmtmr := True\<rparr>);
     kcall notsc_setup;
     ret 0 }"

definition setup_disableapic :: param_handler where
  "setup_disableapic arg = do {
     modify (\<lambda>s. s\<lparr>disable_apic := True\<rparr>);
     setup_clear_cpu_cap X86_FEATURE_APIC;
     ret 0 }"

definition setup_nolapic :: param_handler where
  "setup_nolapic arg = setup_disableapic arg"

definition parse_lapic_timer_c2_ok :: param_handler where
  "parse_lapic_timer_c2_ok arg = do { modify (\<lambda>s. s\<lparr>local_apic_timer_c2_ok := True\<rparr>); ret 0 }"

definition parse_disable_apic_timer :: param_handler where
  "parse_disable_apic_timer arg = do { modify (\<lambda>s. s\<lparr>disable_apic_timer := True\<rparr>); ret 0 }"

definition parse_nolapic_timer :: param_handler where
  "parse_nolapic_timer arg = do { modify (\<lambda>s. s\<lparr>disable_apic_timer := True\<rparr>); ret 0 }"

definition apic_set_verbosity :: "platform \<Rightarrow> param_handler" where
  "apic_set_verbosity K arg = (case arg of
     None \<Rightarrow> if CONFIG_X86_64 K then do { modify (\<lambda>s. s\<lparr>skip_ioapic_setup := False\<rparr>); ret 0 }
             else ret (- EINVAL)
   | Some a \<Rightarrow>
       if strcmp_eq ''debug'' a then do { modify (\<lambda>s. s\<lparr>apic_verbosity := APIC_DEBUG\<rparr>); ret 0 }
       else if strcmp_eq ''verbose'' a then do { modify (\<lambda>s. s\<lparr>apic_verbosity := APIC_VERBOSE\<rparr>); ret 0 }
       else if CONFIG_X86_64 K then do {
         pr_info ''APIC Verbosity level %s not recognised use apic=verbose or apic=debug'';
         ret (- EINVAL) }
       else ret 0)"

definition apic_set_disabled_cpu_apicid :: "(string \<Rightarrow> int \<times> u32 option) \<Rightarrow> param_handler" where
  "apic_set_disabled_cpu_apicid get_option arg = (case arg of
     None \<Rightarrow> ret (- EINVAL)
   | Some a \<Rightarrow> (case get_option a of (r, stored) \<Rightarrow> do {
       (case stored of None \<Rightarrow> ret () | Some v \<Rightarrow> modify (\<lambda>s. s\<lparr>disabled_cpu_apicid := v\<rparr>));
       (if r = 0 then ret (- EINVAL) else ret 0) }))"

definition apic_set_extnmi :: param_handler where
  "apic_set_extnmi arg = (case arg of
     None \<Rightarrow> ret (- EINVAL)
   | Some a \<Rightarrow>
       if strncmp_eq ''all'' a 3 then do { modify (\<lambda>s. s\<lparr>apic_extnmi := APIC_EXTNMI_ALL\<rparr>); ret 0 }
       else if strncmp_eq ''none'' a 4 then do { modify (\<lambda>s. s\<lparr>apic_extnmi := APIC_EXTNMI_NONE\<rparr>); ret 0 }
       else if strncmp_eq ''bsp'' a 3 then do { modify (\<lambda>s. s\<lparr>apic_extnmi := APIC_EXTNMI_BSP\<rparr>); ret 0 }
       else do {
         pr_info ''Unknown external NMI delivery mode `%s' ignored'';
         ret (- EINVAL) })"

definition early_params :: "platform \<Rightarrow> (string \<Rightarrow> int \<times> u32 option) \<Rightarrow> (string \<times> param_handler) list" where
  "early_params K get_option =
     [(''lapic'', parse_lapic K), (''nox2apic'', \<lambda>arg. setup_nox2apic K),
      (''disableapic'', setup_disableapic), (''nolapic'', setup_nolapic),
      (''lapic_timer_c2_ok'', parse_lapic_timer_c2_ok), (''noapictimer'', parse_disable_apic_timer),
      (''nolapic_timer'', parse_nolapic_timer), (''apic'', apic_set_verbosity K),
      (''disable_cpu_apicid'', apic_set_disabled_cpu_apicid get_option),
      (''apic_extnmi'', apic_set_extnmi)]"

text \<open>One parameter, and a command line.\<close>

definition do_early_param :: "platform \<Rightarrow> (string \<Rightarrow> int \<times> u32 option) \<Rightarrow> string \<times> string option \<Rightarrow> kernel \<Rightarrow> kernel" where
  "do_early_param K get_option = (\<lambda>(name, arg) s.
     case map_of (early_params K get_option) name of None \<Rightarrow> s | Some h \<Rightarrow> exec (h arg) s)"

definition parse_early_params :: "platform \<Rightarrow> (string \<Rightarrow> int \<times> u32 option) \<Rightarrow> (string \<times> string option) list \<Rightarrow> kernel \<Rightarrow> kernel" where
  "parse_early_params K get_option = fold (do_early_param K get_option)"

section \<open>The effect of a command line\<close>

text \<open>What a parameter sets the external NMI mode and the verbosity to, if it does.\<close>

definition extnmi_of :: "string \<times> string option \<Rightarrow> int option" where
  "extnmi_of = (\<lambda>(name, arg). case arg of None \<Rightarrow> None | Some a \<Rightarrow>
     if name \<noteq> ''apic_extnmi'' then None
     else if take 3 a = ''all'' then Some APIC_EXTNMI_ALL
     else if take 4 a = ''none'' then Some APIC_EXTNMI_NONE
     else if take 3 a = ''bsp'' then Some APIC_EXTNMI_BSP else None)"

definition verbosity_of :: "string \<times> string option \<Rightarrow> int option" where
  "verbosity_of p = (if p = (''apic'', Some ''debug'') then Some APIC_DEBUG
     else if p = (''apic'', Some ''verbose'') then Some APIC_VERBOSE else None)"

definition last_set :: "('p \<Rightarrow> 'v option) \<Rightarrow> 'p list \<Rightarrow> 'v \<Rightarrow> 'v" where
  "last_set f ps v = (case List.map_filter f (rev ps) of [] \<Rightarrow> v | w # _ \<Rightarrow> w)"

lemma last_set_simps [simp]:
  "last_set f [] v = v"
  "last_set f (ps @ [p]) v = (case f p of None \<Rightarrow> last_set f ps v | Some w \<Rightarrow> w)"
  by (simp_all add: last_set_def List.map_filter_simps split: option.split)

definition cmd_flags :: "kernel \<Rightarrow> bool \<times> bool \<times> bool \<times> bool \<times> int \<times> int" where
  "cmd_flags s = (disable_apic s, disable_apic_timer s, local_apic_timer_c2_ok s, boot_caps s X86_FEATURE_APIC,
     apic_extnmi s, apic_verbosity s)"

lemma cmd_flags_update [simp]:
  "cmd_flags (s\<lparr>mach := m\<rparr>) = cmd_flags s" "cmd_flags (s\<lparr>x2apic_mode := b\<rparr>) = cmd_flags s"
  "cmd_flags (s\<lparr>x2apic_state := x\<rparr>) = cmd_flags s" "cmd_flags (s\<lparr>disabled_cpu_apicid := i\<rparr>) = cmd_flags s"
  "cmd_flags (s\<lparr>skip_ioapic_setup := b\<rparr>) = cmd_flags s" "cmd_flags (s\<lparr>force_enable_local_apic := b\<rparr>) = cmd_flags s"
  "f \<noteq> X86_FEATURE_APIC \<Longrightarrow> cmd_flags (s\<lparr>boot_caps := (boot_caps s)(f := b)\<rparr>) = cmd_flags s"
  by (simp_all add: cmd_flags_def)

lemma hw_disable_flags: "cmd_flags s = c \<Longrightarrow> wp (x2apic_hw_disable K) (\<lambda>_ t. cmd_flags t = c) s"
  by (simp add: x2apic_hw_disable_def wp wp_on_mach Let_def)

lemma nox2apic_flags: "cmd_flags (exec (setup_nox2apic K) s) = cmd_flags s"
  by (rule wp_exec)
    (simp add: setup_nox2apic_def setup_clear_cpu_cap_def wp wp_fun wp_on_mach Let_def hw_disable_flags)

lemma strcmp_simps: "strncmp_eq ''all'' a 3 \<longleftrightarrow> take 3 a = ''all''" "strncmp_eq ''none'' a 4 \<longleftrightarrow> take 4 a = ''none''"
  "strncmp_eq ''bsp'' a 3 \<longleftrightarrow> take 3 a = ''bsp''"
  unfolding strncmp_eq_take by (auto simp: numeral_eq_Suc)

text \<open>One parameter.\<close>

lemma do_early_param_flags:
  "cmd_flags (do_early_param K get_option (name, arg) s) =
    (disable_apic s \<or> name \<in> {''disableapic'', ''nolapic''}, disable_apic_timer s \<or> name \<in> {''noapictimer'', ''nolapic_timer''},
     local_apic_timer_c2_ok s \<or> name = ''lapic_timer_c2_ok'',
     boot_caps s X86_FEATURE_APIC \<and> name \<notin> {''disableapic'', ''nolapic''},
     (case extnmi_of (name, arg) of None \<Rightarrow> apic_extnmi s | Some v \<Rightarrow> v),
     (case verbosity_of (name, arg) of None \<Rightarrow> apic_verbosity s | Some v \<Rightarrow> v))"
proof (cases "name \<in> set (map fst (early_params K get_option))")
  case False
  then have ne: "name \<noteq> ''disableapic''" "name \<noteq> ''nolapic''" "name \<noteq> ''noapictimer''" "name \<noteq> ''nolapic_timer''"
    "name \<noteq> ''lapic_timer_c2_ok''" "name \<noteq> ''apic''" "name \<noteq> ''apic_extnmi''"
    unfolding early_params_def by auto
  have "map_of (early_params K get_option) name = None" using False unfolding map_of_eq_None_iff by simp
  then have "do_early_param K get_option (name, arg) s = s" by (simp add: do_early_param_def)
  moreover have "extnmi_of (name, arg) = None" "verbosity_of (name, arg) = None"
    using ne by (simp_all add: extnmi_of_def verbosity_of_def split: option.split)
  ultimately show ?thesis using ne by (simp add: cmd_flags_def)
next
  case True
  then have "name = ''lapic'' \<or> name = ''nox2apic'' \<or> name = ''disableapic'' \<or> name = ''nolapic''
    \<or> name = ''lapic_timer_c2_ok'' \<or> name = ''noapictimer'' \<or> name = ''nolapic_timer'' \<or> name = ''apic''
    \<or> name = ''disable_cpu_apicid'' \<or> name = ''apic_extnmi''"
    unfolding early_params_def by simp
  then show ?thesis
  proof (elim disjE, goal_cases)
    case 2
    then show ?case
      using nox2apic_flags [of K s]
      by (simp add: do_early_param_def early_params_def extnmi_of_def verbosity_of_def cmd_flags_def split: option.split)
  qed (simp_all add: do_early_param_def early_params_def extnmi_of_def verbosity_of_def cmd_flags_def kernel_run
      parse_lapic_def setup_disableapic_def setup_nolapic_def parse_lapic_timer_c2_ok_def parse_disable_apic_timer_def
      parse_nolapic_timer_def apic_set_verbosity_def apic_set_disabled_cpu_apicid_def apic_set_extnmi_def
      setup_clear_cpu_cap_def strcmp_simps strcmp_eq_def pr_info_def kcall_def call_def run_access_k run_whenM
      split: option.split prod.split)
qed

text \<open>The effect of one more parameter on the flags, with the names as variables.\<close>

lemma one_more:
  "(x \<longleftrightarrow> y \<or> n \<in> {a, b}) \<Longrightarrow> (y \<longleftrightarrow> z \<or> a \<in> N \<or> b \<in> N) \<Longrightarrow>
    (x \<longleftrightarrow> z \<or> a \<in> insert n N \<or> b \<in> insert n N)"
  "(x \<longleftrightarrow> y \<and> n \<notin> {a, b}) \<Longrightarrow> (y \<longleftrightarrow> z \<and> a \<notin> N \<and> b \<notin> N) \<Longrightarrow>
    (x \<longleftrightarrow> z \<and> a \<notin> insert n N \<and> b \<notin> insert n N)"
  "(x \<longleftrightarrow> y \<or> n = a) \<Longrightarrow> (y \<longleftrightarrow> z \<or> a \<in> N) \<Longrightarrow> (x \<longleftrightarrow> z \<or> a \<in> insert n N)"
  by auto

text \<open>
  C39. After any command line: the local APIC is disabled, and its feature bit cleared, exactly when one
  of \<open>disableapic\<close> and \<open>nolapic\<close> was given; the timer flags are set exactly by their parameters; and the
  external NMI mode and the verbosity are those of the last parameter with a valid value,
  whatever invalid values come in between.
\<close>

theorem parse_early_params_effect:
  "let t = parse_early_params K get_option ps s; names = fst ` set ps in
     (disable_apic t \<longleftrightarrow> disable_apic s \<or> ''disableapic'' \<in> names \<or> ''nolapic'' \<in> names)
   \<and> (boot_caps t X86_FEATURE_APIC \<longleftrightarrow>
        boot_caps s X86_FEATURE_APIC \<and> ''disableapic'' \<notin> names \<and> ''nolapic'' \<notin> names)
   \<and> (disable_apic_timer t \<longleftrightarrow> disable_apic_timer s \<or> ''noapictimer'' \<in> names \<or> ''nolapic_timer'' \<in> names)
   \<and> (local_apic_timer_c2_ok t \<longleftrightarrow> local_apic_timer_c2_ok s \<or> ''lapic_timer_c2_ok'' \<in> names)
   \<and> apic_extnmi t = last_set extnmi_of ps (apic_extnmi s)
   \<and> apic_verbosity t = last_set verbosity_of ps (apic_verbosity s)"
proof (induction ps rule: rev_induct)
  case Nil
  then show ?case by (simp add: parse_early_params_def Let_def)
next
  case (snoc p ps)
  obtain name arg where p: "p = (name, arg)" by fastforce
  let ?u = "parse_early_params K get_option ps s" and ?t = "parse_early_params K get_option (ps @ [p]) s"
  have t: "?t = do_early_param K get_option (name, arg) ?u" by (simp add: parse_early_params_def p)
  have names: "fst ` set (ps @ [p]) = insert name (fst ` set ps)" by (simp add: p)
  note one = do_early_param_flags [of K get_option name arg ?u, folded t, unfolded cmd_flags_def prod.inject]
  note ih = snoc [unfolded Let_def]
  note o1 = one [THEN conjunct1] and o2 = one [THEN conjunct2, THEN conjunct1]
    and o3 = one [THEN conjunct2, THEN conjunct2, THEN conjunct1]
    and o4 = one [THEN conjunct2, THEN conjunct2, THEN conjunct2, THEN conjunct1]
    and o56 = one [THEN conjunct2, THEN conjunct2, THEN conjunct2, THEN conjunct2]
  note i1 = ih [THEN conjunct1] and i2 = ih [THEN conjunct2, THEN conjunct1]
    and i3 = ih [THEN conjunct2, THEN conjunct2, THEN conjunct1]
    and i4 = ih [THEN conjunct2, THEN conjunct2, THEN conjunct2, THEN conjunct1]
    and i56 = ih [THEN conjunct2, THEN conjunct2, THEN conjunct2, THEN conjunct2]
  show ?case
    unfolding Let_def names
    by (intro conjI, rule one_more(1) [OF o1 i1], rule one_more(2) [OF o4 i2], rule one_more(1) [OF o2 i3],
        rule one_more(3) [OF o3 i4]) (use o56 i56 in \<open>simp_all only: last_set_simps p\<close>)
qed

end
