(* ===== verification/Detect.thy ===== *)
theory Detect
  imports X2apic
begin

text \<open>
  Finding the local APIC: the detection of both kernel widths, re-enabling an APIC that the BIOS
  switched off, and \<open>init_apic_mappings\<close>, which falls back to a driver without effect (the argument
  \<open>noop\<close>, \<^verbatim>\<open>apic_noop\<close> of another file) where there is none. The feature bit of the APIC is bit 9
  of \<^verbatim>\<open>cpuid\<close>'s first feature word.
\<close>

section \<open>The operations\<close>

definition apic_disable :: "apic_drv \<Rightarrow> unit kprog" where
  "apic_disable noop = do {
     pr_info ''APIC: switched to apic NOOP'';
     modify (\<lambda>s. s\<lparr>apic := noop\<rparr>) }"

definition cpuid_edx :: "u32 \<Rightarrow> u32 kprog" where
  "cpuid_edx leaf = do { v \<leftarrow> on_mach (access (CpuidEdx leaf)); ret (ucast v) }"

definition apic_verify :: "platform \<Rightarrow> int kprog" where
  "apic_verify K = do {
     features \<leftarrow> cpuid_edx 1;
     (if \<not> c_true (features AND BIT 9) then do {
        pr_info ''Could not enable APIC!'';
        ret (- 1) }
      else do {
        modify (\<lambda>s. s\<lparr>boot_caps := (boot_caps s)(X86_FEATURE_APIC := True)\<rparr>);
        modify (\<lambda>s. s\<lparr>mp_lapic_addr := ucast (cst K APIC_DEFAULT_PHYS_BASE)\<rparr>);
        family \<leftarrow> gets x86;
        whenM (family \<ge> 6) (do {
          (l, h) \<leftarrow> on_mach (rdmsr (cst K MSR_IA32_APICBASE));
          whenM (c_true (l AND cst K MSR_IA32_APICBASE_ENABLE))
            (modify (\<lambda>s. s\<lparr>mp_lapic_addr := ucast (l AND cst K MSR_IA32_APICBASE_BASE)\<rparr>)) });
        pr_info ''Found and enabled local APIC!'';
        ret 0 }) }"

definition apic_force_enable :: "platform \<Rightarrow> u64 \<Rightarrow> int kprog" where
  "apic_force_enable K addr = do {
     disabled \<leftarrow> gets disable_apic;
     (if disabled then ret (- 1)
      else do {
        family \<leftarrow> gets x86;
        whenM (family \<ge> 6) (do {
          (l, h) \<leftarrow> on_mach (rdmsr (cst K MSR_IA32_APICBASE));
          whenM (\<not> c_true (l AND cst K MSR_IA32_APICBASE_ENABLE)) (do {
            pr_info ''Local APIC disabled by BIOS -- reenabling.'';
            let l = l AND NOT (cst K MSR_IA32_APICBASE_BASE);
            let l = ucast (ucast l OR (ucast (cst K MSR_IA32_APICBASE_ENABLE) OR addr));
            on_mach (wrmsr (cst K MSR_IA32_APICBASE) l h);
            modify (\<lambda>s. s\<lparr>enabled_via_apicbase := True\<rparr>) }) });
        apic_verify K }) }"

definition apic_vendor_ok :: "kernel \<Rightarrow> bool" where
  "apic_vendor_ok s = (case x86_vendor s of
     X86_VENDOR_AMD \<Rightarrow> x86 s = 6 \<and> x86_model s > 1 \<or> x86 s \<ge> 15
   | X86_VENDOR_HYGON \<Rightarrow> True
   | X86_VENDOR_INTEL \<Rightarrow> x86 s = 6 \<or> x86 s = 15 \<or> x86 s = 5 \<and> boot_caps s X86_FEATURE_APIC
   | X86_VENDOR_OTHER \<Rightarrow> False)"

definition detect_init_APIC_64 :: "platform \<Rightarrow> int kprog" where
  "detect_init_APIC_64 K = do {
     has \<leftarrow> boot_cpu_has X86_FEATURE_APIC;
     (if \<not> has then do { pr_info ''No local APIC present''; ret (- 1) }
      else do {
        modify (\<lambda>s. s\<lparr>mp_lapic_addr := ucast (cst K APIC_DEFAULT_PHYS_BASE)\<rparr>);
        ret 0 }) }"

definition detect_init_APIC_32 :: "platform \<Rightarrow> int kprog" where
  "detect_init_APIC_32 K = do {
     disabled \<leftarrow> gets disable_apic;
     vendor_ok \<leftarrow> gets apic_vendor_ok;
     has \<leftarrow> boot_cpu_has X86_FEATURE_APIC;
     force \<leftarrow> gets force_enable_local_apic;
     (if disabled then ret (- 1)
      else if \<not> vendor_ok then do {
        pr_info ''No local APIC present or hardware disabled'';
        ret (- 1) }
      else if \<not> has \<and> \<not> force then do {
        pr_info ''Local APIC disabled by BIOS -- you can enable it with lapic'';
        ret (- 1) }
      else do {
        r \<leftarrow> (if \<not> has then apic_force_enable K (ucast (cst K APIC_DEFAULT_PHYS_BASE)) else apic_verify K);
        (if r \<noteq> 0 then ret (- 1)
         else do { apic_pm_activate; ret 0 }) }) }"

definition detect_init_APIC :: "platform \<Rightarrow> int kprog" where
  "detect_init_APIC K = (if CONFIG_X86_64 K then detect_init_APIC_64 K else detect_init_APIC_32 K)"

definition init_apic_mappings :: "platform \<Rightarrow> apic_drv \<Rightarrow> unit kprog" where
  "init_apic_mappings K noop = do {
     deadline \<leftarrow> apic_validate_deadline_timer K;
     whenM deadline (pr_info ''TSC deadline timer available'');
     x2 \<leftarrow> gets x2apic_mode;
     (if x2 then do {
        i \<leftarrow> read_apic_id K;
        modify (\<lambda>s. s\<lparr>boot_cpu_physical_apicid := i\<rparr>) }
      else do {
        found \<leftarrow> gets smp_found_config;
        missing \<leftarrow> (if found then ret False else do { r \<leftarrow> detect_init_APIC K; ret (r \<noteq> 0) });
        (if missing then do {
           pr_info ''APIC: disable apic facility'';
           apic_disable noop }
         else do {
           modify (\<lambda>s. s\<lparr>apic_phys := mp_lapic_addr s\<rparr>);
           lapic \<leftarrow> gets acpi_lapic;
           addr \<leftarrow> gets apic_phys;
           whenM (\<not> lapic \<and> \<not> found) (register_lapic_address K addr) });
        new_apicid \<leftarrow> read_apic_id K;
        boot \<leftarrow> gets boot_cpu_physical_apicid;
        whenM (boot \<noteq> new_apicid) (do {
          modify (\<lambda>s. s\<lparr>boot_cpu_physical_apicid := new_apicid\<rparr>);
          v \<leftarrow> apic_read (reg K APIC_LVR);
          modify (\<lambda>s. s\<lparr>boot_cpu_apic_version := ucast (GET_APIC_VERSION K v)\<rparr>) }) }) }"

definition PAGE_SIZE_apic :: u64 where "PAGE_SIZE_apic = 4096"

definition lapic_insert_resource :: "int kprog" where
  "lapic_insert_resource = do {
     phys \<leftarrow> gets apic_phys;
     (if \<not> c_true phys then ret (- 1)
      else do {
        kcall (insert_resource phys (phys + PAGE_SIZE_apic - 1));
        ret 0 }) }"

section \<open>Multi-chassis boxes\<close>

text \<open>
  Two variables of their own; \<open>dmi_matches\<close> says whether the machine's DMI strings match an entry. The
  kernel's \<^verbatim>\<open>dmi_check_system\<close> calls the entry's callback on a match.
\<close>

record chassis =
  multi_checked :: bool
  multi :: bool
  chassis_log :: "string list"

definition set_multi :: "string \<Rightarrow> chassis \<Rightarrow> chassis" where
  "set_multi ident c = (if multi c then c
     else c\<lparr>chassis_log := (''APIC: '' @ ident @ '' detected, Multi Chassis'') # chassis_log c, multi := True\<rparr>)"

definition multi_dmi_table :: "(string \<times> (string \<times> string) list) list" where
  "multi_dmi_table = [(''IBM System Summit2'', [(''DMI_SYS_VENDOR'', ''IBM''), (''DMI_PRODUCT_NAME'', ''Summit2'')])]"

definition dmi_check_multi :: "((string \<times> string) list \<Rightarrow> bool) \<Rightarrow> chassis \<Rightarrow> chassis" where
  "dmi_check_multi dmi_matches c = (if multi_checked c then c
     else (fold (\<lambda>(ident, m) c. if dmi_matches m then set_multi ident c else c) multi_dmi_table c)\<lparr>multi_checked := True\<rparr>)"

definition apic_is_clustered_box :: "((string \<times> string) list \<Rightarrow> bool) \<Rightarrow> chassis \<Rightarrow> bool \<times> chassis" where
  "apic_is_clustered_box dmi_matches c = (let c = dmi_check_multi dmi_matches c in (multi c, c))"

text \<open>The answer is fixed by the first call.\<close>

lemma apic_is_clustered_box_once:
  "apic_is_clustered_box d' (snd (apic_is_clustered_box d c)) = apic_is_clustered_box d c"
  by (simp add: apic_is_clustered_box_def dmi_check_multi_def Let_def)

section \<open>Detection\<close>

lemma wp_rdmsr: "wp (on_mach (rdmsr n)) Q s =
    (let v = answer (mach s) (log (mach s)) (RdMsr n) in
     Q (ucast v, ucast (drop_bit 32 v)) (s\<lparr>mach := (mach s)\<lparr>log := RdMsr n # log (mach s)\<rparr>\<rparr>))"
  by (simp add: rdmsr_def rdmsrl_def wp_on_mach Let_def exec_def result_def)

lemma wp_wrmsr: "wp (on_mach (wrmsr n l h)) Q s =
    Q () (s\<lparr>mach := (mach s)\<lparr>log := WrMsr n (push_bit 32 (ucast h) OR ucast l) # log (mach s)\<rparr>\<rparr>)"
  by (simp add: wrmsr_def wrmsrl_def wp)

lemma wp_cpuid_edx: "wp (cpuid_edx n) Q s =
    Q (ucast (answer (mach s) (log (mach s)) (CpuidEdx n))) (s\<lparr>mach := (mach s)\<lparr>log := CpuidEdx n # log (mach s)\<rparr>\<rparr>)"
  by (simp add: cpuid_edx_def wp)

lemma base_writes_cpuid [simp]: "base_writes K (CpuidEdx n # l) = base_writes K l"
  by (simp add: base_writes_def base_write_def List.map_filter_simps)

text \<open>An address that came from the base register of an enabled APIC.\<close>

definition base_addr :: "platform \<Rightarrow> u64 \<Rightarrow> bool" where
  "base_addr K addr \<longleftrightarrow> (\<exists>l. l AND cst K MSR_IA32_APICBASE_ENABLE \<noteq> 0 \<and> addr = ucast (l AND cst K MSR_IA32_APICBASE_BASE))"

lemma base_addrI: "l AND cst K MSR_IA32_APICBASE_ENABLE \<noteq> 0 \<Longrightarrow> base_addr K (ucast (l AND cst K MSR_IA32_APICBASE_BASE))"
  unfolding base_addr_def by blast


text \<open>A 32-bit platform.\<close>

definition sdm32 :: platform where
  "sdm32 = sdm\<lparr>CONFIG_X86_64 := False, CONFIG_X86_32 := True\<rparr>"


end
