(* ===== verification/Frame.thy ===== *)
theory Frame
  imports Eilvt IntrMode CpuMap PowerMgmt Interrupts CmdLine Detect Calibration
begin

text \<open>
  Which operation keeps which predicate on the globals. The locale \<open>kernel_frame\<close> is about any predicate
  that does not speak of the machine: one rule per construct of the language, and one lemma per
  operation of the components that only talks to the machine. The operations that change globals are
  treated where the predicate is known (\<open>Entries\<close>).
\<close>

definition keeps :: "(kernel \<Rightarrow> bool) \<Rightarrow> 'a kprog \<Rightarrow> bool" where
  "keeps P p \<longleftrightarrow> (\<forall>s. P s \<longrightarrow> P (exec p s))"

lemma keepsD: "keeps P p \<Longrightarrow> P s \<Longrightarrow> P (exec p s)"
  by (simp add: keeps_def)

lemma keeps_run: "keeps P p \<Longrightarrow> P s \<Longrightarrow> run_state p s = (r, t) \<Longrightarrow> P t"
  using keepsD [of P p s] by (simp add: exec_def)

locale kernel_frame =
  fixes P :: "kernel \<Rightarrow> bool"
  assumes machine_only: "P s \<Longrightarrow> P (s\<lparr>mach := m\<rparr>)"
begin

lemma keeps_ret [intro!]: "keeps P (ret x)"
  by (simp add: keeps_def exec_result_ret)

lemma keeps_bind [intro!]: "keeps P p \<Longrightarrow> (\<And>x. keeps P (f x)) \<Longrightarrow> keeps P (State_Monad.bind p f)"
  by (simp add: keeps_def exec_bind)

lemma keeps_gets [intro!]: "keeps P (gets f)"
  by (simp add: keeps_def exec_def)

lemma keeps_modify: "(\<And>s. P s \<Longrightarrow> P (f s)) \<Longrightarrow> keeps P (modify f)"
  by (simp add: keeps_def exec_def)

lemma keeps_whenM [intro!]: "(b \<Longrightarrow> keeps P p) \<Longrightarrow> keeps P (whenM b p)"
  by (auto simp: whenM_def)

lemma keeps_on_mach [intro!]: "keeps P (on_mach p)"
  by (simp add: keeps_def exec_def run_on_mach machine_only)

lemma keeps_fine [intro!]: "keeps P p \<Longrightarrow> keeps P (fine p)"
  by (simp add: fine_def keeps_bind keeps_ret)

lemma keeps_panic [intro!]: "keeps P (panic msg)"
  by (simp add: panic_def keeps_ret)

lemma keeps_andthen [intro!]: "keeps P p \<Longrightarrow> (\<And>x. keeps P (f x)) \<Longrightarrow> keeps P (andthen p f)"
  by (auto simp: andthen_def split: sum.split)

section \<open>Accesses\<close>

lemma keeps_access [intro!]:
  "keeps P (apic_read r)" "keeps P (apic_write r v)" "keeps P (ack_APIC_irq K)" "keeps P apic_wait_icr_idle"
  "keeps P (read_apic_id K)" "keeps P (boot_cpu_has f)" "keeps P (this_cpu_has f)" "keeps P apic_from_smp_config"
  "keeps P (kcall c)" "keeps P (kcall_int c)" "keeps P (pr_info msg)" "keeps P (apic_printk n msg)"
  "keeps P local_irq_save" "keeps P local_irq_restore" "keeps P local_irq_disable" "keeps P local_irq_enable"
  "keeps P (x2apic_enabled K)" "keeps P cpu_relax" "keeps P rdtsc" "keeps P mfence" "keeps P jiffies"
  "keeps P (cpuid_edx r)" "keeps P (acpi_pm_read_early K)"
  by (auto simp: apic_read_def apic_write_def ack_APIC_irq_def apic_eoi_def apic_wait_icr_idle_def read_apic_id_def
      boot_cpu_has_def this_cpu_has_def apic_from_smp_config_def kcall_def kcall_int_def pr_info_def apic_printk_def
      local_irq_save_def local_irq_restore_def local_irq_disable_def local_irq_enable_def x2apic_enabled_def
      cpu_relax_def rdtsc_def mfence_def jiffies_def cpuid_edx_def acpi_pm_read_early_def)

section \<open>Operations that only talk to the machine\<close>

lemma keeps_version [intro!]:
  "keeps P (lapic_get_version K)" "keeps P (lapic_is_integrated K)" "keeps P (modern_apic K)"
  "keeps P (lapic_get_maxlvt K)"
  by (auto simp: lapic_get_version_def lapic_is_integrated_def modern_apic_def lapic_get_maxlvt_def)

lemma keeps_shutdown [intro!]:
  "keeps P (clear_local_APIC K)" "keeps P (apic_soft_disable K)" "keeps P (disable_local_APIC K)"
  "keeps P (lapic_shutdown K)" "keeps P (connect_bsp_APIC K)" "keeps P (disconnect_bsp_APIC K v)"
  by (auto simp: clear_local_APIC_def apic_soft_disable_def disable_local_APIC_def lapic_shutdown_def
      connect_bsp_APIC_def imcr_pic_to_apic_def disconnect_bsp_APIC_def imcr_apic_to_pic_def Let_def
      split: prod.split)

lemma keeps_read_ir [intro!]: "keeps P (read_ir base n)"
  by (induction n) auto

lemma keeps_for_each [intro!]: "keeps P p \<Longrightarrow> keeps P (for_each bs p)"
  by (induction bs) auto

lemma keeps_check_and_ack [intro!]: "keeps P (apic_check_and_ack K)"
  by (auto simp: apic_check_and_ack_def)

lemma keeps_pending_clear [intro!]: "keeps P (pending_clear_loop K n)"
  by (induction n) auto

lemma keeps_setup [intro!]:
  "keeps P (init_bsp_APIC K)" "keeps P (lapic_setup_esr K)" "keeps P (apic_pending_intr_clear K)"
  "keeps P up_late_init"
  by (auto simp: init_bsp_APIC_def lapic_setup_esr_def apic_pending_intr_clear_def up_late_init_def Let_def)

lemma keeps_timer [intro!]:
  "keeps P (setup_APIC_LVTT K c os irq)" "keeps P (lapic_next_event K d)" "keeps P (lapic_next_deadline K d)"
  "keeps P (lapic_timer_shutdown K e)" "keeps P (lapic_timer_set_periodic_oneshot K e os)"
  "keeps P (lapic_timer_broadcast K m)" "keeps P lapic_update_tsc_freq_here"
  by (auto simp: setup_APIC_LVTT_def lapic_next_event_def lapic_next_deadline_def lapic_timer_shutdown_def
      lapic_timer_set_periodic_oneshot_def lapic_timer_broadcast_def lapic_update_tsc_freq_here_def Let_def)

lemma keeps_timer_interrupt: "keeps P cal \<Longrightarrow> keeps P (sysvec_apic_timer_interrupt K cal)"
  by (auto simp: sysvec_apic_timer_interrupt_def local_apic_timer_interrupt_def split: option.split event_handler_fn.split)

lemma keeps_interrupts [intro!]: "keeps P (spurious_interrupt K v)" "keeps P (sync_Arb_IDs K)"
  by (auto simp: spurious_interrupt_def sync_Arb_IDs_def)

lemma keeps_error_loop [intro!]: "keeps P (error_loop v i)"
  by (induction v i rule: error_loop.induct, subst error_loop.simps) (auto simp: reason_at_def)

lemma keeps_x2apic_hw [intro!]:
  "keeps P (x2apic_hw_disable K)" "keeps P (x2apic_hw_enable K)" "keeps P (x2apic_setup K)"
  by (auto simp: x2apic_hw_disable_def x2apic_hw_enable_def x2apic_setup_def)

lemma keeps_resume [intro!]: "keeps P (lapic_resume K)"
  by (auto simp: lapic_resume_def restore_reg_def Let_def split: prod.split)

lemma keeps_misc [intro!]: "keeps P init_lapic_sysfs" "keeps P lapic_insert_resource" "keeps P (hard_smp_processor_id K)"
  by (auto simp: init_lapic_sysfs_def lapic_insert_resource_def hard_smp_processor_id_def)

lemma keeps_pmtimer [intro!]: "keeps P (calibrate_by_pmtimer K pm d t)"
  by (auto simp: calibrate_by_pmtimer_def Let_def)

lemma keeps_cal_poll [intro!]: "keeps P (cal_poll c)"
  by (auto simp: cal_poll_def)

end

end
