(* ===== verification/Zzzloop.thy ===== *)
theory Zzzloop
  imports X2apic
begin

text \<open>
  \<^verbatim>\<open>fs/proc/zzzloop.c\<close>: the loops in which a migrated kernel waits to be resumed. The loop variables
  are volatile and are changed from outside, so every test is an access \<open>RunFlag\<close>, and the loops are
  partial functions. The tools leave a loop either by clearing the variable or by setting the
  instruction pointer to the label behind it; the code after a label is a program of its own
  (\<open>zzzloop_continue\<close>, \<open>zzzloop2_continue\<close>, \<open>zzzloop2_continue_2\<close>). The \<^verbatim>\<open>nop\<close> slides have no effect.
  The conversion \<^verbatim>\<open>msecs_to_jiffies\<close> is a parameter.
\<close>

section \<open>The debug port\<close>

fun debug_out :: "u8 list \<Rightarrow> unit kprog" where
  "debug_out [] = ret ()"
| "debug_out (b # bs) = do { on_mach (outb b 0x402); debug_out bs }"

definition DBG_OUT_LNX1 :: "unit kprog" where
  "DBG_OUT_LNX1 = debug_out [0x4c, 0x4e, 0x58, 0x31, 0x0d, 0x0a]"

definition DBG_OUT_LNX2 :: "unit kprog" where
  "DBG_OUT_LNX2 = debug_out [0x4c, 0x4e, 0x58, 0x32, 0x0d, 0x0a]"

definition DBG_OUT_LNX3 :: "unit kprog" where
  "DBG_OUT_LNX3 = debug_out [0x4c, 0x4e, 0x58, 0x33, 0x0d, 0x0a]"

definition zzzloop_debugprint :: "int kprog" where
  "zzzloop_debugprint = do { debug_out [0x5a, 0x59, 0x58]; ret 0 }"

section \<open>The loops\<close>

text \<open>\<open>while (run) pause\<close>, for the loop variable number \<open>i\<close>.\<close>

definition run_flag :: "nat \<Rightarrow> u64 kprog" where "run_flag i = on_mach (access (RunFlag i))"
definition pause :: "unit kprog" where "pause = on_mach (do_access Pause)"

partial_function (option) spin :: "nat \<Rightarrow> kernel \<Rightarrow> kernel option" where
  "spin i s = (if c_true (result (run_flag i) s) then spin i (exec pause (exec (run_flag i) s))
     else Some (exec (run_flag i) s))"

definition zzzloop_continue :: "int kprog" where
  "zzzloop_continue = do {
     DBG_OUT_LNX1;
     _ \<leftarrow> jiffies;
     pr_info ''zzzloop: After zzzloop_continue 300 jiffies=%lu'';
     DBG_OUT_LNX2;
     pr_info ''zzzloop: Before tsc_verify_tsc_adjust'';
     kcall (tsc_verify_tsc_adjust True);
     pr_info ''zzzloop: After tsc_verify_tsc_adjust'';
     pr_info ''zzzloop: Before tsc_restore_sched_clock_state'';
     kcall tsc_restore_sched_clock_state;
     pr_info ''zzzloop: After tsc_restore_sched_clock_state'';
     ret 0 }"

definition zzzloop_main :: "kernel \<Rightarrow> (int \<times> kernel) option" where
  "zzzloop_main s = Option.bind (spin 1 (exec (do {
       _ \<leftarrow> jiffies;
       pr_info ''zzzloop: Entered zzzloop_main 100 jiffies=%lu'';
       pr_info ''zzzloop: Starting endless loop 200'' }) s))
     (\<lambda>s. Some (run_state zzzloop_continue s))"

definition zzzloop2_continue :: "unit kprog" where
  "zzzloop2_continue = do {
     DBG_OUT_LNX1;
     pr_info ''zzzloop2: After zzzloop2_continue 300'';
     DBG_OUT_LNX2;
     pr_info ''zzzloop2: Starting second endless loop 400'' }"

definition zzzloop2_continue_2 :: "int kprog" where
  "zzzloop2_continue_2 = do {
     DBG_OUT_LNX3;
     pr_info ''zzzloop2: After zzzloop2_continue_2'';
     ret 0 }"

definition zzzloop2_main :: "kernel \<Rightarrow> (int \<times> kernel) option" where
  "zzzloop2_main s = Option.bind (spin 1 (exec (do {
       pr_info ''zzzloop2: Entered zzzloop_main 100'';
       pr_info ''zzzloop2: Starting endless loop 200'' }) s))
     (\<lambda>s. Option.bind (spin 2 (exec zzzloop2_continue s))
     (\<lambda>s. Some (run_state zzzloop2_continue_2 s)))"

section \<open>The timer and the files under /proc\<close>

record zzz =
  zk :: kernel
  zzzloop_counter :: u64

definition zzzloop_timer_handler :: "(nat \<Rightarrow> u64) \<Rightarrow> zzz \<Rightarrow> zzz" where
  "zzzloop_timer_handler msecs_to_jiffies z = \<lparr>zk = exec (do {
       j \<leftarrow> jiffies;
       kcall (mod_timer (j + msecs_to_jiffies 250));
       _ \<leftarrow> jiffies;
       pr_info ''zzzloop_timer_handler: zzzloop_counter=%lu jiffies=%lu'' }) (zk z),
     zzzloop_counter = zzzloop_counter z + 1\<rparr>"

definition zzzloop_proc_show :: "kernel \<Rightarrow> (int \<times> kernel) option" where
  "zzzloop_proc_show s = Option.bind (zzzloop_main (exec (kcall (seq_printf ''Test zzzloop i=0'')) s))
     (\<lambda>(_, s). Some (run_state (do {
       kcall (seq_printf ''Test zzzloop i=1'');
       pr_info ''zzzloop: returning from zzzloop_proc_show'';
       ret 0 }) s))"

definition zzzloop2_proc_show :: "kernel \<Rightarrow> (int \<times> kernel) option" where
  "zzzloop2_proc_show s = Option.bind (zzzloop2_main (exec (kcall (seq_printf ''Test zzzloop2 i=0'')) s))
     (\<lambda>(_, s). Some (run_state (do { kcall (seq_printf ''Test zzzloop i=1''); ret 0 }) s))"

definition zzzloop_timer_start_proc_show :: "(nat \<Rightarrow> u64) \<Rightarrow> int kprog" where
  "zzzloop_timer_start_proc_show msecs_to_jiffies = do {
     pr_info ''zzzloop: Starting periodic timer'';
     j \<leftarrow> jiffies;
     kcall (mod_timer (j + msecs_to_jiffies 250));
     kcall (seq_printf ''zzzloop_timer started'');
     ret 0 }"

definition zzzloop_timer_del_proc_show :: "int kprog" where
  "zzzloop_timer_del_proc_show = do {
     kcall del_timer;
     kcall (seq_printf ''zzzloop_timer deleted'');
     ret 0 }"

definition zzzloop_apic_flag_on_proc_show :: "int kprog" where
  "zzzloop_apic_flag_on_proc_show = do {
     pr_info ''zzzloop: Setting apic_zzz_debug_flag to 1'';
     modify (\<lambda>s. s\<lparr>apic_zzz_debug_flag := True\<rparr>);
     ret 0 }"

definition zzzloop_apic_flag_off_proc_show :: "int kprog" where
  "zzzloop_apic_flag_off_proc_show = do {
     pr_info ''zzzloop: Setting apic_zzz_debug_flag to 0'';
     modify (\<lambda>s. s\<lparr>apic_zzz_debug_flag := False\<rparr>);
     ret 0 }"

text \<open>The files that \<^verbatim>\<open>proc_zzzloop_init\<close> creates, with what reading each of them runs.\<close>

definition proc_files :: "(nat \<Rightarrow> u64) \<Rightarrow> (string \<times> (kernel \<Rightarrow> (int \<times> kernel) option)) list" where
  "proc_files m =
     [(''zzzloop'', zzzloop_proc_show), (''zzzloop2'', zzzloop2_proc_show),
      (''zzzloop_timer_start'', \<lambda>s. Some (run_state (zzzloop_timer_start_proc_show m) s)),
      (''zzzloop_timer_del'', \<lambda>s. Some (run_state zzzloop_timer_del_proc_show s)),
      (''zzzloop_apic_flag_on'', \<lambda>s. Some (run_state zzzloop_apic_flag_on_proc_show s)),
      (''zzzloop_apic_flag_off'', \<lambda>s. Some (run_state zzzloop_apic_flag_off_proc_show s))]"

fun create_all :: "string list \<Rightarrow> unit kprog" where
  "create_all [] = ret ()"
| "create_all (n # ns) = do { kcall (proc_create n); create_all ns }"

definition proc_zzzloop_init :: "int kprog" where
  "proc_zzzloop_init = do { create_all (map fst (proc_files (\<lambda>_. 0))); ret 0 }"

section \<open>Spinning\<close>

text \<open>The log after the variable was read \<open>n\<close> times in vain.\<close>

abbreviation spins :: "nat \<Rightarrow> nat \<Rightarrow> access list \<Rightarrow> access list" where
  "spins i \<equiv> polled [Pause, RunFlag i]"

definition runs_at :: "machine \<Rightarrow> nat \<Rightarrow> access list \<Rightarrow> nat \<Rightarrow> bool" where
  "runs_at m i l n \<longleftrightarrow> answer m (spins i n l) (RunFlag i) \<noteq> 0"

definition released :: "machine \<Rightarrow> nat \<Rightarrow> access list \<Rightarrow> bool" where
  "released m i l \<longleftrightarrow> (\<exists>n. \<not> runs_at m i l n)"

lemma run_flag_log:
  "result (run_flag i) (with_log l s) = answer (mach s) l (RunFlag i)"
  "exec (run_flag i) (with_log l s) = with_log (RunFlag i # l) s"
  by (simp_all add: run_flag_def with_log_def on_mach_def kernel_run)

lemma spin_least:
  assumes "spin i s = Some r"
    and "\<And>t. \<not> c_true (result (run_flag i) t) \<Longrightarrow> P t"
    and "\<And>t. c_true (result (run_flag i) t) \<Longrightarrow> P (exec pause (exec (run_flag i) t)) \<Longrightarrow> P t"
  shows "P s"
proof -
  have "j = i \<longrightarrow> P t" if "spin j t = Some r" for j t
    using that by (rule spin.raw_induct [rotated])
      (use assms(2,3) in \<open>auto split: if_splits\<close>)
  with assms(1) show ?thesis by blast
qed

interpretation spinning: poll_loop "spin i" "\<lambda>s. c_true (result (run_flag i) s)"
  "\<lambda>s. exec pause (exec (run_flag i) s)" "exec (run_flag i)" "[Pause, RunFlag i]" "\<lambda>_. True" for i
proof unfold_locales
  show "spin i s = (if c_true (result (run_flag i) s) then spin i (exec pause (exec (run_flag i) s))
      else Some (exec (run_flag i) s))" for s
    by (rule spin.simps)
qed (auto simp: with_log_def run_flag_def pause_def on_mach_def kernel_run intro: spin_least
    simp del: c_true_simps)

lemma spin_released:
  "released (mach s) i (log (mach s)) \<Longrightarrow>
    \<exists>n. spin i s = Some (s\<lparr>mach := (mach s)\<lparr>log := RunFlag i # spins i n (log (mach s))\<rparr>\<rparr>)"
  using spinning.poll_idle [where s = s and i = i]
  by (auto simp: released_def runs_at_def run_flag_log simp flip: with_log_def)

lemma spin_returns: "spin i s = Some t \<Longrightarrow> released (mach s) i (log (mach s))"
  using spinning.poll_iff [where s = s and i = i] by (auto simp: released_def runs_at_def run_flag_log)

text \<open>The bytes sent to the debug port, in the order of sending.\<close>

definition port_byte :: "access \<Rightarrow> u8 option" where
  "port_byte c = (case c of Outb b p \<Rightarrow> if p = 0x402 then Some b else None | _ \<Rightarrow> None)"

definition port_bytes :: "access list \<Rightarrow> u8 list" where
  "port_bytes l = rev (List.map_filter port_byte l)"

definition line :: "string \<Rightarrow> u8 list" where
  "line t = map of_char t @ [0x0d, 0x0a]"

lemma port_bytes_simps [simp]:
  "port_bytes (Outb b 0x402 # l) = port_bytes l @ [b]" "port_bytes (Call f # l) = port_bytes l"
  "port_bytes (RunFlag i # l) = port_bytes l" "port_bytes (Pause # l) = port_bytes l"
  "port_bytes (Jiffies # l) = port_bytes l"
  by (simp_all add: port_bytes_def port_byte_def List.map_filter_simps)

lemma port_bytes_spins [simp]: "port_bytes (spins i n l) = port_bytes l"
  by (induction n) simp_all

lemma run_debug_out: "exec (debug_out bs) s =
    s\<lparr>mach := (mach s)\<lparr>log := rev (map (\<lambda>b. Outb b 0x402) bs) @ log (mach s)\<rparr>\<rparr>"
  by (induction bs arbitrary: s) (simp_all add: kernel_run outb_def run_access_k)



section \<open>The timer\<close>

text \<open>How often a log arms the timer, and that each time is 250 milliseconds after a fresh reading.\<close>

definition timer_set :: "access \<Rightarrow> u64 option" where
  "timer_set c = (case c of Call g \<Rightarrow> (case g of mod_timer j \<Rightarrow> Some j | _ \<Rightarrow> None) | _ \<Rightarrow> None)"

definition armed :: "access list \<Rightarrow> nat" where
  "armed l = length (List.map_filter timer_set l)"

fun armed_ok :: "(access list \<Rightarrow> access \<Rightarrow> u64) \<Rightarrow> u64 \<Rightarrow> access list \<Rightarrow> bool" where
  "armed_ok f d [] = True"
| "armed_ok f d (c # l) =
     ((case timer_set c of None \<Rightarrow> True
       | Some j \<Rightarrow> l \<noteq> [] \<and> hd l = Jiffies \<and> j = f (tl l) Jiffies + d) \<and> armed_ok f d l)"

lemma handler_run:
  "zzzloop_timer_handler m z = \<lparr>zk = (zk z)\<lparr>mach := (mach (zk z))\<lparr>log :=
      Call (printk ''zzzloop_timer_handler: zzzloop_counter=%lu jiffies=%lu'') # Jiffies
      # Call (mod_timer (answer (mach (zk z)) (log (mach (zk z))) Jiffies + m 250)) # Jiffies # log (mach (zk z))\<rparr>\<rparr>,
    zzzloop_counter = zzzloop_counter z + 1\<rparr>"
  by (simp add: zzzloop_timer_handler_def jiffies_def kernel_run on_mach_def pr_info_def kcall_def call_def)

text \<open>
  However often the timer fires: each time re-arms it exactly once, for 250 milliseconds after the
  jiffies just read; the counter counts modulo \<open>2^64\<close>; and nothing else of the kernel changes.
\<close>

theorem zzzloop_timer_handler_rearms:
  "let z' = (zzzloop_timer_handler m ^^ n) z in
     unat (zzzloop_counter z') = (unat (zzzloop_counter z) + n) mod 2 ^ 64
   \<and> armed (log (mach (zk z'))) = armed (log (mach (zk z))) + n
   \<and> (armed_ok (answer (mach (zk z))) (m 250) (log (mach (zk z))) \<longrightarrow>
        armed_ok (answer (mach (zk z))) (m 250) (log (mach (zk z'))))
   \<and> zk z' = (zk z)\<lparr>mach := (mach (zk z))\<lparr>log := log (mach (zk z'))\<rparr>\<rparr>"
proof (induction n)
  case 0
  then show ?case using unat_word_lt [of "zzzloop_counter z"] by (simp add: Let_def)
next
  case (Suc n)
  define y where "y = (zzzloop_timer_handler m ^^ n) z"
  have ih: "unat (zzzloop_counter y) = (unat (zzzloop_counter z) + n) mod 2 ^ 64"
    "armed (log (mach (zk y))) = armed (log (mach (zk z))) + n"
    "armed_ok (answer (mach (zk z))) (m 250) (log (mach (zk z))) \<longrightarrow> armed_ok (answer (mach (zk z))) (m 250) (log (mach (zk y)))"
    "zk y = (zk z)\<lparr>mach := (mach (zk z))\<lparr>log := log (mach (zk y))\<rparr>\<rparr>"
    using Suc by (simp_all add: Let_def y_def [symmetric])
  have same: "answer (mach (zk y)) = answer (mach (zk z))" by (subst ih(4)) simp
  have "unat (zzzloop_counter y + 1) = (unat (zzzloop_counter y) + 1) mod 2 ^ 64"
    using unat_word_ariths(1) [of "zzzloop_counter y" 1] by simp
  then have "unat (zzzloop_counter y + 1) = (unat (zzzloop_counter z) + Suc n) mod 2 ^ 64"
    unfolding ih(1) by (simp add: mod_Suc_eq)
  moreover have "(zk y)\<lparr>mach := (mach (zk y))\<lparr>log := l\<rparr>\<rparr> = (zk z)\<lparr>mach := (mach (zk z))\<lparr>log := l\<rparr>\<rparr>" for l
    by (subst (1 2) ih(4)) simp
  moreover have "(zzzloop_timer_handler m ^^ Suc n) z = zzzloop_timer_handler m y" by (simp add: y_def)
  ultimately show ?case
    using ih(2,3) same by (simp only: Let_def) (simp add: handler_run [of m y] armed_def timer_set_def List.map_filter_simps)
qed

theorem zzzloop_timer_handler_rearms_witness:
  "armed_ok (\<lambda>l c. 7) 62 (log (mach (zk ((zzzloop_timer_handler (\<lambda>n. 62) ^^ 5) \<lparr>zk = demo_const 7, zzzloop_counter = 0\<rparr>))))"
  using zzzloop_timer_handler_rearms [where m = "\<lambda>n. 62" and n = 5 and z = "\<lparr>zk = demo_const 7, zzzloop_counter = 0\<rparr>"]
  by (simp only: Let_def) (simp add: demo_const_def)

end
