(* ===== verification/Entries.thy ===== *)
theory Entries
  imports Frame Zzzloop
begin

text \<open>
  The entry points of the kernel code as one step relation, in any order: what the rest of the kernel
  may call, with the interrupts and the files under \<^verbatim>\<open>/proc\<close>. The settings keep their types in every
  run, and what is switched off stays off.
\<close>

section \<open>The settings\<close>

text \<open>
  The integers that stand for enumerations have one of their values, and a clock event device that uses
  the deadline is not periodic, since the deadline has to be armed again each time.
\<close>

definition device_ok :: "clock_event_device \<Rightarrow> bool" where
  "device_ok d \<longleftrightarrow> (ce_set_next_event d = lapic_next_deadline_fn \<longrightarrow> \<not> ce_periodic d)
     \<and> ce_max_delta_ticks d \<in> {0, 0x7FFFFFFF} \<and> ce_min_delta_ticks d \<in> {0, 0xF}"

definition settings_ok :: "kernel \<Rightarrow> bool" where
  "settings_ok s \<longleftrightarrow> apic_extnmi s \<in> {APIC_EXTNMI_BSP, APIC_EXTNMI_ALL, APIC_EXTNMI_NONE}
     \<and> apic_verbosity s \<in> {APIC_QUIET, APIC_VERBOSE, APIC_DEBUG}
     \<and> ce_set_next_event (lapic_clockevent s) = lapic_next_event_fn
     \<and> device_ok (lapic_clockevent s) \<and> device_ok (lapic_events s)"

definition switches_kept :: "kernel \<Rightarrow> kernel \<Rightarrow> bool" where
  "switches_kept s t \<longleftrightarrow> (disable_apic s \<longrightarrow> disable_apic t) \<and> (disable_apic_timer s \<longrightarrow> disable_apic_timer t)
     \<and> (\<forall>f. f \<noteq> X86_FEATURE_APIC \<longrightarrow> boot_caps t f \<longrightarrow> boot_caps s f)
     \<and> (enabled_via_apicbase s \<longrightarrow> enabled_via_apicbase t)
     \<and> (pm_active (apic_pm_state s) \<longrightarrow> pm_active (apic_pm_state t))"

definition ok_since :: "kernel \<Rightarrow> kernel \<Rightarrow> bool" where
  "ok_since s0 s \<longleftrightarrow> settings_ok s \<and> switches_kept s0 s"

lemmas ok_defs = ok_since_def settings_ok_def switches_kept_def

interpretation ok: kernel_frame "ok_since s0" for s0
  by unfold_locales (simp add: ok_defs)

lemma ok_modify [intro!]:
  "(\<And>s. ok_since s0 s \<Longrightarrow> ok_since s0 (f s)) \<Longrightarrow> keeps (ok_since s0) (modify f)"
  by (rule ok.keeps_modify)

section \<open>The operations that change globals\<close>

lemma ok_clear_cap [intro!]: "keeps (ok_since s0) (setup_clear_cpu_cap f)"
  unfolding setup_clear_cpu_cap_def by (rule ok_modify) (auto simp: ok_defs)

lemma ok_register_address [intro!]: "keeps (ok_since s0) (register_lapic_address K a)"
  by (auto simp: register_lapic_address_def) (simp_all add: ok_defs)

lemma ok_x2apic [intro!]:
  "keeps (ok_since s0) (setup_nox2apic K)" "keeps (ok_since s0) (check_x2apic K)"
  "keeps (ok_since s0) (x2apic_disable K)" "keeps (ok_since s0) (x2apic_enable K)"
  by (auto simp: setup_nox2apic_def check_x2apic_def x2apic_disable_def x2apic_enable_def Let_def)
    (simp_all add: ok_defs)

lemma ok_enable_IR [intro!]: "keeps (ok_since s0) (enable_IR_x2apic K)"
  by (auto simp: enable_IR_x2apic_def try_to_enable_x2apic_def Let_def) (simp_all add: ok_defs)

lemma ok_params:
  "(name, h) \<in> set (early_params K get_option) \<Longrightarrow> keeps (ok_since s0) (h arg)"
  by (auto simp: early_params_def parse_lapic_def setup_disableapic_def setup_nolapic_def
      parse_lapic_timer_c2_ok_def parse_disable_apic_timer_def parse_nolapic_timer_def apic_set_verbosity_def
      apic_set_disabled_cpu_apicid_def apic_set_extnmi_def split: option.split prod.split)
    (simp_all add: ok_defs)

lemma ok_detect [intro!]:
  "keeps (ok_since s0) (apic_disable noop)" "keeps (ok_since s0) (apic_verify K)" "keeps (ok_since s0) apic_pm_activate"
  by (auto simp: apic_disable_def apic_verify_def apic_pm_activate_def split: prod.split) (simp_all add: ok_defs)

lemma ok_force_enable [intro!]: "keeps (ok_since s0) (apic_force_enable K a)"
  by (auto simp: apic_force_enable_def Let_def split: prod.split) (simp_all add: ok_defs)

lemma ok_detect_init [intro!]: "keeps (ok_since s0) (detect_init_APIC K)"
  by (auto simp: detect_init_APIC_def detect_init_APIC_64_def detect_init_APIC_32_def) (simp_all add: ok_defs)

lemma ok_validate_deadline [intro!]: "keeps (ok_since s0) (apic_validate_deadline_timer K)"
  by (auto simp: apic_validate_deadline_timer_def split: option.split)

lemma ok_mappings [intro!]: "keeps (ok_since s0) (init_apic_mappings K noop)"
  by (auto simp: init_apic_mappings_def) (simp_all add: ok_defs)

lemma ok_cpus [intro!]: "keeps (ok_since s0) (generic_processor_info K i v)"
  by (auto simp: generic_processor_info_def register_processor_def allocate_logical_cpuid_def count_disabled_def
      Let_def split: option.split) (simp_all add: ok_defs)

lemma ok_setup [intro!]:
  "keeps (ok_since s0) (setup_local_APIC K)" "keeps (ok_since s0) (end_local_APIC_setup K)"
  "keeps (ok_since s0) (apic_bsp_up_setup K)"
  by (auto simp: setup_local_APIC_def end_local_APIC_setup_def apic_bsp_up_setup_def Let_def)
    (simp_all add: ok_defs)

lemma ok_bsp_setup [intro!]: "keeps (ok_since s0) (apic_bsp_setup K up)" "keeps (ok_since s0) (apic_ap_setup K)"
  by (auto simp: apic_bsp_setup_def apic_ap_setup_def)

lemma ok_intr_mode [intro!]:
  "keeps (ok_since s0) (apic_intr_mode_select K)" "keeps (ok_since s0) (apic_intr_mode_init K)"
  by (auto simp: apic_intr_mode_select_def intr_mode_select_def disable_apic_flag_def apic_intr_mode_init_def Let_def
      split: apic_intr_mode_id.split) (simp_all add: ok_defs)

lemma ok_suspend [intro!]: "keeps (ok_since s0) (lapic_suspend K)"
  by (auto simp: lapic_suspend_def save_reg_def) (simp_all add: ok_defs)

lemma ok_error [intro!]: "keeps (ok_since s0) (sysvec_error_interrupt K)"
  by (auto simp: sysvec_error_interrupt_def) (simp_all add: ok_defs)

lemma ok_setup_timer [intro!]: "keeps (ok_since s0) setup_APIC_timer"
  by (auto simp: setup_APIC_timer_def) (auto simp: ok_defs device_ok_def)

section \<open>Calibration and the loops\<close>

lemma ok_cal_handler [intro!]: "keeps (ok_since s0) (lapic_cal_handler K)"
  by (auto simp: lapic_cal_handler_def Let_def) (simp_all add: ok_defs)

lemma ok_cal [intro!]:
  "keeps (ok_since s0) (cal_sample K)" "keeps (ok_since s0) (cal_begin K)" "keeps (ok_since s0) (verify_step K)"
  by (auto simp: cal_sample_def cal_begin_def verify_step_def intro!: ok.keeps_timer_interrupt)

lemma ok_init_clockevent [intro!]: "keeps (ok_since s0) (lapic_init_clockevent K)"
  by (auto simp: lapic_init_clockevent_def) (simp_all add: ok_defs device_ok_def)

lemma ok_dummy [intro!]: "keeps (ok_since s0) (set_dummy d)" "keeps (ok_since s0) clear_template_dummy"
  by (auto simp: set_dummy_def clear_template_dummy_def) (simp_all add: ok_defs device_ok_def)

lemma ok_cal_parts [intro!]:
  "keeps (ok_since s0) (cal_end K)" "keeps (ok_since s0) (verify_begin K)"
  "keeps (ok_since s0) (verify_end K)" "keeps (ok_since s0) cal_finish"
  by (auto simp: cal_end_def verify_begin_def lapic_timer_set_periodic_def verify_end_def cal_finish_def Let_def)
    (simp_all add: ok_defs device_ok_def)

lemma ok_cal_wait: "cal_wait c s = Some (c', t) \<Longrightarrow> ok_since s0 s \<Longrightarrow> ok_since s0 t"
proof -
  have "ok_since s0 s \<longrightarrow> ok_since s0 (snd r)" if "cal_wait c s = Some r" for r
    using that
  proof (rule cal_wait.raw_induct [rotated])
    fix f c s r
    assume IH: "\<And>c s r. f c s = Some r \<Longrightarrow> ok_since s0 s \<longrightarrow> ok_since s0 (snd r)"
      and run: "(case run_state (cal_poll c) s of
        (Some c', s') \<Rightarrow> Some (c', s') | (None, s') \<Rightarrow> f c (exec cpu_relax s')) = Some r"
    have "ok_since s0 (exec cpu_relax s')" if "ok_since s0 s" "run_state (cal_poll c) s = (x, s')" for x s'
      using that ok.keeps_cal_poll by (blast intro: keepsD keeps_run)
    moreover have "ok_since s0 s'" if "ok_since s0 s" "run_state (cal_poll c) s = (x, s')" for x s'
      using that ok.keeps_cal_poll by (blast intro: keeps_run)
    ultimately show "ok_since s0 s \<longrightarrow> ok_since s0 (snd r)"
      using run IH by (auto split: prod.splits option.splits)
  qed
  then show "cal_wait c s = Some (c', t) \<Longrightarrow> ok_since s0 s \<Longrightarrow> ok_since s0 t" by force
qed

lemma ok_cal_loop: "cal_loop K c s = Some t \<Longrightarrow> ok_since s0 s \<Longrightarrow> ok_since s0 t"
proof -
  have "ok_since s0 s \<longrightarrow> ok_since s0 t" if "cal_loop K c s = Some t"
    using that
  proof (rule cal_loop.raw_induct [rotated])
    fix f K c s t
    assume IH: "\<And>K c s t. f K c s = Some t \<Longrightarrow> ok_since s0 s \<longrightarrow> ok_since s0 t"
      and run: "(if lapic_cal_loops s \<le> int (LAPIC_CAL_LOOPS K)
        then Option.bind (cal_wait c s) (\<lambda>(c', s'). f K c' (exec (cal_sample K) s')) else Some s) = Some t"
    have "ok_since s0 (exec (cal_sample K) s')" if "ok_since s0 s" "cal_wait c s = Some (c', s')" for c' s'
      using that ok_cal_wait by (blast intro: keepsD)
    then show "ok_since s0 s \<longrightarrow> ok_since s0 t"
      using run IH by (auto split: if_splits bind_splits)
  qed
  then show "cal_loop K c s = Some t \<Longrightarrow> ok_since s0 s \<Longrightarrow> ok_since s0 t" by blast
qed

lemma ok_verify_loop: "verify_loop K s = Some t \<Longrightarrow> ok_since s0 s \<Longrightarrow> ok_since s0 t"
proof -
  have "ok_since s0 s \<longrightarrow> ok_since s0 t" if "verify_loop K s = Some t"
    using that
  proof (rule verify_loop.raw_induct [rotated])
    fix f K s t
    assume IH: "\<And>K s t. f K s = Some t \<Longrightarrow> ok_since s0 s \<longrightarrow> ok_since s0 t"
      and run: "(if lapic_cal_loops s \<le> int (LAPIC_CAL_LOOPS K) then f K (exec (verify_step K) s) else Some s) = Some t"
    have "ok_since s0 s \<longrightarrow> ok_since s0 (exec (verify_step K) s)" by (blast intro: keepsD)
    then show "ok_since s0 s \<longrightarrow> ok_since s0 t"
      using run IH by (auto split: if_splits)
  qed
  then show "verify_loop K s = Some t \<Longrightarrow> ok_since s0 s \<Longrightarrow> ok_since s0 t" by blast
qed

lemma ok_cal_check:
  assumes "cal_check K s = Some (r, t)" and "ok_since s0 s"
  shows "ok_since s0 t"
proof -
  obtain ref s1 where end_: "run_state (cal_end K) s = (ref, s1)" by fastforce
  then have s1: "ok_since s0 s1" using assms(2) by (blast intro: keeps_run)
  let ?s2 = "exec (set_dummy False) s1"
  have s2: "ok_since s0 ?s2" using s1 by (blast intro: keepsD)
  consider (slow) "t = exec (do { local_irq_enable; pr_info ''APIC frequency too slow, disabling apic timer'' }) s1"
    | (plain) "run_state cal_finish ?s2 = (r, t)"
    | (verify) v where "verify_loop K (exec (verify_begin K) ?s2) = Some v"
        "run_state cal_finish (exec (verify_end K) v) = (r, t)"
    using assms(1) end_ by (auto simp: cal_check_def Let_def split: if_splits bind_splits)
  then show ?thesis
  proof cases
    case slow
    have "keeps (ok_since s0) (do { local_irq_enable; pr_info ''APIC frequency too slow, disabling apic timer'' })"
      by auto
    with slow s1 show ?thesis by (simp add: keepsD)
  next
    case plain
    then show ?thesis by (rule keeps_run [OF ok_cal_parts(4) s2])
  next
    case verify
    have "ok_since s0 v" by (rule ok_verify_loop [OF verify(1) keepsD [OF ok_cal_parts(2) s2]])
    then have "ok_since s0 (exec (verify_end K) v)" by (rule keepsD [OF ok_cal_parts(3)])
    with verify(2) show ?thesis by (blast intro: keeps_run)
  qed
qed

lemma ok_calibrate: "calibrate_APIC_clock K s = Some (r, t) \<Longrightarrow> ok_since s0 s \<Longrightarrow> ok_since s0 t"
proof -
  assume run: "calibrate_APIC_clock K s = Some (r, t)" and s: "ok_since s0 s"
  obtain r1 s1 where init: "run_state (lapic_init_clockevent K) s = (r1, s1)" by fastforce
  then have s1: "ok_since s0 s1" using s by (blast intro: keeps_run)
  have known: "ok_since s0 (exec (do { apic_printk n m; clear_template_dummy }) s1)" for n m
    using s1 by (blast intro: keepsD)
  obtain c s2 where begin_: "run_state (cal_begin K) s1 = (c, s2)" by fastforce
  then have s2: "ok_since s0 s2" using s1 by (blast intro: keeps_run)
  show ?thesis
    using run s init known begin_ s2
    by (auto simp: calibrate_APIC_clock_def split: if_splits bind_splits dest: ok_cal_loop ok_cal_check)
qed

lemma ok_setup_boot: "setup_boot_APIC_clock K s = Some t \<Longrightarrow> ok_since s0 s \<Longrightarrow> ok_since s0 t"
proof -
  assume run: "setup_boot_APIC_clock K s = Some t" and s: "ok_since s0 s"
  have off: "keeps (ok_since s0) (do { pr_info m; possible \<leftarrow> gets cpu_possible;
      whenM (card possible > 1) (do {
        modify (\<lambda>s. s\<lparr>lapic_clockevent := (lapic_clockevent s)\<lparr>ce_mult := 1\<rparr>\<rparr>);
        setup_APIC_timer }) })" for m
    by auto (simp_all add: ok_defs device_ok_def)
  have fail: "keeps (ok_since s0) (do { possible \<leftarrow> gets cpu_possible; whenM (card possible > 1) setup_APIC_timer })"
    by auto
  have fine: "keeps (ok_since s0) (do { clear_template_dummy; setup_APIC_timer; kcall amd_e400_c1e_apic_setup })"
    by auto
  show ?thesis
    using run s by (auto simp: setup_boot_APIC_clock_def simp del: One_nat_def split: if_splits bind_splits
        dest!: ok_calibrate intro!: keepsD [OF off] keepsD [OF fail] keepsD [OF fine])
qed

lemma ok_spin: "spin i s = Some t \<Longrightarrow> ok_since s0 s \<Longrightarrow> ok_since s0 t"
proof -
  assume run: "spin i s = Some t" and s: "ok_since s0 s"
  obtain n where "\<not> c_true (result (run_flag i) (with_log (polled [Pause, RunFlag i] n (log (mach s))) s))"
    using spinning.poll_iff [where i = i and s = s] run by auto
  from spinning.poll_idle [where i = i and s = s, OF TrueI this] obtain k
    where "t = exec (run_flag i) (with_log (polled [Pause, RunFlag i] k (log (mach s))) s)"
    using run by auto
  then show ?thesis
    using s by (auto simp: run_flag_def with_log_def intro!: keepsD [OF ok.keeps_on_mach] ok.machine_only)
qed

lemma ok_debug_out [intro!]: "keeps (ok_since s0) (debug_out bs)"
  by (induction bs) auto

lemma ok_continue [intro!]:
  "keeps (ok_since s0) zzzloop_continue" "keeps (ok_since s0) zzzloop2_continue" "keeps (ok_since s0) zzzloop2_continue_2"
  "keeps (ok_since s0) (zzzloop_timer_start_proc_show m)" "keeps (ok_since s0) zzzloop_timer_del_proc_show"
  "keeps (ok_since s0) zzzloop_apic_flag_on_proc_show" "keeps (ok_since s0) zzzloop_apic_flag_off_proc_show"
  by (auto simp: zzzloop_continue_def zzzloop2_continue_def zzzloop2_continue_2_def DBG_OUT_LNX1_def DBG_OUT_LNX2_def
      DBG_OUT_LNX3_def zzzloop_timer_start_proc_show_def zzzloop_timer_del_proc_show_def
      zzzloop_apic_flag_on_proc_show_def zzzloop_apic_flag_off_proc_show_def) (simp_all add: ok_defs)

text \<open>A loop with something done before it and after it.\<close>

lemma ok_around_spin:
  assumes "Option.bind (spin i (exec p s)) g = Some u" and "ok_since s0 s" and "keeps (ok_since s0) p"
    and "\<And>v. ok_since s0 v \<Longrightarrow> g v = Some u \<Longrightarrow> Q"
  shows Q
  using assms ok_spin [of i "exec p s" _ s0] keepsD [OF assms(3,2)] by (auto split: bind_splits)

lemma ok_main1: "zzzloop_main s = Some (r, t) \<Longrightarrow> ok_since s0 s \<Longrightarrow> ok_since s0 t"
  unfolding zzzloop_main_def
  by (erule ok_around_spin, assumption) (auto intro: keeps_run [OF ok_continue(1)])

lemma ok_main2: "zzzloop2_main s = Some (r, t) \<Longrightarrow> ok_since s0 s \<Longrightarrow> ok_since s0 t"
  unfolding zzzloop2_main_def
  by (erule ok_around_spin, assumption, blast, erule ok_around_spin, assumption)
    (auto intro: keeps_run [OF ok_continue(3)])

lemma ok_after:
  assumes "Option.bind m (\<lambda>(_, s). Some (run_state p s)) = Some (r, t)" and "\<And>q v. m = Some (q, v) \<Longrightarrow> ok_since s0 v"
    and "keeps (ok_since s0) p"
  shows "ok_since s0 t"
  using assms keeps_run [OF assms(3)] by (auto split: bind_splits)

lemma ok_shows:
  "zzzloop_proc_show s = Some (r, t) \<Longrightarrow> ok_since s0 s \<Longrightarrow> ok_since s0 t"
  "zzzloop2_proc_show s = Some (r, t) \<Longrightarrow> ok_since s0 s \<Longrightarrow> ok_since s0 t"
  unfolding zzzloop_proc_show_def zzzloop2_proc_show_def
  by (erule ok_after, erule ok_main1, rule keepsD, blast, assumption, blast)
    (erule ok_after, erule ok_main2, rule keepsD, blast, assumption, blast)

lemma ok_files:
  assumes "(name, f) \<in> set (proc_files m)" and "f s = Some (r, t)" and "ok_since s0 s"
  shows "ok_since s0 t"
proof -
  have "f \<in> {zzzloop_proc_show, zzzloop2_proc_show} \<or> (\<exists>p. keeps (ok_since s0) p \<and> f = (\<lambda>s. Some (run_state p s)))"
    using assms(1) unfolding proc_files_def list.set insert_iff prod.inject empty_iff by blast
  then show ?thesis
    using assms(2,3) ok_shows by (auto intro: keeps_run)
qed

section \<open>The entry points\<close>

inductive entry :: "platform \<Rightarrow> kernel \<Rightarrow> kernel \<Rightarrow> bool" for K where
  param: "entry K s (do_early_param K get_option p s)"
| mappings: "entry K s (exec (init_apic_mappings K noop) s)"
| address: "entry K s (exec (register_lapic_address K a) s)"
| check_x2: "entry K s (exec (check_x2apic K) s)"
| enable_x2: "entry K s (exec (enable_IR_x2apic K) s)"
| cpu_x2: "entry K s (exec (x2apic_setup K) s)"
| processor: "entry K s (exec (generic_processor_info K i v) s)"
| virtual_wire: "entry K s (exec (init_bsp_APIC K) s)"
| select: "entry K s (exec (apic_intr_mode_select K) s)"
| init: "entry K s (exec (apic_intr_mode_init K) s)"
| ap: "entry K s (exec (apic_ap_setup K) s)"
| boot_clock: "setup_boot_APIC_clock K s = Some t \<Longrightarrow> entry K s t"
| secondary_clock: "entry K s (exec setup_secondary_APIC_clock s)"
| late: "entry K s (exec up_late_init s)"
| resource: "entry K s (exec lapic_insert_resource s)"
| sysfs: "entry K s (exec init_lapic_sysfs s)"
| tick: "entry K s (exec (sysvec_apic_timer_interrupt K (lapic_cal_handler K)) s)"
| spurious: "entry K s (exec (spurious_interrupt K v) s)"
| error: "entry K s (exec (sysvec_error_interrupt K) s)"
| next_event: "entry K s (exec (lapic_next_event K d) s)"
| next_deadline: "entry K s (exec (lapic_next_deadline K d) s)"
| timer_off: "entry K s (exec (lapic_timer_shutdown K (lapic_events s)) s)"
| timer_on: "entry K s (exec (lapic_timer_set_periodic_oneshot K (lapic_events s) oneshot) s)"
| frequency: "entry K s (exec lapic_update_tsc_freq_here s)"
| handler: "entry K s (s\<lparr>lapic_events := (lapic_events s)\<lparr>ce_event_handler := h\<rparr>\<rparr>)"
| eilvt: "setup_APIC_eilvt K env off v mt msk s = Some (r, t) \<Longrightarrow> entry K s t"
| sleep: "entry K s (exec (lapic_suspend K) s)"
| wake: "entry K s (exec (lapic_resume K) s)"
| shutdown: "entry K s (exec (lapic_shutdown K) s)"
| detach: "entry K s (exec (disconnect_bsp_APIC K w) s)"
| proc_file: "(name, f) \<in> set (proc_files m) \<Longrightarrow> f s = Some (r, t) \<Longrightarrow> entry K s t"

lemma ok_eilvt: "setup_APIC_eilvt K env off v mt msk s = Some (r, t) \<Longrightarrow> ok_since s0 s \<Longrightarrow> ok_since s0 t"
proof -
  assume run: "setup_APIC_eilvt K env off v mt msk s = Some (r, t)" and s: "ok_since s0 s"
  have cell: "ok_since s0 (u\<lparr>eilvt_offsets := f\<rparr>)" if "ok_since s0 u" for u f
    using that by (simp add: ok_defs)
  have reserve: "ok_since s0 w" if "reserve_eilvt_offset K env n new u = Some (q, w)" "ok_since s0 u" for n new u q w
    using that by (auto simp: reserve_eilvt_offset_def Let_def cell split: if_splits option.splits sum.splits
        intro!: keepsD [OF ok.keeps_access(9)])
  obtain old s1 where read: "run_state (apic_read (APIC_EILVTn K (unat off))) s = (old, s1)" by fastforce
  then have "ok_since s0 s1" using s by (blast intro: keeps_run)
  moreover have "ok_since s0 (exec (kcall c) w)" "ok_since s0 (exec (apic_write n x) w)" if "ok_since s0 w" for c n x w
    using that by (blast intro: keepsD)+
  ultimately show ?thesis
    using run read reserve by (auto simp: setup_APIC_eilvt_def Let_def split: if_splits option.splits)
qed

lemma ok_do_param: "ok_since s0 s \<Longrightarrow> ok_since s0 (do_early_param K get_option p s)"
  by (auto simp: do_early_param_def split: prod.split option.split dest!: map_of_SomeD intro: keepsD [OF ok_params])

lemma ok_secondary [intro!]: "keeps (ok_since s0) setup_secondary_APIC_clock"
  by (auto simp: setup_secondary_APIC_clock_def)

lemma ok_handler: "ok_since s0 s \<Longrightarrow> ok_since s0 (s\<lparr>lapic_events := (lapic_events s)\<lparr>ce_event_handler := h\<rparr>\<rparr>)"
  by (simp add: ok_defs device_ok_def)

lemma ok_entry: "entry K s t \<Longrightarrow> ok_since s0 s \<Longrightarrow> ok_since s0 t"
  by (induction rule: entry.induct)
    (auto intro: ok_do_param ok_handler ok_setup_boot ok_eilvt ok_files keepsD ok.keeps_timer_interrupt)

section \<open>Properties\<close>

text \<open>
  C18. The settings keep their types: in every run of the entry points, in any order and with interrupts
  in between, the external NMI mode and the verbosity are one of their values, a clock event device
  that uses the deadline is not periodic, and the limits of the devices are those of the hardware. What
  is switched off (the APIC, its timer, any processor feature but the APIC) stays off, and the record
  that the APIC was enabled by this code or is saved on suspend is not lost.
\<close>

theorem settings_in_every_run:
  assumes "(entry K)\<^sup>*\<^sup>* s t" and "settings_ok s"
  shows "settings_ok t \<and> switches_kept s t"
proof -
  have "ok_since s t"
    using assms(1)
  proof (induction rule: rtranclp_induct)
    case base
    show ?case using assms(2) by (simp add: ok_since_def switches_kept_def)
  qed (rule ok_entry)
  then show ?thesis by (simp add: ok_since_def)
qed

theorem settings_in_every_run_witness:
  "settings_ok (exec (apic_intr_mode_select sdm) (do_early_param sdm (\<lambda>_. (0, None)) (''apic_extnmi'', Some ''all'') (demo_mem (\<lambda>r. 0))))"
  using settings_in_every_run [OF converse_rtranclp_into_rtranclp
      [OF param [of sdm "demo_mem (\<lambda>r. 0)" "\<lambda>_. (0, None)" "(''apic_extnmi'', Some ''all'')"] r_into_rtranclp [of "entry sdm", OF select]]]
  by (simp add: settings_ok_def device_ok_def demo_event_def extnmi_defs demo_mem_def demo_kernel_def APIC_QUIET_def)

end
