(* ===== verification/DebugFlag.thy ===== *)
theory DebugFlag
  imports Calibration Zzzloop
begin

text \<open>
  The debug flag that \<^verbatim>\<open>zzzloop.c\<close> sets and the timer interrupt reads: with it, interrupts read the
  clock and print a message now and then. It must not change anything else. The proof is relational:
  two states are alike when they differ in the flag and in those accesses only, and every step of the
  timer interrupt takes states that are alike to states that are alike.
\<close>

section \<open>States that are alike\<close>

definition debug_access :: "access \<Rightarrow> bool" where
  "debug_access c \<longleftrightarrow> c \<in> {Jiffies, Call (printk ''local_apic_timer_interrupt: jiffies=%lu'')}"

definition quiet_log :: "access list \<Rightarrow> access list" where
  "quiet_log = filter (\<lambda>c. \<not> debug_access c)"

definition quiet :: "kernel \<Rightarrow> kernel" where
  "quiet s = s\<lparr>apic_zzz_debug_flag := False, mach := (mach s)\<lparr>log := quiet_log (log (mach s))\<rparr>\<rparr>"

text \<open>The machine does not notice that the clock is read, or that the message is printed.\<close>

definition blind :: "machine \<Rightarrow> bool" where
  "blind m \<longleftrightarrow> (\<forall>l c. answer m (quiet_log l) c = answer m l c)"

definition alike :: "platform \<Rightarrow> kernel \<Rightarrow> kernel \<Rightarrow> bool" where
  "alike K s t \<longleftrightarrow> quiet s = quiet t \<and> blind (mach s) \<and> (\<exists>a. apic s = mem_driver K a)"

definition uniform :: "platform \<Rightarrow> 'a kprog \<Rightarrow> bool" where
  "uniform K p \<longleftrightarrow> (\<forall>s t. alike K s t \<longrightarrow> result p s = result p t \<and> alike K (exec p s) (exec p t))"

lemma quiet_cong: "quiet s = quiet t \<Longrightarrow> (\<And>u. f (quiet u) = f u) \<Longrightarrow> f s = f t"
  by metis

lemma alike_answer:
  assumes "alike K s t"
  shows "answer (mach s) (log (mach s)) c = answer (mach t) (log (mach t)) c" and "apic s = apic t"
    and "answer (mach s) = answer (mach t)" and "quiet_log (log (mach s)) = quiet_log (log (mach t))"
proof -
  have q: "quiet s = quiet t" and b: "blind (mach s)" using assms by (auto simp: alike_def)
  show "apic s = apic t" by (rule quiet_cong [OF q]) (simp add: quiet_def)
  have "answer (mach (quiet s)) = answer (mach (quiet t))" "log (mach (quiet s)) = log (mach (quiet t))"
    using q by simp_all
  then show a: "answer (mach s) = answer (mach t)" and l: "quiet_log (log (mach s)) = quiet_log (log (mach t))"
    by (simp_all add: quiet_def)
  from a l show "answer (mach s) (log (mach s)) c = answer (mach t) (log (mach t)) c"
    using b by (metis blind_def)
qed

lemma alike_sym: "alike K s t \<Longrightarrow> alike K t s"
proof -
  assume a: "alike K s t"
  then have "blind (mach t)" using alike_answer(3) [OF a] by (simp add: alike_def blind_def)
  then show "alike K t s" using a alike_answer(2) [OF a] by (simp add: alike_def)
qed

text \<open>The rules: one per construct and one per access.\<close>

lemma uniform_ret [intro!]: "uniform K (ret x)"
  by (simp add: uniform_def exec_result_ret)

lemma uniform_bind [intro!]: "uniform K p \<Longrightarrow> (\<And>x. uniform K (f x)) \<Longrightarrow> uniform K (State_Monad.bind p f)"
  by (simp add: uniform_def exec_bind result_bind)

lemma uniform_whenM [intro!]: "(b \<Longrightarrow> uniform K p) \<Longrightarrow> uniform K (whenM b p)"
  by (auto simp: whenM_def)

lemma uniform_gets: "(\<And>s. f (quiet s) = f s) \<Longrightarrow> uniform K (gets f)"
  by (auto simp: uniform_def kernel_run alike_def intro: quiet_cong)

lemma uniform_modify:
  "(\<And>s. quiet (f s) = f (quiet s)) \<Longrightarrow> (\<And>s. mach (f s) = mach s) \<Longrightarrow> (\<And>s. apic (f s) = apic s) \<Longrightarrow> uniform K (modify f)"
  by (auto simp: uniform_def kernel_run alike_def)

text \<open>One more access on both sides.\<close>

lemma alike_log:
  assumes "alike K s t"
  shows "alike K (s\<lparr>mach := (mach s)\<lparr>log := c # log (mach s)\<rparr>\<rparr>) (t\<lparr>mach := (mach t)\<lparr>log := c # log (mach t)\<rparr>\<rparr>)"
proof -
  have "quiet s\<lparr>mach := (mach s)\<lparr>log := l\<rparr>\<rparr> = quiet t\<lparr>mach := (mach t)\<lparr>log := l\<rparr>\<rparr>" for l
    using assms alike_answer(3) [OF assms] by (simp add: alike_def)
  then show ?thesis
    using assms alike_answer(4) [OF assms] by (auto simp: alike_def quiet_def quiet_log_def blind_def)
qed

lemma uniform_access [intro!]: "uniform K (on_mach (access c))" "uniform K (on_mach (do_access c))"
  using alike_answer(1) alike_log by (auto simp: uniform_def kernel_run on_mach_def)

lemma uniform_calls [intro!]:
  "uniform K (kcall f)" "uniform K (pr_info msg)" "uniform K jiffies" "uniform K rdtsc" "uniform K (acpi_pm_read_early K)"
  "uniform K (boot_cpu_has x)"
  by (auto simp: kcall_def call_def pr_info_def jiffies_def rdtsc_def acpi_pm_read_early_def boot_cpu_has_def quiet_def
      intro!: uniform_gets)

lemma uniform_registers [intro!]:
  "uniform K (apic_read r)" "uniform K (apic_write r v)" "uniform K (ack_APIC_irq K)"
proof -
  have reg: "run_state (apic_read r) u = run_state (do { v \<leftarrow> on_mach (access (MemRd (APIC_BASE K + ucast r))); ret (ucast v) }) u"
    "run_state (apic_write r v) u = run_state (on_mach (do_access (MemWr (APIC_BASE K + ucast r) v))) u"
    "run_state (ack_APIC_irq K) u = run_state (on_mach (do_access (MemWr (reg_addr K APIC_EOI) (cst K APIC_EOI_ACK)))) u"
    if "alike K u w \<or> alike K w u" for u w
  proof -
    have "\<exists>a. apic u = mem_driver K a"
      using that alike_answer(2) by (metis alike_def)
    then show "run_state (apic_read r) u = run_state (do { v \<leftarrow> on_mach (access (MemRd (APIC_BASE K + ucast r))); ret (ucast v) }) u"
      "run_state (apic_write r v) u = run_state (on_mach (do_access (MemWr (APIC_BASE K + ucast r) v))) u"
      "run_state (ack_APIC_irq K) u = run_state (on_mach (do_access (MemWr (reg_addr K APIC_EOI) (cst K APIC_EOI_ACK)))) u"
      by (auto simp: run_apic_read run_apic_write run_ack on_mach_def)
  qed
  have same: "uniform K p" if "uniform K q" "\<And>u w. alike K u w \<or> alike K w u \<Longrightarrow> run_state p u = run_state q u"
    for p q :: "'a kprog"
    using that unfolding uniform_def exec_def result_def by metis
  show "uniform K (apic_read r)" by (rule same [OF _ reg(1)]) auto
  show "uniform K (apic_write r v)" by (rule same [OF _ reg(2)]) auto
  show "uniform K (ack_APIC_irq K)" by (rule same [OF _ reg(3)]) auto
qed

lemma mem_writes_quiet [simp]: "mem_writes K (quiet_log l) = mem_writes K l"
  by (induction l) (auto simp: quiet_log_def debug_access_def mem_writes_def List.map_filter_simps mem_reg_write_def
    split: option.split)

lemma blind_demo: "blind (mach (demo_mem init))"
  by (simp add: blind_def mem_hw_def split: access.split)

section \<open>The timer interrupt\<close>

lemma uniform_cal_handler [intro!]: "uniform K (lapic_cal_handler K)"
  by (auto simp: lapic_cal_handler_def Let_def quiet_def intro!: uniform_gets uniform_modify)

lemma uniform_shutdown [intro!]: "uniform K (lapic_timer_shutdown K e)"
  by (auto simp: lapic_timer_shutdown_def)

text \<open>What the debug flag adds: some accesses that do not count.\<close>

lemma alike_debug:
  assumes "alike K s t"
  shows "alike K (exec (whenM b (do {
       j \<leftarrow> jiffies;
       (if j mod 125 = 0 then do { j2 \<leftarrow> jiffies; pr_info ''local_apic_timer_interrupt: jiffies=%lu'' }
        else ret ()) })) s) t"
  using assms
  by (cases b) (auto simp: jiffies_def pr_info_def kcall_def call_def kernel_run on_mach_def alike_def quiet_def
      quiet_log_def debug_access_def blind_def)

lemma exec_gets: "result (gets f) u = f u" "exec (gets f) u = u"
  by (simp_all add: exec_def result_def)

lemma alike_interrupt:
  assumes "alike K s t"
  shows "alike K (exec (sysvec_apic_timer_interrupt K (lapic_cal_handler K)) s)
    (exec (sysvec_apic_timer_interrupt K (lapic_cal_handler K)) t)"
proof -
  define debug where "debug b = whenM b (do {
       j \<leftarrow> jiffies;
       (if j mod 125 = 0 then do { j2 \<leftarrow> jiffies; pr_info ''local_apic_timer_interrupt: jiffies=%lu'' }
        else ret ()) })" for b
  define rest where "rest e = (case ce_event_handler e of
        None \<Rightarrow> do { pr_info ''Spurious LAPIC timer interrupt on cpu %d''; _ \<leftarrow> lapic_timer_shutdown K e; ret () }
      | Some h \<Rightarrow> do {
          kcall (inc_irq_stat ''apic_timer_irqs'');
          (case h of lapic_cal_handler_fn \<Rightarrow> lapic_cal_handler K | other_event_handler \<Rightarrow> kcall event_handler) })" for e
  have run: "exec (sysvec_apic_timer_interrupt K (lapic_cal_handler K)) u =
      (let v = exec (ack_APIC_irq K) u in exec (rest (lapic_events v)) (exec (debug (apic_zzz_debug_flag v)) v))" for u
    by (simp add: sysvec_apic_timer_interrupt_def local_apic_timer_interrupt_def exec_bind debug_def rest_def Let_def
        exec_gets cong: option.case_cong)
  let ?s = "exec (ack_APIC_irq K) s" and ?t = "exec (ack_APIC_irq K) t"
  have ack: "alike K ?s ?t"
    using assms uniform_registers(3) by (simp add: uniform_def)
  then have e: "lapic_events ?s = lapic_events ?t"
    by (auto simp: alike_def quiet_def intro: quiet_cong)
  have d: "alike K (exec (debug b) ?s) (exec (debug c) ?t)" for b c
    using alike_sym [OF alike_debug [OF alike_sym [OF alike_debug [OF ack]]]] unfolding debug_def by this
  have "uniform K (rest e)" for e
    by (auto simp: rest_def split: option.split event_handler_fn.split)
  then show ?thesis
    unfolding run Let_def e using d by (simp add: uniform_def)
qed

section \<open>Properties\<close>

text \<open>
  C15. The debug flag that \<^verbatim>\<open>zzzloop.c\<close> adds to the kernel does nothing but print. However many timer
  interrupts arrive, with the flag set or not, and with any handler, the state they leave is the same
  up to the flag, the readings of the clock and the message; in particular every register is
  written with the same values in the same order, on a machine that does not notice these accesses.
\<close>

theorem debug_flag_only_prints:
  assumes "apic s = mem_driver K a" and "blind (mach s)"
  shows "let tick = exec (sysvec_apic_timer_interrupt K (lapic_cal_handler K));
             t = (tick ^^ n) (s\<lparr>apic_zzz_debug_flag := b\<rparr>); u = (tick ^^ n) s
    in quiet t = quiet u \<and> mem_trace K (mach t) = mem_trace K (mach u)"
proof -
  let ?tick = "exec (sysvec_apic_timer_interrupt K (lapic_cal_handler K))"
  have "alike K ((?tick ^^ n) (s\<lparr>apic_zzz_debug_flag := b\<rparr>)) ((?tick ^^ n) s)"
    by (induction n) (use assms alike_interrupt in \<open>auto simp: alike_def quiet_def\<close>)
  moreover from alike_answer(4) [OF this] have "mem_trace K (mach ((?tick ^^ n) (s\<lparr>apic_zzz_debug_flag := b\<rparr>))) =
      mem_trace K (mach ((?tick ^^ n) s))"
    by (metis mem_trace_def mem_writes_quiet)
  ultimately show ?thesis by (simp add: alike_def Let_def)
qed

theorem debug_flag_only_prints_witness:
  "let tick = exec (sysvec_apic_timer_interrupt sdm (lapic_cal_handler sdm)); s = demo_mem (\<lambda>r. 0)
   in quiet (tick (s\<lparr>apic_zzz_debug_flag := True\<rparr>)) = quiet (tick s)"
  using debug_flag_only_prints [OF demo_mem_simps(1) [of "\<lambda>r. 0"] blind_demo, of 1 True]
  by (simp add: Let_def)

end
